(* ===== verification/Prelude.thy ===== *)
theory Prelude
  imports Main
begin

section \<open>Prelude: error-state programs, integers, sorting\<close>

text \<open>
  What the component theories share. A service operation of the Go code reads and writes the
  world, may return early with an error, and otherwise yields a value: it is a function from
  a state to a sum (\<open>Inl\<close> the error, \<open>Inr\<close> the value) and the new state. The combinators
  below are the control flow of the code: \<open>attempt m f\<close> is \<open>v, err := m(); if err != nil
  { return err }; f(v)\<close>, \<open>ensure b e\<close> is an early return, \<open>on_error\<close> wraps an error
  on its way out, \<open>lift_result\<close> lifts a pure fallible function. Also here: two's complement
  wrap-around of Go's 64-bit integers, and a stable insertion sort by an arbitrary comparison
  (the ORDER BY of the SQL statements).
\<close>

named_theorems prog_simps \<open>equations that run the control-flow combinators\<close>
named_theorems prog_ok \<open>when a program returns a value\<close>

type_synonym ('e, 's, 'a) prog = "'s \<Rightarrow> ('e + 'a) \<times> 's"

definition ok :: "'a \<Rightarrow> ('e, 's, 'a) prog" where
  "ok x = (\<lambda>s. (Inr x, s))"

definition fail :: "'e \<Rightarrow> ('e, 's, 'a) prog" where
  "fail e = (\<lambda>s. (Inl e, s))"

definition attempt ::
  "('e, 's, 'a) prog \<Rightarrow> ('a \<Rightarrow> ('e, 's, 'b) prog) \<Rightarrow> ('e, 's, 'b) prog" where
  "attempt m f = (\<lambda>s. case m s of (Inl e, s') \<Rightarrow> (Inl e, s') | (Inr x, s') \<Rightarrow> f x s')"

definition ensure :: "bool \<Rightarrow> 'e \<Rightarrow> ('e, 's, 'a) prog \<Rightarrow> ('e, 's, 'a) prog" where
  "ensure b e m = (if b then m else fail e)"

definition lift_result :: "'e + 'a \<Rightarrow> ('e, 's, 'a) prog" where
  "lift_result r = (\<lambda>s. (r, s))"

definition on_error :: "('e \<Rightarrow> 'f) \<Rightarrow> ('e, 's, 'a) prog \<Rightarrow> ('f, 's, 'a) prog" where
  "on_error g m = (\<lambda>s. case m s of (Inl e, s') \<Rightarrow> (Inl (g e), s') | (Inr x, s') \<Rightarrow> (Inr x, s'))"

text \<open>The same for pure fallible functions.\<close>

definition and_then :: "'e + 'a \<Rightarrow> ('a \<Rightarrow> 'e + 'b) \<Rightarrow> 'e + 'b" where
  "and_then r f = (case r of Inl e \<Rightarrow> Inl e | Inr x \<Rightarrow> f x)"

definition reads :: "('s \<Rightarrow> 'a) \<Rightarrow> ('e, 's, 'a) prog" where
  "reads f = (\<lambda>s. (Inr (f s), s))"

definition modifies :: "('s \<Rightarrow> 's) \<Rightarrow> ('e, 's, unit) prog" where
  "modifies f = (\<lambda>s. (Inr (), f s))"

lemma run_ok [prog_simps]: "ok x s = (Inr x, s)"
  by (simp add: ok_def)

lemma run_fail [prog_simps]: "fail e s = (Inl e, s)"
  by (simp add: fail_def)

lemma run_lift_result [prog_simps]: "lift_result r s = (r, s)"
  by (simp add: lift_result_def)

lemma run_reads [prog_simps]: "reads f s = (Inr (f s), s)"
  by (simp add: reads_def)

lemma run_modifies [prog_simps]: "modifies f s = (Inr (), f s)"
  by (simp add: modifies_def)

lemma run_ensure [prog_simps]: "ensure b e m s = (if b then m s else (Inl e, s))"
  by (simp add: ensure_def fail_def)

lemma run_attempt [prog_simps]:
  "attempt m f s = (case m s of (Inl e, s') \<Rightarrow> (Inl e, s') | (Inr x, s') \<Rightarrow> f x s')"
  by (simp add: attempt_def)

lemma run_on_error [prog_simps]:
  "on_error g m s = (case m s of (Inl e, s') \<Rightarrow> (Inl (g e), s') | (Inr x, s') \<Rightarrow> (Inr x, s'))"
  by (simp add: on_error_def)

lemma and_then_Inr [prog_ok]: "and_then r f = Inr y \<longleftrightarrow> (\<exists>x. r = Inr x \<and> f x = Inr y)"
  by (auto simp: and_then_def split: sum.splits)

lemma and_then_Inl: "and_then r f = Inl e \<longleftrightarrow> r = Inl e \<or> (\<exists>x. r = Inr x \<and> f x = Inl e)"
  by (auto simp: and_then_def split: sum.splits)

lemma attempt_Inr [prog_ok]:
  "attempt m f s = (Inr y, s') \<longleftrightarrow> (\<exists>x s1. m s = (Inr x, s1) \<and> f x s1 = (Inr y, s'))"
  by (auto simp: attempt_def split: prod.splits sum.splits)

lemma attempt_Inl:
  "attempt m f s = (Inl e, s') \<longleftrightarrow>
     m s = (Inl e, s') \<or> (\<exists>x s1. m s = (Inr x, s1) \<and> f x s1 = (Inl e, s'))"
  by (auto simp: attempt_def split: prod.splits sum.splits)

lemma ensure_Inr [prog_ok]: "ensure b e m s = (Inr y, s') \<longleftrightarrow> b \<and> m s = (Inr y, s')"
  by (auto simp: ensure_def fail_def)

lemma on_error_Inr [prog_ok]: "on_error g m s = (Inr y, s') \<longleftrightarrow> m s = (Inr y, s')"
  by (auto simp: on_error_def split: prod.splits sum.splits)

lemma on_error_Inl:
  "on_error g m s = (Inl e, s') \<longleftrightarrow> (\<exists>e'. m s = (Inl e', s') \<and> e = g e')"
  by (auto simp: on_error_def split: prod.splits sum.splits)

lemma lift_result_Inr [prog_ok]: "lift_result r s = (Inr y, s') \<longleftrightarrow> r = Inr y \<and> s' = s"
  by (auto simp: lift_result_def)

lemma ok_Inr [prog_ok]: "ok x s = (Inr y, s') \<longleftrightarrow> y = x \<and> s' = s"
  by (auto simp: ok_def)

lemma fail_Inr [prog_ok]: "fail e s = (Inr y, s') \<longleftrightarrow> False"
  by (simp add: fail_def)

lemma reads_Inr [prog_ok]: "reads f s = (Inr y, s') \<longleftrightarrow> y = f s \<and> s' = s"
  by (auto simp: reads_def)

lemma modifies_Inr [prog_ok]: "modifies f s = (Inr y, s') \<longleftrightarrow> s' = f s"
  by (auto simp: modifies_def)

subsection \<open>What a program may do to the state\<close>

text \<open>
  A guarantee is a reflexive and transitive relation between the state before and the state
  after. The locale collects how it travels through the combinators, so that a component
  proves it for its primitive effects and every composed operation inherits it.
\<close>

definition keeps :: "('s \<Rightarrow> 's \<Rightarrow> bool) \<Rightarrow> ('e, 's, 'a) prog \<Rightarrow> bool" where
  "keeps R m \<longleftrightarrow> (\<forall>s. R s (snd (m s)))"

lemma keepsD: "keeps R m \<Longrightarrow> m s = (r, s') \<Longrightarrow> R s s'"
  unfolding keeps_def by (metis snd_conv)

lemma keepsI: "(\<And>s r s'. m s = (r, s') \<Longrightarrow> R s s') \<Longrightarrow> keeps R m"
  unfolding keeps_def by (metis prod.collapse)

locale guarantee =
  fixes R :: "'s \<Rightarrow> 's \<Rightarrow> bool"
  assumes same: "R s s"
    and chain: "R s t \<Longrightarrow> R t u \<Longrightarrow> R s u"
begin

lemma keeps_ok: "keeps R (ok x)"
  by (simp add: keeps_def ok_def same)

lemma keeps_fail: "keeps R (fail e)"
  by (simp add: keeps_def fail_def same)

lemma keeps_lift_result: "keeps R (lift_result r)"
  by (simp add: keeps_def lift_result_def same)

lemma keeps_reads: "keeps R (reads f)"
  by (simp add: keeps_def reads_def same)

lemma keeps_attempt:
  assumes "keeps R m" and "\<And>x. keeps R (f x)"
  shows "keeps R (attempt m f)"
proof (rule keepsI)
  fix s r s' assume run: "attempt m f s = (r, s')"
  show "R s s'"
  proof (cases "m s")
    case (Pair q t)
    with assms(1) have first: "R s t" by (rule keepsD)
    show ?thesis
    proof (cases q)
      case (Inl e)
      with run Pair first show ?thesis by (simp add: attempt_def)
    next
      case (Inr x)
      with run Pair have "f x t = (r, s')" by (simp add: attempt_def)
      with assms(2) have "R t s'" by (rule keepsD)
      with first show ?thesis by (rule chain)
    qed
  qed
qed

lemma keeps_ensure: "keeps R m \<Longrightarrow> keeps R (ensure b e m)"
  by (simp add: ensure_def keeps_fail)

lemma keeps_on_error: "keeps R m \<Longrightarrow> keeps R (on_error g m)"
  by (auto simp: keeps_def on_error_def split: prod.splits sum.splits)
     (metis snd_conv)+

lemma keeps_if: "keeps R m \<Longrightarrow> keeps R n \<Longrightarrow> keeps R (if b then m else n)"
  by simp

lemma keeps_case_option: "keeps R m \<Longrightarrow> (\<And>x. keeps R (f x)) \<Longrightarrow> keeps R (case_option m f v)"
  by (cases v) auto

lemma keeps_case_sum:
  "(\<And>x. keeps R (f x)) \<Longrightarrow> (\<And>y. keeps R (g y)) \<Longrightarrow> keeps R (case_sum f g v)"
  by (cases v) auto

lemmas combinators = keeps_ok keeps_fail keeps_lift_result keeps_reads keeps_attempt keeps_ensure
  keeps_on_error keeps_if keeps_case_option keeps_case_sum

end

subsection \<open>Sixty-four-bit integers\<close>

text \<open>Go's \<open>int\<close>, \<open>int64\<close> and \<open>time.Duration\<close> wrap around in two's complement.\<close>

definition i64 :: "int \<Rightarrow> int" where
  "i64 x = (x + 2 ^ 63) mod 2 ^ 64 - 2 ^ 63"

definition in_i64 :: "int \<Rightarrow> bool" where
  "in_i64 x \<longleftrightarrow> - (2 ^ 63) \<le> x \<and> x < 2 ^ 63"

abbreviation max_i64 :: int where
  "max_i64 \<equiv> 2 ^ 63 - 1"

lemma i64_exact: "in_i64 x \<Longrightarrow> i64 x = x"
  unfolding i64_def in_i64_def by (subst mod_pos_pos_trivial) auto

lemma i64_in_range: "in_i64 (i64 x)"
proof -
  have "0 \<le> (x + 2 ^ 63) mod 2 ^ 64" and "(x + 2 ^ 63) mod 2 ^ 64 < 2 ^ 64"
    by (rule pos_mod_sign pos_mod_bound, simp)+
  then show ?thesis by (simp add: i64_def in_i64_def)
qed

subsection \<open>Sorting by a comparison\<close>

fun insert_by :: "('a \<Rightarrow> 'a \<Rightarrow> bool) \<Rightarrow> 'a \<Rightarrow> 'a list \<Rightarrow> 'a list" where
  "insert_by le x [] = [x]"
| "insert_by le x (y # ys) = (if le x y then x # y # ys else y # insert_by le x ys)"

fun sort_by :: "('a \<Rightarrow> 'a \<Rightarrow> bool) \<Rightarrow> 'a list \<Rightarrow> 'a list" where
  "sort_by le [] = []"
| "sort_by le (x # xs) = insert_by le x (sort_by le xs)"

lemma set_insert_by [simp]: "set (insert_by le x xs) = insert x (set xs)"
  by (induction xs) auto

lemma set_sort_by [simp]: "set (sort_by le xs) = set xs"
  by (induction xs) auto

lemma length_insert_by [simp]: "length (insert_by le x xs) = Suc (length xs)"
  by (induction xs) auto

lemma length_sort_by [simp]: "length (sort_by le xs) = length xs"
  by (induction xs) auto

lemma distinct_map_insert_by:
  "distinct (map f (insert_by le x xs)) \<longleftrightarrow> f x \<notin> f ` set xs \<and> distinct (map f xs)"
  by (induction xs) auto

lemma distinct_map_sort_by [simp]: "distinct (map f (sort_by le xs)) \<longleftrightarrow> distinct (map f xs)"
  by (induction xs) (auto simp: distinct_map_insert_by)

lemma sorted_wrt_insert_by:
  assumes "\<And>a b. \<not> le a b \<Longrightarrow> le b a" and "\<And>a b c. le a b \<Longrightarrow> le b c \<Longrightarrow> le a c"
    and "sorted_wrt le xs"
  shows "sorted_wrt le (insert_by le x xs)"
  using assms(3) by (induction xs) (auto intro: assms(1,2))

lemma sorted_wrt_sort_by:
  assumes "\<And>a b. \<not> le a b \<Longrightarrow> le b a" and "\<And>a b c. le a b \<Longrightarrow> le b c \<Longrightarrow> le a c"
  shows "sorted_wrt le (sort_by le xs)"
  by (induction xs) (auto intro: sorted_wrt_insert_by assms)

lemma sort_by_in_order: "sorted_wrt le xs \<Longrightarrow> sort_by le xs = xs"
proof (induction xs)
  case (Cons x xs)
  then show ?case by (cases xs) auto
qed simp

end
