(* ===== verification/Go_Text.thy ===== *)
theory Go_Text
  imports Prelude
begin

section \<open>Go strings\<close>

text \<open>
  A Go string is a sequence of bytes, here a \<open>string\<close> whose characters are the bytes, so
  \<open>length\<close> is Go's \<open>len\<close>. This theory models what the service uses of package
  \<open>strings\<close> and \<open>unicode/utf8\<close>: \<open>TrimSpace\<close>, \<open>ToLower\<close>, \<open>HasPrefix\<close>,
  \<open>HasSuffix\<close>, \<open>TrimSuffix\<close>, \<open>Cut\<close>, \<open>Count\<close>, \<open>ValidString\<close> and byte slicing.

  \<open>TrimSpace\<close> cuts Unicode white space. No UTF-8 encoding of a white-space rune is a prefix of
  another one and none can be read as part of a longer rune, so cutting runes from both ends
  is cutting their byte sequences (\<open>space_seqs\<close>).

  \<open>ToLower\<close> is exact on ASCII letters and on the two runes outside ASCII whose lower-case form
  is an ASCII letter (the Kelvin sign and the capital I with a dot above); other multi-byte
  runes, whose lower-case form is again outside ASCII, are left as they are. The code compares
  lowered text with ASCII words only (\<open>normalizeSet\<close> with an allowed set, \<open>LoadWithProfile\<close>
  with an ASCII pattern), where this makes no difference.
\<close>

subsection \<open>TrimSpace\<close>

definition space_seqs :: "string list" where
  "space_seqs =
     [[CHR 0x09], [CHR 0x0A], [CHR 0x0B], [CHR 0x0C], [CHR 0x0D], [CHR 0x20],
      [CHR 0xC2, CHR 0x85], [CHR 0xC2, CHR 0xA0], [CHR 0xE1, CHR 0x9A, CHR 0x80]] @
     map (\<lambda>b. [CHR 0xE2, CHR 0x80, b])
       [CHR 0x80, CHR 0x81, CHR 0x82, CHR 0x83, CHR 0x84, CHR 0x85, CHR 0x86, CHR 0x87,
        CHR 0x88, CHR 0x89, CHR 0x8A, CHR 0xA8, CHR 0xA9, CHR 0xAF] @
     [[CHR 0xE2, CHR 0x81, CHR 0x9F], [CHR 0xE3, CHR 0x80, CHR 0x80]]"

definition starts_with :: "string \<Rightarrow> string \<Rightarrow> bool" where
  "starts_with p s \<longleftrightarrow> take (length p) s = p"

function drop_seqs :: "string list \<Rightarrow> string \<Rightarrow> string" where
  "drop_seqs seqs s =
     (case find (\<lambda>p. p \<noteq> [] \<and> starts_with p s) seqs of
        None \<Rightarrow> s
      | Some p \<Rightarrow> drop_seqs seqs (drop (length p) s))"
  by pat_completeness auto

lemma starts_with_nonempty: "starts_with p s \<Longrightarrow> p \<noteq> [] \<Longrightarrow> s \<noteq> []"
  by (auto simp: starts_with_def)

termination drop_seqs
proof (relation "measure (\<lambda>(seqs, s). length s)")
  fix seqs :: "string list" and s p :: string
  assume "find (\<lambda>p. p \<noteq> [] \<and> starts_with p s) seqs = Some p"
  then have "p \<noteq> []" and "s \<noteq> []"
    by (auto simp: find_Some_iff dest: starts_with_nonempty)
  then show "((seqs, drop (length p) s), (seqs, s)) \<in> measure (\<lambda>(seqs, s). length s)"
    by simp
qed simp

declare drop_seqs.simps [simp del]

definition trim_space :: "string \<Rightarrow> string" where
  "trim_space s = rev (drop_seqs (map rev space_seqs) (rev (drop_seqs space_seqs s)))"

definition no_leading :: "string list \<Rightarrow> string \<Rightarrow> bool" where
  "no_leading seqs s \<longleftrightarrow> (\<forall>p \<in> set seqs. p \<noteq> [] \<longrightarrow> \<not> starts_with p s)"

text \<open>Text that \<open>TrimSpace\<close> leaves alone.\<close>

definition trimmed :: "string \<Rightarrow> bool" where
  "trimmed s \<longleftrightarrow> trim_space s = s"

lemma starts_with_append: "starts_with p s \<Longrightarrow> starts_with p (s @ t)"
  unfolding starts_with_def by (metis append_take_drop_id length_take min.absorb_iff2 min_def take_all_iff
      linorder_le_cases take_append append_Nil2 diff_is_0_eq take_0)

lemma drop_seqs_stop: "no_leading seqs s \<Longrightarrow> drop_seqs seqs s = s"
proof -
  assume "no_leading seqs s"
  then have "find (\<lambda>p. p \<noteq> [] \<and> starts_with p s) seqs = None"
    by (auto simp: no_leading_def find_None_iff)
  then show ?thesis by (simp add: drop_seqs.simps)
qed

lemma drop_seqs_no_leading: "no_leading seqs (drop_seqs seqs s)"
proof (induction seqs s rule: drop_seqs.induct)
  case (1 seqs s)
  show ?case
  proof (cases "find (\<lambda>p. p \<noteq> [] \<and> starts_with p s) seqs")
    case None
    then have "no_leading seqs s" by (auto simp: no_leading_def find_None_iff)
    with None show ?thesis by (simp add: drop_seqs.simps)
  next
    case (Some p)
    with "1.IH" [OF Some] show ?thesis by (simp add: drop_seqs.simps [of seqs s])
  qed
qed

lemma drop_seqs_suffix: "\<exists>u. s = u @ drop_seqs seqs s"
proof (induction seqs s rule: drop_seqs.induct)
  case (1 seqs s)
  show ?case
  proof (cases "find (\<lambda>p. p \<noteq> [] \<and> starts_with p s) seqs")
    case None
    then show ?thesis by (simp add: drop_seqs.simps)
  next
    case (Some p)
    from "1.IH" [OF Some] obtain u
      where "drop (length p) s = u @ drop_seqs seqs (drop (length p) s)" by blast
    then have "s = (take (length p) s @ u) @ drop_seqs seqs (drop (length p) s)"
      by (metis append.assoc append_take_drop_id)
    moreover from Some have "drop_seqs seqs s = drop_seqs seqs (drop (length p) s)"
      by (simp add: drop_seqs.simps [of seqs s])
    ultimately show ?thesis by metis
  qed
qed

lemma drop_seqs_length: "length (drop_seqs seqs s) \<le> length s"
proof -
  obtain u where "s = u @ drop_seqs seqs s" using drop_seqs_suffix by blast
  then have "length s = length (u @ drop_seqs seqs s)" by (rule arg_cong)
  then show ?thesis by simp
qed

lemma no_leading_prefix: "no_leading seqs (s @ t) \<Longrightarrow> no_leading seqs s"
  by (auto simp: no_leading_def dest: starts_with_append)

lemma trim_space_trimmed [simp]: "trim_space (trim_space s) = trim_space s"
proof -
  define l where "l = drop_seqs space_seqs s"
  define r where "r = drop_seqs (map rev space_seqs) (rev l)"
  have right: "no_leading (map rev space_seqs) r"
    by (simp add: r_def drop_seqs_no_leading)
  obtain u where "rev l = u @ r" using drop_seqs_suffix r_def by metis
  then have "l = rev r @ rev u" by (metis rev_append rev_rev_ident)
  moreover have "no_leading space_seqs l" by (simp add: l_def drop_seqs_no_leading)
  ultimately have "no_leading space_seqs (rev r)" by (metis no_leading_prefix)
  with right show ?thesis
    by (simp add: trim_space_def l_def [symmetric] r_def [symmetric] drop_seqs_stop)
qed

lemma trimmed_trim_space [simp]: "trimmed (trim_space s)"
  by (simp add: trimmed_def)

lemma trim_space_length: "length (trim_space s) \<le> length s"
  unfolding trim_space_def by (metis drop_seqs_length le_trans length_rev)

lemma trim_space_Nil [simp]: "trim_space [] = []"
  using trim_space_length [of "[]"] by simp

subsection \<open>ToLower\<close>

definition lower_char :: "char \<Rightarrow> char" where
  "lower_char c =
     (if 65 \<le> (of_char c :: nat) \<and> (of_char c :: nat) \<le> 90 then char_of ((of_char c :: nat) + 32) else c)"

fun to_lower :: "string \<Rightarrow> string" where
  "to_lower [] = []"
| "to_lower (c # cs) =
     (if starts_with [CHR 0xE2, CHR 0x84, CHR 0xAA] (c # cs) then CHR ''k'' # to_lower (drop 2 cs)
      else if starts_with [CHR 0xC4, CHR 0xB0] (c # cs) then CHR ''i'' # to_lower (drop 1 cs)
      else lower_char c # to_lower cs)"

subsection \<open>Prefixes, cutting and counting\<close>

definition has_prefix :: "string \<Rightarrow> string \<Rightarrow> bool" where
  "has_prefix s p = starts_with p s"

definition has_suffix :: "string \<Rightarrow> string \<Rightarrow> bool" where
  "has_suffix s p = starts_with (rev p) (rev s)"

definition trim_suffix :: "string \<Rightarrow> string \<Rightarrow> string" where
  "trim_suffix s p = (if has_suffix s p then take (length s - length p) s else s)"

text \<open>\<open>strings.Cut(s, sep)\<close> for a one-byte separator.\<close>

fun cut :: "char \<Rightarrow> string \<Rightarrow> (string \<times> string) option" where
  "cut sep [] = None"
| "cut sep (c # cs) =
     (if c = sep then Some ([], cs)
      else (case cut sep cs of None \<Rightarrow> None | Some (a, b) \<Rightarrow> Some (c # a, b)))"

definition count_char :: "char \<Rightarrow> string \<Rightarrow> nat" where
  "count_char c s = count_list s c"

lemma cut_Some: "cut sep s = Some (a, b) \<Longrightarrow> s = a @ sep # b \<and> sep \<notin> set a"
  by (induction s arbitrary: a b) (auto split: if_splits option.splits)

lemma cut_None: "cut sep s = None \<longleftrightarrow> sep \<notin> set s"
  by (induction s) (auto split: option.splits)

lemma cut_append: "sep \<notin> set a \<Longrightarrow> cut sep (a @ sep # b) = Some (a, b)"
  by (induction a) auto

subsection \<open>UTF-8\<close>

definition cont :: "char \<Rightarrow> bool" where
  "cont c \<longleftrightarrow> 128 \<le> (of_char c :: nat) \<and> (of_char c :: nat) < 192"

definition byte_in :: "nat \<Rightarrow> nat \<Rightarrow> char \<Rightarrow> bool" where
  "byte_in lo hi c \<longleftrightarrow> lo \<le> of_char c \<and> of_char c \<le> hi"

text \<open>The number of bytes of the well-formed rune the string starts with, \<open>None\<close> if there is
  none: the table of package \<open>unicode/utf8\<close>.\<close>

definition rune_size :: "string \<Rightarrow> nat option" where
  "rune_size s =
     (case s of
        [] \<Rightarrow> None
      | a # r \<Rightarrow>
          if byte_in 0 127 a then Some 1
          else case r of
            [] \<Rightarrow> None
          | b # r2 \<Rightarrow>
              if byte_in 194 223 a \<and> cont b then Some 2
              else case r2 of
                [] \<Rightarrow> None
              | c # r3 \<Rightarrow>
                  if (byte_in 224 224 a \<and> byte_in 160 191 b \<or> byte_in 225 236 a \<and> cont b \<or>
                      byte_in 237 237 a \<and> byte_in 128 159 b \<or> byte_in 238 239 a \<and> cont b) \<and> cont c
                  then Some 3
                  else case r3 of
                    [] \<Rightarrow> None
                  | d # _ \<Rightarrow>
                      if (byte_in 240 240 a \<and> byte_in 144 191 b \<or> byte_in 241 243 a \<and> cont b \<or>
                          byte_in 244 244 a \<and> byte_in 128 143 b) \<and> cont c \<and> cont d
                      then Some 4 else None)"

lemma rune_size_pos: "rune_size s = Some n \<Longrightarrow> 0 < n \<and> s \<noteq> []"
  by (auto simp: rune_size_def split: list.splits if_splits)

function utf8_valid :: "string \<Rightarrow> bool" where
  "utf8_valid s =
     (if s = [] then True
      else case rune_size s of None \<Rightarrow> False | Some n \<Rightarrow> utf8_valid (drop n s))"
  by pat_completeness auto
termination utf8_valid
  by (relation "measure length") (auto dest: rune_size_pos)

declare utf8_valid.simps [simp del]

lemma utf8_valid_Nil [simp]: "utf8_valid []"
  by (simp add: utf8_valid.simps)

text \<open>\<open>utf8.RuneCountInString\<close> of well-formed text: every rune has one byte that is no continuation.\<close>

definition rune_count :: "string \<Rightarrow> nat" where
  "rune_count s = length (filter (\<lambda>c. \<not> cont c) s)"

lemma rune_count_le: "rune_count s \<le> length s"
  by (simp add: rune_count_def)

lemma utf8_valid_ascii: "list_all (byte_in 0 127) s \<Longrightarrow> utf8_valid s"
  by (induction s) (simp_all add: utf8_valid.simps rune_size_def)

subsection \<open>Byte slicing\<close>

text \<open>\<open>truncate\<close> of \<^verbatim>\<open>internal/job/service.go\<close>: the first \<open>limit\<close> bytes.\<close>

definition truncate_text :: "string \<Rightarrow> nat \<Rightarrow> string" where
  "truncate_text value limit = (if length value \<le> limit then value else take limit value)"

lemma truncate_text_length: "length (truncate_text v n) \<le> n"
  by (simp add: truncate_text_def)

lemma truncate_text_prefix: "\<exists>rest. v = truncate_text v n @ rest"
  unfolding truncate_text_def by (metis append_Nil2 append_take_drop_id)

end
