(* ===== verification/Apperror.thy ===== *)
theory Apperror
  imports Go_Text
begin

section \<open>Errors: package apperror and the error chains of Go\<close>

text \<open>
  \<^verbatim>\<open>internal/apperror/error.go\<close>, and the two places where an error leaves the service:
  \<open>Fail\<close> of the HTTP transport and \<open>grpcError\<close> of the gRPC transport. A Go error is a
  chain of wrappers ending in a sentinel or a plain text; \<open>errors.Is\<close> and \<open>errors.As\<close>
  search that chain.
\<close>

datatype go_error =
    AppError int string int "go_error option"  \<comment> \<open>apperror.Error: Code, Message, HTTPStatus, Err\<close>
  | Wrapped string go_error                    \<comment> \<open>fmt.Errorf("text: %w", err)\<close>
  | ErrorString string                         \<comment> \<open>errors.New, and errors of drivers and libraries\<close>
  | ErrNotFound                                \<comment> \<open>the sentinels of internal/job/repository.go\<close>
  | ErrExecutionNotFound
  | ErrStaleVersion
  | ErrMissingAuditActor                       \<comment> \<open>internal/database/transaction.go\<close>
  | ErrNotGranted                              \<comment> \<open>appaccess.ErrNotGranted of the platform library\<close>

fun error_text :: "go_error \<Rightarrow> string" where
  "error_text (AppError c m h None) = m"
| "error_text (AppError c m h (Some e)) = error_text e"
| "error_text (Wrapped t e) = t @ '': '' @ error_text e"
| "error_text (ErrorString t) = t"
| "error_text ErrNotFound = ''scheduled job not found''"
| "error_text ErrExecutionNotFound = ''job execution not found''"
| "error_text ErrStaleVersion = ''stale scheduled job version''"
| "error_text ErrMissingAuditActor = ''database transaction requires an audit actor in context''"

fun unwrap_err :: "go_error \<Rightarrow> go_error option" where
  "unwrap_err (AppError c m h e) = e"
| "unwrap_err (Wrapped t e) = Some e"
| "unwrap_err e = None"

fun error_chain :: "go_error \<Rightarrow> go_error list" where
  "error_chain (AppError c m h (Some e)) = AppError c m h (Some e) # error_chain e"
| "error_chain (Wrapped t e) = Wrapped t e # error_chain e"
| "error_chain e = [e]"

definition errors_is :: "go_error \<Rightarrow> go_error \<Rightarrow> bool" where
  "errors_is e target \<longleftrightarrow> target \<in> set (error_chain e)"

fun is_app :: "go_error \<Rightarrow> bool" where
  "is_app (AppError c m h e) = True"
| "is_app e = False"

definition errors_as_app :: "go_error \<Rightarrow> go_error option" where
  "errors_as_app e = find is_app (error_chain e)"

subsection \<open>Codes and constructors\<close>

definition CodeOK :: int where "CodeOK = 0"
definition CodeInvalidArgument :: int where "CodeInvalidArgument = 10001"
definition CodeNotFound :: int where "CodeNotFound = 10004"
definition CodeRequestTimeout :: int where "CodeRequestTimeout = 10008"
definition CodeTooManyRequests :: int where "CodeTooManyRequests = 10029"
definition CodeUnauthorized :: int where "CodeUnauthorized = 20001"
definition CodeForbidden :: int where "CodeForbidden = 20003"
definition CodeConflict :: int where "CodeConflict = 30009"
definition CodeRequestInProgress :: int where "CodeRequestInProgress = 30010"
definition CodeInternal :: int where "CodeInternal = 50000"
definition CodeDependencyUnavailable :: int where "CodeDependencyUnavailable = 50003"

lemmas code_defs = CodeOK_def CodeInvalidArgument_def CodeNotFound_def CodeRequestTimeout_def
  CodeTooManyRequests_def CodeUnauthorized_def CodeForbidden_def CodeConflict_def
  CodeRequestInProgress_def CodeInternal_def CodeDependencyUnavailable_def

definition Invalid :: "string \<Rightarrow> go_error option \<Rightarrow> go_error" where
  "Invalid m e = AppError CodeInvalidArgument m 400 e"
definition NotFound :: "string \<Rightarrow> go_error" where
  "NotFound m = AppError CodeNotFound m 404 None"
definition Conflict :: "string \<Rightarrow> go_error option \<Rightarrow> go_error" where
  "Conflict m e = AppError CodeConflict m 409 e"
definition RequestInProgress :: go_error where
  "RequestInProgress = AppError CodeRequestInProgress ''request is already processing'' 409 None"
definition Unauthorized :: "string \<Rightarrow> go_error" where
  "Unauthorized m = AppError CodeUnauthorized m 401 None"
definition Forbidden :: "string \<Rightarrow> go_error" where
  "Forbidden m = AppError CodeForbidden m 403 None"
definition TooManyRequests :: go_error where
  "TooManyRequests = AppError CodeTooManyRequests ''too many requests'' 429 None"
definition RequestTimeout :: go_error where
  "RequestTimeout = AppError CodeRequestTimeout ''request timeout'' 504 None"
definition Unavailable :: "string \<Rightarrow> go_error option \<Rightarrow> go_error" where
  "Unavailable m e = AppError CodeDependencyUnavailable m 503 e"
definition Internal :: "go_error \<Rightarrow> go_error" where
  "Internal e = AppError CodeInternal ''internal server error'' 500 (Some e)"

lemmas app_defs = Invalid_def NotFound_def Conflict_def RequestInProgress_def Unauthorized_def
  Forbidden_def TooManyRequests_def RequestTimeout_def Unavailable_def Internal_def

fun err_code :: "go_error \<Rightarrow> int" where
  "err_code (AppError c m h e) = c"
| "err_code e = CodeInternal"

fun err_message :: "go_error \<Rightarrow> string" where
  "err_message (AppError c m h e) = m"
| "err_message e = ''internal server error''"

fun err_status :: "go_error \<Rightarrow> int" where
  "err_status (AppError c m h e) = h"
| "err_status e = 500"

subsection \<open>translate of the job service\<close>

definition translate :: "go_error \<Rightarrow> go_error" where
  "translate e =
     (if errors_is e ErrNotFound \<or> errors_is e ErrExecutionNotFound then NotFound (error_text e)
      else if errors_is e ErrStaleVersion then Conflict ''version conflict'' (Some e)
      else case errors_as_app e of Some a \<Rightarrow> a | None \<Rightarrow> Internal e)"

subsection \<open>The wire: Fail and grpcError\<close>

text \<open>Status, code and message of the HTTP response written by \<open>Fail\<close>.\<close>

definition fail_response :: "go_error \<Rightarrow> int \<times> int \<times> string" where
  "fail_response e =
     (let a = (case errors_as_app e of Some a \<Rightarrow> a | None \<Rightarrow> Internal e)
      in (err_status a, err_code a, err_message a))"

datatype grpc_code =
  GInternal | GInvalidArgument | GNotFound | GUnauthenticated | GPermissionDenied | GAborted
| GUnavailable | GDeadlineExceeded

definition grpcError :: "go_error \<Rightarrow> grpc_code \<times> string" where
  "grpcError e =
     (case errors_as_app e of
        None \<Rightarrow> (GInternal, ''internal server error'')
      | Some a \<Rightarrow>
          let c = err_code a in
          (if c = CodeInvalidArgument then GInvalidArgument
           else if c = CodeNotFound then GNotFound
           else if c = CodeUnauthorized then GUnauthenticated
           else if c = CodeForbidden then GPermissionDenied
           else if c = CodeConflict \<or> c = CodeRequestInProgress then GAborted
           else if c = CodeDependencyUnavailable then GUnavailable
           else if c = CodeRequestTimeout then GDeadlineExceeded
           else GInternal, err_message a))"

subsection \<open>Facts about chains\<close>

lemma error_chain_ne [simp]: "error_chain e \<noteq> []"
  by (cases e rule: error_chain.cases) auto

lemma hd_error_chain [simp]: "hd (error_chain e) = e"
  by (cases e rule: error_chain.cases) auto

lemma self_in_chain [simp]: "e \<in> set (error_chain e)"
  by (cases e rule: error_chain.cases) auto

lemma errors_is_refl [simp]: "errors_is e e"
  by (simp add: errors_is_def)

lemma errors_as_app_AppError [simp]: "errors_as_app (AppError c m h e) = Some (AppError c m h e)"
  by (cases e) (simp_all add: errors_as_app_def)

lemma errors_as_app_Some: "errors_as_app e = Some a \<Longrightarrow> is_app a \<and> a \<in> set (error_chain e)"
  by (auto simp: errors_as_app_def find_Some_iff)

lemma errors_as_app_plain: "errors_as_app (Wrapped t e) = errors_as_app e"
  by (simp add: errors_as_app_def)

lemma translate_is_app: "is_app (translate e)"
  by (auto simp: translate_def app_defs dest: errors_as_app_Some split: option.split)

lemma translate_stale [simp]: "translate ErrStaleVersion = Conflict ''version conflict'' (Some ErrStaleVersion)"
  by (simp add: translate_def errors_is_def)

lemma translate_not_found [simp]:
  "translate ErrNotFound = NotFound ''scheduled job not found''"
  "translate ErrExecutionNotFound = NotFound ''job execution not found''"
  by (simp_all add: translate_def errors_is_def)

lemma fail_response_app: "is_app e \<Longrightarrow> fail_response e = (err_status e, err_code e, err_message e)"
  by (cases e) (simp_all add: fail_response_def)

end
