(* ===== verification/Job_Model.thy ===== *)
theory Job_Model
  imports Apperror
begin

section \<open>Data: package job, model.go\<close>

text \<open>
  The records of \<^verbatim>\<open>internal/job/model.go\<close>. \<open>Job\<close> and \<open>Execution\<close> share the identity, the
  scope, the status and the audit columns; these are the base record \<open>row\<close>, so that the table
  operations and their lemmas are stated once for both tables. A time is the number of
  nanoseconds since a fixed instant; a nil pointer is \<open>None\<close>. \<open>AuditFields\<close> and the enum texts
  of the status columns are here too.
\<close>

type_synonym time = int

record row =
  ID :: string
  TenantID :: string
  ApplicationID :: string
  Status :: string
  Version :: int
  CreatedAt :: time
  UpdatedAt :: time
  CreatedBy :: string
  UpdatedBy :: string
  DeletedAt :: "time option"
  DeletedBy :: "string option"

record job = row +
  Name :: string
  CronExpression :: string
  Timezone :: string
  Upstream :: string
  FullMethod :: string
  RequestJSON :: string
  TimeoutMilliseconds :: int

record execution = row +
  JobID :: string
  TriggerType :: string
  ResponseJSON :: string
  ErrorCode :: string
  ErrorMessage :: string
  StartedAt :: time
  FinishedAt :: "time option"
  DurationMilliseconds :: int

record 'a page =
  Items :: "'a list"
  Total :: int
  PageNumber :: int
  PageSize :: int

record input =
  inTenantID :: string
  inApplicationID :: string
  inName :: string
  inCronExpression :: string
  inTimezone :: string
  inUpstream :: string
  inFullMethod :: string
  inRequestJSON :: string
  inTimeoutMilliseconds :: int
  inEnabled :: bool

record job_filter =
  jfTenantID :: string
  jfApplicationID :: string
  jfKeyword :: string
  jfIDs :: "string list"
  jfStatuses :: "string list"
  jfUpstreams :: "string list"
  jfCreatedFrom :: "time option"
  jfCreatedTo :: "time option"

record execution_filter =
  efJobID :: string
  efKeyword :: string
  efIDs :: "string list"
  efStatuses :: "string list"
  efTriggerTypes :: "string list"
  efStartedFrom :: "time option"
  efStartedTo :: "time option"
  efDurationMin :: "int option"
  efDurationMax :: "int option"

record audit_fields =
  afUpdatedAt :: time
  afUpdatedBy :: string

abbreviation enabled :: string where "enabled \<equiv> ''enabled''"
abbreviation disabled :: string where "disabled \<equiv> ''disabled''"
abbreviation running :: string where "running \<equiv> ''running''"
abbreviation succeeded :: string where "succeeded \<equiv> ''succeeded''"
abbreviation failed :: string where "failed \<equiv> ''failed''"

definition live :: "'a row_scheme \<Rightarrow> bool" where
  "live r \<longleftrightarrow> DeletedAt r = None"

definition terminal :: "execution \<Rightarrow> bool" where
  "terminal x \<longleftrightarrow> Status x = succeeded \<or> Status x = failed"

definition statusFromEnabled :: "bool \<Rightarrow> string" where
  "statusFromEnabled e = (if e then enabled else disabled)"

end
