(* ===== verification/World.thy ===== *)
theory World
  imports Job_Model
begin

section \<open>The world of the service: context, environment, effects\<close>

text \<open>
  A request runs in a \<open>context\<close> (who calls, the request id, the idempotency key, outgoing gRPC
  metadata, the timeouts in force) and in a \<open>world\<close>: the committed database, the one-slot
  channel \<open>changed\<close>, the operation log, and the trace of calls made to the dynamic gRPC
  invoker. Everything that is not code of the repository is a field of \<open>env\<close>: the clock, the
  UUID source, the database engine (its errors, its LIKE, LOWER and collation, the time its
  statements see, what its indexes take), \<open>strings.ToLower\<close> with its Unicode tables, the
  transactions that other requests and replicas commit (\<open>interfere\<close>, applied before each read
  outside a transaction, at the begin of each transaction and between the statements of one), the
  application verifier, the invoker, the operation recorder and the distributed lock. They are
  indexed by a counter that every use advances, so each call may answer differently; theorems
  hold for every environment unless they name a hypothesis about it.
\<close>

datatype principal_type = TypeUser | TypeServiceAccount | TypeSystem

record principal =
  pID :: string
  pType :: principal_type
  pTenantID :: string

record go_context =
  cPrincipal :: "principal option"
  cRequestID :: "string option"
  cIdempotencyKey :: "string option"
  cMetadata :: "(string \<times> string) list"
  cTimeouts :: "int list"    \<comment> \<open>durations of the timeouts (ns) that can still cancel it\<close>

definition requestid_FromContext :: "go_context \<Rightarrow> string option" where
  "requestid_FromContext c =
     (case cRequestID c of None \<Rightarrow> None | Some i \<Rightarrow> if i = [] then None else Some i)"

definition with_timeout :: "int \<Rightarrow> go_context \<Rightarrow> go_context" where
  "with_timeout d c = c\<lparr>cTimeouts := cTimeouts c @ [d]\<rparr>"

definition without_cancel :: "go_context \<Rightarrow> go_context" where
  "without_cancel c = c\<lparr>cTimeouts := []\<rparr>"

record db =
  jobs :: "job list"
  executions :: "execution list"

datatype invoker_call =
    CallValidate string string string
  | CallInvoke go_context string string string

datatype request_value = RText string | RBool bool | RInt int

record entry =
  Operation :: string
  ResourceType :: string
  ResourceID :: string
  EntryApplicationID :: string
  Request :: "(string \<times> request_value) list"
  Duration :: int
  Succeeded :: bool
  EntryErrorMessage :: string
  RequestID :: string

record world =
  wDb :: db                   \<comment> \<open>as the next statement of this request sees the tables\<close>
  wBase :: db                 \<comment> \<open>what a rollback of the transaction in progress leaves\<close>
  wTick :: nat
  wChanged :: bool            \<comment> \<open>a token waits in the channel of capacity one\<close>
  wLog :: "entry list"
  wCalls :: "invoker_call list"
  wInvokedAt :: "nat list"    \<comment> \<open>the counter at each \<open>CallInvoke\<close> of \<open>wCalls\<close>\<close>

text \<open>What the application verifier says: the error \<open>appaccess.ErrNotGranted\<close> is its own case.\<close>

datatype grant = Granted | NotGranted | GrantFailed go_error

text \<open>
  The answer of \<open>distlock.TryWithLock\<close>: whether it ran the callback, whether it reports the
  lock as acquired, and the error it returns given the callback's error.
\<close>

record lock_answer =
  laRan :: bool
  laAcquired :: bool
  laError :: "go_error option \<Rightarrow> go_error option"

datatype violation = DuplicateKey | CheckViolation | ForeignKeyViolation | OutOfRange | NegativeOffset

record env =
  nowAt :: "nat \<Rightarrow> time"
  uuidAt :: "nat \<Rightarrow> string"
  interfere :: "nat \<Rightarrow> db \<Rightarrow> db"
  dbEnabled :: bool
  driver :: string
  dbError :: "nat \<Rightarrow> go_context \<Rightarrow> go_error option"
  commitError :: "nat \<Rightarrow> go_context \<Rightarrow> (go_error \<times> bool) option"
  dbNow :: "nat \<Rightarrow> time"
  violationError :: "violation \<Rightarrow> go_error"
  indexFits :: "string list \<Rightarrow> bool"
  stringsToLower :: "string \<Rightarrow> string"
  sqlLower :: "string \<Rightarrow> string"
  sqlLike :: "string \<Rightarrow> string \<Rightarrow> bool"
  sqlTextLe :: "string \<Rightarrow> string \<Rightarrow> bool"
  sqlxIn :: "string \<Rightarrow> string list \<Rightarrow> go_error + string \<times> string list"
  verifyGrant :: "nat \<Rightarrow> string \<Rightarrow> string \<Rightarrow> grant"
  invokerValidate :: "nat \<Rightarrow> string \<Rightarrow> string \<Rightarrow> string \<Rightarrow> go_error option"
  invokerInvoke :: "nat \<Rightarrow> go_context \<Rightarrow> string \<Rightarrow> string \<Rightarrow> string \<Rightarrow> go_error + string"
  loadLocation :: "string \<Rightarrow> go_error option"
  parseCron :: "string \<Rightarrow> go_error option"
  grpcCodeName :: "go_error \<Rightarrow> string"
  operationsEnabled :: bool
  recordError :: "nat \<Rightarrow> entry \<Rightarrow> go_error option"
  lockerPresent :: bool
  tryLock :: "nat \<Rightarrow> string \<Rightarrow> int \<Rightarrow> lock_answer"

type_synonym 'a service = "(go_error, world, 'a) prog"

subsection \<open>Primitive effects\<close>

definition tick :: "nat service" where
  "tick = (\<lambda>w. (Inr (wTick w), w\<lparr>wTick := Suc (wTick w)\<rparr>))"

definition s_now :: "env \<Rightarrow> time service" where
  "s_now env = attempt tick (\<lambda>n. ok (nowAt env n))"

definition uuid_NewString :: "env \<Rightarrow> string service" where
  "uuid_NewString env = attempt tick (\<lambda>n. ok (uuidAt env n))"

definition note_call :: "invoker_call \<Rightarrow> unit service" where
  "note_call c = modifies (\<lambda>w. w\<lparr>wCalls := wCalls w @ [c]\<rparr>)"

definition note_time :: "nat \<Rightarrow> unit service" where
  "note_time n = modifies (\<lambda>w. w\<lparr>wInvokedAt := wInvokedAt w @ [n]\<rparr>)"

definition invoker_Validate :: "env \<Rightarrow> string \<Rightarrow> string \<Rightarrow> string \<Rightarrow> unit service" where
  "invoker_Validate env u m r =
     attempt tick (\<lambda>n. attempt (note_call (CallValidate u m r)) (\<lambda>_.
       case invokerValidate env n u m r of None \<Rightarrow> ok () | Some e \<Rightarrow> fail e))"

definition invoker_Invoke :: "env \<Rightarrow> go_context \<Rightarrow> string \<Rightarrow> string \<Rightarrow> string \<Rightarrow> (go_error + string) service" where
  "invoker_Invoke env c u m r =
     attempt tick (\<lambda>n. attempt (note_call (CallInvoke c u m r)) (\<lambda>_.
       attempt (note_time n) (\<lambda>_. ok (invokerInvoke env n c u m r))))"

text \<open>\<open>signalChanged\<close>: a send that does not block, into a channel of capacity one.\<close>

definition signalChanged :: "('e, world, unit) prog" where
  "signalChanged = modifies (\<lambda>w. w\<lparr>wChanged := True\<rparr>)"

text \<open>A read outside a transaction sees whatever has been committed by then.\<close>

definition query :: "env \<Rightarrow> go_context \<Rightarrow> (db \<Rightarrow> go_error + 'a) \<Rightarrow> 'a service" where
  "query env ctx f =
     attempt tick (\<lambda>n.
     attempt (modifies (\<lambda>w. w\<lparr>wDb := interfere env n (wDb w)\<rparr>)) (\<lambda>_.
       case dbError env n ctx of
         Some e \<Rightarrow> fail e
       | None \<Rightarrow> (\<lambda>w. (f (wDb w), w))))"

lemma run_tick [prog_simps]: "tick w = (Inr (wTick w), w\<lparr>wTick := Suc (wTick w)\<rparr>)"
  by (simp add: tick_def)

lemma run_s_now [prog_simps]:
  "s_now env w = (Inr (nowAt env (wTick w)), w\<lparr>wTick := Suc (wTick w)\<rparr>)"
  by (simp add: s_now_def prog_simps)

lemma run_uuid [prog_simps]:
  "uuid_NewString env w = (Inr (uuidAt env (wTick w)), w\<lparr>wTick := Suc (wTick w)\<rparr>)"
  by (simp add: uuid_NewString_def prog_simps)

lemma run_signalChanged [prog_simps]: "signalChanged w = (Inr (), w\<lparr>wChanged := True\<rparr>)"
  by (simp add: signalChanged_def prog_simps)

lemma run_note_call [prog_simps]: "note_call c w = (Inr (), w\<lparr>wCalls := wCalls w @ [c]\<rparr>)"
  by (simp add: note_call_def prog_simps)

lemma run_note_time [prog_simps]: "note_time n w = (Inr (), w\<lparr>wInvokedAt := wInvokedAt w @ [n]\<rparr>)"
  by (simp add: note_time_def prog_simps)

lemma query_Inr [prog_ok]:
  "query env ctx f w = (Inr y, w') \<longleftrightarrow>
     dbError env (wTick w) ctx = None \<and> f (interfere env (wTick w) (wDb w)) = Inr y \<and>
     w' = w\<lparr>wTick := Suc (wTick w), wDb := interfere env (wTick w) (wDb w)\<rparr>"
  by (auto simp: query_def prog_simps split: option.splits)

subsection \<open>Guarantees of the primitive effects\<close>

text \<open>
  \<open>same_calls\<close>: no call to the dynamic invoker was made while the counter went on. A relation \<open>G\<close> between databases is a
  guarantee of the programs if they relate every database they start from to the one they leave;
  it must then also relate what other replicas do (\<open>rely\<close>).
\<close>

definition same_calls :: "world \<Rightarrow> world \<Rightarrow> bool" where
  "same_calls w w' \<longleftrightarrow> wCalls w' = wCalls w \<and> wInvokedAt w' = wInvokedAt w \<and> wTick w \<le> wTick w'"

interpretation calls: guarantee same_calls
  by unfold_locales (auto simp: same_calls_def)

lemma calls_tick: "keeps same_calls tick"
  by (simp add: keeps_def same_calls_def prog_simps)

lemma calls_s_now: "keeps same_calls (s_now env)"
  by (simp add: keeps_def same_calls_def prog_simps)

lemma calls_uuid: "keeps same_calls (uuid_NewString env)"
  by (simp add: keeps_def same_calls_def prog_simps)

lemma calls_signalChanged: "keeps same_calls signalChanged"
  by (simp add: keeps_def same_calls_def prog_simps)

lemma calls_query: "keeps same_calls (query env ctx f)"
  by (auto simp: keeps_def same_calls_def query_def prog_simps split: option.split)

lemmas calls_effects = calls_tick calls_s_now calls_uuid calls_signalChanged calls_query

locale db_guarantee =
  fixes G :: "db \<Rightarrow> db \<Rightarrow> bool" and env :: env
  assumes G_same: "G d d"
    and G_chain: "G d e \<Longrightarrow> G e f \<Longrightarrow> G d f"
    and rely: "G d (interfere env n d)"
begin

sublocale guarantee "\<lambda>w w'. G (wDb w) (wDb w')"
  by unfold_locales (auto intro: G_same G_chain)

abbreviation db_keeps :: "('e, world, 'a) prog \<Rightarrow> bool" where
  "db_keeps \<equiv> keeps (\<lambda>w w'. G (wDb w) (wDb w'))"

lemma keeps_tick: "db_keeps tick"
  by (simp add: keeps_def prog_simps G_same)

lemma keeps_s_now: "db_keeps (s_now env')"
  by (simp add: keeps_def prog_simps G_same)

lemma keeps_uuid: "db_keeps (uuid_NewString env')"
  by (simp add: keeps_def prog_simps G_same)

lemma keeps_signalChanged: "db_keeps signalChanged"
  by (simp add: keeps_def prog_simps G_same)

lemma keeps_note_call: "db_keeps (note_call c)"
  by (simp add: keeps_def prog_simps G_same)

lemma keeps_note_time: "db_keeps (note_time n)"
  by (simp add: keeps_def prog_simps G_same)

lemma keeps_invoker_Validate: "db_keeps (invoker_Validate env' u m r)"
  unfolding invoker_Validate_def by (intro combinators keeps_tick keeps_note_call)

lemma keeps_invoker_Invoke: "db_keeps (invoker_Invoke env' c u m r)"
  unfolding invoker_Invoke_def by (intro combinators keeps_tick keeps_note_call keeps_note_time)

lemma keeps_query: "db_keeps (query env ctx f)"
  by (auto simp: keeps_def query_def prog_simps rely split: option.split)

lemmas effects = keeps_tick keeps_s_now keeps_uuid keeps_signalChanged keeps_note_call
  keeps_invoker_Validate keeps_invoker_Invoke keeps_query

text \<open>Inside a transaction the guarantee also holds of what a rollback would leave.\<close>

sublocale tx: guarantee "\<lambda>w w'. G (wDb w) (wDb w') \<and> G (wBase w) (wBase w')"
  by unfold_locales (auto intro: G_same G_chain)

abbreviation tx_keeps :: "('e, world, 'a) prog \<Rightarrow> bool" where
  "tx_keeps \<equiv> keeps (\<lambda>w w'. G (wDb w) (wDb w') \<and> G (wBase w) (wBase w'))"

lemma tx_s_now: "tx_keeps (s_now env')"
  by (simp add: keeps_def prog_simps G_same)

end

end
