(* ===== verification/Path_Match.thy ===== *)
theory Path_Match
  imports Go_Text
begin

section \<open>Patterns: package path and auth.MatchesAny\<close>

text \<open>
  \<open>path.Match\<close> of the standard library, which decides the routes that skip authentication,
  accept a pre-shared key, are idempotent or are retried, with its helpers \<open>scanChunk\<close>,
  \<open>matchChunk\<close> and \<open>getEsc\<close>; and \<open>MatchesAny\<close> of \<^verbatim>\<open>internal/auth/pattern.go\<close>. A match
  result is \<open>None\<close> for \<open>ErrBadPattern\<close>.

  The facts proved here: whether a pattern is malformed does not depend on the name it is
  matched with, so the test match of the configuration check is enough; a pattern without
  a character class matches only names with the same number of slashes; a literal pattern
  matches only itself.
\<close>

abbreviation slash :: char where "slash \<equiv> CHR ''/''"
abbreviation backslash :: char where "backslash \<equiv> CHR 0x5C"

subsection \<open>Runes\<close>

definition low_bits :: "char \<Rightarrow> nat \<Rightarrow> nat" where
  "low_bits c m = (of_char c :: nat) mod m"

text \<open>\<open>utf8.DecodeRuneInString\<close>: the rune and its width; \<open>RuneError\<close> of width 1 for an
  ill-formed byte and of width 0 for the empty string.\<close>

definition rune_error :: nat where "rune_error = 65533"

definition decode_rune :: "string \<Rightarrow> nat \<times> nat" where
  "decode_rune s =
     (case rune_size s of
        None \<Rightarrow> (rune_error, if s = [] then 0 else 1)
      | Some n \<Rightarrow>
         (if n = 1 then low_bits (s ! 0) 128
          else if n = 2 then low_bits (s ! 0) 32 * 64 + low_bits (s ! 1) 64
          else if n = 3 then (low_bits (s ! 0) 16 * 64 + low_bits (s ! 1) 64) * 64 + low_bits (s ! 2) 64
          else ((low_bits (s ! 0) 8 * 64 + low_bits (s ! 1) 64) * 64 + low_bits (s ! 2) 64) * 64
                 + low_bits (s ! 3) 64, n))"

lemma decode_rune_width: "s \<noteq> [] \<Longrightarrow> 0 < snd (decode_rune s)"
  by (auto simp: decode_rune_def dest: rune_size_pos split: option.split)

subsection \<open>getEsc and character classes\<close>

definition get_esc_rune :: "string \<Rightarrow> (nat \<times> string) option" where
  "get_esc_rune chunk =
     (let (r, n) = decode_rune chunk; rest = drop n chunk
      in if r = rune_error \<and> n = 1 then None else if rest = [] then None else Some (r, rest))"

definition getEsc :: "string \<Rightarrow> (nat \<times> string) option" where
  "getEsc chunk =
     (case chunk of
        [] \<Rightarrow> None
      | c # cs \<Rightarrow>
          if c = CHR ''-'' \<or> c = CHR '']'' then None
          else if c = backslash then (if cs = [] then None else get_esc_rune cs)
          else get_esc_rune chunk)"

lemma get_esc_rune_shorter:
  "get_esc_rune chunk = Some (r, rest) \<Longrightarrow> chunk \<noteq> [] \<Longrightarrow> length rest < length chunk \<and> rest \<noteq> []"
  using decode_rune_width [of chunk]
  by (auto simp: get_esc_rune_def Let_def split: prod.splits if_splits)

lemma getEsc_shorter: "getEsc chunk = Some (r, rest) \<Longrightarrow> length rest < length chunk \<and> rest \<noteq> []"
  by (auto simp: getEsc_def dest: get_esc_rune_shorter split: list.splits if_splits)

text \<open>One range of a class: the low and the high rune.\<close>

definition class_range :: "string \<Rightarrow> ((nat \<times> nat) \<times> string) option" where
  "class_range chunk =
     (case getEsc chunk of
        None \<Rightarrow> None
      | Some (lo, rest) \<Rightarrow>
          if hd rest = CHR ''-'' then
            (case getEsc (tl rest) of None \<Rightarrow> None | Some (hi, rest2) \<Rightarrow> Some ((lo, hi), rest2))
          else Some ((lo, lo), rest))"

lemma class_range_shorter: "class_range chunk = Some (q, rest) \<Longrightarrow> length rest < length chunk"
  by (auto simp: class_range_def dest!: getEsc_shorter split: option.splits if_splits)

text \<open>The loop over the ranges: \<open>nrange\<close> counts them, \<open>matched\<close> collects whether the rune is
  in one of them.\<close>

function class_ranges :: "string \<Rightarrow> nat \<Rightarrow> nat \<Rightarrow> bool \<Rightarrow> (bool \<times> string) option" where
  "class_ranges chunk r nrange matched =
     (if chunk \<noteq> [] \<and> hd chunk = CHR '']'' \<and> 0 < nrange then Some (matched, tl chunk)
      else case class_range chunk of
        None \<Rightarrow> None
      | Some ((lo, hi), rest) \<Rightarrow> class_ranges rest r (nrange + 1) (matched \<or> lo \<le> r \<and> r \<le> hi))"
  by pat_completeness auto
termination class_ranges
  by (relation "measure (\<lambda>(chunk, r, n, m). length chunk)") (auto dest: class_range_shorter)

declare class_ranges.simps [simp del]

lemma class_ranges_shorter: "class_ranges chunk r n m = Some (b, rest) \<Longrightarrow> length rest < length chunk"
proof (induction chunk r n m arbitrary: b rest rule: class_ranges.induct)
  case (1 chunk r n m)
  show ?case
  proof (cases "chunk \<noteq> [] \<and> hd chunk = CHR '']'' \<and> 0 < n")
    case True
    with "1.prems" show ?thesis by (cases chunk) (auto simp: class_ranges.simps [of "x # xs" for x xs])
  next
    case False
    with "1.prems" obtain lo hi rest1 where step: "class_range chunk = Some ((lo, hi), rest1)"
      and rec: "class_ranges rest1 r (n + 1) (m \<or> lo \<le> r \<and> r \<le> hi) = Some (b, rest)"
      by (simp add: class_ranges.simps [of chunk] split: option.splits prod.splits)
    from "1.IH" [OF False step refl refl rec] class_range_shorter [OF step] show ?thesis by simp
  qed
qed

subsection \<open>matchChunk\<close>

datatype chunk_result = Bad | No | Yes string

text \<open>Once the match has failed the loop only checks the rest of the chunk and reads no more of
  the name.\<close>

definition skip_negation :: "string \<Rightarrow> bool \<times> string" where
  "skip_negation cs = (if cs \<noteq> [] \<and> hd cs = CHR ''^'' then (True, tl cs) else (False, cs))"

lemma skip_negation_length: "length (snd (skip_negation cs)) \<le> length cs"
  by (simp add: skip_negation_def)

function match_chunk :: "string \<Rightarrow> bool \<Rightarrow> string \<Rightarrow> chunk_result" where
  "match_chunk [] failed s = (if failed then No else Yes s)"
| "match_chunk (c # cs) failed0 s =
     (let failed = (failed0 \<or> s = []) in
      if c = CHR ''['' then
        (case class_ranges (snd (skip_negation cs)) (if failed then 0 else fst (decode_rune s)) 0 False of
           None \<Rightarrow> Bad
         | Some (matched, rest) \<Rightarrow>
             match_chunk rest (failed \<or> matched = fst (skip_negation cs))
               (if failed then s else drop (snd (decode_rune s)) s))
      else if c = CHR ''?'' then
        match_chunk cs (failed \<or> hd s = slash) (if failed then s else drop (snd (decode_rune s)) s)
      else if c = backslash then
        (case cs of
           [] \<Rightarrow> Bad
         | d # ds \<Rightarrow> match_chunk ds (failed \<or> d \<noteq> hd s) (if failed then s else tl s))
      else match_chunk cs (failed \<or> c \<noteq> hd s) (if failed then s else tl s))"
  by pat_completeness auto

lemma class_after_negation_shorter:
  "class_ranges (snd (skip_negation cs)) r n m = Some (b, rest) \<Longrightarrow> length rest < length cs"
  using class_ranges_shorter [of "snd (skip_negation cs)" r n m b rest] skip_negation_length [of cs]
  by simp

termination match_chunk
  by (relation "measure (\<lambda>(chunk, f, s). length chunk)")
     (auto dest: class_after_negation_shorter)

declare match_chunk.simps(2) [simp del]

subsection \<open>scanChunk and Match\<close>

text \<open>The length of the chunk: up to the first star outside a class.\<close>

fun chunk_length :: "string \<Rightarrow> bool \<Rightarrow> nat" where
  "chunk_length [] inrange = 0"
| "chunk_length (c # cs) inrange =
     (if c = backslash then (case cs of [] \<Rightarrow> 1 | d # ds \<Rightarrow> 2 + chunk_length ds inrange)
      else if c = CHR ''['' then 1 + chunk_length cs True
      else if c = CHR '']'' then 1 + chunk_length cs False
      else if c = CHR ''*'' \<and> \<not> inrange then 0
      else 1 + chunk_length cs inrange)"

definition scanChunk :: "string \<Rightarrow> bool \<times> string \<times> string" where
  "scanChunk pattern =
     (let body = dropWhile (\<lambda>c. c = CHR ''*'') pattern; i = chunk_length body False
      in (body \<noteq> pattern, take i body, drop i body))"

lemma chunk_length_pos: "c \<noteq> CHR ''*'' \<Longrightarrow> 0 < chunk_length (c # cs) b"
  by (auto split: list.split)

lemma scanChunk_shorter:
  assumes "pattern \<noteq> []" and "scanChunk pattern = (star, chunk, rest)"
  shows "length rest < length pattern"
proof (cases pattern)
  case Nil
  with assms(1) show ?thesis by simp
next
  case (Cons c cs)
  show ?thesis
  proof (cases "c = CHR ''*''")
    case True
    have "length (dropWhile (\<lambda>c. c = CHR ''*'') cs) \<le> length cs" by (rule length_dropWhile_le)
    with True Cons assms(2) show ?thesis by (auto simp: scanChunk_def Let_def)
  next
    case False
    with chunk_length_pos [OF False, of cs False] Cons assms(2) show ?thesis
      by (auto simp: scanChunk_def Let_def simp del: chunk_length.simps)
  qed
qed

text \<open>The search of a starred chunk behind the current position: the star does not skip a slash,
  and the last chunk must exhaust the name.\<close>

fun star_search :: "string \<Rightarrow> bool \<Rightarrow> string \<Rightarrow> chunk_result" where
  "star_search chunk final [] = No"
| "star_search chunk final (c # cs) =
     (if c = slash then No
      else case match_chunk chunk False cs of
        Yes t \<Rightarrow> if final \<and> t \<noteq> [] then star_search chunk final cs else Yes t
      | Bad \<Rightarrow> Bad
      | No \<Rightarrow> star_search chunk final cs)"

text \<open>The syntax check of the remaining pattern before a mismatch is reported.\<close>

function rest_wellformed :: "string \<Rightarrow> bool" where
  "rest_wellformed pattern =
     (if pattern = [] then True
      else let (star, chunk, rest) = scanChunk pattern
        in match_chunk chunk False [] \<noteq> Bad \<and> rest_wellformed rest)"
  by pat_completeness auto
termination rest_wellformed
  by (relation "measure length") (auto dest: scanChunk_shorter [OF _ sym])

declare rest_wellformed.simps [simp del]

definition mismatch :: "string \<Rightarrow> bool option" where
  "mismatch rest = (if rest_wellformed rest then Some False else None)"

text \<open>Where the name continues after the chunk: at the current position, else behind a star.\<close>

definition next_name :: "bool \<Rightarrow> string \<Rightarrow> bool \<Rightarrow> string \<Rightarrow> chunk_result" where
  "next_name star chunk final name =
     (case match_chunk chunk False name of
        Bad \<Rightarrow> Bad
      | Yes t \<Rightarrow>
          if t = [] \<or> \<not> final then Yes t
          else if star then star_search chunk final name else No
      | No \<Rightarrow> if star then star_search chunk final name else No)"

function Match :: "string \<Rightarrow> string \<Rightarrow> bool option" where
  "Match pattern name =
     (if pattern = [] then Some (name = [])
      else let (star, chunk, rest) = scanChunk pattern in
        if star \<and> chunk = [] then Some (slash \<notin> set name)
        else case next_name star chunk (rest = []) name of
          Yes t \<Rightarrow> Match rest t
        | Bad \<Rightarrow> None
        | No \<Rightarrow> mismatch rest)"
  by pat_completeness auto
termination Match
  by (relation "measure (\<lambda>(pattern, name). length pattern)")
     (auto dest: scanChunk_shorter [OF _ sym])

declare Match.simps [simp del]

subsection \<open>Malformed patterns\<close>

lemma class_ranges_rest:
  "map_option snd (class_ranges chunk r n m) = map_option snd (class_ranges chunk r' n m')"
proof (induction chunk r n m arbitrary: m' rule: class_ranges.induct)
  case (1 chunk r n m)
  show ?case
  proof (cases "chunk \<noteq> [] \<and> hd chunk = CHR '']'' \<and> 0 < n")
    case True
    then show ?thesis by (simp add: class_ranges.simps)
  next
    case False
    show ?thesis
    proof (cases "class_range chunk")
      case None
      with False show ?thesis by (simp add: class_ranges.simps)
    next
      case (Some q)
      obtain lo hi rest where q: "q = ((lo, hi), rest)" by (metis prod.collapse)
      show ?thesis
        using "1.IH" [OF False Some [unfolded q] refl refl, of "m' \<or> lo \<le> r' \<and> r' \<le> hi"] False Some q
        by (auto simp: class_ranges.simps [of chunk])
    qed
  qed
qed

lemma class_ranges_None: "class_ranges chunk r n m = None \<longleftrightarrow> class_ranges chunk r' n m' = None"
  using class_ranges_rest [of chunk r n m r' m'] by (metis option.map_disc_iff)

lemma class_ranges_Some:
  assumes "class_ranges chunk r n m = Some (b, rest)"
  shows "\<exists>b'. class_ranges chunk r' n m' = Some (b', rest)"
proof -
  have "map_option snd (class_ranges chunk r' n m') = Some rest"
    using class_ranges_rest [of chunk r' n m' r m] assms by simp
  then show ?thesis by (metis map_option_eq_Some prod.collapse)
qed
lemma match_chunk_Bad: "match_chunk chunk failed s = Bad \<longleftrightarrow> match_chunk chunk True [] = Bad"
proof (induction chunk failed s rule: match_chunk.induct)
  case (1 failed s)
  then show ?case by simp
next
  case (2 c cs f s)
  show ?case
  proof (cases "c = CHR ''[''")
    case True
    let ?r = "if f \<or> s = [] then 0 else fst (decode_rune s)"
    show ?thesis
    proof (cases "class_ranges (snd (skip_negation cs)) ?r 0 False")
      case None
      then have "class_ranges (snd (skip_negation cs)) 0 0 False = None"
        using class_ranges_None [of _ ?r 0 False 0] by blast
      with None True show ?thesis by (simp add: match_chunk.simps(2))
    next
      case (Some q)
      obtain b rest where q: "q = (b, rest)" by (metis prod.collapse)
      from Some q class_ranges_Some [of _ ?r 0 False b rest 0 False] obtain b'
        where other: "class_ranges (snd (skip_negation cs)) 0 0 False = Some (b', rest)" by auto
      have ih: "match_chunk rest g t = Bad \<longleftrightarrow> match_chunk rest True [] = Bad"
        if "g = (f \<or> s = [] \<or> b = fst (skip_negation cs))"
          and "t = (if f \<or> s = [] then s else drop (snd (decode_rune s)) s)" for g t
        using "2.IH"(1) [OF refl True Some q [symmetric]] that by simp
      show ?thesis
        using ih [OF refl refl] Some q True other
        by (simp add: match_chunk.simps(2) [of "CHR ''[''"])
    qed
  next
    case False
    with 2 show ?thesis by (auto simp: match_chunk.simps(2) split: list.splits)
  qed
qed

lemma scanChunk_split:
  "scanChunk pattern = (star, chunk, rest) \<Longrightarrow>
     pattern = takeWhile (\<lambda>c. c = CHR ''*'') pattern @ chunk @ rest"
proof -
  have "pattern = takeWhile (\<lambda>c. c = CHR ''*'') pattern @ dropWhile (\<lambda>c. c = CHR ''*'') pattern"
    by simp
  moreover assume "scanChunk pattern = (star, chunk, rest)"
  then have "dropWhile (\<lambda>c. c = CHR ''*'') pattern = chunk @ rest"
    by (auto simp: scanChunk_def Let_def)
  ultimately show ?thesis by metis
qed

lemma scanChunk_no_chunk:
  assumes "scanChunk pattern = (star, [], rest)"
  shows "rest = []"
proof (cases "dropWhile (\<lambda>c. c = CHR ''*'') pattern")
  case (Cons c cs)
  then have "c \<noteq> CHR ''*''" using hd_dropWhile [of "\<lambda>c. c = CHR ''*''" pattern] by simp
  from chunk_length_pos [OF this, of cs False] have "take (chunk_length (c # cs) False) (c # cs) \<noteq> []"
    by (simp del: chunk_length.simps)
  with Cons assms show ?thesis by (simp add: scanChunk_def Let_def del: chunk_length.simps)
next
  case Nil
  with assms show ?thesis unfolding scanChunk_def Let_def by auto
qed

lemma star_search_Yes:
  "star_search chunk final name = Yes t \<Longrightarrow>
     \<exists>u v. name = u @ v \<and> slash \<notin> set u \<and> match_chunk chunk False v = Yes t"
proof (induction name)
  case (Cons c cs)
  from Cons.prems have here: "c \<noteq> slash" by (auto split: if_splits)
  show ?case
  proof (cases "match_chunk chunk False cs = Yes t")
    case True
    with here show ?thesis by (intro exI [of _ "[c]"] exI [of _ cs]) auto
  next
    case False
    with Cons.prems here have "star_search chunk final cs = Yes t"
      by (auto split: chunk_result.splits if_splits)
    from Cons.IH [OF this] obtain u v
      where "cs = u @ v" and "slash \<notin> set u" and "match_chunk chunk False v = Yes t" by blast
    with here show ?thesis by (intro exI [of _ "c # u"] exI [of _ v]) auto
  qed
qed simp

lemma star_search_Bad: "star_search chunk final name = Bad \<Longrightarrow> match_chunk chunk True [] = Bad"
proof (induction name)
  case (Cons c cs)
  show ?case
  proof (cases "match_chunk chunk False cs")
    case Bad
    then show ?thesis using match_chunk_Bad [of chunk False cs] by simp
  qed (use Cons in \<open>auto split: if_splits\<close>)
qed simp

text \<open>A match reports \<open>ErrBadPattern\<close> exactly on the malformed patterns, whatever the name.\<close>

lemma next_name_Bad: "next_name star chunk final name = Bad \<longleftrightarrow> match_chunk chunk True [] = Bad"
  using star_search_Bad [of chunk final name] match_chunk_Bad [of chunk False name]
  by (auto simp: next_name_def split: chunk_result.splits)

lemma Match_wellformed: "Match pattern name \<noteq> None \<longleftrightarrow> rest_wellformed pattern"
proof (induction pattern arbitrary: name rule: measure_induct_rule [where f = length])
  case (less pattern)
  show ?case
  proof (cases "pattern = []")
    case True
    then show ?thesis by (simp add: Match.simps rest_wellformed.simps)
  next
    case False
    obtain star chunk rest where scan: "scanChunk pattern = (star, chunk, rest)"
      by (metis prod.collapse)
    have wf: "rest_wellformed pattern \<longleftrightarrow> match_chunk chunk True [] \<noteq> Bad \<and> rest_wellformed rest"
      using False scan match_chunk_Bad [of chunk False "[]"]
      by (simp add: rest_wellformed.simps [of pattern])
    note ih = less.IH [OF scanChunk_shorter [OF False scan]]
    show ?thesis
    proof (cases "star \<and> chunk = []")
      case True
      with scan have "rest = []" by (auto dest: scanChunk_no_chunk)
      with True False scan wf show ?thesis by (simp add: Match.simps [of pattern] rest_wellformed.simps)
    next
      case ongoing: False
      show ?thesis
        using ongoing False scan wf ih next_name_Bad [of star chunk "rest = []" name]
        by (cases "next_name star chunk (rest = []) name")
           (auto simp: Match.simps [of pattern] mismatch_def)
    qed
  qed
qed

subsection \<open>Slashes\<close>

lemma match_chunk_failed [simp]: "match_chunk chunk True s \<noteq> Yes t"
proof (induction chunk True s rule: match_chunk.induct)
  case (2 c cs s)
  then show ?case
    by (auto simp: match_chunk.simps(2) [of c] split: option.splits list.splits prod.splits)
qed simp

text \<open>All bytes of a rune behind the first are outside ASCII.\<close>

lemma byte_in_high: "byte_in lo hi c \<Longrightarrow> 128 \<le> lo \<Longrightarrow> 128 \<le> (of_char c :: nat)"
  by (simp add: byte_in_def)

lemma cont_high: "cont c \<Longrightarrow> 128 \<le> (of_char c :: nat)"
  by (simp add: cont_def)

lemma rune_size_high:
  "rune_size (a # r) = Some n \<Longrightarrow> c \<in> set (take (n - 1) r) \<Longrightarrow> 128 \<le> (of_char c :: nat)"
  unfolding rune_size_def
  by (auto dest: cont_high byte_in_high split: list.splits if_splits)

lemma rune_no_slash:
  assumes "a \<noteq> slash"
  shows "slash \<notin> set (take (snd (decode_rune (a # r))) (a # r))"
proof (cases "rune_size (a # r)")
  case None
  with assms show ?thesis by (simp add: decode_rune_def)
next
  case (Some n)
  then have "take n (a # r) = a # take (n - 1) r" by (cases n) (auto dest: rune_size_pos)
  moreover have "slash \<notin> set (take (n - 1) r)" using rune_size_high [OF Some, of slash] by auto
  ultimately show ?thesis using Some assms by (simp add: decode_rune_def)
qed

lemma byte_count_Cons [simp]: "count_char x (c # cs) = (if c = x then 1 else 0) + count_char x cs"
  by (simp add: count_char_def)

lemma byte_count_Nil [simp]: "count_char x [] = 0"
  by (simp add: count_char_def)

lemma byte_count_append [simp]: "count_char x (s @ t) = count_char x s + count_char x t"
  by (simp add: count_char_def)

lemma count_char_zero: "count_char x s = 0 \<longleftrightarrow> x \<notin> set s"
  by (simp add: count_char_def count_list_0_iff)

lemma count_char_rune:
  assumes "a \<noteq> slash"
  shows "count_char slash (drop (snd (decode_rune (a # r))) (a # r)) = count_char slash r"
proof -
  let ?n = "snd (decode_rune (a # r))"
  have "count_char slash (a # r) = count_char slash (take ?n (a # r)) + count_char slash (drop ?n (a # r))"
    by (metis append_take_drop_id byte_count_append)
  moreover have "count_char slash (take ?n (a # r)) = 0"
    using rune_no_slash [OF assms] by (simp add: count_char_zero)
  ultimately show ?thesis using assms by simp
qed

lemma match_chunk_slashes:
  "CHR ''['' \<notin> set chunk \<Longrightarrow> match_chunk chunk f s = Yes t \<Longrightarrow>
     count_char slash s = count_char slash chunk + count_char slash t"
proof (induction chunk f s rule: match_chunk.induct)
  case (1 f s)
  then show ?case by (simp split: if_splits)
next
  case (2 c cs f s)
  show ?case
  proof (cases "f \<or> s = []")
    case True
    with "2.prems" show ?thesis
      by (auto simp: match_chunk.simps(2) [of c] split: list.splits if_splits)
  next
    case False
    then obtain a r where s: "s = a # r" and f: "\<not> f" by (cases s) auto
    from "2.prems" have no_class: "c \<noteq> CHR ''[''" and rest: "CHR ''['' \<notin> set cs" by auto
    consider "c = CHR ''?''" | "c = backslash" | "c \<noteq> CHR ''?''" "c \<noteq> backslash" by blast
    then show ?thesis
    proof cases
      case 1
      with "2.prems"(2) s f have run: "match_chunk cs (a = slash) (drop (snd (decode_rune s)) s) = Yes t"
        by (simp add: match_chunk.simps(2) [of "CHR ''?''"])
      then have "a \<noteq> slash" by (metis match_chunk_failed)
      with "2.IH"(2) [OF refl no_class 1 rest] run f s show ?thesis
        using 1 count_char_rune [of a r] by simp
    next
      case 2
      with "2.prems"(2) s f obtain d ds where cs: "cs = d # ds"
        and run: "match_chunk ds (d \<noteq> a) r = Yes t"
        by (auto simp: match_chunk.simps(2) [of backslash] split: list.splits)
      then have "d = a" by (metis match_chunk_failed)
      with "2.IH"(3) [OF refl no_class _ 2 cs] run rest f s cs show ?thesis
        using 2 by simp
    next
      case 3
      with "2.prems"(2) no_class s f have run: "match_chunk cs (c \<noteq> a) r = Yes t"
        by (simp add: match_chunk.simps(2) [of c])
      then have "c = a" by (metis match_chunk_failed)
      with "2.IH"(4) [OF refl no_class 3 rest] run f s show ?thesis by simp
    qed
  qed
qed

lemma star_slashes: "\<forall>c \<in> set s. c = CHR ''*'' \<Longrightarrow> count_char slash s = 0"
  by (auto simp: count_char_zero)

lemma stars_slashes: "count_char slash (takeWhile (\<lambda>c. c = CHR ''*'') s) = 0"
  by (rule star_slashes) (auto dest: set_takeWhileD)

lemma scanChunk_slashes:
  "scanChunk pattern = (star, chunk, rest) \<Longrightarrow>
     count_char slash pattern = count_char slash chunk + count_char slash rest"
  by (metis scanChunk_split byte_count_append stars_slashes add_0)

lemma next_name_slashes:
  assumes "CHR ''['' \<notin> set chunk" and "next_name star chunk final name = Yes t"
  shows "count_char slash name = count_char slash chunk + count_char slash t"
proof (cases "match_chunk chunk False name = Yes t")
  case True
  with match_chunk_slashes [OF assms(1)] show ?thesis by blast
next
  case False
  with assms(2) have "star_search chunk final name = Yes t"
    by (auto simp: next_name_def split: chunk_result.splits if_splits)
  then obtain u v where "name = u @ v" and "slash \<notin> set u" and "match_chunk chunk False v = Yes t"
    using star_search_Yes by blast
  with match_chunk_slashes [OF assms(1)] show ?thesis by (simp add: count_char_zero [symmetric])
qed

text \<open>A pattern without a character class matches only names with as many slashes.\<close>

lemma Match_slashes:
  "CHR ''['' \<notin> set pattern \<Longrightarrow> Match pattern name = Some True \<Longrightarrow>
     count_char slash name = count_char slash pattern"
proof (induction pattern arbitrary: name rule: measure_induct_rule [where f = length])
  case (less pattern)
  show ?case
  proof (cases "pattern = []")
    case True
    with less.prems show ?thesis by (simp add: Match.simps)
  next
    case False
    obtain star chunk rest where scan: "scanChunk pattern = (star, chunk, rest)"
      by (metis prod.collapse)
    from scanChunk_split [OF scan] less.prems(1)
    have no_class: "CHR ''['' \<notin> set chunk" "CHR ''['' \<notin> set rest"
      by (metis Un_iff set_append)+
    show ?thesis
    proof (cases "star \<and> chunk = []")
      case True
      with less.prems(2) False scan have "slash \<notin> set name" by (simp add: Match.simps [of pattern])
      moreover from True scan have "rest = []" by (auto dest: scanChunk_no_chunk)
      ultimately show ?thesis
        using True scanChunk_slashes [OF scan] by (simp add: count_char_zero [symmetric])
    next
      case ongoing: False
      with less.prems(2) False scan obtain t where nn: "next_name star chunk (rest = []) name = Yes t"
        and "Match rest t = Some True"
        by (auto simp: Match.simps [of pattern] mismatch_def split: chunk_result.splits if_splits)
      with less.IH [OF scanChunk_shorter [OF False scan] no_class(2)]
        next_name_slashes [OF no_class(1) nn] scanChunk_slashes [OF scan]
      show ?thesis by simp
    qed
  qed
qed

subsection \<open>Literal patterns\<close>

definition literal :: "string \<Rightarrow> bool" where
  "literal p \<longleftrightarrow> set p \<inter> {CHR ''*'', CHR ''?'', CHR ''['', backslash} = {}"

lemma match_chunk_plain:
  "c \<noteq> CHR ''['' \<Longrightarrow> c \<noteq> CHR ''?'' \<Longrightarrow> c \<noteq> backslash \<Longrightarrow>
     match_chunk (c # cs) f s =
       match_chunk cs (f \<or> s = [] \<or> c \<noteq> hd s) (if f \<or> s = [] then s else tl s)"
  by (simp add: match_chunk.simps(2))

lemma literal_Cons:
  "literal (c # cs) \<longleftrightarrow>
     c \<noteq> CHR ''*'' \<and> c \<noteq> CHR ''['' \<and> c \<noteq> CHR ''?'' \<and> c \<noteq> backslash \<and> literal cs"
  by (auto simp: literal_def)

lemma match_chunk_literal_Cons:
  "literal (c # cs) \<Longrightarrow> match_chunk (c # cs) False (a # r) = match_chunk cs (c \<noteq> a) r"
  by (simp add: literal_Cons match_chunk_plain)

lemma match_chunk_literal: "literal p \<Longrightarrow> match_chunk p False s = Yes t \<longleftrightarrow> s = p @ t"
proof (induction p arbitrary: s)
  case (Cons c cs)
  show ?case
  proof (cases s)
    case Nil
    with Cons.prems show ?thesis by (simp add: literal_Cons match_chunk_plain)
  next
    case (Cons a r)
    with Cons.prems Cons.IH [of r] show ?thesis
      by (cases "c = a") (simp_all add: match_chunk_literal_Cons, simp add: literal_Cons)
  qed
qed simp

lemma match_chunk_literal_ok: "literal p \<Longrightarrow> match_chunk p f s \<noteq> Bad"
  by (induction p arbitrary: f s) (auto simp: match_chunk_plain literal_def)

lemma chunk_length_literal: "literal p \<Longrightarrow> chunk_length p False = length p"
  by (induction p) (auto simp: literal_def)

lemma scanChunk_literal: "literal p \<Longrightarrow> p \<noteq> [] \<Longrightarrow> scanChunk p = (False, p, [])"
  by (cases p) (auto simp: scanChunk_def Let_def chunk_length_literal literal_def
      simp del: chunk_length.simps)

lemma Match_literal:
  assumes "literal p"
  shows "Match p name = Some (name = p)"
proof (cases "p = []")
  case False
  show ?thesis
    using assms False match_chunk_literal [OF assms, of name] match_chunk_literal_ok [OF assms, of False name]
    by (cases "match_chunk p False name")
       (auto simp: Match.simps scanChunk_literal next_name_def mismatch_def rest_wellformed.simps)
qed (simp add: Match.simps)

subsection \<open>MatchesAny\<close>

fun MatchesAny :: "string \<Rightarrow> string list \<Rightarrow> bool" where
  "MatchesAny value [] = False"
| "MatchesAny value (pattern # patterns) =
     (case Match pattern value of
        Some True \<Rightarrow> True
      | _ \<Rightarrow> MatchesAny value patterns)"

lemma MatchesAny_iff: "MatchesAny value patterns \<longleftrightarrow> (\<exists>p \<in> set patterns. Match p value = Some True)"
  by (induction patterns) (auto split: option.splits bool.splits)

end
