(* ===== verification/Config_Model.thy ===== *)
theory Config_Model
  imports Complex_Main Go_Text
begin

section \<open>Configuration records: package config\<close>

text \<open>
  The configuration structs of \<^verbatim>\<open>internal/config/config.go\<close>. Durations are nanoseconds. A
  \<open>float64\<close> is a rational, or \<open>None\<close> for NaN; the infinities behave in the comparisons the code
  makes like any number outside the unit interval. The two maps of outbound clients are
  association lists: Go visits a map in an unspecified order, so a theorem about them may not
  depend on the order of the list.
\<close>

record app_config =
  appName :: string
  appSchema :: string
  appEnv :: string
  appShutdownTimeout :: int

record cors_config =
  corsEnabled :: bool
  corsAllowedOrigins :: "string list"
  corsAllowedHeaders :: "string list"
  corsExposedHeaders :: "string list"
  corsMaxAge :: int

record http_config =
  httpAddress :: string
  httpReadTimeout :: int
  httpWriteTimeout :: int
  httpIdleTimeout :: int
  httpRequestTimeout :: int
  httpMaxBodyBytes :: int
  httpTrustedProxies :: "string list"
  httpCORS :: cors_config

record grpc_tls_config =
  gtlsEnabled :: bool
  gtlsCertFile :: string
  gtlsKeyFile :: string
  gtlsClientCAFile :: string

record grpc_config =
  grpcEnabled :: bool
  grpcAddress :: string
  grpcReflectionEnabled :: bool
  grpcMaxReceiveBytes :: int
  grpcTLS :: grpc_tls_config

record database_config =
  dbcEnabled :: bool
  dbcName :: string
  dbcSchema :: string
  dbcType :: string
  dbcDSN :: string
  dbcMaxOpenConns :: int
  dbcMaxIdleConns :: int
  dbcConnMaxLifetime :: int
  dbcConnMaxIdleTime :: int
  dbcPingTimeout :: int

record redis_config =
  redisEnabled :: bool
  redisAddress :: string
  redisUsername :: string
  redisPassword :: string
  redisDB :: int
  redisDialTimeout :: int
  redisReadTimeout :: int
  redisWriteTimeout :: int

record health_config =
  healthDatabaseTimeout :: int
  healthRedisTimeout :: int

record rate_rule =
  ruleRate :: int
  ruleBurst :: int
  rulePeriod :: int

record rate_limit_config =
  rlEnabled :: bool
  rlFailOpen :: bool
  rlIP :: rate_rule
  rlAPI :: rate_rule
  rlUser :: rate_rule
  rlLogin :: rate_rule

record observability_config =
  obsMetricsEnabled :: bool
  obsTracingEnabled :: bool
  obsTracingEndpoint :: string
  obsTracingSampleRatio :: "rat option"
  obsPprofEnabled :: bool
  obsPprofToken :: string

record swagger_config =
  swEnabled :: bool
  swRequireAuth :: bool

record jwt_config =
  jwtIssuer :: string
  jwtSecret :: string
  jwtTTL :: int

record psk_config =
  pskEnabled :: bool
  pskKey :: string
  pskHTTPPaths :: "string list"
  pskGRPCMethods :: "string list"

record auth_config =
  authJWKSURL :: string
  authIssuer :: string
  authAudience :: string
  authClientID :: string
  authClientSecret :: string
  authSkipHTTPPaths :: "string list"
  authSkipGRPCMethods :: "string list"
  authPSK :: psk_config

record cron_config =
  cronEnabled :: bool
  cronTimezone :: string
  cronSampleSpec :: string
  cronExecutionRetention :: int
  cronExecutionCleanupInterval :: int
  cronExecutionCleanupBatchSize :: int

record migration_config =
  migAutoUp :: bool
  migCreateSchema :: bool
  migPath :: string
  migDatabaseURL :: string
  migTable :: string
  migSchema :: string
  migDatabaseName :: string

record user_config =
  userCacheTTL :: int
  userLockTTL :: int
  userLockRetryDelay :: int

record idempotency_config =
  idemEnabled :: bool
  idemHTTPPaths :: "string list"
  idemGRPCMethods :: "string list"
  idemProcessingTTL :: int
  idemResultTTL :: int
  idemFailureTTL :: int

record event_bus_config =
  busEnabled :: bool
  busURLs :: "string list"
  busStreamName :: string
  busSubjects :: "string list"
  busStorage :: string
  busMaxAge :: int
  busDuplicateWindow :: int
  busConnectTimeout :: int
  busReconnectWait :: int
  busPublishTimeout :: int
  busConsumerAckWait :: int
  busConsumerMaxDeliver :: int

record operation_log_config =
  olEnabled :: bool
  olSubject :: string
  olMaxPayloadBytes :: int

record client_auth =
  caType :: string
  caToken :: string

record retry =
  MaxAttempts :: int
  InitialBackoff :: int
  MaxBackoff :: int
  Methods :: "string list"

record breaker =
  brEnabled :: bool
  FailureThreshold :: int
  OpenTimeout :: int

record client_tls =
  tlsEnabled :: bool
  tlsAllowInsecure :: bool
  tlsServerName :: string
  tlsCAFile :: string
  tlsCertFile :: string
  tlsKeyFile :: string

text \<open>\<open>HTTPUpstream\<close> and \<open>GRPCUpstream\<close>: \<open>upAddress\<close> is the base URL or the target.\<close>

record upstream =
  upAddress :: string
  upTimeout :: int
  upAuth :: client_auth
  upRetry :: retry
  upBreaker :: breaker
  upTLS :: client_tls

record log_config =
  logLevel :: string
  logFormat :: string
  logFile :: string
  logMaxSizeMB :: int
  logMaxBackups :: int
  logMaxAgeDays :: int
  logCompress :: bool

text \<open>\<open>Runtime\<close>: the profile and the files the configuration was read from.\<close>

record load_info =
  activeProfile :: string
  configFiles :: "string list"

record config =
  cRuntime :: load_info
  cLog :: log_config
  cApp :: app_config
  cHTTP :: http_config
  cGRPC :: grpc_config
  cDatabase :: database_config
  cRedis :: redis_config
  cHealth :: health_config
  cRateLimit :: rate_limit_config
  cObservability :: observability_config
  cSwagger :: swagger_config
  cJWT :: jwt_config
  cAuth :: auth_config
  cAuthorizationEnabled :: bool
  cCron :: cron_config
  cMigration :: migration_config
  cUser :: user_config
  cIdempotency :: idempotency_config
  cOutboundHTTP :: "(string \<times> upstream) list"
  cOutboundGRPC :: "(string \<times> upstream) list"
  cEventBus :: event_bus_config
  cOperationLog :: operation_log_config

end
