(* ===== verification/Auth.thy ===== *)
theory Auth
  imports World Path_Match Config_Model
begin

section \<open>Identity: package auth, and request ids\<close>

text \<open>
  \<^verbatim>\<open>internal/auth/psk.go\<close> (pre-shared keys), \<^verbatim>\<open>internal/auth/jwt.go\<close> (the client credentials and
  the tokens of the service) and \<^verbatim>\<open>internal/requestid/requestid.go\<close>. The JWT library and the
  JWKS verifier are parameters: a signer, a parser that is handed the key function and the
  expected issuer, and a verifier. Times in claims are whole seconds.
\<close>

subsection \<open>EqualFold\<close>

text \<open>
  \<open>strings.EqualFold\<close> against an ASCII word: ASCII letters fold to lower case, and the two runes
  outside ASCII that fold to an ASCII letter are the Kelvin sign and the long s.
\<close>

fun fold_key :: "string \<Rightarrow> string" where
  "fold_key [] = []"
| "fold_key (c # cs) =
     (if starts_with [CHR 0xE2, CHR 0x84, CHR 0xAA] (c # cs) then CHR ''k'' # fold_key (drop 2 cs)
      else if starts_with [CHR 0xC5, CHR 0xBF] (c # cs) then CHR ''s'' # fold_key (drop 1 cs)
      else lower_char c # fold_key cs)"

definition EqualFold :: "string \<Rightarrow> string \<Rightarrow> bool" where
  "EqualFold s word \<longleftrightarrow> fold_key s = fold_key word"

subsection \<open>Pre-shared keys\<close>

text \<open>\<open>subtle.ConstantTimeCompare\<close> is equality of byte slices.\<close>

definition VerifyPSK :: "string \<Rightarrow> string \<Rightarrow> bool" where
  "VerifyPSK authorization expected =
     (case cut CHR '' '' authorization of
        None \<Rightarrow> False
      | Some (scheme, supplied) \<Rightarrow>
          if \<not> EqualFold scheme ''PSK'' \<or> supplied = [] \<or> length supplied \<noteq> length expected then False
          else supplied = expected)"

lemma VerifyPSK_iff:
  "VerifyPSK a k \<longleftrightarrow> (\<exists>scheme. a = scheme @ CHR '' '' # k \<and> CHR '' '' \<notin> set scheme \<and>
     EqualFold scheme ''PSK'' \<and> k \<noteq> [])"
  by (auto simp: VerifyPSK_def cut_append cut_None split: option.splits dest: cut_Some)

subsection \<open>Tokens\<close>

record claims =
  clIssuer :: string
  clSubject :: string
  clID :: string
  clIssuedAt :: int
  clNotBefore :: int
  clExpiresAt :: int

text \<open>\<open>authn.JWKSVerifier.VerifyBearer\<close> of the platform library is the field \<open>jsVerifier\<close>.\<close>

record jwt_service =
  jsIssuer :: string
  jsSecret :: string
  jsTTL :: int
  jsClientID :: string
  jsClientSecret :: string
  jsVerifier :: "(string \<Rightarrow> go_error + principal) option"

definition New_auth :: "config \<Rightarrow> jwt_service" where
  "New_auth cfg =
     \<lparr>jsIssuer = jwtIssuer (cJWT cfg), jsSecret = jwtSecret (cJWT cfg), jsTTL = jwtTTL (cJWT cfg),
      jsClientID = authClientID (cAuth cfg), jsClientSecret = authClientSecret (cAuth cfg),
      jsVerifier = None\<rparr>"

definition NewRuntime_auth ::
  "(string \<Rightarrow> string \<Rightarrow> string \<Rightarrow> go_error + (string \<Rightarrow> go_error + principal)) \<Rightarrow> config \<Rightarrow>
   go_error + jwt_service" where
  "NewRuntime_auth newJWKSVerifier cfg =
     (let service = New_auth cfg in
      if authJWKSURL (cAuth cfg) = [] then Inr service
      else case newJWKSVerifier (authJWKSURL (cAuth cfg)) (authIssuer (cAuth cfg)) (authAudience (cAuth cfg)) of
        Inl e \<Rightarrow> Inl (Wrapped ''configure identity token verifier'' e)
      | Inr verifier \<Rightarrow> Inr (service\<lparr>jsVerifier := Some verifier\<rparr>))"

definition Enabled :: "jwt_service \<Rightarrow> bool" where
  "Enabled s \<longleftrightarrow> 32 \<le> length (jsSecret s) \<and> jsClientID s \<noteq> [] \<and> jsClientSecret s \<noteq> []"

definition Authenticate :: "jwt_service \<Rightarrow> string \<Rightarrow> string \<Rightarrow> bool" where
  "Authenticate s clientID clientSecret =
     (if \<not> Enabled s then False else clientID = jsClientID s \<and> clientSecret = jsClientSecret s)"

text \<open>
  The JWT library: \<open>sign\<close> is \<open>SignedString\<close> with HS256, \<open>parse\<close> is \<open>ParseWithClaims\<close> with the key
  function, the expected issuer and the time, for the options \<open>WithIssuer\<close>,
  \<open>WithExpirationRequired\<close> and \<open>WithIssuedAt\<close>; the key function maps a signing method to a key.
\<close>

record jwt_library =
  jlSign :: "string \<Rightarrow> claims \<Rightarrow> go_error + string"
  jlParse :: "string \<Rightarrow> (string \<Rightarrow> go_error + string) \<Rightarrow> string \<Rightarrow> int \<Rightarrow> go_error + (claims \<times> bool)"

definition numeric_date :: "time \<Rightarrow> int" where
  "numeric_date t = t div 1000000000"

text \<open>\<open>base64.RawURLEncoding\<close> of sixteen random bytes; the bytes come from the caller.\<close>

definition base64url :: "nat \<Rightarrow> char" where
  "base64url n =
     (if n < 26 then char_of (65 + n) else if n < 52 then char_of (71 + n)
      else if n < 62 then char_of (n - 4) else if n = 62 then CHR ''-'' else CHR ''_'')"

fun raw_url_encode :: "nat list \<Rightarrow> string" where
  "raw_url_encode (a # b # c # r) =
     base64url (a div 4) # base64url ((a mod 4) * 16 + b div 16) #
     base64url ((b mod 16) * 4 + c div 64) # base64url (c mod 64) # raw_url_encode r"
| "raw_url_encode [a, b] =
     [base64url (a div 4), base64url ((a mod 4) * 16 + b div 16), base64url ((b mod 16) * 4)]"
| "raw_url_encode [a] = [base64url (a div 4), base64url ((a mod 4) * 16)]"
| "raw_url_encode [] = []"

definition randomID :: "go_error + nat list \<Rightarrow> go_error + string" where
  "randomID r = (case r of Inl e \<Rightarrow> Inl e | Inr bytes \<Rightarrow> Inr (raw_url_encode bytes))"

definition Issue ::
  "jwt_library \<Rightarrow> jwt_service \<Rightarrow> time \<Rightarrow> go_error + nat list \<Rightarrow> string \<Rightarrow> go_error + string" where
  "Issue lib s now random subject =
     (if \<not> Enabled s then Inl (ErrorString ''authentication is not configured'')
      else case randomID random of
        Inl e \<Rightarrow> Inl (Wrapped ''create token id'' e)
      | Inr jti \<Rightarrow>
          jlSign lib (jsSecret s)
            \<lparr>clIssuer = jsIssuer s, clSubject = subject, clID = jti, clIssuedAt = numeric_date now,
             clNotBefore = numeric_date now, clExpiresAt = numeric_date (now + jsTTL s)\<rparr>)"

definition key_function :: "jwt_service \<Rightarrow> string \<Rightarrow> go_error + string" where
  "key_function s method =
     (if method \<noteq> ''HS256'' then Inl (ErrorString (''unexpected signing method '' @ method))
      else Inr (jsSecret s))"

definition Parse :: "jwt_library \<Rightarrow> jwt_service \<Rightarrow> time \<Rightarrow> string \<Rightarrow> go_error + claims" where
  "Parse lib s now raw =
     (if \<not> Enabled s then Inl (ErrorString ''authentication is not configured'')
      else case jlParse lib raw (key_function s) (jsIssuer s) now of
        Inl e \<Rightarrow> Inl (Wrapped ''parse jwt'' e)
      | Inr (claims, valid) \<Rightarrow>
          if \<not> valid then Inl (ErrorString ''invalid jwt claims'') else Inr claims)"

definition Verify :: "jwt_library \<Rightarrow> jwt_service \<Rightarrow> time \<Rightarrow> string \<Rightarrow> go_error + principal" where
  "Verify lib s now raw =
     (case jsVerifier s of
        Some verify \<Rightarrow> verify raw
      | None \<Rightarrow>
          (case Parse lib s now raw of
             Inl e \<Rightarrow> Inl e
           | Inr claims \<Rightarrow> Inr \<lparr>pID = clSubject claims, pType = TypeServiceAccount, pTenantID = []\<rparr>))"

text \<open>
  What the library documents: it accepts a token exactly when the key function gives a key for
  its method, the signature is right, the issuer is the expected one (when one is expected), and
  the time lies between issue and expiry.
\<close>

definition in_force :: "claims \<Rightarrow> time \<Rightarrow> bool" where
  "in_force c now \<longleftrightarrow> clIssuedAt c * 1000000000 \<le> now \<and> clNotBefore c * 1000000000 \<le> now \<and>
     now < clExpiresAt c * 1000000000"

definition signing_works :: "jwt_library \<Rightarrow> bool" where
  "signing_works lib \<longleftrightarrow> (\<forall>secret c raw key issuer now.
     jlSign lib secret c = Inr raw \<longrightarrow> key ''HS256'' = Inr secret \<longrightarrow> clIssuer c = issuer \<longrightarrow> in_force c now \<longrightarrow>
     jlParse lib raw key issuer now = Inr (c, True))"

lemma numeric_date_le: "numeric_date now * 1000000000 \<le> now"
  by (simp add: numeric_date_def minus_mod_eq_div_mult [symmetric])

subsection \<open>Request ids\<close>

definition allowedCharacter :: "char \<Rightarrow> bool" where
  "allowedCharacter c \<longleftrightarrow>
     byte_in 97 122 c \<or> byte_in 65 90 c \<or> byte_in 48 57 c \<or> c \<in> set ''-_.''"

text \<open>A rune outside ASCII, well-formed or not, is never allowed; so the test is per byte.\<close>

definition Valid_request_id :: "string \<Rightarrow> bool" where
  "Valid_request_id value =
     (if value = [] \<or> 128 < length value then False else list_all allowedCharacter value)"

definition hex_digit :: "nat \<Rightarrow> char" where
  "hex_digit n = (if n < 10 then char_of (48 + n) else char_of (87 + n))"

fun hex_encode :: "nat list \<Rightarrow> string" where
  "hex_encode [] = []"
| "hex_encode (b # bs) = hex_digit (b div 16) # hex_digit (b mod 16) # hex_encode bs"

fun nat_text :: "nat \<Rightarrow> string" where
  "nat_text n = (if n < 10 then [char_of (48 + n)] else nat_text (n div 10) @ [char_of (48 + n mod 10)])"

declare nat_text.simps [simp del]

definition int_text :: "int \<Rightarrow> string" where
  "int_text i = (if i < 0 then CHR ''-'' # nat_text (nat (- i)) else nat_text (nat i))"

text \<open>\<open>Generate\<close>: sixteen random bytes in hexadecimal, or the time if there are none.\<close>

definition Generate :: "nat list option \<Rightarrow> time \<Rightarrow> string" where
  "Generate random now =
     (case random of
        None \<Rightarrow> ''fallback-'' @ int_text now
      | Some bytes \<Rightarrow> hex_encode bytes)"

end
