(* ===== verification/Json.thy ===== *)
theory Json
  imports Auth
begin

section \<open>JSON documents and Go structs\<close>

text \<open>
  What \<open>encoding/json\<close> does between a document and a struct with \<open>json\<close> tags, which is how the
  HTTP transport reads its requests. A document is the value its text denotes; the lexical level
  (white space, escapes, the text of a number) belongs to the library. A number is an integer
  literal or another literal, since only the first kind can be stored in an integer field.

  A struct is a list of fields, each with its tag and the way a value is stored in it. \<open>None\<close> is
  an \<open>UnmarshalTypeError\<close>: the library goes on with the other members and reports it at the end,
  so that the whole document is refused whatever comes after it.
\<close>

datatype json =
    JNull
  | JBool bool
  | JInt int
  | JReal string                         \<comment> \<open>a literal with a fraction or an exponent\<close>
  | JStr string
  | JArr "json list"
  | JObj "(string \<times> json) list"

type_synonym 'r store = "json \<Rightarrow> 'r \<Rightarrow> 'r option"
type_synonym 'r struct = "(string \<times> 'r store) list"

subsection \<open>Members and fields\<close>

text \<open>A name in the document is looked up as it is, then without regard to case.\<close>

definition find_field :: "'r struct \<Rightarrow> string \<Rightarrow> 'r store option" where
  "find_field fs key =
     (case map_of fs key of
        Some s \<Rightarrow> Some s
      | None \<Rightarrow> map_option snd (find (\<lambda>(name, s). EqualFold key name) fs))"

fun store_members :: "'r struct \<Rightarrow> (string \<times> json) list \<Rightarrow> 'r \<Rightarrow> 'r option" where
  "store_members fs [] r = Some r"
| "store_members fs ((key, v) # ms) r =
     (case find_field fs key of
        None \<Rightarrow> store_members fs ms r
      | Some s \<Rightarrow> Option.bind (s v r) (store_members fs ms))"

definition store_object :: "'r struct \<Rightarrow> 'r store" where
  "store_object fs v r =
     (case v of
        JObj ms \<Rightarrow> store_members fs ms r
      | JNull \<Rightarrow> Some r
      | _ \<Rightarrow> None)"

text \<open>The fields of an embedded struct are fields of the struct around it.\<close>

definition embedded :: "('r \<Rightarrow> 'e) \<Rightarrow> ('e \<Rightarrow> 'r \<Rightarrow> 'r) \<Rightarrow> 'e struct \<Rightarrow> 'r struct" where
  "embedded get put fs = map (\<lambda>(name, s). (name, \<lambda>v r. map_option (\<lambda>e. put e r) (s v (get r)))) fs"

subsection \<open>Values\<close>

text \<open>\<open>null\<close> leaves a plain field as it is and makes a pointer or a slice nil.\<close>

definition string_field :: "(string \<Rightarrow> 'r \<Rightarrow> 'r) \<Rightarrow> 'r store" where
  "string_field put v r = (case v of JStr s \<Rightarrow> Some (put s r) | JNull \<Rightarrow> Some r | _ \<Rightarrow> None)"

definition int_field :: "(int \<Rightarrow> 'r \<Rightarrow> 'r) \<Rightarrow> 'r store" where
  "int_field put v r =
     (case v of JInt n \<Rightarrow> if in_i64 n then Some (put n r) else None | JNull \<Rightarrow> Some r | _ \<Rightarrow> None)"

definition bool_field :: "(bool \<Rightarrow> 'r \<Rightarrow> 'r) \<Rightarrow> 'r store" where
  "bool_field put v r = (case v of JBool b \<Rightarrow> Some (put b r) | JNull \<Rightarrow> Some r | _ \<Rightarrow> None)"

text \<open>
  The elements of an array are stored into those the slice already has, so that a \<open>null\<close> keeps
  the old element or leaves a new one empty. (A slice that shrinks and grows again within one
  document would bring back elements of its backing array; that is not shown.)
\<close>

fun store_elements :: "string list \<Rightarrow> json list \<Rightarrow> string list option" where
  "store_elements old [] = Some []"
| "store_elements old (v # vs) =
     (let (present, rest) = (case old of [] \<Rightarrow> ([], []) | x # xs \<Rightarrow> (x, xs)) in
      case v of
        JStr s \<Rightarrow> map_option ((#) s) (store_elements rest vs)
      | JNull \<Rightarrow> map_option ((#) present) (store_elements rest vs)
      | _ \<Rightarrow> None)"

definition strings_field :: "('r \<Rightarrow> string list) \<Rightarrow> (string list \<Rightarrow> 'r \<Rightarrow> 'r) \<Rightarrow> 'r store" where
  "strings_field get put v r =
     (case v of
        JArr vs \<Rightarrow> map_option (\<lambda>xs. put xs r) (store_elements (get r) vs)
      | JNull \<Rightarrow> Some (put [] r)
      | _ \<Rightarrow> None)"

definition int_pointer :: "(int option \<Rightarrow> 'r \<Rightarrow> 'r) \<Rightarrow> 'r store" where
  "int_pointer put v r =
     (case v of
        JInt n \<Rightarrow> if in_i64 n then Some (put (Some n) r) else None
      | JNull \<Rightarrow> Some (put None r)
      | _ \<Rightarrow> None)"

text \<open>The text of a time is read by \<open>time.Time.UnmarshalJSON\<close>, the argument \<open>parse\<close>.\<close>

definition time_pointer :: "(string \<Rightarrow> 't option) \<Rightarrow> ('t option \<Rightarrow> 'r \<Rightarrow> 'r) \<Rightarrow> 'r store" where
  "time_pointer parse put v r =
     (case v of
        JStr s \<Rightarrow> map_option (\<lambda>t. put (Some t) r) (parse s)
      | JNull \<Rightarrow> Some (put None r)
      | _ \<Rightarrow> None)"

lemmas field_defs = string_field_def int_field_def bool_field_def strings_field_def int_pointer_def time_pointer_def

text \<open>The zero-value pointers that \<open>Marshal\<close> writes.\<close>

definition time_json :: "('t \<Rightarrow> string) \<Rightarrow> 't option \<Rightarrow> json" where
  "time_json format t = (case t of None \<Rightarrow> JNull | Some t \<Rightarrow> JStr (format t))"

definition int_json :: "int option \<Rightarrow> json" where
  "int_json n = (case n of None \<Rightarrow> JNull | Some n \<Rightarrow> JInt n)"

definition strings_json :: "string list \<Rightarrow> json" where
  "strings_json xs = JArr (map JStr xs)"

subsection \<open>Laws\<close>

lemma find_field_exact: "map_of fs key = Some s \<Longrightarrow> find_field fs key = Some s"
  by (simp add: find_field_def)

lemma find_Some: "find P xs = Some x \<Longrightarrow> x \<in> set xs \<and> P x"
  by (induction xs) (auto split: if_splits)

lemma find_field_Some:
  assumes "find_field fs key = Some s"
  shows "\<exists>name. (name, s) \<in> set fs \<and> EqualFold key name"
proof (cases "map_of fs key")
  case None
  with assms obtain name s' where "find (\<lambda>(name, s). EqualFold key name) fs = Some (name, s')" "s' = s"
    by (auto simp: find_field_def)
  then show ?thesis by (auto dest!: find_Some)
next
  case (Some s')
  with assms show ?thesis by (auto simp: find_field_def EqualFold_def dest: map_of_SomeD)
qed

lemma store_members_exact:
  "map_of fs key = Some s \<Longrightarrow>
     store_members fs ((key, v) # ms) r = Option.bind (s v r) (store_members fs ms)"
  by (simp add: find_field_exact)

lemma map_of_embedded:
  "map_of (embedded get put fs) key =
     map_option (\<lambda>s v r. map_option (\<lambda>e. put e r) (s v (get r))) (map_of fs key)"
  by (induction fs) (auto simp: embedded_def)

text \<open>A field that no member names keeps its value.\<close>

lemma store_members_keeps:
  assumes "store_members fs ms r = Some r'"
    and "\<And>name s v r r'. (name, s) \<in> set fs \<Longrightarrow> name \<noteq> p \<Longrightarrow> s v r = Some r' \<Longrightarrow> get r' = get r"
    and "\<And>key v. (key, v) \<in> set ms \<Longrightarrow> \<not> EqualFold key p"
  shows "get r' = get r"
  using assms(1,3)
proof (induction ms arbitrary: r)
  case (Cons m ms)
  obtain key v where m: "m = (key, v)" by (cases m)
  show ?case
  proof (cases "find_field fs key")
    case None
    with Cons m show ?thesis by auto
  next
    case (Some s)
    with Cons.prems(1) m obtain r1 where r1: "s v r = Some r1" "store_members fs ms r1 = Some r'"
      by (auto simp: bind_eq_Some_conv)
    from find_field_Some [OF Some] obtain name where name: "(name, s) \<in> set fs" "EqualFold key name" by blast
    with Cons.prems(2) [of key v] m have "name \<noteq> p" by auto
    with assms(2) name r1 have "get r1 = get r" by blast
    moreover have "get r' = get r1" using Cons.IH [OF r1(2)] Cons.prems(2) m by auto
    ultimately show ?thesis by simp
  qed
qed simp

text \<open>A document is stored when every one of its members is.\<close>

lemma store_members_total:
  assumes "\<And>key v s r. (key, v) \<in> set ms \<Longrightarrow> find_field fs key = Some s \<Longrightarrow> s v r \<noteq> None"
  shows "\<exists>r'. store_members fs ms r = Some r'"
  using assms
proof (induction ms arbitrary: r)
  case (Cons m ms)
  obtain key v where m: "m = (key, v)" by (cases m)
  have rest: "\<exists>r'. store_members fs ms r = Some r'" for r
    by (rule Cons.IH) (rule Cons.prems, auto)
  show ?case
  proof (cases "find_field fs key")
    case None
    with rest m show ?thesis by simp
  next
    case (Some s)
    with Cons.prems [of key v s r] m obtain r1 where "s v r = Some r1" by auto
    with Some rest m show ?thesis by simp
  qed
qed simp

text \<open>What \<open>Marshal\<close> makes of a slice of strings is stored as that slice.\<close>

lemma store_elements_strings: "store_elements old (map JStr xs) = Some xs"
  by (induction xs arbitrary: old) (simp_all split: list.split prod.split)

lemma strings_field_json [simp]: "strings_field get put (strings_json xs) r = Some (put xs r)"
  by (simp add: strings_field_def strings_json_def store_elements_strings)

lemma time_pointer_json:
  "(\<And>t. parse (format t) = Some t) \<Longrightarrow> time_pointer parse put (time_json format t) r = Some (put t r)"
  by (simp add: time_pointer_def time_json_def split: option.split)

lemma int_pointer_json:
  "pred_option in_i64 n \<Longrightarrow> int_pointer put (int_json n) r = Some (put n r)"
  by (cases n) (simp_all add: int_pointer_def int_json_def)

end
