(* ===== verification/Http_Middleware.thy ===== *)
theory Http_Middleware
  imports Auth
begin

section \<open>HTTP middleware: package httptransport, middleware.go\<close>

text \<open>
  A request passes a chain of handlers. A handler is a function of the gin context and of a
  state \<open>'w\<close> (the database and the stores the request touches); a middleware takes the rest of
  the chain, which is what \<open>c.Next()\<close> runs, and aborting is not running it. The response is a
  value of \<open>Response\<close>; since every body the service writes is the JSON of such a value, the
  bytes stand for the value. The stores behind the rate limiter and the idempotency manager,
  the authorizer of the platform library, \<open>mime.ParseMediaType\<close>, SHA-256 and the reader of the
  body are parameters. The metrics and the recovery from panics are in
  \<open>Servers\<close>, the request logger in \<open>Http_Server\<close>.
\<close>

subsection \<open>Context and responses\<close>

record 'b response =
  rCode :: int
  rMessage :: string
  rBody :: "'b option"              \<comment> \<open>\<open>None\<close> is null\<close>
  rRequestID :: string

record 'b gin =
  gMethod :: string
  gFullPath :: string               \<comment> \<open>the pattern of the route, empty when none matched\<close>
  gHeader :: "string \<Rightarrow> string"
  gContentLength :: int
  gTLS :: bool
  gClientIP :: string
  gReadBody :: "go_error + string"
  gBodyLimit :: "int option"
  gRequestID :: string
  gEnvironment :: string
  gSubject :: "string option"
  gCtx :: go_context
  gCredential :: "string option"    \<comment> \<open>the caller credential in the context\<close>
  gOut :: "(string \<times> string) list"  \<comment> \<open>response headers\<close>
  gWritten :: "(int \<times> 'b response option) option"
  gMore :: "'b response list"       \<comment> \<open>bodies written after that response, which keeps its status\<close>

type_synonym ('b, 'w) handler = "'b gin \<times> 'w \<Rightarrow> 'b gin \<times> 'w"
type_synonym ('b, 'w) middleware = "('b, 'w) handler \<Rightarrow> ('b, 'w) handler"

definition set_header :: "string \<Rightarrow> string \<Rightarrow> 'b gin \<Rightarrow> 'b gin" where
  "set_header k v c = c\<lparr>gOut := filter (\<lambda>(k', v'). k' \<noteq> k) (gOut c) @ [(k, v)]\<rparr>"

definition write_json :: "int \<Rightarrow> 'b response \<Rightarrow> 'b gin \<Rightarrow> 'b gin" where
  "write_json status r c = c\<lparr>gWritten := Some (status, Some r)\<rparr>"

definition write_status :: "int \<Rightarrow> 'b gin \<Rightarrow> 'b gin" where
  "write_status status c = c\<lparr>gWritten := Some (status, None)\<rparr>"

definition OK :: "'b \<Rightarrow> 'b gin \<Rightarrow> 'b gin" where
  "OK body c = write_json 200 \<lparr>rCode = CodeOK, rMessage = ''success'', rBody = Some body, rRequestID = gRequestID c\<rparr> c"

definition Fail :: "go_error \<Rightarrow> 'b gin \<Rightarrow> 'b gin" where
  "Fail e c =
     (let (status, code, message) = fail_response e
      in write_json status \<lparr>rCode = code, rMessage = message, rBody = None, rRequestID = gRequestID c\<rparr> c)"

definition stop_with :: "int \<Rightarrow> int \<Rightarrow> string \<Rightarrow> 'b gin \<Rightarrow> 'b gin" where
  "stop_with status code message c =
     write_json status \<lparr>rCode = code, rMessage = message, rBody = None, rRequestID = gRequestID c\<rparr> c"

subsection \<open>Request id, environment, idempotency key\<close>

definition RequestID_mw :: "string \<Rightarrow> ('b, 'w) middleware" where
  "RequestID_mw generated next = (\<lambda>(c, w).
     let given = gHeader c ''X-Request-ID'';
         i = (if \<not> Valid_request_id given then generated else given);
         c = set_header ''X-Request-ID'' i (c\<lparr>gRequestID := i\<rparr>)
     in next (c\<lparr>gCtx := (gCtx c)\<lparr>cRequestID := Some i\<rparr>\<rparr>, w))"

definition Environment_mw :: "string \<Rightarrow> ('b, 'w) middleware" where
  "Environment_mw profile next = (\<lambda>(c, w). next (c\<lparr>gEnvironment := profile\<rparr>, w))"

text \<open>\<open>idempotency.Valid\<close> delegates to the platform library: the argument \<open>valid\<close>.\<close>

definition IdempotencyKey_mw :: "(string \<Rightarrow> bool) \<Rightarrow> ('b, 'w) middleware" where
  "IdempotencyKey_mw valid next = (\<lambda>(c, w).
     let key = gHeader c ''Idempotency-Key'' in
     if key = [] then next (c, w)
     else if \<not> valid key then (Fail (Invalid ''invalid Idempotency-Key'' None) c, w)
     else
       let c = set_header ''Idempotency-Key'' key c
       in next (c\<lparr>gCtx := (gCtx c)\<lparr>cIdempotencyKey := Some key\<rparr>\<rparr>, w))"

subsection \<open>Limits, content type, headers\<close>

definition MaxBody_mw :: "int \<Rightarrow> ('b, 'w) middleware" where
  "MaxBody_mw limit next = (\<lambda>(c, w). next (c\<lparr>gBodyLimit := Some limit\<rparr>, w))"

text \<open>Whether the deadline passed while the chain ran is the argument \<open>exceeded\<close>.\<close>

definition Timeout_mw :: "int \<Rightarrow> ('b gin \<times> 'w \<Rightarrow> bool) \<Rightarrow> ('b, 'w) middleware" where
  "Timeout_mw timeout exceeded next = (\<lambda>(c, w).
     let c = c\<lparr>gCtx := with_timeout timeout (gCtx c)\<rparr>;
         (c', w') = next (c, w)
     in if exceeded (c', w') \<and> gWritten c' = None then (Fail RequestTimeout c', w') else (c', w'))"

definition RequireJSON_mw :: "(string \<Rightarrow> string option) \<Rightarrow> ('b, 'w) middleware" where
  "RequireJSON_mw parseMediaType next = (\<lambda>(c, w).
     if gMethod c = ''POST'' \<and> gContentLength c \<noteq> 0 \<and>
        parseMediaType (gHeader c ''Content-Type'') \<noteq> Some ''application/json''
     then (stop_with 415 CodeInvalidArgument ''content type must be application/json'' c, w)
     else next (c, w))"

definition quoted_none :: string where
  "quoted_none = CHR 0x27 # ''none'' @ [CHR 0x27]"

definition SecurityHeaders_mw :: "('b, 'w) middleware" where
  "SecurityHeaders_mw next = (\<lambda>(c, w).
     let c = set_header ''X-Content-Type-Options'' ''nosniff'' c;
         c = set_header ''X-Frame-Options'' ''DENY'' c;
         c = set_header ''Referrer-Policy'' ''no-referrer'' c;
         c = set_header ''Content-Security-Policy'' (''default-src '' @ quoted_none @ ''; frame-ancestors '' @ quoted_none) c;
         c = set_header ''Cache-Control'' ''no-store'' c;
         c = (if gTLS c then set_header ''Strict-Transport-Security'' ''max-age=31536000; includeSubDomains'' c else c)
     in next (c, w))"

fun join :: "string \<Rightarrow> string list \<Rightarrow> string" where
  "join sep [] = []"
| "join sep [x] = x"
| "join sep (x # y # zs) = x @ sep @ join sep (y # zs)"

definition CORS_mw :: "cors_config \<Rightarrow> ('b, 'w) middleware" where
  "CORS_mw cfg next = (\<lambda>(c, w).
     if \<not> corsEnabled cfg then next (c, w)
     else
       let origin = gHeader c ''Origin'' in
       if origin = [] then next (c, w)
       else if origin \<notin> set (corsAllowedOrigins cfg)
       then (stop_with 403 CodeForbidden ''origin is not allowed'' c, w)
       else
         let c = set_header ''Access-Control-Allow-Origin'' origin c;
             c = set_header ''Vary'' ''Origin'' c;
             c = set_header ''Access-Control-Allow-Methods'' ''POST, GET, OPTIONS'' c;
             c = set_header ''Access-Control-Allow-Headers'' (join '', '' (corsAllowedHeaders cfg)) c;
             c = set_header ''Access-Control-Expose-Headers'' (join '', '' (corsExposedHeaders cfg)) c;
             c = set_header ''Access-Control-Max-Age'' (int_text (corsMaxAge cfg div 1000000000)) c
         in if gMethod c = ''OPTIONS'' then (write_status 204 c, w) else next (c, w))"

end
