(* ===== verification/Http_Access.thy ===== *)
theory Http_Access
  imports Http_Middleware
begin

section \<open>HTTP access control: rate limits, authentication, authorization, idempotency\<close>

text \<open>
  The middleware of \<^verbatim>\<open>internal/transport/http/middleware.go\<close> that decides who may call an
  operation and how often, \<^verbatim>\<open>internal/ratelimit/limiter.go\<close>, and the chain that
  \<open>NewServer\<close> of \<^verbatim>\<open>internal/transport/http/server.go\<close> puts in front of the operations.
\<close>

subsection \<open>Rate limits\<close>

record backend_result =
  brAllowed :: int
  brRemaining :: int
  brRetryAfter :: int

record limit_result =
  lrAllowed :: bool
  lrLimit :: int
  lrRemaining :: int
  lrRetryAfter :: int

text \<open>\<open>liBackend\<close> is the Redis limiter; \<open>None\<close> is a nil client.\<close>

record 'w limiter =
  liEnabled :: bool
  liFailOpen :: bool
  liBackend :: "(string \<Rightarrow> rate_rule \<Rightarrow> 'w \<Rightarrow> (go_error + backend_result) \<times> 'w) option"

definition New_limiter ::
  "(string \<Rightarrow> rate_rule \<Rightarrow> 'w \<Rightarrow> (go_error + backend_result) \<times> 'w) option \<Rightarrow> config \<Rightarrow> 'w limiter" where
  "New_limiter client cfg =
     \<lparr>liEnabled = rlEnabled (cRateLimit cfg), liFailOpen = rlFailOpen (cRateLimit cfg), liBackend = client\<rparr>"

definition Allow :: "'w limiter \<Rightarrow> string \<Rightarrow> rate_rule \<Rightarrow> 'w \<Rightarrow> (go_error + limit_result) \<times> 'w" where
  "Allow l key rule w =
     (if \<not> liEnabled l then (Inr \<lparr>lrAllowed = True, lrLimit = 0, lrRemaining = 0, lrRetryAfter = 0\<rparr>, w)
      else case liBackend l of
        None \<Rightarrow> (Inl (ErrorString ''redis rate limiter is unavailable''), w)
      | Some backend \<Rightarrow>
          (case backend key rule w of
             (Inl e, w') \<Rightarrow> (Inl (Wrapped ''check redis rate limit'' e), w')
           | (Inr r, w') \<Rightarrow>
               (Inr \<lparr>lrAllowed = 0 < brAllowed r, lrLimit = ruleBurst rule, lrRemaining = brRemaining r,
                  lrRetryAfter = brRetryAfter r\<rparr>, w')))"

text \<open>\<open>int(d.Round(time.Second) / time.Second)\<close>: half a second rounds away from zero, and the
  largest durations stay at the largest whole number of seconds.\<close>

definition rounded_seconds :: "int \<Rightarrow> int" where
  "rounded_seconds d =
     (if d < 0 then - (min 9223372036 ((- d + 500000000) div 1000000000))
      else min 9223372036 ((d + 500000000) div 1000000000))"

definition RateLimit_mw ::
  "'w limiter \<Rightarrow> rate_rule \<Rightarrow> string \<Rightarrow> ('b gin \<Rightarrow> string) \<Rightarrow> ('b, 'w) middleware" where
  "RateLimit_mw l rule dimension keyFunc next = (\<lambda>(c, w).
     if \<not> liEnabled l then next (c, w)
     else
       let key = keyFunc c in
       if key = [] then next (c, w)
       else case Allow l (''rate:'' @ dimension @ '':'' @ key) rule w of
         (Inl e, w') \<Rightarrow>
           if liFailOpen l then next (c, w')
           else (Fail (Unavailable ''rate limiter unavailable'' (Some e)) c, w')
       | (Inr r, w') \<Rightarrow>
           let c = set_header ''X-RateLimit-Limit'' (int_text (lrLimit r)) c;
               c = set_header ''X-RateLimit-Remaining'' (int_text (lrRemaining r)) c
           in if \<not> lrAllowed r
              then (Fail TooManyRequests
                     (set_header ''Retry-After'' (int_text (max 1 (rounded_seconds (lrRetryAfter r)))) c), w')
              else next (c, w'))"

subsection \<open>Authentication\<close>

text \<open>\<open>verify\<close> is \<open>Service.Verify\<close> at the time of the request.\<close>

definition authenticated :: "principal \<Rightarrow> string \<Rightarrow> 'b gin \<Rightarrow> 'b gin" where
  "authenticated p credential c =
     c\<lparr>gCtx := (gCtx c)\<lparr>cPrincipal := Some p\<rparr>, gCredential := Some credential\<rparr>"

definition JWT_mw :: "(string \<Rightarrow> go_error + principal) \<Rightarrow> ('b, 'w) middleware" where
  "JWT_mw verify next = (\<lambda>(c, w).
     let header = gHeader c ''Authorization'' in
     case cut CHR '' '' header of
       None \<Rightarrow> (Fail (Unauthorized ''missing bearer token'') c, w)
     | Some (scheme, raw) \<Rightarrow>
         if \<not> EqualFold scheme ''Bearer'' \<or> raw = []
         then (Fail (Unauthorized ''missing bearer token'') c, w)
         else case verify raw of
           Inl e \<Rightarrow> (Fail (Unauthorized ''invalid or expired token'') c, w)
         | Inr identity \<Rightarrow>
             next (authenticated identity header (c\<lparr>gSubject := Some (pID identity)\<rparr>), w))"

definition psk_principal :: principal where
  "psk_principal = \<lparr>pID = ''scheduler-service:psk'', pType = TypeServiceAccount, pTenantID = []\<rparr>"

definition Authentication_mw :: "(string \<Rightarrow> go_error + principal) \<Rightarrow> auth_config \<Rightarrow> ('b, 'w) middleware" where
  "Authentication_mw verify cfg next = (\<lambda>(c, w).
     if pskEnabled (authPSK cfg) \<and> MatchesAny (gFullPath c) (pskHTTPPaths (authPSK cfg)) then
       (if \<not> VerifyPSK (gHeader c ''Authorization'') (pskKey (authPSK cfg))
        then (Fail (Unauthorized ''missing or invalid PSK'') c, w)
        else next (authenticated psk_principal (gHeader c ''Authorization'') (c\<lparr>gSubject := Some ''psk''\<rparr>), w))
     else if MatchesAny (gFullPath c) (authSkipHTTPPaths cfg) then next (c, w)
     else JWT_mw verify next (c, w))"

subsection \<open>Authorization\<close>

datatype scope = ScopeTenant

record requirement =
  reqResource :: string
  reqAction :: string
  reqScope :: scope

definition tenant_requirement :: "string \<Rightarrow> string \<Rightarrow> requirement" where
  "tenant_requirement resource action = \<lparr>reqResource = resource, reqAction = action, reqScope = ScopeTenant\<rparr>"

definition schedulerHTTPRequirement :: "string \<Rightarrow> requirement option" where
  "schedulerHTTPRequirement route = map_of
     [(''/api/v1/scheduler/jobs/create'', tenant_requirement ''scheduler.job'' ''create''),
      (''/api/v1/scheduler/jobs/update'', tenant_requirement ''scheduler.job'' ''update''),
      (''/api/v1/scheduler/jobs/delete'', tenant_requirement ''scheduler.job'' ''delete''),
      (''/api/v1/scheduler/jobs/get'', tenant_requirement ''scheduler.job'' ''read''),
      (''/api/v1/scheduler/jobs/list'', tenant_requirement ''scheduler.job'' ''list''),
      (''/api/v1/scheduler/jobs/trigger'', tenant_requirement ''scheduler.job'' ''trigger''),
      (''/api/v1/scheduler/executions/get'', tenant_requirement ''scheduler.execution'' ''read''),
      (''/api/v1/scheduler/executions/list'', tenant_requirement ''scheduler.execution'' ''list'')] route"

text \<open>\<open>authz.Enforce\<close> of the platform library, with its one distinguished error.\<close>

datatype decision = Permitted | DecisionUnavailable go_error | Denied

type_synonym authorizer = "go_context \<Rightarrow> string option \<Rightarrow> requirement \<Rightarrow> decision"

definition Authorization_mw :: "bool \<Rightarrow> authorizer \<Rightarrow> ('b, 'w) middleware" where
  "Authorization_mw active enforce next = (\<lambda>(c, w).
     case schedulerHTTPRequirement (gFullPath c) of
       None \<Rightarrow> next (c, w)
     | Some requirement \<Rightarrow>
         if \<not> active then next (c, w)
         else case enforce (gCtx c) (gCredential c) requirement of
           DecisionUnavailable e \<Rightarrow>
             (Fail (Unavailable ''authorization decision is unavailable'' (Some e)) c, w)
         | Denied \<Rightarrow> (Fail (Forbidden ''permission denied'') c, w)
         | Permitted \<Rightarrow> next (c, w))"

subsection \<open>Idempotent execution\<close>

record failure =
  faCode :: int
  faMessage :: string
  faHTTPStatus :: int

text \<open>The states of the platform library; \<open>None\<close> as a stored response is one that is not the JSON
  of a \<open>Response\<close>; \<open>StateUnknown\<close> is any other value of the state.\<close>

datatype 'b idem_state =
    StateAcquired string                    \<comment> \<open>the owner token\<close>
  | StateProcessing
  | StateCompleted "'b response option"
  | StateFailed failure
  | StateConflict
  | StateUnknown

record ('b, 'w) manager =
  mgEnabled :: bool
  mgBegin :: "string \<Rightarrow> string \<Rightarrow> 'w \<Rightarrow> (go_error + 'b idem_state) \<times> 'w"
  mgComplete :: "string \<Rightarrow> string \<Rightarrow> 'b response \<Rightarrow> 'w \<Rightarrow> 'w"
  mgFail :: "string \<Rightarrow> string \<Rightarrow> failure \<Rightarrow> 'w \<Rightarrow> 'w"

definition limited_body :: "'b gin \<Rightarrow> go_error + string" where
  "limited_body c =
     (case gReadBody c of
        Inl e \<Rightarrow> Inl e
      | Inr body \<Rightarrow>
          (case gBodyLimit c of
             None \<Rightarrow> Inr body
           | Some limit \<Rightarrow>
               if limit < int (length body) then Inl (ErrorString ''http: request body too large'')
               else Inr body))"

text \<open>\<open>fmt.Sprint(subject)\<close> prints \<open><nil>\<close> when no subject is set.\<close>

definition idempotencyFingerprint :: "(string \<Rightarrow> string) \<Rightarrow> 'b gin \<Rightarrow> go_error + string" where
  "idempotencyFingerprint sha256hex c =
     (case limited_body c of
        Inl e \<Rightarrow> Inl e
      | Inr body \<Rightarrow>
          Inr (sha256hex ((case gSubject c of None \<Rightarrow> ''<nil>'' | Some s \<Rightarrow> s) @
            [CHR 0x00] @ gMethod c @ [CHR 0x00] @ gFullPath c @ [CHR 0x00] @ body)))"

text \<open>What is kept once the chain has run: the response without its request id.\<close>

definition persist_result ::
  "('b, 'w) manager \<Rightarrow> string \<Rightarrow> string \<Rightarrow> 'b gin \<times> 'w \<Rightarrow> 'b gin \<times> 'w" where
  "persist_result m key owner = (\<lambda>(c, w).
     case gWritten c of
       Some (status, Some r) \<Rightarrow>
         let r = r\<lparr>rRequestID := []\<rparr> in
         if 400 \<le> status
         then (c, mgFail m key owner \<lparr>faCode = rCode r, faMessage = rMessage r, faHTTPStatus = status\<rparr> w)
         else (c, mgComplete m key owner r w)
     | _ \<Rightarrow> (c, w))"

definition IdempotencyExecution_mw ::
  "(string \<Rightarrow> string) \<Rightarrow> ('b, 'w) manager option \<Rightarrow> string list \<Rightarrow> ('b, 'w) middleware" where
  "IdempotencyExecution_mw sha256hex mgr paths next = (\<lambda>(c, w).
     case (cIdempotencyKey (gCtx c), mgr) of
       (Some key, Some m) \<Rightarrow>
         if \<not> mgEnabled m \<or> gMethod c \<noteq> ''POST'' \<or> \<not> MatchesAny (gFullPath c) paths then next (c, w)
         else (case idempotencyFingerprint sha256hex c of
           Inl e \<Rightarrow> (Fail (Invalid ''read idempotent request'' (Some e)) c, w)
         | Inr fingerprint \<Rightarrow>
             (case mgBegin m key fingerprint w of
                (Inl e, w') \<Rightarrow> (Fail (Unavailable ''idempotency is unavailable'' (Some e)) c, w')
              | (Inr (StateCompleted None), w') \<Rightarrow>
                  (Fail (Unavailable ''idempotency response is unavailable'' None) c, w')
              | (Inr (StateCompleted (Some r)), w') \<Rightarrow>
                  (write_json 200 (r\<lparr>rRequestID := gRequestID c\<rparr>) c, w')
              | (Inr (StateFailed f), w') \<Rightarrow> (stop_with (faHTTPStatus f) (faCode f) (faMessage f) c, w')
              | (Inr StateProcessing, w') \<Rightarrow> (Fail RequestInProgress c, w')
              | (Inr StateConflict, w') \<Rightarrow>
                  (Fail (Conflict ''idempotency key belongs to a different request'' None) c, w')
              | (Inr StateUnknown, w') \<Rightarrow> (Fail (Unavailable ''idempotency state is invalid'' None) c, w')
              | (Inr (StateAcquired owner), w') \<Rightarrow> persist_result m key owner (next (c, w'))))
     | _ \<Rightarrow> next (c, w))"

subsection \<open>The chain of NewServer\<close>

record ('b, 'w) http_deps =
  hdGeneratedID :: string
  hdValidKey :: "string \<Rightarrow> bool"
  hdExceeded :: "'b gin \<times> 'w \<Rightarrow> bool"
  hdParseMediaType :: "string \<Rightarrow> string option"
  hdLimiter :: "'w limiter"
  hdVerify :: "string \<Rightarrow> go_error + principal"
  hdEnforce :: authorizer
  hdSha256Hex :: "string \<Rightarrow> string"
  hdManager :: "('b, 'w) manager option"

definition router_chain :: "('b, 'w) http_deps \<Rightarrow> config \<Rightarrow> ('b, 'w) middleware" where
  "router_chain d cfg next =
     RequestID_mw (hdGeneratedID d) (
     IdempotencyKey_mw (hdValidKey d) (
     Environment_mw (activeProfile (cRuntime cfg)) (
     SecurityHeaders_mw (
     CORS_mw (httpCORS (cHTTP cfg)) (
     MaxBody_mw (httpMaxBodyBytes (cHTTP cfg)) (
     Timeout_mw (httpRequestTimeout (cHTTP cfg)) (hdExceeded d) (
     RequireJSON_mw (hdParseMediaType d) next)))))))"

definition api_chain :: "('b, 'w) http_deps \<Rightarrow> config \<Rightarrow> ('b, 'w) middleware" where
  "api_chain d cfg next =
     RateLimit_mw (hdLimiter d) (rlIP (cRateLimit cfg)) ''ip'' gClientIP (
     RateLimit_mw (hdLimiter d) (rlAPI (cRateLimit cfg)) ''api'' gFullPath (
     Authentication_mw (hdVerify d) (cAuth cfg) (
     Authorization_mw (cAuthorizationEnabled cfg) (hdEnforce d) (
     RateLimit_mw (hdLimiter d) (rlUser (cRateLimit cfg)) ''user''
       (\<lambda>c. case gSubject c of None \<Rightarrow> [] | Some s \<Rightarrow> s) (
     IdempotencyExecution_mw (hdSha256Hex d) (hdManager d) (idemHTTPPaths (cIdempotency cfg)) next)))))"

text \<open>Every request to an operation: the chain of the router, then of the group \<^verbatim>\<open>/api/v1\<close>.\<close>

definition serve_api :: "('b, 'w) http_deps \<Rightarrow> config \<Rightarrow> ('b, 'w) middleware" where
  "serve_api d cfg next = router_chain d cfg (api_chain d cfg next)"

text \<open>The routes that \<open>NewServer\<close> registers in that group, all of them \<open>POST\<close>.\<close>

definition api_routes :: "string list" where
  "api_routes = map (\<lambda>r. ''/api/v1'' @ r)
     [''/version'', ''/me'', ''/scheduler/jobs/create'', ''/scheduler/jobs/update'',
      ''/scheduler/jobs/delete'', ''/scheduler/jobs/get'', ''/scheduler/jobs/list'',
      ''/scheduler/jobs/trigger'', ''/scheduler/executions/get'', ''/scheduler/executions/list'']"

text \<open>The guard of the profiling endpoints.\<close>

definition pprofAuth :: "string \<Rightarrow> ('b, 'w) middleware" where
  "pprofAuth expected next = (\<lambda>(c, w).
     case cut CHR '' '' (gHeader c ''Authorization'') of
       None \<Rightarrow> (write_status 401 c, w)
     | Some (scheme, token) \<Rightarrow>
         if \<not> EqualFold scheme ''Bearer'' \<or> token \<noteq> expected then (write_status 401 c, w)
         else next (c, w))"

end
