(* ===== verification/Health.thy ===== *)
theory Health
  imports Apperror
begin

section \<open>Health: package health\<close>

text \<open>
  \<^verbatim>\<open>internal/health/service.go\<close>. \<open>Ready\<close> starts two checks and receives their two results in the
  order in which they finish: the order is an argument. A dependency that is not configured is
  ready and reported as disabled. A ping, with its timeout, is \<open>None\<close> or the error; latencies are
  texts of the caller.
\<close>

record dependency =
  depStatus :: string
  depLatency :: string

record health_status =
  hsStatus :: string
  hsDependencies :: "(string \<rightharpoonup> dependency)"

record check_result =
  crName :: string
  crDependency :: dependency
  crReady :: bool

definition Live_status :: health_status where
  "Live_status = \<lparr>hsStatus = ''up'', hsDependencies = Map.empty\<rparr>"

definition checkResult :: "string \<Rightarrow> string \<Rightarrow> go_error option \<Rightarrow> check_result" where
  "checkResult name latency err =
     (let dependency = \<lparr>depStatus = ''up'', depLatency = latency\<rparr> in
      if err \<noteq> None
      then \<lparr>crName = name, crDependency = dependency\<lparr>depStatus := ''down''\<rparr>, crReady = False\<rparr>
      else \<lparr>crName = name, crDependency = dependency, crReady = True\<rparr>)"

text \<open>One check: \<open>None\<close> is a client that is not configured, else latency and error of the ping.\<close>

definition check_dependency :: "string \<Rightarrow> (string \<times> go_error option) option \<Rightarrow> check_result" where
  "check_dependency name ping =
     (case ping of
        None \<Rightarrow> \<lparr>crName = name, crDependency = \<lparr>depStatus = ''disabled'', depLatency = []\<rparr>, crReady = True\<rparr>
      | Some (latency, err) \<Rightarrow> checkResult name latency err)"

definition checkDatabase :: "(string \<times> go_error option) option \<Rightarrow> check_result" where
  "checkDatabase ping = check_dependency ''database'' ping"

definition checkRedis :: "(string \<times> go_error option) option \<Rightarrow> check_result" where
  "checkRedis ping = check_dependency ''redis'' ping"

fun collect :: "check_result list \<Rightarrow> (string \<rightharpoonup> dependency) \<Rightarrow> bool \<Rightarrow> (string \<rightharpoonup> dependency) \<times> bool" where
  "collect [] deps ready = (deps, ready)"
| "collect (item # items) deps ready =
     collect items (deps(crName item \<mapsto> crDependency item)) (ready \<and> crReady item)"

definition Ready ::
  "bool \<Rightarrow> (string \<times> go_error option) option \<Rightarrow> (string \<times> go_error option) option \<Rightarrow> health_status \<times> bool" where
  "Ready database_first db redis =
     (let results = (if database_first then [checkDatabase db, checkRedis redis] else [checkRedis redis, checkDatabase db]);
          (deps, ready) = collect results Map.empty True
      in (\<lparr>hsStatus = (if ready then ''ready'' else ''not_ready''), hsDependencies = deps\<rparr>, ready))"

text \<open>A dependency counts as available when it is not configured or its ping succeeded.\<close>

definition available :: "(string \<times> go_error option) option \<Rightarrow> bool" where
  "available ping \<longleftrightarrow> (\<forall>l e. ping \<noteq> Some (l, Some e))"

lemma check_dependency_ready: "crReady (check_dependency n p) \<longleftrightarrow> available p"
  by (auto simp: check_dependency_def checkResult_def available_def Let_def split: option.split)

lemma check_dependency_name [simp]: "crName (check_dependency n p) = n"
  by (auto simp: check_dependency_def checkResult_def Let_def split: option.split)

end
