(* ===== verification/Database.thy ===== *)
theory Database
  imports World
begin

section \<open>Tables, the audit trigger and transactions\<close>

text \<open>
  The tables \<open>scheduled_jobs\<close> and \<open>job_executions\<close> as lists of rows with a primary key, the
  effect of INSERT and UPDATE on them (the CHECK and FOREIGN KEY constraints and the column types
  of \<^verbatim>\<open>migrations/*/000002_scheduler.up.sql\<close> and \<^verbatim>\<open>000003_application_scope.up.sql\<close>, the text
  encoding of the engine, BIGINT overflow),
  the trigger \<open>app_audit_row\<close> of \<^verbatim>\<open>migrations/postgres/000004_audit_soft_delete.up.sql\<close>, which
  PostgreSQL and Kingbase run on every write, and \<open>Transactor.Within\<close> of
  \<^verbatim>\<open>internal/database/transaction.go\<close>. Every caller passes \<open>sql.TxOptions{}\<close>, the default isolation
  of the engine: a statement is atomic, but other transactions commit between the statements of
  one (\<open>others_commit\<close>). An error restores what the others have made of the tables.
\<close>

subsection \<open>The audit trigger\<close>

text \<open>\<open>None\<close>: no trigger is installed (MySQL). \<open>Some (t, a)\<close>: it runs at time \<open>t\<close> for actor \<open>a\<close>.\<close>

type_synonym audit = "(time \<times> string) option"

definition audit_insert :: "audit \<Rightarrow> 'a row_scheme \<Rightarrow> 'a row_scheme" where
  "audit_insert au new =
     (case au of
        None \<Rightarrow> new
      | Some (t, actor) \<Rightarrow>
          new\<lparr>CreatedAt := t, UpdatedAt := t, CreatedBy := actor, UpdatedBy := actor,
              Version := 1, DeletedAt := None, DeletedBy := None\<rparr>)"

definition audit_update :: "audit \<Rightarrow> 'a row_scheme \<Rightarrow> 'a row_scheme \<Rightarrow> 'a row_scheme" where
  "audit_update au old new =
     (case au of
        None \<Rightarrow> new
      | Some (t, actor) \<Rightarrow>
          let new = new\<lparr>CreatedAt := CreatedAt old, CreatedBy := CreatedBy old,
                        UpdatedAt := t, UpdatedBy := actor, Version := Version old + 1\<rparr>
          in if DeletedAt old = None \<and> DeletedAt new \<noteq> None
             then new\<lparr>DeletedAt := Some t, DeletedBy := Some actor\<rparr>
             else if DeletedAt old \<noteq> None \<and> DeletedAt new = None
             then new\<lparr>DeletedBy := None\<rparr>
             else new\<lparr>DeletedAt := DeletedAt old, DeletedBy := DeletedBy old\<rparr>)"

definition audited :: "env \<Rightarrow> bool" where
  "audited env \<longleftrightarrow> driver env = ''pgx'' \<or> driver env = ''postgres''"

definition audit_of :: "env \<Rightarrow> go_context \<Rightarrow> nat \<Rightarrow> audit" where
  "audit_of env ctx n =
     (if audited env
      then Some (dbNow env n, case cPrincipal ctx of None \<Rightarrow> [] | Some p \<Rightarrow> pID p)
      else None)"

subsection \<open>INSERT and UPDATE\<close>

definition sql_insert ::
  "('a row_scheme \<Rightarrow> violation option) \<Rightarrow> 'a row_scheme \<Rightarrow> 'a row_scheme list \<Rightarrow>
   violation + 'a row_scheme list" where
  "sql_insert check r rows =
     (case check r of
        Some v \<Rightarrow> Inl v
      | None \<Rightarrow> if ID r \<in> set (map ID rows) then Inl DuplicateKey else Inr (rows @ [r]))"

text \<open>\<open>UPDATE .. SET .. version=version+1 WHERE P\<close>; the second result is RowsAffected.\<close>

definition sql_update ::
  "('a row_scheme \<Rightarrow> violation option) \<Rightarrow> audit \<Rightarrow> ('a row_scheme \<Rightarrow> bool) \<Rightarrow>
   ('a row_scheme \<Rightarrow> 'a row_scheme) \<Rightarrow> 'a row_scheme list \<Rightarrow>
   violation + int \<times> 'a row_scheme list" where
  "sql_update check au P f rows =
     (let g = (\<lambda>r. audit_update au r ((f r)\<lparr>Version := Version r + 1\<rparr>)) in
      if \<exists>r \<in> set rows. P r \<and> Version r \<ge> max_i64 then Inl OutOfRange
      else case find (\<lambda>v. v \<noteq> None) (map (check \<circ> g) (filter P rows)) of
        Some (Some v) \<Rightarrow> Inl v
      | _ \<Rightarrow> Inr (int (length (filter P rows)), map (\<lambda>r. if P r then g r else r) rows))"

text \<open>
  The text columns. MySQL has VARCHAR, TEXT and MEDIUMTEXT with their widths; on PostgreSQL and
  Kingbase every one is TEXT, which takes no NUL, and the B-tree indexes refuse entries that are
  too large after compression (\<open>indexFits\<close>; the MySQL indexes fit the widths). Both encode UTF-8.
\<close>

datatype column_type = VarChar nat | ColText | MediumText

definition text_fits :: "env \<Rightarrow> column_type \<times> string \<Rightarrow> bool" where
  "text_fits env c \<longleftrightarrow>
     (let t = snd c in
      utf8_valid t \<and>
      (if driver env = ''mysql''
       then (case fst c of VarChar n \<Rightarrow> rune_count t \<le> n | ColText \<Rightarrow> length t \<le> 65535
             | MediumText \<Rightarrow> length t \<le> 16777215)
       else CHR 0x00 \<notin> set t))"

definition index_fits :: "env \<Rightarrow> string list \<Rightarrow> bool" where
  "index_fits env ts \<longleftrightarrow> driver env = ''mysql'' \<or> indexFits env ts"

definition row_texts :: "'a row_scheme \<Rightarrow> (column_type \<times> string) list" where
  "row_texts r =
     [(VarChar 64, ID r), (VarChar 64, TenantID r), (VarChar 64, ApplicationID r), (VarChar 16, Status r),
      (ColText, CreatedBy r), (ColText, UpdatedBy r)] @
     (case DeletedBy r of None \<Rightarrow> [] | Some d \<Rightarrow> [(ColText, d)])"

definition job_texts_fit :: "env \<Rightarrow> job \<Rightarrow> bool" where
  "job_texts_fit env j \<longleftrightarrow>
     list_all (text_fits env) (row_texts j @
       [(ColText, Name j), (ColText, CronExpression j), (ColText, Timezone j), (ColText, Upstream j),
        (ColText, FullMethod j), (ColText, RequestJSON j)]) \<and>
     index_fits env [ID j, TenantID j, ApplicationID j, Upstream j]"

definition execution_texts_fit :: "env \<Rightarrow> execution \<Rightarrow> bool" where
  "execution_texts_fit env x \<longleftrightarrow>
     list_all (text_fits env) (row_texts x @
       [(VarChar 64, JobID x), (VarChar 16, TriggerType x), (MediumText, ResponseJSON x),
        (ColText, ErrorCode x), (ColText, ErrorMessage x)]) \<and>
     index_fits env [ID x, TenantID x, ApplicationID x, JobID x]"

text \<open>The CHECK constraints.\<close>

definition job_check :: "env \<Rightarrow> job \<Rightarrow> violation option" where
  "job_check env j =
     (if job_texts_fit env j \<and>
         Status j \<in> set [enabled, disabled, ''deleted''] \<and>
         100 \<le> TimeoutMilliseconds j \<and> TimeoutMilliseconds j \<le> 1800000
      then None else Some CheckViolation)"

definition execution_check :: "env \<Rightarrow> job list \<Rightarrow> execution \<Rightarrow> violation option" where
  "execution_check env js x =
     (if \<not> (execution_texts_fit env x \<and>
            TriggerType x \<in> set [''scheduled'', ''manual''] \<and>
            Status x \<in> set [running, succeeded, failed])
      then Some CheckViolation
      else if JobID x \<notin> set (map ID js) then Some ForeignKeyViolation
      else None)"

subsection \<open>Transactions\<close>

definition setAuditActor :: "env \<Rightarrow> go_context \<Rightarrow> unit service" where
  "setAuditActor env ctx =
     (case cPrincipal ctx of
        None \<Rightarrow> fail ErrMissingAuditActor
      | Some actor \<Rightarrow>
          ensure (trim_space (pID actor) \<noteq> []) ErrMissingAuditActor (
          if driver env \<noteq> ''pgx'' \<and> driver env \<noteq> ''postgres'' then ok ()
          else attempt tick (\<lambda>n. case dbError env n ctx of
                 Some e \<Rightarrow> fail (Wrapped ''set transaction audit actor'' e)
               | None \<Rightarrow> ok ())))"

definition commit_tx :: "env \<Rightarrow> go_context \<Rightarrow> 'a \<Rightarrow> 'a service" where
  "commit_tx env ctx x =
     attempt tick (\<lambda>n. case commitError env n ctx of
         None \<Rightarrow> ok x
       | Some (e, applied) \<Rightarrow>
           attempt (modifies (\<lambda>w. if applied then w else w\<lparr>wDb := wBase w\<rparr>)) (\<lambda>_.
           fail (Wrapped ''commit transaction'' e)))"

definition rollback_tx :: "env \<Rightarrow> go_context \<Rightarrow> go_error \<Rightarrow> 'a service" where
  "rollback_tx env ctx err =
     attempt (modifies (\<lambda>w. w\<lparr>wDb := wBase w\<rparr>)) (\<lambda>_.
     attempt tick (\<lambda>n. case dbError env n ctx of
         None \<Rightarrow> fail err
       | Some e \<Rightarrow> fail (Wrapped (''rollback transaction after '' @ error_text err) e)))"

text \<open>The function of the transaction, then COMMIT if it returned and ROLLBACK if it failed.\<close>

definition finish_tx :: "env \<Rightarrow> go_context \<Rightarrow> 'a service \<Rightarrow> 'a service" where
  "finish_tx env ctx fn =
     (\<lambda>w. case fn w of
        (Inl err, w') \<Rightarrow> rollback_tx env ctx err w'
      | (Inr x, w') \<Rightarrow> commit_tx env ctx x w')"

text \<open>
  BEGIN, the audit actor, the function. What others commit before the first statement that reads
  or writes a table is what they have committed at the begin.
\<close>

definition begin_on :: "db \<Rightarrow> world \<Rightarrow> world" where
  "begin_on d w = w\<lparr>wDb := d, wBase := d\<rparr>"

definition Within :: "env \<Rightarrow> go_context \<Rightarrow> 'a service \<Rightarrow> 'a service" where
  "Within env ctx fn =
     ensure (dbEnabled env) (ErrorString ''begin transaction: database is disabled'') (
     attempt tick (\<lambda>n. case dbError env n ctx of
         Some e \<Rightarrow> fail (Wrapped ''begin transaction'' e)
       | None \<Rightarrow>
           attempt (modifies (\<lambda>w. begin_on (interfere env n (wDb w)) w)) (\<lambda>_.
           attempt (setAuditActor env ctx) (\<lambda>_.
           finish_tx env ctx fn))))"

text \<open>
  What others commit between two statements of one transaction. The next statement sees it: a
  SELECT under READ COMMITTED, and on every engine an UPDATE or INSERT. They cannot change what
  the transaction holds locked (\<open>held\<close>). Every transaction of the service writes in its last
  statement only, so at such a point \<open>wDb\<close> and \<open>wBase\<close> agree, and a rollback leaves what they made.
\<close>

definition others_commit :: "env \<Rightarrow> (db \<Rightarrow> 'h) \<Rightarrow> unit service" where
  "others_commit env held =
     attempt tick (\<lambda>n. modifies (\<lambda>w.
       let d = interfere env n (wDb w) in
       if wDb w = wBase w \<and> held d = held (wDb w) then begin_on d w else w))"

text \<open>One statement of a transaction: an engine error, a violation, or its effect.\<close>

definition exec_stmt ::
  "env \<Rightarrow> go_context \<Rightarrow> (nat \<Rightarrow> db \<Rightarrow> violation + 'a \<times> db) \<Rightarrow> 'a service" where
  "exec_stmt env ctx f =
     attempt tick (\<lambda>n. case dbError env n ctx of
         Some e \<Rightarrow> fail e
       | None \<Rightarrow> (\<lambda>w. case f n (wDb w) of
           Inl v \<Rightarrow> (Inl (violationError env v), w)
         | Inr (x, d) \<Rightarrow> (Inr x, w\<lparr>wDb := d\<rparr>)))"

subsection \<open>Laws of the table operations\<close>

lemma audit_update_ID [simp]:
  "ID (audit_update au old new) = ID new" "TenantID (audit_update au old new) = TenantID new"
  "ApplicationID (audit_update au old new) = ApplicationID new"
  "Status (audit_update au old new) = Status new"
  by (auto simp: audit_update_def Let_def split: option.split)

lemma audit_update_Version [simp]:
  "Version new = Version old + 1 \<Longrightarrow> Version (audit_update au old new) = Version old + 1"
  by (auto simp: audit_update_def Let_def split: option.split)

lemma audit_update_DeletedAt:
  "DeletedAt new = DeletedAt old \<Longrightarrow> DeletedAt (audit_update au old new) = DeletedAt old"
  "DeletedAt old = None \<Longrightarrow> DeletedAt new \<noteq> None \<Longrightarrow> DeletedAt (audit_update au old new) \<noteq> None"
  by (auto simp: audit_update_def Let_def split: option.split)

lemma audit_insert_ID [simp]:
  "ID (audit_insert au new) = ID new" "TenantID (audit_insert au new) = TenantID new"
  "ApplicationID (audit_insert au new) = ApplicationID new" "Status (audit_insert au new) = Status new"
  by (auto simp: audit_insert_def split: option.split)

lemma audit_insert_Version [simp]: "Version new = 1 \<Longrightarrow> Version (audit_insert au new) = 1"
  by (auto simp: audit_insert_def split: option.split)

lemma audit_insert_DeletedAt [simp]: "DeletedAt new = None \<Longrightarrow> DeletedAt (audit_insert au new) = None"
  by (auto simp: audit_insert_def split: option.split)

lemma sql_insert_Inr:
  "sql_insert check r rows = Inr rows' \<longleftrightarrow>
     check r = None \<and> ID r \<notin> ID ` set rows \<and> rows' = rows @ [r]"
  by (auto simp: sql_insert_def split: option.splits)

lemma find_some_not_None: "find (\<lambda>v. v \<noteq> None) xs \<noteq> Some None"
  by (auto simp: find_Some_iff)

lemma sql_update_Inr:
  "sql_update check au P f rows = Inr (c, rows') \<longleftrightarrow>
     (\<forall>r \<in> set rows. P r \<longrightarrow> Version r < max_i64 \<and>
        check (audit_update au r ((f r)\<lparr>Version := Version r + 1\<rparr>)) = None) \<and>
     c = int (length (filter P rows)) \<and>
     rows' = map (\<lambda>r. if P r then audit_update au r ((f r)\<lparr>Version := Version r + 1\<rparr>) else r) rows"
  (is "?lhs = ?rhs")
proof -
  let ?g = "\<lambda>r. audit_update au r ((f r)\<lparr>Version := Version r + 1\<rparr>)"
  let ?v = "find (\<lambda>v. v \<noteq> None) (map (check \<circ> ?g) (filter P rows))"
  have none: "?v = None \<longleftrightarrow> (\<forall>r \<in> set rows. P r \<longrightarrow> check (?g r) = None)"
    by (auto simp: find_None_iff)
  have "?v \<noteq> Some None" by (rule find_some_not_None)
  then consider "?v = None" | v where "?v = Some (Some v)" by (cases ?v) auto
  then show ?thesis
  proof cases
    case 1
    with none show ?thesis by (auto simp: sql_update_def Let_def not_le)
  next
    case 2
    with none show ?thesis by (auto simp: sql_update_def Let_def)
  qed
qed

subsection \<open>Laws of transactions\<close>

lemma setAuditActor_Inr [prog_ok]:
  "setAuditActor env ctx w = (Inr u, w') \<longleftrightarrow>
     (\<exists>p. cPrincipal ctx = Some p \<and> trim_space (pID p) \<noteq> [] \<and>
        (if audited env then dbError env (wTick w) ctx = None \<and> w' = w\<lparr>wTick := Suc (wTick w)\<rparr>
         else w' = w))"
  by (auto simp: setAuditActor_def audited_def prog_simps split: option.splits)

lemma exec_stmt_Inr [prog_ok]:
  "exec_stmt env ctx f w = (Inr x, w') \<longleftrightarrow>
     dbError env (wTick w) ctx = None \<and>
     (\<exists>d. f (wTick w) (wDb w) = Inr (x, d) \<and> w' = w\<lparr>wTick := Suc (wTick w), wDb := d\<rparr>)"
  by (auto simp: exec_stmt_def prog_simps split: option.splits sum.splits)

lemma begin_on_sel [simp]:
  "wDb (begin_on d w) = d" "wBase (begin_on d w) = d" "wTick (begin_on d w) = wTick w"
  "wCalls (begin_on d w) = wCalls w" "wInvokedAt (begin_on d w) = wInvokedAt w" "wChanged (begin_on d w) = wChanged w" "wLog (begin_on d w) = wLog w"
  by (simp_all add: begin_on_def)

lemma others_commit_run:
  "others_commit env held w = (Inr (),
     if wDb w = wBase w \<and> held (interfere env (wTick w) (wDb w)) = held (wDb w)
     then begin_on (interfere env (wTick w) (wDb w)) (w\<lparr>wTick := Suc (wTick w)\<rparr>)
     else w\<lparr>wTick := Suc (wTick w)\<rparr>)"
  by (auto simp: others_commit_def prog_simps Let_def)

lemma commit_tx_Inr [prog_ok]:
  "commit_tx env ctx x w = (Inr y, w') \<longleftrightarrow>
     commitError env (wTick w) ctx = None \<and> y = x \<and> w' = w\<lparr>wTick := Suc (wTick w)\<rparr>"
  by (auto simp: commit_tx_def prog_simps split: option.splits prod.splits)

lemma rollback_tx_never: "rollback_tx env ctx err w \<noteq> (Inr y, w')"
  by (auto simp: rollback_tx_def prog_simps split: option.splits)

lemma finish_tx_Inr [prog_ok]:
  "finish_tx env ctx fn w = (Inr x, w') \<longleftrightarrow>
     (\<exists>w2. fn w = (Inr x, w2) \<and> commitError env (wTick w2) ctx = None \<and> w' = w2\<lparr>wTick := Suc (wTick w2)\<rparr>)"
  by (auto simp: finish_tx_def prog_ok rollback_tx_never split: prod.splits sum.splits)

text \<open>A transaction that returned ran its function on the database it began with, and committed.\<close>

lemma Within_Inr:
  assumes "Within env ctx fn w = (Inr x, w')"
  obtains w1 w2 p where "cPrincipal ctx = Some p" and "trim_space (pID p) \<noteq> []"
    and "wDb w1 = interfere env (wTick w) (wDb w)" and "wBase w1 = wDb w1" and "wCalls w1 = wCalls w"
    and "wChanged w1 = wChanged w" and "wLog w1 = wLog w" and "wTick w < wTick w1"
    and "fn w1 = (Inr x, w2)" and "w' = w2\<lparr>wTick := Suc (wTick w2)\<rparr>"
proof -
  let ?w0 = "begin_on (interfere env (wTick w) (wDb w)) (w\<lparr>wTick := Suc (wTick w)\<rparr>)"
  from assms obtain w1 where audit: "setAuditActor env ctx ?w0 = (Inr (), w1)"
    and run: "finish_tx env ctx fn w1 = (Inr x, w')"
    by (auto simp: Within_def prog_ok run_tick split: option.splits)
  from audit obtain p where "cPrincipal ctx = Some p" "trim_space (pID p) \<noteq> []"
    and "w1 = ?w0 \<or> w1 = ?w0\<lparr>wTick := Suc (Suc (wTick w))\<rparr>"
    by (auto simp: setAuditActor_Inr split: if_splits)
  moreover from run obtain w2 where "fn w1 = (Inr x, w2)" and "w' = w2\<lparr>wTick := Suc (wTick w2)\<rparr>"
    by (auto simp: finish_tx_Inr)
  ultimately show thesis by (intro that [of p w1 w2]) auto
qed

context db_guarantee
begin

lemma tx_exec_stmt:
  assumes "\<And>n d x d'. f n d = Inr (x, d') \<Longrightarrow> G d d'"
  shows "tx_keeps (exec_stmt env' ctx f)"
  by (auto simp: keeps_def exec_stmt_def prog_simps G_same intro: assms
      split: option.split sum.split prod.split)

lemma tx_others_commit: "tx_keeps (others_commit env held)"
  by (auto simp: keeps_def others_commit_run G_same rely)

lemma setAuditActor_db: "setAuditActor env' ctx w = (r, w') \<Longrightarrow> wDb w' = wDb w \<and> wBase w' = wBase w"
  by (auto simp: setAuditActor_def prog_simps split: option.splits if_splits)

text \<open>Whatever happens, a transaction leaves what others made of the database, or what its function did.\<close>

lemma finish_tx_keeps:
  assumes "tx_keeps fn"
  shows "G (wDb w) (wDb (snd (finish_tx env' ctx fn w))) \<or> G (wBase w) (wDb (snd (finish_tx env' ctx fn w)))"
proof -
  obtain r w' where run: "fn w = (r, w')" by fastforce
  with assms have "G (wDb w) (wDb w')" "G (wBase w) (wBase w')" by (auto dest: keepsD)
  with run show ?thesis
    by (auto simp: finish_tx_def rollback_tx_def commit_tx_def prog_simps split: sum.split option.split)
qed

lemma keeps_Within:
  assumes "tx_keeps fn"
  shows "db_keeps (Within env ctx fn)"
  unfolding keeps_def
proof
  fix w
  show "G (wDb w) (wDb (snd (Within env ctx fn w)))"
  proof (cases "dbEnabled env \<and> dbError env (wTick w) ctx = None")
    case True
    let ?w = "begin_on (interfere env (wTick w) (wDb w)) (w\<lparr>wTick := Suc (wTick w)\<rparr>)"
    obtain r w1 where audit: "setAuditActor env ctx ?w = (r, w1)" by fastforce
    then have w1: "wDb w1 = interfere env (wTick w) (wDb w)" "wBase w1 = interfere env (wTick w) (wDb w)"
      by (auto dest: setAuditActor_db)
    from True have "Within env ctx fn w = attempt (setAuditActor env ctx) (\<lambda>_. finish_tx env ctx fn) ?w"
      by (simp add: Within_def prog_simps split: prod.split sum.split)
    with audit have "wDb (snd (Within env ctx fn w)) = wDb w1 \<or>
        wDb (snd (Within env ctx fn w)) = wDb (snd (finish_tx env ctx fn w1))"
      by (simp add: run_attempt split: sum.split)
    with finish_tx_keeps [OF assms, of w1 env ctx] have "G (wDb w1) (wDb (snd (Within env ctx fn w)))"
      by (auto simp: w1 G_same)
    with w1 show ?thesis using rely [of "wDb w" "wTick w"] by (auto intro: G_chain)
  next
    case False
    then show ?thesis by (auto simp: Within_def prog_simps G_same)
  qed
qed

end

end
