(* ===== verification/Repository.thy ===== *)
theory Repository
  imports Database
begin

section \<open>SQLRepository: package job, repository.go\<close>

text \<open>
  One definition per method of \<open>SQLRepository\<close>: the SQL statement it sends, with the meaning the
  statement has on the tables of \<^verbatim>\<open>Database\<close>. The two listing methods also build the text of
  their WHERE clause and its arguments (\<open>job_where\<close>, \<open>execution_where\<close>) from the helpers
  \<open>appendLikeFilter\<close>, \<open>appendInFilter\<close> and \<open>appendTimeRange\<close>; \<open>sqlx.In\<close> is a parameter, and so
  is \<open>strings.ToLower\<close>, whose tables cover all of Unicode. Texts are compared byte by byte, as
  PostgreSQL and Kingbase do and MySQL does under a binary collation. The two methods with two
  statements let other transactions commit between them; \<open>SELECT .. FOR UPDATE\<close> holds the job row.
\<close>

subsection \<open>Building a WHERE clause\<close>

datatype sql_arg = ArgText string | ArgTime time | ArgInt int

type_synonym sql_where = "string \<times> sql_arg list"

fun like_terms :: "nat \<Rightarrow> string list \<Rightarrow> string" where
  "like_terms index [] = []"
| "like_terms index (column # columns) =
     (if 0 < index then '' OR '' else []) @ ''LOWER('' @ column @ '') LIKE ?'' @
     like_terms (Suc index) columns"

definition like_pattern :: "env \<Rightarrow> string \<Rightarrow> string" where
  "like_pattern env keyword = ''%'' @ stringsToLower env keyword @ ''%''"

fun appendLikeFilter :: "env \<Rightarrow> sql_where \<Rightarrow> string \<Rightarrow> string list \<Rightarrow> sql_where" where
  "appendLikeFilter env (whr, args) keyword columns =
     (if keyword = [] then (whr, args)
      else (whr @ '' AND ('' @ like_terms 0 columns @ '')'',
            args @ map (\<lambda>_. ArgText (like_pattern env keyword)) columns))"

fun appendInFilter ::
  "(string \<Rightarrow> string list \<Rightarrow> go_error + string \<times> string list) \<Rightarrow> sql_where \<Rightarrow> string \<Rightarrow> string list \<Rightarrow>
   go_error + sql_where" where
  "appendInFilter sqlx_In (whr, args) column values =
     (if values = [] then Inr (whr, args)
      else case sqlx_In ('' AND '' @ column @ '' IN (?)'') values of
        Inl e \<Rightarrow> Inl e
      | Inr (clause, expanded) \<Rightarrow> Inr (whr @ clause, args @ map ArgText expanded))"

fun appendTimeRange :: "sql_where \<Rightarrow> string \<Rightarrow> time option \<Rightarrow> time option \<Rightarrow> sql_where" where
  "appendTimeRange (whr, args) column lo hi =
     (let (whr, args) = (case lo of None \<Rightarrow> (whr, args)
            | Some t \<Rightarrow> (whr @ '' AND '' @ column @ ''>=?'', args @ [ArgTime t]))
      in case hi of None \<Rightarrow> (whr, args)
       | Some t \<Rightarrow> (whr @ '' AND '' @ column @ ''<?'', args @ [ArgTime t]))"

definition job_where :: "env \<Rightarrow> job_filter \<Rightarrow> go_error + sql_where" where
  "job_where env flt =
     and_then (appendInFilter (sqlxIn env)
        (appendLikeFilter env (''tenant_id=? AND application_id=? AND deleted_at IS NULL'',
            [ArgText (jfTenantID flt), ArgText (jfApplicationID flt)])
          (jfKeyword flt) [''name'', ''upstream'', ''full_method''])
        ''id'' (jfIDs flt)) (\<lambda>w.
     and_then (appendInFilter (sqlxIn env) w ''status'' (jfStatuses flt)) (\<lambda>w.
     and_then (appendInFilter (sqlxIn env) w ''upstream'' (jfUpstreams flt)) (\<lambda>w.
     Inr (appendTimeRange w ''created_at'' (jfCreatedFrom flt) (jfCreatedTo flt)))))"

definition append_duration :: "sql_where \<Rightarrow> string \<Rightarrow> int option \<Rightarrow> sql_where" where
  "append_duration w op d =
     (case d of None \<Rightarrow> w
      | Some n \<Rightarrow> (fst w @ '' AND duration_milliseconds'' @ op @ ''?'', snd w @ [ArgInt n]))"

definition execution_where :: "env \<Rightarrow> execution_filter \<Rightarrow> go_error + sql_where" where
  "execution_where env flt =
     and_then (appendInFilter (sqlxIn env)
        (appendLikeFilter env (''job_id=? AND deleted_at IS NULL'', [ArgText (efJobID flt)])
          (efKeyword flt) [''error_code'', ''error_message''])
        ''id'' (efIDs flt)) (\<lambda>w.
     and_then (appendInFilter (sqlxIn env) w ''status'' (efStatuses flt)) (\<lambda>w.
     and_then (appendInFilter (sqlxIn env) w ''trigger_type'' (efTriggerTypes flt)) (\<lambda>w.
     let w = appendTimeRange w ''started_at'' (efStartedFrom flt) (efStartedTo flt) in
     Inr (append_duration (append_duration w ''>='' (efDurationMin flt)) ''<='' (efDurationMax flt)))))"

subsection \<open>What the clauses select\<close>

definition like_any :: "env \<Rightarrow> string \<Rightarrow> string list \<Rightarrow> bool" where
  "like_any env keyword columns \<longleftrightarrow>
     keyword = [] \<or> list_ex (\<lambda>c. sqlLike env (sqlLower env c) (like_pattern env keyword)) columns"

definition in_list :: "string \<Rightarrow> string list \<Rightarrow> bool" where
  "in_list v values \<longleftrightarrow> values = [] \<or> v \<in> set values"

definition in_range :: "int \<Rightarrow> int option \<Rightarrow> int option \<Rightarrow> bool" where
  "in_range t lo hi \<longleftrightarrow> (case lo of None \<Rightarrow> True | Some l \<Rightarrow> l \<le> t) \<and> (case hi of None \<Rightarrow> True | Some h \<Rightarrow> t < h)"

definition job_matches :: "env \<Rightarrow> job_filter \<Rightarrow> job \<Rightarrow> bool" where
  "job_matches env flt j \<longleftrightarrow>
     TenantID j = jfTenantID flt \<and> ApplicationID j = jfApplicationID flt \<and> live j \<and>
     like_any env (jfKeyword flt) [Name j, Upstream j, FullMethod j] \<and>
     in_list (ID j) (jfIDs flt) \<and> in_list (Status j) (jfStatuses flt) \<and>
     in_list (Upstream j) (jfUpstreams flt) \<and>
     in_range (CreatedAt j) (jfCreatedFrom flt) (jfCreatedTo flt)"

definition execution_matches :: "env \<Rightarrow> execution_filter \<Rightarrow> execution \<Rightarrow> bool" where
  "execution_matches env flt x \<longleftrightarrow>
     JobID x = efJobID flt \<and> live x \<and>
     like_any env (efKeyword flt) [ErrorCode x, ErrorMessage x] \<and>
     in_list (ID x) (efIDs flt) \<and> in_list (Status x) (efStatuses flt) \<and>
     in_list (TriggerType x) (efTriggerTypes flt) \<and>
     in_range (StartedAt x) (efStartedFrom flt) (efStartedTo flt) \<and>
     (case efDurationMin flt of None \<Rightarrow> True | Some m \<Rightarrow> m \<le> DurationMilliseconds x) \<and>
     (case efDurationMax flt of None \<Rightarrow> True | Some m \<Rightarrow> DurationMilliseconds x \<le> m)"

text \<open>\<open>ORDER BY .. LIMIT ? OFFSET ?\<close>; an engine refuses a negative offset.\<close>

definition window :: "env \<Rightarrow> int \<Rightarrow> int \<Rightarrow> 'a list \<Rightarrow> go_error + 'a list" where
  "window env limit offset rows =
     (if limit < 0 \<or> offset < 0 then Inl (violationError env NegativeOffset)
      else Inr (take (nat limit) (drop (nat offset) rows)))"

definition newest_first :: "env \<Rightarrow> ('a row_scheme \<Rightarrow> time) \<Rightarrow> 'a row_scheme \<Rightarrow> 'a row_scheme \<Rightarrow> bool" where
  "newest_first env at a b \<longleftrightarrow> at b < at a \<or> at a = at b \<and> sqlTextLe env (ID b) (ID a)"

subsection \<open>Jobs\<close>

definition on_jobs :: "violation + 'a \<times> job list \<Rightarrow> db \<Rightarrow> violation + 'a \<times> db" where
  "on_jobs r d = (case r of Inl v \<Rightarrow> Inl v | Inr (x, js) \<Rightarrow> Inr (x, d\<lparr>jobs := js\<rparr>))"

definition on_executions :: "violation + 'a \<times> execution list \<Rightarrow> db \<Rightarrow> violation + 'a \<times> db" where
  "on_executions r d = (case r of Inl v \<Rightarrow> Inl v | Inr (x, es) \<Rightarrow> Inr (x, d\<lparr>executions := es\<rparr>))"

definition with_unit :: "violation + 'a \<Rightarrow> violation + unit \<times> 'a" where
  "with_unit r = (case r of Inl v \<Rightarrow> Inl v | Inr x \<Rightarrow> Inr ((), x))"

definition stale :: "int \<Rightarrow> unit service" where
  "stale count = ensure (count \<noteq> 0) ErrStaleVersion (ok ())"

definition CreateJob :: "env \<Rightarrow> go_context \<Rightarrow> job \<Rightarrow> unit service" where
  "CreateJob env ctx value =
     exec_stmt env ctx (\<lambda>n d. on_jobs (with_unit
       (sql_insert (job_check env) (audit_insert (audit_of env ctx n) value) (jobs d))) d)"

definition set_job :: "job \<Rightarrow> job \<Rightarrow> job" where
  "set_job value r = r\<lparr>Name := Name value, CronExpression := CronExpression value,
     Timezone := Timezone value, Upstream := Upstream value, FullMethod := FullMethod value,
     RequestJSON := RequestJSON value, TimeoutMilliseconds := TimeoutMilliseconds value,
     Status := Status value, UpdatedAt := UpdatedAt value, UpdatedBy := UpdatedBy value\<rparr>"

definition at_version :: "string \<Rightarrow> int \<Rightarrow> 'a row_scheme \<Rightarrow> bool" where
  "at_version i expected r \<longleftrightarrow> ID r = i \<and> Version r = expected \<and> DeletedAt r = None"

definition UpdateJob :: "env \<Rightarrow> go_context \<Rightarrow> job \<Rightarrow> int \<Rightarrow> unit service" where
  "UpdateJob env ctx value expected =
     attempt (exec_stmt env ctx (\<lambda>n d. on_jobs
       (sql_update (job_check env) (audit_of env ctx n) (at_version (ID value) expected)
         (set_job value) (jobs d)) d)) stale"

definition mark_deleted :: "audit_fields \<Rightarrow> 'a row_scheme \<Rightarrow> 'a row_scheme" where
  "mark_deleted af r = r\<lparr>DeletedAt := Some (afUpdatedAt af), DeletedBy := Some (afUpdatedBy af),
     UpdatedAt := afUpdatedAt af, UpdatedBy := afUpdatedBy af\<rparr>"

definition DeleteJob :: "env \<Rightarrow> go_context \<Rightarrow> string \<Rightarrow> int \<Rightarrow> audit_fields \<Rightarrow> unit service" where
  "DeleteJob env ctx i expected af =
     attempt (exec_stmt env ctx (\<lambda>n d. on_jobs
       (sql_update (job_check env) (audit_of env ctx n) (at_version i expected)
         (mark_deleted af) (jobs d)) d)) stale"

definition find_live :: "string \<Rightarrow> 'a row_scheme list \<Rightarrow> 'a row_scheme option" where
  "find_live i rows = find (\<lambda>r. ID r = i \<and> live r) rows"

definition GetJob :: "env \<Rightarrow> go_context \<Rightarrow> string \<Rightarrow> job service" where
  "GetJob env ctx i =
     query env ctx (\<lambda>d. case find_live i (jobs d) of None \<Rightarrow> Inl ErrNotFound | Some j \<Rightarrow> Inr j)"

definition ListJobs :: "env \<Rightarrow> go_context \<Rightarrow> job_filter \<Rightarrow> int \<Rightarrow> int \<Rightarrow> (job list \<times> int) service" where
  "ListJobs env ctx flt limit offset =
     attempt (lift_result (job_where env flt)) (\<lambda>_.
     attempt (query env ctx (\<lambda>d. Inr (int (length (List.filter (job_matches env flt) (jobs d)))))) (\<lambda>total.
     attempt (query env ctx (\<lambda>d. window env limit offset
       (sort_by (newest_first env CreatedAt) (List.filter (job_matches env flt) (jobs d))))) (\<lambda>values.
     ok (values, total))))"

definition listed_enabled :: "job \<Rightarrow> bool" where
  "listed_enabled j \<longleftrightarrow> TenantID j \<noteq> [] \<and> ApplicationID j \<noteq> [] \<and> Status j = enabled \<and> live j"

definition ListEnabled :: "env \<Rightarrow> go_context \<Rightarrow> (job list) service" where
  "ListEnabled env ctx =
     query env ctx (\<lambda>d. Inr (sort_by (\<lambda>a b. sqlTextLe env (ID a) (ID b)) (List.filter listed_enabled (jobs d))))"

subsection \<open>Executions\<close>

definition CreateExecution :: "env \<Rightarrow> go_context \<Rightarrow> execution \<Rightarrow> unit service" where
  "CreateExecution env ctx value =
     exec_stmt env ctx (\<lambda>n d. on_executions (with_unit
       (sql_insert (execution_check env (jobs d)) (audit_insert (audit_of env ctx n) value) (executions d))) d)"

definition CreateManualExecution :: "env \<Rightarrow> go_context \<Rightarrow> execution \<Rightarrow> int \<Rightarrow> unit service" where
  "CreateManualExecution env ctx value expectedVersion =
     attempt (exec_stmt env ctx (\<lambda>n d. Inr (find_live (JobID value) (jobs d), d))) (\<lambda>current.
       case current of
         None \<Rightarrow> fail ErrNotFound
       | Some j \<Rightarrow>
           ensure (\<not> (Version j \<noteq> expectedVersion \<or> Status j \<noteq> enabled)) ErrStaleVersion (
           attempt (others_commit env (\<lambda>d. find_live (JobID value) (jobs d))) (\<lambda>_.
           CreateExecution env ctx value)))"

definition set_finished :: "execution \<Rightarrow> execution \<Rightarrow> execution" where
  "set_finished value r = r\<lparr>Status := Status value, ResponseJSON := ResponseJSON value,
     ErrorCode := ErrorCode value, ErrorMessage := ErrorMessage value, FinishedAt := FinishedAt value,
     DurationMilliseconds := DurationMilliseconds value, UpdatedAt := UpdatedAt value,
     UpdatedBy := UpdatedBy value\<rparr>"

definition FinishExecution :: "env \<Rightarrow> go_context \<Rightarrow> execution \<Rightarrow> unit service" where
  "FinishExecution env ctx value =
     attempt (exec_stmt env ctx (\<lambda>n d. on_executions
       (sql_update (execution_check env (jobs d)) (audit_of env ctx n)
         (\<lambda>r. ID r = ID value \<and> Version r = Version value) (set_finished value) (executions d)) d)) stale"

definition GetExecution_row :: "env \<Rightarrow> go_context \<Rightarrow> string \<Rightarrow> execution service" where
  "GetExecution_row env ctx i =
     query env ctx (\<lambda>d. case find_live i (executions d) of
       None \<Rightarrow> Inl ErrExecutionNotFound | Some x \<Rightarrow> Inr x)"

definition ListExecutions_rows ::
  "env \<Rightarrow> go_context \<Rightarrow> execution_filter \<Rightarrow> int \<Rightarrow> int \<Rightarrow> (execution list \<times> int) service" where
  "ListExecutions_rows env ctx flt limit offset =
     attempt (lift_result (execution_where env flt)) (\<lambda>_.
     attempt (query env ctx (\<lambda>d. Inr (int (length (List.filter (execution_matches env flt) (executions d)))))) (\<lambda>total.
     attempt (query env ctx (\<lambda>d. window env limit offset
       (sort_by (newest_first env StartedAt) (List.filter (execution_matches env flt) (executions d))))) (\<lambda>values.
     ok (values, total))))"

text \<open>The rows that retention may delete: terminal, finished before the cutoff, not deleted yet.\<close>

definition expired :: "time \<Rightarrow> execution \<Rightarrow> bool" where
  "expired before x \<longleftrightarrow>
     (Status x = succeeded \<or> Status x = failed) \<and>
     (case FinishedAt x of None \<Rightarrow> False | Some t \<Rightarrow> t < before) \<and> DeletedAt x = None"

definition finish_time :: "execution \<Rightarrow> time" where
  "finish_time x = (case FinishedAt x of None \<Rightarrow> 0 | Some t \<Rightarrow> t)"

definition oldest_first :: "env \<Rightarrow> execution \<Rightarrow> execution \<Rightarrow> bool" where
  "oldest_first env a b \<longleftrightarrow>
     finish_time a < finish_time b \<or> finish_time a = finish_time b \<and> sqlTextLe env (ID a) (ID b)"

definition quoted :: "string \<Rightarrow> string" where
  "quoted t = CHR 0x27 # t @ [CHR 0x27]"

definition retention_update :: string where
  "retention_update =
     ''UPDATE job_executions SET deleted_at=?,deleted_by=?,updated_at=?,updated_by=?,'' @
     ''version=version+1 WHERE id IN (?) AND status IN ('' @ quoted succeeded @ '','' @
     quoted failed @ '') AND finished_at<? AND deleted_at IS NULL''"

definition SoftDeleteTerminalExecutionsBefore ::
  "env \<Rightarrow> go_context \<Rightarrow> time \<Rightarrow> int \<Rightarrow> audit_fields \<Rightarrow> int service" where
  "SoftDeleteTerminalExecutionsBefore env ctx before limit af =
     attempt (exec_stmt env ctx (\<lambda>n d.
         Inr (map ID (take (nat limit) (sort_by (oldest_first env) (List.filter (expired before) (executions d)))), d))) (\<lambda>ids.
     if ids = [] then ok 0
     else attempt (lift_result (sqlxIn env retention_update ids)) (\<lambda>_.
       attempt (others_commit env (\<lambda>_. ())) (\<lambda>_.
       exec_stmt env ctx (\<lambda>n d. on_executions
         (sql_update (execution_check env (jobs d)) (audit_of env ctx n)
           (\<lambda>r. ID r \<in> set ids \<and> expired before r) (mark_deleted af) (executions d)) d))))"

end
