(* ===== verification/Validation.thy ===== *)
theory Validation
  imports World
begin

section \<open>Normalising and validating requests\<close>

text \<open>
  The pure part of \<^verbatim>\<open>internal/job/service.go\<close>: paging, the filters of the two listings, the
  manual-trigger guard, and \<open>normalizeAndValidate\<close>, which also asks the dynamic invoker whether
  the target method accepts the request. \<open>time.LoadLocation\<close> (the host's time-zone database),
  the cron parser and the invoker are parameters.
\<close>

subsection \<open>Paging\<close>

definition pagination :: "int \<Rightarrow> int \<Rightarrow> go_error + int \<times> int" where
  "pagination page pageSize =
     (let page = (if page \<le> 0 then 1 else page);
          pageSize = (if pageSize \<le> 0 then 20 else pageSize)
      in if pageSize > 100 then Inl (Invalid ''page_size must not exceed 100'' None)
         else Inr (page, pageSize))"

text \<open>The offset \<open>(page-1)*pageSize\<close> of both listings, in 64-bit arithmetic.\<close>

definition page_offset :: "int \<Rightarrow> int \<Rightarrow> int" where
  "page_offset page pageSize = i64 (i64 (page - 1) * pageSize)"

subsection \<open>Filters\<close>

fun normalizeSet_loop :: "string list option \<Rightarrow> string list \<Rightarrow> string list \<Rightarrow> go_error + string list" where
  "normalizeSet_loop allowed result [] = Inr result"
| "normalizeSet_loop allowed result (value # values) =
     (let value = trim_space value in
      if value = [] \<or> length value > 200
      then Inl (Invalid ''filter values must be non-empty and at most 200 bytes'' None)
      else case allowed of
        None \<Rightarrow> normalizeSet_loop allowed (if value \<in> set result then result else result @ [value]) values
      | Some words \<Rightarrow>
          let value = to_lower value in
          if value \<notin> set words then Inl (ErrorString ''unsupported filter value'')
          else normalizeSet_loop allowed (if value \<in> set result then result else result @ [value]) values)"

definition normalizeSet :: "string list \<Rightarrow> string list option \<Rightarrow> go_error + string list" where
  "normalizeSet values allowed =
     (if length values > 100 then Inl (Invalid ''filter lists must not exceed 100 values'' None)
      else normalizeSet_loop allowed [] values)"

definition validateRange :: "time option \<Rightarrow> time option \<Rightarrow> string \<Rightarrow> go_error + unit" where
  "validateRange lo hi name =
     (case (lo, hi) of
        (Some l, Some h) \<Rightarrow>
          if \<not> l < h then Inl (Invalid (name @ ''_from must be before '' @ name @ ''_to'') None) else Inr ()
      | _ \<Rightarrow> Inr ())"

definition invalid_cause :: "string \<Rightarrow> go_error + 'a \<Rightarrow> go_error + 'a" where
  "invalid_cause m r = (case r of Inl e \<Rightarrow> Inl (Invalid m (Some e)) | Inr x \<Rightarrow> Inr x)"

definition normalizeJobFilter :: "job_filter \<Rightarrow> go_error + job_filter" where
  "normalizeJobFilter flt =
     (let flt = flt\<lparr>jfKeyword := trim_space (jfKeyword flt)\<rparr> in
      if length (jfKeyword flt) > 200 then Inl (Invalid ''keyword must not exceed 200 bytes'' None)
      else
      and_then (normalizeSet (jfIDs flt) None) (\<lambda>ids.
      and_then (invalid_cause ''statuses must contain enabled or disabled''
                 (normalizeSet (jfStatuses flt) (Some [enabled, disabled]))) (\<lambda>statuses.
      and_then (normalizeSet (jfUpstreams flt) None) (\<lambda>upstreams.
      and_then (validateRange (jfCreatedFrom flt) (jfCreatedTo flt) ''created'') (\<lambda>_.
      Inr (flt\<lparr>jfIDs := ids, jfStatuses := statuses, jfUpstreams := upstreams\<rparr>))))))"

definition negative_bound :: "int option \<Rightarrow> bool" where
  "negative_bound b \<longleftrightarrow> (case b of None \<Rightarrow> False | Some n \<Rightarrow> n < 0)"

definition normalizeExecutionFilter :: "execution_filter \<Rightarrow> go_error + execution_filter" where
  "normalizeExecutionFilter flt =
     (let flt = flt\<lparr>efKeyword := trim_space (efKeyword flt)\<rparr> in
      if length (efKeyword flt) > 200 then Inl (Invalid ''keyword must not exceed 200 bytes'' None)
      else
      and_then (normalizeSet (efIDs flt) None) (\<lambda>ids.
      and_then (invalid_cause ''invalid execution status''
                 (normalizeSet (efStatuses flt) (Some [running, succeeded, failed]))) (\<lambda>statuses.
      and_then (invalid_cause ''invalid trigger type''
                 (normalizeSet (efTriggerTypes flt) (Some [''scheduled'', ''manual'']))) (\<lambda>triggers.
      and_then (validateRange (efStartedFrom flt) (efStartedTo flt) ''started'') (\<lambda>_.
      if negative_bound (efDurationMin flt) \<or> negative_bound (efDurationMax flt)
      then Inl (Invalid ''duration range must not be negative'' None)
      else case (efDurationMin flt, efDurationMax flt) of
        (Some lo, Some hi) \<Rightarrow>
          if lo > hi then Inl (Invalid ''duration minimum must not exceed maximum'' None)
          else Inr (flt\<lparr>efIDs := ids, efStatuses := statuses, efTriggerTypes := triggers\<rparr>)
      | _ \<Rightarrow> Inr (flt\<lparr>efIDs := ids, efStatuses := statuses, efTriggerTypes := triggers\<rparr>))))))"

subsection \<open>Manual trigger\<close>

definition validateManualTrigger :: "job \<Rightarrow> int \<Rightarrow> go_error + unit" where
  "validateManualTrigger value expected =
     (if Version value \<noteq> expected then Inl (translate ErrStaleVersion)
      else if Status value \<noteq> enabled then Inl (Conflict ''scheduled job is not enabled'' None)
      else Inr ())"

subsection \<open>Job definitions\<close>

definition zero_input :: input where
  "zero_input = \<lparr>inTenantID = [], inApplicationID = [], inName = [], inCronExpression = [],
     inTimezone = [], inUpstream = [], inFullMethod = [], inRequestJSON = [],
     inTimeoutMilliseconds = 0, inEnabled = False\<rparr>"

definition trim_input :: "input \<Rightarrow> input" where
  "trim_input i = i\<lparr>inTenantID := trim_space (inTenantID i), inApplicationID := trim_space (inApplicationID i),
     inName := trim_space (inName i), inCronExpression := trim_space (inCronExpression i),
     inTimezone := trim_space (inTimezone i), inUpstream := trim_space (inUpstream i),
     inFullMethod := trim_space (inFullMethod i), inRequestJSON := trim_space (inRequestJSON i)\<rparr>"

definition normalizeAndValidate :: "env \<Rightarrow> input \<Rightarrow> input service" where
  "normalizeAndValidate env input =
     (let input = trim_input input in
      ensure (\<not> (inTenantID input = [] \<or> inApplicationID input = [] \<or> inName input = [] \<or>
                 inCronExpression input = [] \<or> inUpstream input = [] \<or> inFullMethod input = []))
        (Invalid ''tenant_id, application_id, name, cron_expression, upstream, and full_method are required'' None) (
      let input = (if inTimezone input = [] then input\<lparr>inTimezone := ''Asia/Shanghai''\<rparr> else input) in
      case loadLocation env (inTimezone input) of
        Some e \<Rightarrow> fail (Invalid ''invalid timezone'' (Some e))
      | None \<Rightarrow>
      (case parseCron env (inCronExpression input) of
        Some e \<Rightarrow> fail (Invalid ''invalid cron_expression'' (Some e))
      | None \<Rightarrow>
      ensure (\<not> (inTimeoutMilliseconds input < 100 \<or> inTimeoutMilliseconds input > 1800000))
        (Invalid ''timeout_milliseconds must be between 100 and 1800000'' None) (
      let input = (if inRequestJSON input = [] then input\<lparr>inRequestJSON := ''{}''\<rparr> else input) in
      attempt (on_error (\<lambda>e. Invalid ''invalid dynamic gRPC target or request'' (Some e))
         (invoker_Validate env (inUpstream input) (inFullMethod input) (inRequestJSON input))) (\<lambda>_.
      ok input)))))"

end
