(* ===== verification/Service.thy ===== *)
theory Service
  imports Repository Validation
begin

section \<open>The job service: package job, service.go\<close>

text \<open>
  The operations of \<open>Service\<close>, each with its guards in the code's order. A mutating operation
  ends in a deferred call of \<open>finishOperation\<close>, which records an entry built from the variables
  as they are at the return; \<open>deferred\<close> is that mechanism, and the bodies carry the captured
  variable (the input, which validation replaces by the zero value when it fails, or the
  application id) next to their result. Where the code returns a value next to a non-nil error,
  the value is dropped: every caller discards it.
\<close>

subsection \<open>Who may do what\<close>

definition actorFromContext :: "go_context \<Rightarrow> go_error + string" where
  "actorFromContext ctx =
     (case cPrincipal ctx of
        None \<Rightarrow> Inl (Unauthorized ''authenticated actor is required'')
      | Some p \<Rightarrow> if pID p = [] then Inl (Unauthorized ''authenticated actor is required'') else Inr (pID p))"

definition verifyApplication :: "env \<Rightarrow> string \<Rightarrow> string \<Rightarrow> unit service" where
  "verifyApplication env tenantID applicationID =
     attempt tick (\<lambda>n. case verifyGrant env n (trim_space tenantID) (trim_space applicationID) of
         NotGranted \<Rightarrow> fail (Forbidden ''tenant application access denied'')
       | GrantFailed e \<Rightarrow> fail (Unavailable ''verify tenant application access'' (Some e))
       | Granted \<Rightarrow> ok ())"

definition authorizeScope :: "env \<Rightarrow> go_context \<Rightarrow> string \<Rightarrow> string \<Rightarrow> unit service" where
  "authorizeScope env ctx tenantID applicationID =
     (let tenantID = trim_space tenantID; applicationID = trim_space applicationID in
      ensure (\<not> (tenantID = [] \<or> applicationID = []))
        (Invalid ''tenant_id and application_id are required'' None) (
      case cPrincipal ctx of
        None \<Rightarrow> fail (Unauthorized ''authenticated actor is required'')
      | Some identity \<Rightarrow>
          ensure (pID identity \<noteq> []) (Unauthorized ''authenticated actor is required'') (
          ensure (\<not> (pType identity = TypeUser \<and> (pTenantID identity = [] \<or> pTenantID identity \<noteq> tenantID)))
            (Forbidden ''tenant access denied'') (
          verifyApplication env tenantID applicationID))))"

subsection \<open>The operation log\<close>

text \<open>\<open>time.Time.Sub\<close> saturates; \<open>Duration.Milliseconds\<close> truncates towards zero.\<close>

definition time_sub :: "time \<Rightarrow> time \<Rightarrow> int" where
  "time_sub a b = max (- (2 ^ 63)) (min max_i64 (a - b))"

definition milliseconds :: "int \<Rightarrow> int" where
  "milliseconds d = (if d < 0 then - ((- d) div 1000000) else d div 1000000)"

fun finishOperation ::
  "env \<Rightarrow> go_context \<Rightarrow> time \<Rightarrow> entry \<Rightarrow> go_error option \<Rightarrow> world \<Rightarrow> go_error option \<times> world" where
  "finishOperation env ctx started entry businessErr w =
     (if \<not> operationsEnabled env then (businessErr, w)
      else
        let n = wTick w;
            entry = entry\<lparr>Duration := time_sub (nowAt env n) started, Succeeded := (businessErr = None)\<rparr>;
            entry = (case businessErr of None \<Rightarrow> entry
                     | Some e \<Rightarrow> entry\<lparr>EntryErrorMessage := truncate_text (error_text e) 2000\<rparr>);
            entry = (case requestid_FromContext ctx of None \<Rightarrow> entry | Some i \<Rightarrow> entry\<lparr>RequestID := i\<rparr>);
            logErr = recordError env (Suc n) entry;
            w = w\<lparr>wTick := Suc (Suc n), wLog := wLog w @ (if logErr = None then [entry] else [])\<rparr>
        in if businessErr \<noteq> None then (businessErr, w)
           else (case logErr of None \<Rightarrow> (None, w)
                 | Some e \<Rightarrow> (Some (Unavailable ''enqueue operation log'' (Some e)), w)))"

declare finishOperation.simps [simp del]

definition deferred ::
  "env \<Rightarrow> go_context \<Rightarrow> time \<Rightarrow> ('a option \<Rightarrow> 'c \<Rightarrow> entry) \<Rightarrow> (go_error \<times> 'c, world, 'a \<times> 'c) prog \<Rightarrow>
   'a service" where
  "deferred env ctx started mk body =
     (\<lambda>w. case body w of
        (Inl (e, c), w1) \<Rightarrow>
          (case finishOperation env ctx started (mk None c) (Some e) w1 of
             (None, w2) \<Rightarrow> (Inl e, w2) | (Some e', w2) \<Rightarrow> (Inl e', w2))
      | (Inr (x, c), w1) \<Rightarrow>
          (case finishOperation env ctx started (mk (Some x) c) None w1 of
             (None, w2) \<Rightarrow> (Inr x, w2) | (Some e', w2) \<Rightarrow> (Inl e', w2)))"

definition job_entry :: "string \<Rightarrow> string \<Rightarrow> string \<Rightarrow> (string \<times> request_value) list \<Rightarrow> entry" where
  "job_entry op rid app req =
     \<lparr>Operation = op, ResourceType = ''scheduled_job'', ResourceID = rid, EntryApplicationID = app,
      Request = req, Duration = 0, Succeeded = False, EntryErrorMessage = [], RequestID = []\<rparr>"

definition input_request :: "input \<Rightarrow> (string \<times> request_value) list" where
  "input_request i = [(''name'', RText (inName i)), (''upstream'', RText (inUpstream i)),
     (''full_method'', RText (inFullMethod i)), (''enabled'', RBool (inEnabled i))]"

subsection \<open>Create\<close>

definition new_job :: "string \<Rightarrow> input \<Rightarrow> time \<Rightarrow> string \<Rightarrow> job" where
  "new_job i input now actor =
     \<lparr>ID = i, TenantID = inTenantID input, ApplicationID = inApplicationID input,
      Status = statusFromEnabled (inEnabled input), Version = 1, CreatedAt = now, UpdatedAt = now,
      CreatedBy = actor, UpdatedBy = actor, DeletedAt = None, DeletedBy = None,
      Name = inName input, CronExpression = inCronExpression input, Timezone = inTimezone input,
      Upstream = inUpstream input, FullMethod = inFullMethod input, RequestJSON = inRequestJSON input,
      TimeoutMilliseconds = inTimeoutMilliseconds input\<rparr>"

definition trim_scope :: "input \<Rightarrow> input" where
  "trim_scope i = i\<lparr>inTenantID := trim_space (inTenantID i), inApplicationID := trim_space (inApplicationID i)\<rparr>"

definition Create_body :: "env \<Rightarrow> go_context \<Rightarrow> input \<Rightarrow> (go_error \<times> input, world, job \<times> input) prog" where
  "Create_body env ctx input =
     attempt (on_error (\<lambda>e. (e, input)) (lift_result (actorFromContext ctx))) (\<lambda>actor.
     let input = trim_scope input in
     attempt (on_error (\<lambda>e. (e, input)) (authorizeScope env ctx (inTenantID input) (inApplicationID input))) (\<lambda>_.
     attempt (on_error (\<lambda>e. (e, zero_input)) (normalizeAndValidate env input)) (\<lambda>input.
     attempt (on_error (\<lambda>e. (translate e, input)) (
       attempt (s_now env) (\<lambda>now.
       attempt (uuid_NewString env) (\<lambda>i.
       let value = new_job i input now actor in
       attempt (Within env ctx (CreateJob env ctx value)) (\<lambda>_.
       attempt signalChanged (\<lambda>_.
       ok value)))))) (\<lambda>value. ok (value, input)))))"

definition Create :: "env \<Rightarrow> go_context \<Rightarrow> input \<Rightarrow> job service" where
  "Create env ctx input =
     attempt (s_now env) (\<lambda>started.
     deferred env ctx started
       (\<lambda>result input. job_entry ''scheduler.job.create''
          (case result of None \<Rightarrow> [] | Some j \<Rightarrow> ID j) (inApplicationID input) (input_request input))
       (Create_body env ctx input))"

subsection \<open>Update\<close>

definition apply_input :: "input \<Rightarrow> job \<Rightarrow> job" where
  "apply_input input current = current\<lparr>Name := inName input, CronExpression := inCronExpression input,
     Timezone := inTimezone input, Upstream := inUpstream input, FullMethod := inFullMethod input,
     RequestJSON := inRequestJSON input, TimeoutMilliseconds := inTimeoutMilliseconds input,
     Status := statusFromEnabled (inEnabled input)\<rparr>"

definition Update_body ::
  "env \<Rightarrow> go_context \<Rightarrow> string \<Rightarrow> input \<Rightarrow> int \<Rightarrow> (go_error \<times> input, world, job \<times> input) prog" where
  "Update_body env ctx i input expected =
     ensure (\<not> expected < 1) (Invalid ''version must be positive'' None, input) (
     attempt (on_error (\<lambda>e. (e, input)) (lift_result (actorFromContext ctx))) (\<lambda>actor.
     attempt (on_error (\<lambda>e. (translate e, input)) (GetJob env ctx (trim_space i))) (\<lambda>current.
     attempt (on_error (\<lambda>e. (e, input)) (authorizeScope env ctx (TenantID current) (ApplicationID current))) (\<lambda>_.
     let input = input\<lparr>inTenantID := TenantID current, inApplicationID := ApplicationID current\<rparr> in
     attempt (on_error (\<lambda>e. (e, zero_input)) (normalizeAndValidate env input)) (\<lambda>input.
     attempt (on_error (\<lambda>e. (translate e, input)) (
       attempt (s_now env) (\<lambda>now.
       let current = (apply_input input current)\<lparr>UpdatedAt := now, UpdatedBy := actor\<rparr> in
       attempt (Within env ctx (UpdateJob env ctx current expected)) (\<lambda>_.
       let current = current\<lparr>Version := i64 (expected + 1)\<rparr> in
       attempt signalChanged (\<lambda>_.
       ok current))))) (\<lambda>value. ok (value, input)))))))"

definition Update :: "env \<Rightarrow> go_context \<Rightarrow> string \<Rightarrow> input \<Rightarrow> int \<Rightarrow> job service" where
  "Update env ctx i input expected =
     attempt (s_now env) (\<lambda>started.
     deferred env ctx started
       (\<lambda>_ input. job_entry ''scheduler.job.update'' (trim_space i) (inApplicationID input)
          (input_request input @ [(''expected_version'', RInt expected)]))
       (Update_body env ctx i input expected))"

subsection \<open>Delete\<close>

definition Delete_body ::
  "env \<Rightarrow> go_context \<Rightarrow> string \<Rightarrow> int \<Rightarrow> (go_error \<times> string, world, unit \<times> string) prog" where
  "Delete_body env ctx i expected =
     ensure (\<not> expected < 1) (Invalid ''version must be positive'' None, []) (
     attempt (on_error (\<lambda>e. (e, [])) (lift_result (actorFromContext ctx))) (\<lambda>actor.
     attempt (on_error (\<lambda>e. (translate e, [])) (GetJob env ctx (trim_space i))) (\<lambda>current.
     let applicationID = ApplicationID current in
     attempt (on_error (\<lambda>e. (e, applicationID)) (authorizeScope env ctx (TenantID current) (ApplicationID current))) (\<lambda>_.
     attempt (on_error (\<lambda>e. (translate e, applicationID)) (Within env ctx (
       attempt (s_now env) (\<lambda>now.
       DeleteJob env ctx (trim_space i) expected \<lparr>afUpdatedAt = now, afUpdatedBy = actor\<rparr>)))) (\<lambda>_.
     attempt signalChanged (\<lambda>_.
     ok ((), applicationID)))))))"

definition Delete :: "env \<Rightarrow> go_context \<Rightarrow> string \<Rightarrow> int \<Rightarrow> unit service" where
  "Delete env ctx i expected =
     attempt (s_now env) (\<lambda>started.
     deferred env ctx started
       (\<lambda>_ applicationID. job_entry ''scheduler.job.delete'' (trim_space i) applicationID
          [(''expected_version'', RInt expected)])
       (Delete_body env ctx i expected))"

subsection \<open>Reading jobs\<close>

definition Get :: "env \<Rightarrow> go_context \<Rightarrow> string \<Rightarrow> job service" where
  "Get env ctx i =
     attempt (on_error translate (GetJob env ctx (trim_space i))) (\<lambda>value.
     attempt (authorizeScope env ctx (TenantID value) (ApplicationID value)) (\<lambda>_.
     ok value))"

definition make_page :: "int \<Rightarrow> int \<Rightarrow> 'a list \<times> int \<Rightarrow> 'a page" where
  "make_page page pageSize r = \<lparr>Items = fst r, Total = snd r, PageNumber = page, PageSize = pageSize\<rparr>"

definition List_jobs :: "env \<Rightarrow> go_context \<Rightarrow> job_filter \<Rightarrow> int \<Rightarrow> int \<Rightarrow> (job page) service" where
  "List_jobs env ctx flt page pageSize =
     (let flt = flt\<lparr>jfTenantID := trim_space (jfTenantID flt), jfApplicationID := trim_space (jfApplicationID flt)\<rparr> in
      attempt (authorizeScope env ctx (jfTenantID flt) (jfApplicationID flt)) (\<lambda>_.
      attempt (lift_result (pagination page pageSize)) (\<lambda>(page, pageSize).
      attempt (lift_result (normalizeJobFilter flt)) (\<lambda>flt.
      attempt (on_error translate (ListJobs env ctx flt pageSize (page_offset page pageSize))) (\<lambda>r.
      ok (make_page page pageSize r))))))"

subsection \<open>Executing a job\<close>

definition zero_execution :: execution where
  "zero_execution =
     \<lparr>ID = [], TenantID = [], ApplicationID = [], Status = [], Version = 0, CreatedAt = 0, UpdatedAt = 0,
      CreatedBy = [], UpdatedBy = [], DeletedAt = None, DeletedBy = None, JobID = [], TriggerType = [],
      ResponseJSON = [], ErrorCode = [], ErrorMessage = [], StartedAt = 0, FinishedAt = None,
      DurationMilliseconds = 0\<rparr>"

definition new_execution :: "string \<Rightarrow> job \<Rightarrow> string \<Rightarrow> time \<Rightarrow> string \<Rightarrow> execution" where
  "new_execution i value triggerType started actor =
     \<lparr>ID = i, TenantID = TenantID value, ApplicationID = ApplicationID value, Status = running,
      Version = 1, CreatedAt = started, UpdatedAt = started, CreatedBy = actor, UpdatedBy = actor,
      DeletedAt = None, DeletedBy = None, JobID = ID value, TriggerType = triggerType,
      ResponseJSON = [], ErrorCode = [], ErrorMessage = [], StartedAt = started, FinishedAt = None,
      DurationMilliseconds = 0\<rparr>"

text \<open>The context of the outgoing call.\<close>

definition invoke_context :: "go_context \<Rightarrow> string \<Rightarrow> job \<Rightarrow> go_context" where
  "invoke_context ctx i value =
     (let ctx = ctx\<lparr>cIdempotencyKey := Some i\<rparr>;
          ctx = (case requestid_FromContext ctx of None \<Rightarrow> ctx\<lparr>cRequestID := Some i\<rparr> | Some _ \<Rightarrow> ctx)
      in ctx\<lparr>cMetadata := cMetadata ctx @
           [(''x-tenant-id'', TenantID value), (''x-application-id'', ApplicationID value)]\<rparr>)"

text \<open>The terminal state of an execution, from the answer of the invoker.\<close>

definition finish_of :: "env \<Rightarrow> execution \<Rightarrow> time \<Rightarrow> go_error + string \<Rightarrow> execution" where
  "finish_of env x finished answer =
     (let x = x\<lparr>FinishedAt := Some finished,
                DurationMilliseconds := milliseconds (time_sub finished (StartedAt x)),
                UpdatedAt := finished\<rparr>
      in case answer of
           Inl e \<Rightarrow> x\<lparr>Status := failed, ErrorCode := grpcCodeName env e,
                       ErrorMessage := truncate_text (error_text e) 2000\<rparr>
         | Inr response \<Rightarrow> x\<lparr>Status := succeeded, ResponseJSON := truncate_text response (2 ^ 20)\<rparr>)"

definition executeWithLease ::
  "env \<Rightarrow> go_context \<Rightarrow> job \<Rightarrow> string \<Rightarrow> string \<Rightarrow> int \<Rightarrow> execution service" where
  "executeWithLease env ctx value triggerType actor expectedVersion =
     attempt (s_now env) (\<lambda>started.
     attempt (uuid_NewString env) (\<lambda>i.
     let execution = new_execution i value triggerType started actor in
     attempt (on_error translate (Within env ctx (
       if triggerType = ''manual'' then CreateManualExecution env ctx execution expectedVersion
       else CreateExecution env ctx execution))) (\<lambda>_.
     let ctx = invoke_context ctx i value in
     attempt (invoker_Invoke env ctx (Upstream value) (FullMethod value) (RequestJSON value)) (\<lambda>answer.
     attempt (s_now env) (\<lambda>finished.
     let execution = finish_of env execution finished answer;
         finishCtx = with_timeout 5000000000 (without_cancel ctx) in
     attempt (on_error translate (Within env finishCtx (FinishExecution env finishCtx execution))) (\<lambda>_.
     let execution = execution\<lparr>Version := i64 (Version execution + 1)\<rparr> in
     case answer of
       Inl e \<Rightarrow> fail (Unavailable ''scheduled gRPC invocation failed'' (Some e))
     | Inr _ \<Rightarrow> ok execution))))))"

definition lock_key :: "job \<Rightarrow> string" where
  "lock_key value = ''scheduler:job:'' @ ID value"

definition timeout_duration :: "job \<Rightarrow> int" where
  "timeout_duration value = i64 (i64 (TimeoutMilliseconds value) * 1000000)"

definition lock_ttl :: "job \<Rightarrow> int" where
  "lock_ttl value = i64 (timeout_duration value + 30000000000)"

definition execute ::
  "env \<Rightarrow> go_context \<Rightarrow> job \<Rightarrow> string \<Rightarrow> string \<Rightarrow> int \<Rightarrow> execution service" where
  "execute env parent value triggerType actor expectedVersion =
     ensure (lockerPresent env) (Unavailable ''distributed scheduler lock is unavailable'' None) (
     let ctx = with_timeout (timeout_duration value) parent in
     attempt tick (\<lambda>n.
     let answer = tryLock env n (lock_key value) (lock_ttl value);
         settle = (\<lambda>(err, execution).
           (case laError answer err of
              Some e \<Rightarrow>
                if \<not> laAcquired answer then Inl (Unavailable ''acquire scheduled job lock'' (Some e))
                else Inl (translate e)
            | None \<Rightarrow>
                if \<not> laAcquired answer then Inl (Conflict ''scheduled job is already running'' None)
                else Inr execution))
     in if laRan answer
        then (\<lambda>w. case executeWithLease env ctx value triggerType actor expectedVersion w of
               (Inl e, w') \<Rightarrow> (settle (Some e, zero_execution), w')
             | (Inr x, w') \<Rightarrow> (settle (None, x), w'))
        else (\<lambda>w. (settle (None, zero_execution), w))))"

definition Trigger_body ::
  "env \<Rightarrow> go_context \<Rightarrow> string \<Rightarrow> int \<Rightarrow> (go_error \<times> string, world, execution \<times> string) prog" where
  "Trigger_body env ctx i expected =
     ensure (\<not> expected < 1) (Invalid ''version must be positive'' None, []) (
     attempt (on_error (\<lambda>e. (e, [])) (lift_result (actorFromContext ctx))) (\<lambda>actor.
     attempt (on_error (\<lambda>e. (translate e, [])) (GetJob env ctx (trim_space i))) (\<lambda>value.
     let applicationID = ApplicationID value in
     attempt (on_error (\<lambda>e. (e, applicationID)) (
       attempt (authorizeScope env ctx (TenantID value) (ApplicationID value)) (\<lambda>_.
       attempt (lift_result (validateManualTrigger value expected)) (\<lambda>_.
       execute env ctx value ''manual'' actor expected)))) (\<lambda>x.
     ok (x, applicationID)))))"

definition Trigger :: "env \<Rightarrow> go_context \<Rightarrow> string \<Rightarrow> int \<Rightarrow> execution service" where
  "Trigger env ctx i expected =
     attempt (s_now env) (\<lambda>started.
     deferred env ctx started
       (\<lambda>_ applicationID. job_entry ''scheduler.job.trigger'' (trim_space i) applicationID
          [(''expected_version'', RInt expected)])
       (Trigger_body env ctx i expected))"

definition scheduler_context :: "go_context \<Rightarrow> string \<Rightarrow> go_context" where
  "scheduler_context ctx tenantID =
     ctx\<lparr>cPrincipal := Some \<lparr>pID = ''scheduler-service'', pType = TypeSystem, pTenantID = tenantID\<rparr>\<rparr>"

definition ExecuteScheduled :: "env \<Rightarrow> go_context \<Rightarrow> job \<Rightarrow> execution service" where
  "ExecuteScheduled env ctx value =
     (let ctx = scheduler_context ctx (TenantID value) in
      attempt (on_error translate (GetJob env ctx (ID value))) (\<lambda>current.
      ensure (\<not> (Version current \<noteq> Version value \<or> Status current \<noteq> enabled))
        (Conflict ''scheduled job definition changed before execution'' (Some ErrStaleVersion)) (
      attempt (verifyApplication env (TenantID current) (ApplicationID current)) (\<lambda>_.
      execute env ctx current ''scheduled'' ''scheduler-service'' 0))))"

subsection \<open>Reading executions\<close>

definition GetExecution :: "env \<Rightarrow> go_context \<Rightarrow> string \<Rightarrow> execution service" where
  "GetExecution env ctx i =
     attempt (on_error translate (GetExecution_row env ctx (trim_space i))) (\<lambda>value.
     attempt (authorizeScope env ctx (TenantID value) (ApplicationID value)) (\<lambda>_.
     ok value))"

definition ListExecutions ::
  "env \<Rightarrow> go_context \<Rightarrow> execution_filter \<Rightarrow> int \<Rightarrow> int \<Rightarrow> (execution page) service" where
  "ListExecutions env ctx flt page pageSize =
     (let flt = flt\<lparr>efJobID := trim_space (efJobID flt)\<rparr> in
      attempt (on_error translate (GetJob env ctx (efJobID flt))) (\<lambda>value.
      attempt (authorizeScope env ctx (TenantID value) (ApplicationID value)) (\<lambda>_.
      attempt (lift_result (pagination page pageSize)) (\<lambda>(page, pageSize).
      attempt (lift_result (normalizeExecutionFilter flt)) (\<lambda>flt.
      attempt (on_error translate (ListExecutions_rows env ctx flt pageSize (page_offset page pageSize))) (\<lambda>r.
      ok (make_page page pageSize r)))))))"

end
