(* ===== verification/Http_Handlers.thy ===== *)
theory Http_Handlers
  imports Http_Access Health Service
begin

section \<open>HTTP operations: package httptransport, handler.go and scheduler\_body.go\<close>

text \<open>
  The operations behind the chain: the request records with their \<open>binding\<close> tags, the bodies of
  the responses, and one definition per handler. \<open>ShouldBindJSON\<close> decodes the body, an argument,
  and then checks the tags; both failures are the same 400 to the client.
\<close>

subsection \<open>Bodies\<close>

record job_body =
  jbID :: string
  jbTenantID :: string
  jbApplicationID :: string
  jbName :: string
  jbCronExpression :: string
  jbTimezone :: string
  jbUpstream :: string
  jbFullMethod :: string
  jbRequestJSON :: string
  jbTimeoutMilliseconds :: int
  jbStatus :: string
  jbVersion :: int
  jbCreatedAt :: time
  jbUpdatedAt :: time
  jbCreatedBy :: string
  jbUpdatedBy :: string

record execution_body =
  ebID :: string
  ebJobID :: string
  ebTenantID :: string
  ebApplicationID :: string
  ebTriggerType :: string
  ebStatus :: string
  ebResponseJSON :: string
  ebErrorCode :: string
  ebErrorMessage :: string
  ebStartedAt :: time
  ebFinishedAt :: "time option"
  ebDurationMilliseconds :: int
  ebVersion :: int
  ebCreatedAt :: time
  ebUpdatedAt :: time
  ebCreatedBy :: string
  ebUpdatedBy :: string

definition jobBody :: "job \<Rightarrow> job_body" where
  "jobBody v =
     \<lparr>jbID = ID v, jbTenantID = TenantID v, jbApplicationID = ApplicationID v, jbName = Name v,
      jbCronExpression = CronExpression v, jbTimezone = Timezone v, jbUpstream = Upstream v,
      jbFullMethod = FullMethod v, jbRequestJSON = RequestJSON v,
      jbTimeoutMilliseconds = TimeoutMilliseconds v, jbStatus = Status v, jbVersion = Version v,
      jbCreatedAt = CreatedAt v, jbUpdatedAt = UpdatedAt v, jbCreatedBy = CreatedBy v,
      jbUpdatedBy = UpdatedBy v\<rparr>"

definition executionBody :: "execution \<Rightarrow> execution_body" where
  "executionBody v =
     \<lparr>ebID = ID v, ebJobID = JobID v, ebTenantID = TenantID v, ebApplicationID = ApplicationID v,
      ebTriggerType = TriggerType v, ebStatus = Status v, ebResponseJSON = ResponseJSON v,
      ebErrorCode = ErrorCode v, ebErrorMessage = ErrorMessage v, ebStartedAt = StartedAt v,
      ebFinishedAt = FinishedAt v, ebDurationMilliseconds = DurationMilliseconds v,
      ebVersion = Version v, ebCreatedAt = CreatedAt v, ebUpdatedAt = UpdatedAt v,
      ebCreatedBy = CreatedBy v, ebUpdatedBy = UpdatedBy v\<rparr>"

definition jobPageBody :: "job page \<Rightarrow> job_body page" where
  "jobPageBody p = \<lparr>Items = map jobBody (Items p), Total = Total p, PageNumber = PageNumber p, PageSize = PageSize p\<rparr>"

definition executionPageBody :: "execution page \<Rightarrow> execution_body page" where
  "executionPageBody p =
     \<lparr>Items = map executionBody (Items p), Total = Total p, PageNumber = PageNumber p, PageSize = PageSize p\<rparr>"

record build_info =
  biVersion :: string
  biCommit :: string
  biBuildTime :: string
  biStartedAt :: time
  biUptime :: string

datatype api_body =
    JobB job_body | ExecutionB execution_body
  | JobPageB "job_body page" | ExecutionPageB "execution_body page"
  | DeletedB | SubjectB "string option" | HealthB health_status | VersionB build_info

type_synonym api = "api_body gin"

subsection \<open>Requests\<close>

text \<open>The fields of \<open>JobInput\<close> are those of \<open>job.Input\<close>; \<open>input\<close> copies them one by one.\<close>

record update_request =
  urID :: string
  urVersion :: int
  urInput :: input

record delete_request =
  drID :: string
  drVersion :: int

record trigger_request =
  trID :: string
  trExpectedVersion :: int

record list_jobs_request =
  ljFilter :: job_filter          \<comment> \<open>all fields of the filter, the statuses without the single one\<close>
  ljStatus :: string
  ljPage :: int
  ljPageSize :: int

record list_executions_request =
  leFilter :: execution_filter
  lePage :: int
  lePageSize :: int

definition input_bound :: "input \<Rightarrow> bool" where
  "input_bound i \<longleftrightarrow> inName i \<noteq> [] \<and> inCronExpression i \<noteq> [] \<and> inUpstream i \<noteq> [] \<and>
     inFullMethod i \<noteq> [] \<and> inTimeoutMilliseconds i \<noteq> 0"

definition version_bound :: "string \<Rightarrow> int \<Rightarrow> bool" where
  "version_bound i v \<longleftrightarrow> i \<noteq> [] \<and> v \<noteq> 0 \<and> 0 < v"

definition update_bound :: "update_request \<Rightarrow> bool" where
  "update_bound r \<longleftrightarrow> version_bound (urID r) (urVersion r) \<and> input_bound (urInput r)"

definition delete_bound :: "delete_request \<Rightarrow> bool" where
  "delete_bound r \<longleftrightarrow> version_bound (drID r) (drVersion r)"

definition trigger_bound :: "trigger_request \<Rightarrow> bool" where
  "trigger_bound r \<longleftrightarrow> version_bound (trID r) (trExpectedVersion r)"

definition list_jobs_bound :: "list_jobs_request \<Rightarrow> bool" where
  "list_jobs_bound r \<longleftrightarrow> jfTenantID (ljFilter r) \<noteq> [] \<and> jfApplicationID (ljFilter r) \<noteq> []"

definition list_executions_bound :: "list_executions_request \<Rightarrow> bool" where
  "list_executions_bound r \<longleftrightarrow> efJobID (leFilter r) \<noteq> []"

type_synonym 'r decoder = "api \<Rightarrow> go_error + 'r"

definition bind :: "'r decoder \<Rightarrow> ('r \<Rightarrow> bool) \<Rightarrow> api \<Rightarrow> go_error + 'r" where
  "bind decode bound c =
     (case decode c of
        Inl e \<Rightarrow> Inl (Invalid ''invalid json request'' (Some e))
      | Inr r \<Rightarrow>
          if bound r then Inr r
          else Inl (Invalid ''invalid json request'' (Some (ErrorString ''binding'')))) "

subsection \<open>Handlers\<close>

text \<open>The common shape: bind the request, run the operation, write its value or its error.\<close>

definition handle ::
  "'r decoder \<Rightarrow> ('r \<Rightarrow> bool) \<Rightarrow> (go_context \<Rightarrow> 'r \<Rightarrow> 'a service) \<Rightarrow> ('a \<Rightarrow> api_body) \<Rightarrow>
   (api_body, world) handler" where
  "handle decode bound operation body = (\<lambda>(c, w).
     case bind decode bound c of
       Inl e \<Rightarrow> (Fail e c, w)
     | Inr r \<Rightarrow>
         (case operation (gCtx c) r w of
            (Inl e, w') \<Rightarrow> (Fail e c, w')
          | (Inr v, w') \<Rightarrow> (OK (body v) c, w')))"

definition CreateJob_h :: "env \<Rightarrow> input decoder \<Rightarrow> (api_body, world) handler" where
  "CreateJob_h env decode =
     handle decode input_bound (\<lambda>ctx r. Create env ctx r) (\<lambda>v. JobB (jobBody v))"

definition UpdateJob_h :: "env \<Rightarrow> update_request decoder \<Rightarrow> (api_body, world) handler" where
  "UpdateJob_h env decode =
     handle decode update_bound (\<lambda>ctx r. Update env ctx (urID r) (urInput r) (urVersion r))
       (\<lambda>v. JobB (jobBody v))"

definition DeleteJob_h :: "env \<Rightarrow> delete_request decoder \<Rightarrow> (api_body, world) handler" where
  "DeleteJob_h env decode =
     handle decode delete_bound (\<lambda>ctx r. Delete env ctx (drID r) (drVersion r)) (\<lambda>v. DeletedB)"

definition GetJob_h :: "env \<Rightarrow> string decoder \<Rightarrow> (api_body, world) handler" where
  "GetJob_h env decode =
     handle decode (\<lambda>i. i \<noteq> []) (\<lambda>ctx i. Get env ctx i) (\<lambda>v. JobB (jobBody v))"

definition list_statuses :: "string list \<Rightarrow> string \<Rightarrow> string list" where
  "list_statuses statuses status = statuses @ (if status \<noteq> [] then [status] else [])"

definition ListJobs_h :: "env \<Rightarrow> list_jobs_request decoder \<Rightarrow> (api_body, world) handler" where
  "ListJobs_h env decode =
     handle decode list_jobs_bound
       (\<lambda>ctx r. List_jobs env ctx
          ((ljFilter r)\<lparr>jfStatuses := list_statuses (jfStatuses (ljFilter r)) (ljStatus r)\<rparr>) (ljPage r) (ljPageSize r))
       (\<lambda>v. JobPageB (jobPageBody v))"

definition TriggerJob_h :: "env \<Rightarrow> trigger_request decoder \<Rightarrow> (api_body, world) handler" where
  "TriggerJob_h env decode =
     handle decode trigger_bound (\<lambda>ctx r. Trigger env ctx (trID r) (trExpectedVersion r))
       (\<lambda>v. ExecutionB (executionBody v))"

definition GetExecution_h :: "env \<Rightarrow> string decoder \<Rightarrow> (api_body, world) handler" where
  "GetExecution_h env decode =
     handle decode (\<lambda>i. i \<noteq> []) (\<lambda>ctx i. GetExecution env ctx i) (\<lambda>v. ExecutionB (executionBody v))"

definition ListExecutions_h :: "env \<Rightarrow> list_executions_request decoder \<Rightarrow> (api_body, world) handler" where
  "ListExecutions_h env decode =
     handle decode list_executions_bound
       (\<lambda>ctx r. ListExecutions env ctx (leFilter r) (lePage r) (lePageSize r))
       (\<lambda>v. ExecutionPageB (executionPageBody v))"

definition Live_h :: "(api_body, 'w) handler" where
  "Live_h = (\<lambda>(c, w). (OK (HealthB Live_status) c, w))"

definition Ready_h ::
  "bool \<Rightarrow> (string \<times> go_error option) option \<Rightarrow> (string \<times> go_error option) option \<Rightarrow> (api_body, 'w) handler" where
  "Ready_h database_first db redis = (\<lambda>(c, w).
     let (status, ready) = Ready database_first db redis in
     if \<not> ready
     then (write_json 503 \<lparr>rCode = CodeDependencyUnavailable, rMessage = ''service is not ready'',
             rBody = Some (HealthB status), rRequestID = gRequestID c\<rparr> c, w)
     else (OK (HealthB status) c, w))"

definition Me_h :: "(api_body, 'w) handler" where
  "Me_h = (\<lambda>(c, w). (OK (SubjectB (gSubject c)) c, w))"

definition Version_h :: "build_info \<Rightarrow> (api_body, 'w) handler" where
  "Version_h current = (\<lambda>(c, w). (OK (VersionB current) c, w))"

end
