(* ===== verification/Http_Wire.thy ===== *)
theory Http_Wire
  imports Json Http_Handlers
begin

section \<open>Requests and responses as JSON: handler.go, scheduler\_body.go, response.go\<close>

text \<open>
  The structs of the requests with their tags, as \<open>ShouldBindJSON\<close> fills them; the documents that
  \<open>c.JSON\<close> makes of the responses; and the table from the routes of \<^verbatim>\<open>/api/v1\<close> to their
  operations, each with the struct it binds. \<open>read\<close> is the document at the start of the body,
  \<open>parse\<close> and \<open>format\<close> are the texts of a time (RFC 3339).
\<close>

subsection \<open>Requests\<close>

definition JobInput_struct :: "input struct" where
  "JobInput_struct =
     [(''tenant_id'', string_field (\<lambda>x r. r\<lparr>inTenantID := x\<rparr>)),
      (''application_id'', string_field (\<lambda>x r. r\<lparr>inApplicationID := x\<rparr>)),
      (''name'', string_field (\<lambda>x r. r\<lparr>inName := x\<rparr>)),
      (''cron_expression'', string_field (\<lambda>x r. r\<lparr>inCronExpression := x\<rparr>)),
      (''timezone'', string_field (\<lambda>x r. r\<lparr>inTimezone := x\<rparr>)),
      (''upstream'', string_field (\<lambda>x r. r\<lparr>inUpstream := x\<rparr>)),
      (''full_method'', string_field (\<lambda>x r. r\<lparr>inFullMethod := x\<rparr>)),
      (''request_json'', string_field (\<lambda>x r. r\<lparr>inRequestJSON := x\<rparr>)),
      (''timeout_milliseconds'', int_field (\<lambda>x r. r\<lparr>inTimeoutMilliseconds := x\<rparr>)),
      (''enabled'', bool_field (\<lambda>x r. r\<lparr>inEnabled := x\<rparr>))]"

definition UpdateJobRequest_struct :: "update_request struct" where
  "UpdateJobRequest_struct =
     [(''id'', string_field (\<lambda>x r. r\<lparr>urID := x\<rparr>)),
      (''version'', int_field (\<lambda>x r. r\<lparr>urVersion := x\<rparr>))] @
     embedded urInput (\<lambda>e r. r\<lparr>urInput := e\<rparr>) JobInput_struct"

definition DeleteJobRequest_struct :: "delete_request struct" where
  "DeleteJobRequest_struct =
     [(''id'', string_field (\<lambda>x r. r\<lparr>drID := x\<rparr>)),
      (''version'', int_field (\<lambda>x r. r\<lparr>drVersion := x\<rparr>))]"

definition JobIDRequest_struct :: "string struct" where
  "JobIDRequest_struct = [(''id'', string_field (\<lambda>x r. x))]"

definition TriggerJobRequest_struct :: "trigger_request struct" where
  "TriggerJobRequest_struct =
     [(''id'', string_field (\<lambda>x r. r\<lparr>trID := x\<rparr>)),
      (''expected_version'', int_field (\<lambda>x r. r\<lparr>trExpectedVersion := x\<rparr>))]"

definition ListJobsRequest_struct :: "(string \<Rightarrow> time option) \<Rightarrow> list_jobs_request struct" where
  "ListJobsRequest_struct parse =
     embedded ljFilter (\<lambda>e r. r\<lparr>ljFilter := e\<rparr>)
       [(''tenant_id'', string_field (\<lambda>x r. r\<lparr>jfTenantID := x\<rparr>)),
        (''application_id'', string_field (\<lambda>x r. r\<lparr>jfApplicationID := x\<rparr>))] @
     [(''status'', string_field (\<lambda>x r. r\<lparr>ljStatus := x\<rparr>))] @
     embedded ljFilter (\<lambda>e r. r\<lparr>ljFilter := e\<rparr>)
       [(''keyword'', string_field (\<lambda>x r. r\<lparr>jfKeyword := x\<rparr>)),
        (''ids'', strings_field jfIDs (\<lambda>x r. r\<lparr>jfIDs := x\<rparr>)),
        (''statuses'', strings_field jfStatuses (\<lambda>x r. r\<lparr>jfStatuses := x\<rparr>)),
        (''upstreams'', strings_field jfUpstreams (\<lambda>x r. r\<lparr>jfUpstreams := x\<rparr>)),
        (''created_from'', time_pointer parse (\<lambda>x r. r\<lparr>jfCreatedFrom := x\<rparr>)),
        (''created_to'', time_pointer parse (\<lambda>x r. r\<lparr>jfCreatedTo := x\<rparr>))] @
     [(''page'', int_field (\<lambda>x r. r\<lparr>ljPage := x\<rparr>)),
      (''page_size'', int_field (\<lambda>x r. r\<lparr>ljPageSize := x\<rparr>))]"

definition ListExecutionsRequest_struct :: "(string \<Rightarrow> time option) \<Rightarrow> list_executions_request struct" where
  "ListExecutionsRequest_struct parse =
     embedded leFilter (\<lambda>e r. r\<lparr>leFilter := e\<rparr>)
       [(''job_id'', string_field (\<lambda>x r. r\<lparr>efJobID := x\<rparr>)),
        (''keyword'', string_field (\<lambda>x r. r\<lparr>efKeyword := x\<rparr>)),
        (''ids'', strings_field efIDs (\<lambda>x r. r\<lparr>efIDs := x\<rparr>)),
        (''statuses'', strings_field efStatuses (\<lambda>x r. r\<lparr>efStatuses := x\<rparr>)),
        (''trigger_types'', strings_field efTriggerTypes (\<lambda>x r. r\<lparr>efTriggerTypes := x\<rparr>)),
        (''started_from'', time_pointer parse (\<lambda>x r. r\<lparr>efStartedFrom := x\<rparr>)),
        (''started_to'', time_pointer parse (\<lambda>x r. r\<lparr>efStartedTo := x\<rparr>)),
        (''duration_min_milliseconds'', int_pointer (\<lambda>x r. r\<lparr>efDurationMin := x\<rparr>)),
        (''duration_max_milliseconds'', int_pointer (\<lambda>x r. r\<lparr>efDurationMax := x\<rparr>))] @
     [(''page'', int_field (\<lambda>x r. r\<lparr>lePage := x\<rparr>)),
      (''page_size'', int_field (\<lambda>x r. r\<lparr>lePageSize := x\<rparr>))]"

text \<open>The zero values the structs start from.\<close>

definition zero_update :: update_request where
  "zero_update = \<lparr>urID = [], urVersion = 0, urInput = zero_input\<rparr>"

definition zero_delete :: delete_request where
  "zero_delete = \<lparr>drID = [], drVersion = 0\<rparr>"

definition zero_trigger :: trigger_request where
  "zero_trigger = \<lparr>trID = [], trExpectedVersion = 0\<rparr>"

definition zero_list_jobs :: list_jobs_request where
  "zero_list_jobs =
     \<lparr>ljFilter = \<lparr>jfTenantID = [], jfApplicationID = [], jfKeyword = [], jfIDs = [], jfStatuses = [],
        jfUpstreams = [], jfCreatedFrom = None, jfCreatedTo = None\<rparr>,
      ljStatus = [], ljPage = 0, ljPageSize = 0\<rparr>"

definition zero_list_executions :: list_executions_request where
  "zero_list_executions =
     \<lparr>leFilter = \<lparr>efJobID = [], efKeyword = [], efIDs = [], efStatuses = [], efTriggerTypes = [],
        efStartedFrom = None, efStartedTo = None, efDurationMin = None, efDurationMax = None\<rparr>,
      lePage = 0, lePageSize = 0\<rparr>"

type_synonym reader = "api \<Rightarrow> go_error + json"

definition decode_into :: "reader \<Rightarrow> 'r struct \<Rightarrow> 'r \<Rightarrow> 'r decoder" where
  "decode_into read fs zero c =
     (case read c of
        Inl e \<Rightarrow> Inl e
      | Inr v \<Rightarrow>
          (case store_object fs v zero of
             None \<Rightarrow> Inl (ErrorString ''json: cannot unmarshal'')
           | Some r \<Rightarrow> Inr r))"

subsection \<open>Responses\<close>

definition job_json :: "(time \<Rightarrow> string) \<Rightarrow> job_body \<Rightarrow> json" where
  "job_json format b = JObj
     [(''id'', JStr (jbID b)), (''tenant_id'', JStr (jbTenantID b)), (''application_id'', JStr (jbApplicationID b)),
      (''name'', JStr (jbName b)), (''cron_expression'', JStr (jbCronExpression b)), (''timezone'', JStr (jbTimezone b)),
      (''upstream'', JStr (jbUpstream b)), (''full_method'', JStr (jbFullMethod b)),
      (''request_json'', JStr (jbRequestJSON b)), (''timeout_milliseconds'', JInt (jbTimeoutMilliseconds b)),
      (''status'', JStr (jbStatus b)), (''version'', JInt (jbVersion b)),
      (''created_at'', JStr (format (jbCreatedAt b))), (''updated_at'', JStr (format (jbUpdatedAt b))),
      (''created_by'', JStr (jbCreatedBy b)), (''updated_by'', JStr (jbUpdatedBy b))]"

definition execution_json :: "(time \<Rightarrow> string) \<Rightarrow> execution_body \<Rightarrow> json" where
  "execution_json format b = JObj
     [(''id'', JStr (ebID b)), (''job_id'', JStr (ebJobID b)), (''tenant_id'', JStr (ebTenantID b)),
      (''application_id'', JStr (ebApplicationID b)), (''trigger_type'', JStr (ebTriggerType b)),
      (''status'', JStr (ebStatus b)), (''response_json'', JStr (ebResponseJSON b)),
      (''error_code'', JStr (ebErrorCode b)), (''error_message'', JStr (ebErrorMessage b)),
      (''started_at'', JStr (format (ebStartedAt b))), (''finished_at'', time_json format (ebFinishedAt b)),
      (''duration_milliseconds'', JInt (ebDurationMilliseconds b)), (''version'', JInt (ebVersion b)),
      (''created_at'', JStr (format (ebCreatedAt b))), (''updated_at'', JStr (format (ebUpdatedAt b))),
      (''created_by'', JStr (ebCreatedBy b)), (''updated_by'', JStr (ebUpdatedBy b))]"

definition page_json :: "('a \<Rightarrow> json) \<Rightarrow> 'a page \<Rightarrow> json" where
  "page_json item p = JObj
     [(''items'', JArr (map item (Items p))), (''total'', JInt (Total p)), (''page'', JInt (PageNumber p)),
      (''page_size'', JInt (PageSize p))]"

text \<open>\<open>omitempty\<close> leaves out an empty text and an empty map; the members of a map are sorted.\<close>

definition omit_empty :: "string \<Rightarrow> string \<Rightarrow> (string \<times> json) list" where
  "omit_empty name s = (if s = [] then [] else [(name, JStr s)])"

definition dependency_json :: "dependency \<Rightarrow> json" where
  "dependency_json d = JObj ((''status'', JStr (depStatus d)) # omit_empty ''latency'' (depLatency d))"

definition health_json :: "health_status \<Rightarrow> json" where
  "health_json s =
     (let deps = concat (map (\<lambda>name. case hsDependencies s name of None \<Rightarrow> [] | Some d \<Rightarrow> [(name, dependency_json d)])
            [''database'', ''redis''])
      in JObj ((''status'', JStr (hsStatus s)) # (if deps = [] then [] else [(''dependencies'', JObj deps)])))"

definition build_json :: "(time \<Rightarrow> string) \<Rightarrow> build_info \<Rightarrow> json" where
  "build_json format b = JObj
     [(''version'', JStr (biVersion b)), (''commit'', JStr (biCommit b)), (''build_time'', JStr (biBuildTime b)),
      (''started_at'', JStr (format (biStartedAt b))), (''uptime'', JStr (biUptime b))]"

fun body_json :: "(time \<Rightarrow> string) \<Rightarrow> api_body \<Rightarrow> json" where
  "body_json format (JobB b) = job_json format b"
| "body_json format (ExecutionB b) = execution_json format b"
| "body_json format (JobPageB p) = page_json (job_json format) p"
| "body_json format (ExecutionPageB p) = page_json (execution_json format) p"
| "body_json format DeletedB = JObj [(''deleted'', JBool True)]"
| "body_json format (SubjectB s) = JObj [(''subject'', case s of None \<Rightarrow> JNull | Some s \<Rightarrow> JStr s)]"
| "body_json format (HealthB s) = health_json s"
| "body_json format (VersionB b) = build_json format b"

definition response_json :: "(time \<Rightarrow> string) \<Rightarrow> api_body response \<Rightarrow> json" where
  "response_json format r = JObj
     ([(''code'', JInt (rCode r)), (''message'', JStr (rMessage r)),
       (''body'', case rBody r of None \<Rightarrow> JNull | Some b \<Rightarrow> body_json format b)] @
      omit_empty ''request_id'' (rRequestID r))"

subsection \<open>The operation of a route\<close>

definition api_handler ::
  "env \<Rightarrow> build_info \<Rightarrow> (string \<Rightarrow> time option) \<Rightarrow> reader \<Rightarrow> string \<Rightarrow> (api_body, world) handler option" where
  "api_handler env current parse read path = map_of
     [(''/api/v1/version'', Version_h current),
      (''/api/v1/me'', Me_h),
      (''/api/v1/scheduler/jobs/create'', CreateJob_h env (decode_into read JobInput_struct zero_input)),
      (''/api/v1/scheduler/jobs/update'', UpdateJob_h env (decode_into read UpdateJobRequest_struct zero_update)),
      (''/api/v1/scheduler/jobs/delete'', DeleteJob_h env (decode_into read DeleteJobRequest_struct zero_delete)),
      (''/api/v1/scheduler/jobs/get'', GetJob_h env (decode_into read JobIDRequest_struct [])),
      (''/api/v1/scheduler/jobs/list'',
         ListJobs_h env (decode_into read (ListJobsRequest_struct parse) zero_list_jobs)),
      (''/api/v1/scheduler/jobs/trigger'', TriggerJob_h env (decode_into read TriggerJobRequest_struct zero_trigger)),
      (''/api/v1/scheduler/executions/get'', GetExecution_h env (decode_into read JobIDRequest_struct [])),
      (''/api/v1/scheduler/executions/list'',
         ListExecutions_h env (decode_into read (ListExecutionsRequest_struct parse) zero_list_executions))] path"

text \<open>Every route of the group has an operation, and nothing else has.\<close>

lemma api_handler_routes: "(api_handler env current parse read path \<noteq> None) \<longleftrightarrow> path \<in> set api_routes"
proof -
  have "(map_of xs path \<noteq> None) \<longleftrightarrow> path \<in> set (map fst xs)" for xs :: "(string \<times> 'x) list"
    by (simp add: map_of_eq_None_iff)
  then show ?thesis by (simp only: api_handler_def) (simp add: api_routes_def)
qed

text \<open>With the two operations outside the group, all that answer \<open>POST\<close> with JSON.\<close>

definition post_handler ::
  "env \<Rightarrow> build_info \<Rightarrow> (string \<Rightarrow> time option) \<Rightarrow> bool \<Rightarrow> (string \<times> go_error option) option \<Rightarrow>
   (string \<times> go_error option) option \<Rightarrow> reader \<Rightarrow> string \<Rightarrow> (api_body, world) handler option" where
  "post_handler env current parse database_first db redis read path =
     (if path = ''/live'' then Some Live_h
      else if path = ''/ready'' then Some (Ready_h database_first db redis)
      else api_handler env current parse read path)"

subsection \<open>Requests of a client\<close>

text \<open>What \<open>json.Marshal\<close> writes for the structs of the requests, as a client in Go sends them.\<close>

definition JobInput_members :: "input \<Rightarrow> (string \<times> json) list" where
  "JobInput_members r =
     [(''tenant_id'', JStr (inTenantID r)), (''application_id'', JStr (inApplicationID r)), (''name'', JStr (inName r)),
      (''cron_expression'', JStr (inCronExpression r)), (''timezone'', JStr (inTimezone r)),
      (''upstream'', JStr (inUpstream r)), (''full_method'', JStr (inFullMethod r)),
      (''request_json'', JStr (inRequestJSON r)), (''timeout_milliseconds'', JInt (inTimeoutMilliseconds r)),
      (''enabled'', JBool (inEnabled r))]"

definition UpdateJobRequest_members :: "update_request \<Rightarrow> (string \<times> json) list" where
  "UpdateJobRequest_members r = [(''id'', JStr (urID r)), (''version'', JInt (urVersion r))] @ JobInput_members (urInput r)"

definition DeleteJobRequest_members :: "delete_request \<Rightarrow> (string \<times> json) list" where
  "DeleteJobRequest_members r = [(''id'', JStr (drID r)), (''version'', JInt (drVersion r))]"

definition JobIDRequest_members :: "string \<Rightarrow> (string \<times> json) list" where
  "JobIDRequest_members r = [(''id'', JStr r)]"

definition TriggerJobRequest_members :: "trigger_request \<Rightarrow> (string \<times> json) list" where
  "TriggerJobRequest_members r = [(''id'', JStr (trID r)), (''expected_version'', JInt (trExpectedVersion r))]"

definition ListJobsRequest_members :: "(time \<Rightarrow> string) \<Rightarrow> list_jobs_request \<Rightarrow> (string \<times> json) list" where
  "ListJobsRequest_members format r =
     (let f = ljFilter r in
      [(''tenant_id'', JStr (jfTenantID f)), (''application_id'', JStr (jfApplicationID f)),
       (''status'', JStr (ljStatus r)), (''keyword'', JStr (jfKeyword f)), (''ids'', strings_json (jfIDs f)),
       (''statuses'', strings_json (jfStatuses f)), (''upstreams'', strings_json (jfUpstreams f)),
       (''created_from'', time_json format (jfCreatedFrom f)), (''created_to'', time_json format (jfCreatedTo f)),
       (''page'', JInt (ljPage r)), (''page_size'', JInt (ljPageSize r))])"

definition ListExecutionsRequest_members :: "(time \<Rightarrow> string) \<Rightarrow> list_executions_request \<Rightarrow> (string \<times> json) list" where
  "ListExecutionsRequest_members format r =
     (let f = leFilter r in
      [(''job_id'', JStr (efJobID f)), (''keyword'', JStr (efKeyword f)), (''ids'', strings_json (efIDs f)),
       (''statuses'', strings_json (efStatuses f)), (''trigger_types'', strings_json (efTriggerTypes f)),
       (''started_from'', time_json format (efStartedFrom f)), (''started_to'', time_json format (efStartedTo f)),
       (''duration_min_milliseconds'', int_json (efDurationMin f)),
       (''duration_max_milliseconds'', int_json (efDurationMax f)),
       (''page'', JInt (lePage r)), (''page_size'', JInt (lePageSize r))])"

lemma field_stores:
  "string_field put (JStr s) r = Some (put s r)"
  "bool_field putb (JBool b) r = Some (putb b r)"
  "in_i64 n \<Longrightarrow> int_field puti (JInt n) r = Some (puti n r)"
  by (simp_all add: field_defs)

lemmas members_defs = JobInput_members_def UpdateJobRequest_members_def DeleteJobRequest_members_def
  JobIDRequest_members_def TriggerJobRequest_members_def ListJobsRequest_members_def ListExecutionsRequest_members_def

lemmas struct_defs = JobInput_struct_def UpdateJobRequest_struct_def DeleteJobRequest_struct_def
  JobIDRequest_struct_def TriggerJobRequest_struct_def ListJobsRequest_struct_def ListExecutionsRequest_struct_def

lemma input_round_trip:
  "in_i64 (inTimeoutMilliseconds r) \<Longrightarrow> store_members JobInput_struct (JobInput_members r) r0 = Some r"
  by (cases r, cases r0) (simp add: JobInput_members_def find_field_exact field_stores JobInput_struct_def)

lemma update_round_trip:
  "in_i64 (urVersion r) \<Longrightarrow> in_i64 (inTimeoutMilliseconds (urInput r)) \<Longrightarrow>
     store_members UpdateJobRequest_struct (UpdateJobRequest_members r) r0 = Some r"
  by (cases r, cases r0) (simp add: members_defs find_field_exact field_stores struct_defs embedded_def)

lemma small_round_trips:
  "in_i64 (drVersion d) \<Longrightarrow> store_members DeleteJobRequest_struct (DeleteJobRequest_members d) d0 = Some d"
  "store_members JobIDRequest_struct (JobIDRequest_members i) i0 = Some i"
  "in_i64 (trExpectedVersion t) \<Longrightarrow> store_members TriggerJobRequest_struct (TriggerJobRequest_members t) t0 = Some t"
  by (cases d, cases d0, cases t, cases t0, simp add: members_defs find_field_exact field_stores struct_defs)+

lemma list_jobs_round_trip:
  assumes "\<And>t. parse (format t) = Some t" and "in_i64 (ljPage r)" and "in_i64 (ljPageSize r)"
  shows "store_members (ListJobsRequest_struct parse) (ListJobsRequest_members format r) r0 = Some r"
  using assms
  by (cases r, cases "ljFilter r", cases r0)
    (simp add: members_defs find_field_exact field_stores struct_defs embedded_def time_pointer_json Let_def)

lemma list_executions_round_trip:
  assumes "\<And>t. parse (format t) = Some t" and "in_i64 (lePage r)" and "in_i64 (lePageSize r)"
    and "pred_option in_i64 (efDurationMin (leFilter r))" and "pred_option in_i64 (efDurationMax (leFilter r))"
  shows "store_members (ListExecutionsRequest_struct parse) (ListExecutionsRequest_members format r) r0 = Some r"
  using assms
  by (cases r, cases "leFilter r", cases r0)
    (simp add: members_defs find_field_exact field_stores struct_defs embedded_def time_pointer_json int_pointer_json Let_def)

end
