(* ===== verification/Config_Validate.thy ===== *)
theory Config_Validate
  imports Config_Model Path_Match
begin

section \<open>Validation of the configuration: Config.Validate\<close>

text \<open>
  \<open>Validate\<close>, \<open>validateClientPolicy\<close> and \<open>isDBType\<close> of \<^verbatim>\<open>internal/config/config.go\<close>. The
  function of the code is one sequence of early returns; here its guards, in the same order,
  are grouped by the part of the configuration they look at. A refusal keeps the format of
  the message and its arguments. Go visits a map in an unspecified order, which decides which
  of several wrong entries is reported, not whether there is a report: the rate rules are
  visited here in the order of their keys in the source, outbound clients in the order of
  their list.
\<close>

datatype config_error =
    Refused string                      \<comment> \<open>errors.New(text)\<close>
  | RefusedName string string           \<comment> \<open>fmt.Errorf(format, name or pattern)\<close>
  | RefusedPattern string string        \<comment> \<open>fmt.Errorf(format, pattern, path.ErrBadPattern)\<close>

type_synonym check = "config_error + unit"

definition reject_if :: "bool \<Rightarrow> config_error \<Rightarrow> check" where
  "reject_if b e = (if b then Inl e else Inr ())"

text \<open>A sequence of guards with early return.\<close>

fun checks :: "check list \<Rightarrow> check" where
  "checks [] = Inr ()"
| "checks (c # cs) = (case c of Inl e \<Rightarrow> Inl e | Inr u \<Rightarrow> checks cs)"

lemma checks_Cons [simp]: "checks (c # cs) = Inr () \<longleftrightarrow> c = Inr () \<and> checks cs = Inr ()"
  by (cases c) auto

declare checks.simps(2) [simp del]

lemma checks_append [simp]: "checks (cs @ ds) = Inr () \<longleftrightarrow> checks cs = Inr () \<and> checks ds = Inr ()"
  by (induction cs) auto

lemma checks_map [simp]: "checks (map f xs) = Inr () \<longleftrightarrow> (\<forall>x \<in> set xs. f x = Inr ())"
  by (induction xs) auto

lemma checks_if [simp]: "checks (if b then cs else []) = Inr () \<longleftrightarrow> (b \<longrightarrow> checks cs = Inr ())"
  by simp

lemma reject_if_Inr [simp]: "reject_if b e = Inr () \<longleftrightarrow> \<not> b"
  by (simp add: reject_if_def)

subsection \<open>Names, types and patterns\<close>

definition is_lower :: "char \<Rightarrow> bool" where
  "is_lower c \<longleftrightarrow> byte_in 97 122 c"

definition is_digit :: "char \<Rightarrow> bool" where
  "is_digit c \<longleftrightarrow> byte_in 48 57 c"

text \<open>\<^verbatim>\<open>^[a-z][a-z0-9_]{0,62}$\<close>\<close>

definition validMigrationTable :: "string \<Rightarrow> bool" where
  "validMigrationTable s \<longleftrightarrow>
     (case s of
        [] \<Rightarrow> False
      | c # cs \<Rightarrow> is_lower c \<and> length cs \<le> 62 \<and> list_all (\<lambda>d. is_lower d \<or> is_digit d \<or> d = CHR ''_'') cs)"

definition isDBType :: "string \<Rightarrow> bool" where
  "isDBType value \<longleftrightarrow> value = ''mysql'' \<or> value = ''postgres'' \<or> value = ''kingbase''"

abbreviation validation_target :: string where
  "validation_target \<equiv> ''/validation/target''"

definition method_shaped :: "string \<Rightarrow> bool" where
  "method_shaped p \<longleftrightarrow> has_prefix p ''/'' \<and> count_char slash p = 2"

definition check_http_pattern :: "string \<Rightarrow> string \<Rightarrow> check" where
  "check_http_pattern key pattern = checks
     [reject_if (\<not> has_prefix pattern ''/api/'') (RefusedName (key @ '' contains path outside /api %q'') pattern),
      reject_if (Match pattern validation_target = None)
        (RefusedPattern (key @ '' contains invalid pattern %q: %w'') pattern)]"

definition check_grpc_pattern :: "string \<Rightarrow> string \<Rightarrow> check" where
  "check_grpc_pattern key pattern = checks
     [reject_if (\<not> method_shaped pattern) (RefusedName (key @ '' contains invalid method pattern %q'') pattern),
      reject_if (Match pattern validation_target = None)
        (RefusedPattern (key @ '' contains invalid pattern %q: %w'') pattern)]"

subsection \<open>Outbound clients: validateClientPolicy\<close>

definition check_retry_pattern :: "string \<Rightarrow> string \<Rightarrow> check" where
  "check_retry_pattern name pattern = checks
     [reject_if (\<not> method_shaped pattern) (RefusedName ''outbound %s retry method pattern is invalid'' name),
      reject_if (Match pattern validation_target = None)
        (RefusedPattern ''outbound %s retry method pattern is invalid: %w'' name)]"

definition validateClientPolicy ::
  "string \<Rightarrow> client_auth \<Rightarrow> retry \<Rightarrow> breaker \<Rightarrow> client_tls \<Rightarrow> bool \<Rightarrow> check" where
  "validateClientPolicy name auth retry brk tls production = checks
     ([reject_if (caType auth \<noteq> '''' \<and> caType auth \<noteq> ''bearer'' \<and> caType auth \<noteq> ''psk'')
         (RefusedName ''outbound %s auth.type must be bearer or psk'' name),
       reject_if (caType auth \<noteq> '''' \<and> caToken auth = '''')
         (RefusedName ''outbound %s auth.token is required'' name),
       reject_if (caType auth \<noteq> '''' \<and> \<not> tlsEnabled tls \<and> \<not> tlsAllowInsecure tls)
         (RefusedName ''outbound %s credentials require TLS or explicit allow_insecure'' name),
       reject_if (tlsEnabled tls \<and> tlsAllowInsecure tls)
         (RefusedName ''outbound %s TLS and allow_insecure are mutually exclusive'' name),
       reject_if (production \<and> caType auth \<noteq> '''' \<and> tlsAllowInsecure tls)
         (RefusedName ''production outbound %s credentials require TLS'' name),
       reject_if (MaxAttempts retry < 1 \<or> 5 < MaxAttempts retry \<or> InitialBackoff retry \<le> 0 \<or>
           MaxBackoff retry < InitialBackoff retry)
         (RefusedName ''outbound %s retry policy is invalid'' name)] @
      map (check_retry_pattern name) (Methods retry) @
      [reject_if (brEnabled brk \<and> (FailureThreshold brk = 0 \<or> OpenTimeout brk \<le> 0))
         (RefusedName ''outbound %s breaker policy is invalid'' name),
       reject_if (tlsEnabled tls \<and> (tlsCertFile tls = '''') \<noteq> (tlsKeyFile tls = ''''))
         (RefusedName ''outbound %s TLS certificate and key must be configured together'' name)])"

definition check_upstream :: "string \<Rightarrow> bool \<Rightarrow> string \<times> upstream \<Rightarrow> check" where
  "check_upstream format production entry =
     (let (name, u) = entry in checks
       [reject_if (upAddress u = '''' \<or> upTimeout u \<le> 0) (RefusedName format name),
        validateClientPolicy name (upAuth u) (upRetry u) (upBreaker u) (upTLS u) production])"

subsection \<open>The parts of Validate\<close>

definition production :: "config \<Rightarrow> bool" where
  "production c \<longleftrightarrow> appEnv (cApp c) = ''production''"

definition has_client :: "string \<Rightarrow> config \<Rightarrow> bool" where
  "has_client name c \<longleftrightarrow> map_of (cOutboundGRPC c) name \<noteq> None"

definition check_servers :: "config \<Rightarrow> check list" where
  "check_servers c =
     (let d = cDatabase c; g = cGRPC c; a = cAuth c; m = cMigration c in
      [reject_if (\<not> validMigrationTable (dbcName d))
         (Refused ''database.name must contain lowercase letters, digits, or underscores and be at most 63 characters''),
       reject_if (dbcSchema d \<noteq> '''' \<and> \<not> validMigrationTable (dbcSchema d))
         (Refused ''database.schema must contain lowercase letters, digits, or underscores and be at most 63 characters''),
       reject_if (httpAddress (cHTTP c) = '''') (Refused ''http.address is required''),
       reject_if (grpcEnabled g \<and> (grpcAddress g = '''' \<or> grpcMaxReceiveBytes g \<le> 0))
         (Refused ''enabled grpc requires address and positive max_receive_bytes''),
       reject_if (gtlsEnabled (grpcTLS g) \<and> (gtlsCertFile (grpcTLS g) = '''' \<or> gtlsKeyFile (grpcTLS g) = ''''))
         (Refused ''grpc tls requires cert_file and key_file''),
       reject_if (production c \<and> grpcEnabled g \<and> \<not> gtlsEnabled (grpcTLS g))
         (Refused ''grpc tls must be enabled in production''),
       reject_if (production c \<and> grpcReflectionEnabled g)
         (Refused ''grpc reflection must be disabled in production''),
       reject_if (production c \<and> (authJWKSURL a = '''' \<or> authIssuer a = '''' \<or> authAudience a = ''''))
         (Refused ''production auth requires jwks_url, issuer, and audience''),
       reject_if (dbcEnabled d \<and> (dbcDSN d = '''' \<or> \<not> isDBType (dbcType d)))
         (Refused ''enabled database requires dsn and type mysql, postgres, or kingbase''),
       reject_if (dbcEnabled d \<and> \<not> has_client ''application'' c)
         (Refused ''enabled database requires outbound.grpc.application''),
       reject_if (migAutoUp m \<and> (\<not> dbcEnabled d \<or> migPath m = '''' \<or> migDatabaseURL m = '''' \<or>
           \<not> validMigrationTable (migTable m)))
         (Refused ''migration.auto_up requires enabled database, path, database_url, and a valid service-specific table'')])"

text \<open>The sampling ratio is compared as a \<open>float64\<close>: both comparisons are false for NaN.\<close>

definition ratio_outside :: "rat option \<Rightarrow> bool" where
  "ratio_outside r = (case r of None \<Rightarrow> False | Some q \<Rightarrow> q < 0 \<or> 1 < q)"

definition named_rules :: "config \<Rightarrow> (string \<times> rate_rule) list" where
  "named_rules c =
     [(''ip'', rlIP (cRateLimit c)), (''api'', rlAPI (cRateLimit c)),
      (''user'', rlUser (cRateLimit c)), (''login'', rlLogin (cRateLimit c))]"

definition check_rule :: "string \<times> rate_rule \<Rightarrow> check" where
  "check_rule entry =
     (let (name, rule) = entry in
      reject_if (ruleRate rule \<le> 0 \<or> ruleBurst rule \<le> 0 \<or> rulePeriod rule \<le> 0)
        (RefusedName ''rate_limit.%s values must be positive'' name))"

definition check_limits :: "config \<Rightarrow> check list" where
  "check_limits c =
     (let h = cHTTP c; o1 = cObservability c in
      [reject_if (redisEnabled (cRedis c) \<and> redisAddress (cRedis c) = '''')
         (Refused ''enabled redis requires address''),
       reject_if (httpRequestTimeout h \<le> 0 \<or> healthDatabaseTimeout (cHealth c) \<le> 0 \<or>
           healthRedisTimeout (cHealth c) \<le> 0)
         (Refused ''http and health timeouts must be positive''),
       reject_if (rlEnabled (cRateLimit c) \<and> \<not> redisEnabled (cRedis c))
         (Refused ''rate_limit requires redis.enabled'')] @
      (if rlEnabled (cRateLimit c) then map check_rule (named_rules c) else []) @
      [reject_if (corsEnabled (httpCORS h) \<and> corsAllowedOrigins (httpCORS h) = [])
         (Refused ''cors.allowed_origins is required when cors is enabled''),
       reject_if (ratio_outside (obsTracingSampleRatio o1))
         (Refused ''observability.tracing_sample_ratio must be between 0 and 1''),
       reject_if (obsTracingEnabled o1 \<and> obsTracingEndpoint o1 = '''')
         (Refused ''observability.tracing_endpoint is required''),
       reject_if (obsPprofEnabled o1 \<and> length (obsPprofToken o1) < 32)
         (Refused ''observability.pprof_token must contain at least 32 bytes'')])"

definition check_access :: "config \<Rightarrow> check list" where
  "check_access c =
     (let a = cAuth c; k = authPSK a in
      [reject_if (production c \<and> swEnabled (cSwagger c) \<and> \<not> swRequireAuth (cSwagger c))
         (Refused ''swagger.require_auth must be enabled in production''),
       reject_if (production c \<and> \<not> cAuthorizationEnabled c)
         (Refused ''authorization must be enabled in production''),
       reject_if (cAuthorizationEnabled c \<and> \<not> has_client ''authorization'' c)
         (Refused ''enabled authorization requires outbound.grpc.authorization''),
       reject_if ((authClientID a \<noteq> '''' \<or> authClientSecret a \<noteq> '''') \<and> length (jwtSecret (cJWT c)) < 32)
         (Refused ''jwt.secret must contain at least 32 bytes when auth is enabled'')] @
      map (check_http_pattern ''auth.skip_http_paths'') (authSkipHTTPPaths a) @
      map (check_grpc_pattern ''auth.skip_grpc_methods'') (authSkipGRPCMethods a) @
      [reject_if (pskEnabled k \<and> (length (pskKey k) < 32 \<or> length (pskHTTPPaths k) + length (pskGRPCMethods k) = 0))
         (Refused ''enabled auth.psk requires a key of at least 32 bytes and at least one route pattern'')] @
      map (check_http_pattern ''auth.psk.http_paths'') (pskHTTPPaths k) @
      map (check_grpc_pattern ''auth.psk.grpc_methods'') (pskGRPCMethods k))"

definition check_events :: "config \<Rightarrow> check list" where
  "check_events c =
     (let u = cUser c; i = cIdempotency c; b = cEventBus c; l = cOperationLog c; n = cCron c in
      [reject_if (userCacheTTL u \<le> 0 \<or> userLockTTL u \<le> 0 \<or> userLockRetryDelay u \<le> 0)
         (Refused ''user cache and lock durations must be positive''),
       reject_if (idemEnabled i \<and> (\<not> redisEnabled (cRedis c) \<or>
           length (idemHTTPPaths i) + length (idemGRPCMethods i) = 0 \<or>
           idemProcessingTTL i \<le> 0 \<or> idemResultTTL i \<le> 0 \<or> idemFailureTTL i \<le> 0))
         (Refused ''enabled idempotency requires redis, at least one route pattern, and positive TTL values'')] @
      map (check_http_pattern ''idempotency.http_paths'') (idemHTTPPaths i) @
      map (check_grpc_pattern ''idempotency.grpc_methods'') (idemGRPCMethods i) @
      [reject_if (busEnabled b \<and> (busURLs b = [] \<or> busStreamName b = '''' \<or> busSubjects b = [] \<or>
           (busStorage b \<noteq> ''file'' \<and> busStorage b \<noteq> ''memory'') \<or> busMaxAge b \<le> 0 \<or>
           busDuplicateWindow b \<le> 0 \<or> busConnectTimeout b \<le> 0 \<or> busReconnectWait b \<le> 0 \<or>
           busPublishTimeout b \<le> 0 \<or> busConsumerAckWait b \<le> 0 \<or> busConsumerMaxDeliver b \<le> 0))
         (Refused ''enabled event_bus requires URLs, stream, subjects, valid storage, positive timeouts, and max deliveries''),
       reject_if (olEnabled l \<and> (\<not> busEnabled b \<or> trim_space (olSubject l) = '''' \<or>
           olMaxPayloadBytes l < 256 \<or> 1048576 < olMaxPayloadBytes l))
         (Refused ''enabled operation_log requires event_bus, subject, and max_payload_bytes between 256 and 1048576''),
       reject_if (cronExecutionRetention n \<le> 0 \<or> cronExecutionCleanupInterval n \<le> 0 \<or>
           cronExecutionCleanupBatchSize n \<le> 0)
         (Refused ''cron execution retention values must be positive'')])"

definition check_outbound :: "config \<Rightarrow> check list" where
  "check_outbound c =
     map (check_upstream ''outbound.http.%s requires base_url and positive timeout'' (production c))
       (cOutboundHTTP c) @
     map (check_upstream ''outbound.grpc.%s requires target and positive timeout'' (production c))
       (cOutboundGRPC c)"

definition Validate :: "config \<Rightarrow> check" where
  "Validate c = checks
     (check_servers c @ check_limits c @ check_access c @ check_events c @ check_outbound c)"

subsection \<open>What acceptance means\<close>

lemma Validate_Inr:
  "Validate c = Inr () \<longleftrightarrow>
     checks (check_servers c) = Inr () \<and> checks (check_limits c) = Inr () \<and>
     checks (check_access c) = Inr () \<and> checks (check_events c) = Inr () \<and>
     checks (check_outbound c) = Inr ()"
  by (auto simp: Validate_def)

lemma check_http_pattern_Inr:
  "check_http_pattern key p = Inr () \<longleftrightarrow> has_prefix p ''/api/'' \<and> rest_wellformed p"
  using Match_wellformed [of p validation_target] by (auto simp: check_http_pattern_def)

lemma check_grpc_pattern_Inr:
  "check_grpc_pattern key p = Inr () \<longleftrightarrow> method_shaped p \<and> rest_wellformed p"
  using Match_wellformed [of p validation_target] by (auto simp: check_grpc_pattern_def)

lemma check_retry_pattern_Inr:
  "check_retry_pattern name p = Inr () \<longleftrightarrow> method_shaped p \<and> rest_wellformed p"
  using Match_wellformed [of p validation_target] by (auto simp: check_retry_pattern_def)

lemmas check_pattern_Inr = check_http_pattern_Inr check_grpc_pattern_Inr check_retry_pattern_Inr

definition retry_ok :: "retry \<Rightarrow> bool" where
  "retry_ok r \<longleftrightarrow> 1 \<le> MaxAttempts r \<and> MaxAttempts r \<le> 5 \<and> 0 < InitialBackoff r \<and>
     InitialBackoff r \<le> MaxBackoff r \<and> (\<forall>p \<in> set (Methods r). method_shaped p \<and> rest_wellformed p)"

definition credentials_ok :: "bool \<Rightarrow> client_auth \<Rightarrow> client_tls \<Rightarrow> bool" where
  "credentials_ok strict a t \<longleftrightarrow>
     caType a \<in> {'''', ''bearer'', ''psk''} \<and>
     (caType a \<noteq> '''' \<longrightarrow> caToken a \<noteq> '''' \<and> (tlsEnabled t \<or> tlsAllowInsecure t \<and> \<not> strict)) \<and>
     \<not> (tlsEnabled t \<and> tlsAllowInsecure t) \<and>
     (tlsEnabled t \<longrightarrow> (tlsCertFile t = '''') = (tlsKeyFile t = ''''))"

lemma validateClientPolicy_Inr:
  "validateClientPolicy name a r b t strict = Inr () \<longleftrightarrow>
     credentials_ok strict a t \<and> retry_ok r \<and>
     (brEnabled b \<longrightarrow> FailureThreshold b \<noteq> 0 \<and> 0 < OpenTimeout b)"
  unfolding validateClientPolicy_def credentials_ok_def retry_ok_def
  by (simp add: check_pattern_Inr not_less not_le del: not_ex) satx

definition upstream_ok :: "bool \<Rightarrow> upstream \<Rightarrow> bool" where
  "upstream_ok strict u \<longleftrightarrow> upAddress u \<noteq> '''' \<and> 0 < upTimeout u \<and>
     credentials_ok strict (upAuth u) (upTLS u) \<and> retry_ok (upRetry u) \<and>
     (brEnabled (upBreaker u) \<longrightarrow> FailureThreshold (upBreaker u) \<noteq> 0 \<and> 0 < OpenTimeout (upBreaker u))"

lemma check_upstream_Inr: "check_upstream f strict e = Inr () \<longleftrightarrow> upstream_ok strict (snd e)"
  by (auto simp: check_upstream_def upstream_ok_def validateClientPolicy_Inr split: prod.split)

lemma check_outbound_Inr:
  "checks (check_outbound c) = Inr () \<longleftrightarrow>
     (\<forall>e \<in> set (cOutboundHTTP c) \<union> set (cOutboundGRPC c). upstream_ok (production c) (snd e))"
  by (auto simp: check_outbound_def check_upstream_Inr)

lemma accepted_upstream:
  assumes "Validate c = Inr ()" and "e \<in> set (cOutboundHTTP c) \<union> set (cOutboundGRPC c)"
  shows "upstream_ok (production c) (snd e)"
  using assms unfolding Validate_Inr check_outbound_Inr by blast

text \<open>The routes a configuration names, by kind.\<close>

definition http_patterns :: "config \<Rightarrow> string list" where
  "http_patterns c = authSkipHTTPPaths (cAuth c) @ pskHTTPPaths (authPSK (cAuth c)) @ idemHTTPPaths (cIdempotency c)"

definition grpc_patterns :: "config \<Rightarrow> string list" where
  "grpc_patterns c = authSkipGRPCMethods (cAuth c) @ pskGRPCMethods (authPSK (cAuth c)) @
     idemGRPCMethods (cIdempotency c) @ concat (map (\<lambda>(n, u). Methods (upRetry u)) (cOutboundGRPC c))"

lemma access_patterns:
  assumes "checks (check_access c) = Inr ()"
  shows "\<forall>p \<in> set (authSkipHTTPPaths (cAuth c) @ pskHTTPPaths (authPSK (cAuth c))).
      has_prefix p ''/api/'' \<and> rest_wellformed p"
    and "\<forall>p \<in> set (authSkipGRPCMethods (cAuth c) @ pskGRPCMethods (authPSK (cAuth c))).
      method_shaped p \<and> rest_wellformed p"
  using assms unfolding check_access_def Let_def
  by (simp_all only: checks_append checks_map check_pattern_Inr set_append ball_Un simp_thms) satx+

lemma event_patterns:
  assumes "checks (check_events c) = Inr ()"
  shows "\<forall>p \<in> set (idemHTTPPaths (cIdempotency c)). has_prefix p ''/api/'' \<and> rest_wellformed p"
    and "\<forall>p \<in> set (idemGRPCMethods (cIdempotency c)). method_shaped p \<and> rest_wellformed p"
  using assms unfolding check_events_def Let_def
  by (simp_all only: checks_append checks_map check_pattern_Inr simp_thms) satx+

lemma accepted_http_pattern:
  assumes "Validate c = Inr ()" and "p \<in> set (http_patterns c)"
  shows "has_prefix p ''/api/'' \<and> rest_wellformed p"
  using assms access_patterns(1) [of c] event_patterns(1) [of c]
  unfolding Validate_Inr http_patterns_def by (simp only: set_append Un_iff ball_Un) blast

lemma accepted_grpc_pattern:
  assumes "Validate c = Inr ()" and "p \<in> set (grpc_patterns c)"
  shows "method_shaped p \<and> rest_wellformed p"
proof -
  have client: "\<forall>p \<in> set (Methods (upRetry u)). method_shaped p \<and> rest_wellformed p"
    if "(n, u) \<in> set (cOutboundGRPC c)" for n u
    using accepted_upstream [OF assms(1), of "(n, u)"] that by (simp add: upstream_ok_def retry_ok_def)
  have "p \<in> set (authSkipGRPCMethods (cAuth c) @ pskGRPCMethods (authPSK (cAuth c))) \<or>
      p \<in> set (idemGRPCMethods (cIdempotency c)) \<or>
      (\<exists>n u. (n, u) \<in> set (cOutboundGRPC c) \<and> p \<in> set (Methods (upRetry u)))"
    using assms(2) unfolding grpc_patterns_def by fastforce
  with client assms(1) access_patterns(2) [of c] event_patterns(2) [of c] show ?thesis
    unfolding Validate_Inr by blast
qed

end
