(* ===== verification/Retry.thy ===== *)
theory Retry
  imports Prelude
begin

section \<open>Repeated calls\<close>

text \<open>
  What the two outbound clients share, the gRPC and the HTTP one: a call is repeated while its
  answer is transient, at most a number of times, with a growing wait between two calls that the
  context can interrupt. A run is the list of the answers and waits. The locale states the step of
  such a loop; the lemmas in it say what every run looks like, once for both clients.
\<close>

datatype 'r event = Called 'r | Waited int

fun answers :: "'r event list \<Rightarrow> 'r list" where
  "answers [] = []"
| "answers (Called r # evs) = r # answers evs"
| "answers (Waited d # evs) = answers evs"

fun delays :: "'r event list \<Rightarrow> int list" where
  "delays [] = []"
| "delays (Called r # evs) = delays evs"
| "delays (Waited d # evs) = d # delays evs"

lemma answers_append [simp]: "answers (xs @ ys) = answers xs @ answers ys"
  by (induction xs rule: answers.induct) auto

lemma delays_append [simp]: "delays (xs @ ys) = delays xs @ delays ys"
  by (induction xs rule: delays.induct) auto

text \<open>
  A finished run from the attempt \<open>k\<close> on: at least one call and at most \<open>limit\<close>; all answers but
  the last are transient; between two calls the delay of the attempt; it ends with an answer that
  is final or has no attempt left, or by an interrupted wait.
\<close>

definition orderly ::
  "int \<Rightarrow> int \<Rightarrow> (int \<Rightarrow> int) \<Rightarrow> ('r \<Rightarrow> bool) \<Rightarrow> ('r \<Rightarrow> 'x) \<Rightarrow> ('x \<Rightarrow> bool) \<Rightarrow> 'x \<times> 'r event list \<Rightarrow> bool" where
  "orderly k limit delay again finish interrupted result \<longleftrightarrow>
     (let x = fst result; rs = answers (snd result); ds = delays (snd result); n = int (length rs) in
      1 \<le> n \<and> k + n - 1 \<le> limit \<and> list_all again (butlast rs) \<and>
      (ds = map delay [k..k + n - 2] \<and> x = finish (last rs) \<and> (again (last rs) \<longrightarrow> k + n - 1 = limit) \<or>
       ds = map delay [k..k + n - 1] \<and> interrupted x \<and> again (last rs) \<and> k + n - 1 < limit))"

locale retry_loop =
  fixes run :: "int \<Rightarrow> 'r event list \<Rightarrow> 'x \<times> 'r event list"
    and limit :: int
    and delay :: "int \<Rightarrow> int"
    and ask :: "'r event list \<Rightarrow> 'r"
    and stopped :: "'r event list \<Rightarrow> 'x option"
    and again :: "'r \<Rightarrow> bool"
    and finish :: "'r \<Rightarrow> 'x"
    and ready :: bool              \<comment> \<open>the request of the call could be made\<close>
  assumes step: "ready \<Longrightarrow> 1 \<le> k \<Longrightarrow> k \<le> limit \<Longrightarrow>
     run k tr =
       (let r = ask tr; called = tr @ [Called r]; waited = called @ [Waited (delay k)] in
        if again r \<and> k < limit
        then (case stopped waited of Some x \<Rightarrow> (x, waited) | None \<Rightarrow> run (k + 1) waited)
        else (finish r, called))"
begin

lemma extends: "ready \<Longrightarrow> 1 \<le> k \<Longrightarrow> k \<le> limit \<Longrightarrow>
   \<exists>evs. snd (run k tr) = tr @ evs \<and>
     orderly k limit delay again finish (\<lambda>x. \<exists>t. stopped t = Some x) (fst (run k tr), evs)"
proof (induction "nat (limit - k)" arbitrary: k tr)
  case (0 k tr)
  then have "run k tr = (finish (ask tr), tr @ [Called (ask tr)])" by (simp add: step Let_def)
  with 0 show ?case by (intro exI [of _ "[Called (ask tr)]"]) (simp add: orderly_def)
next
  case (Suc n k tr)
  define r where "r = ask tr"
  define waited where "waited = (tr @ [Called r]) @ [Waited (delay k)]"
  have run: "run k tr = (if again r \<and> k < limit
      then (case stopped waited of Some x \<Rightarrow> (x, waited) | None \<Rightarrow> run (k + 1) waited)
      else (finish r, tr @ [Called r]))"
    by (simp only: step [OF Suc.prems] Let_def r_def waited_def)
  show ?case
  proof (cases "again r \<and> k < limit")
    case False
    with run Suc.prems Suc.hyps(2) show ?thesis
      by (intro exI [of _ "[Called r]"]) (auto simp: orderly_def)
  next
    case more: True
    show ?thesis
    proof (cases "stopped waited")
      case (Some x)
      with run more Suc.prems show ?thesis
        by (intro exI [of _ "[Called r, Waited (delay k)]"]) (auto simp: orderly_def waited_def)
    next
      case None
      have "n = nat (limit - (k + 1))" using Suc.hyps(2) by simp
      from Suc.hyps(1) [OF this Suc.prems(1), of waited] more Suc.prems obtain evs
        where tail: "snd (run (k + 1) waited) = waited @ evs"
          and ok: "orderly (k + 1) limit delay again finish (\<lambda>x. \<exists>t. stopped t = Some x)
            (fst (run (k + 1) waited), evs)" by auto
      have "1 \<le> int (length (answers evs))" using ok by (simp add: orderly_def Let_def)
      then have "[k..k + int (length (answers evs)) - 1] = k # [k + 1..k + int (length (answers evs)) - 1]"
        "[k..k + int (length (answers evs))] = k # [k + 1..k + int (length (answers evs))]"
        by (simp_all only: upto_rec1 [of k "k + int (length (answers evs)) - 1"]
            upto_rec1 [of k "k + int (length (answers evs))"])
      with ok more have "orderly k limit delay again finish (\<lambda>x. \<exists>t. stopped t = Some x)
          (fst (run (k + 1) waited), Called r # Waited (delay k) # evs)"
        by (auto simp: orderly_def Let_def algebra_simps)
      with run more None tail show ?thesis
        by (intro exI [of _ "Called r # Waited (delay k) # evs"]) (simp add: waited_def)
    qed
  qed
qed

lemma orderly_run:
  assumes "ready" and "1 \<le> limit"
  shows "orderly 1 limit delay again finish (\<lambda>x. \<exists>t. stopped t = Some x) (run 1 [])"
  using extends [of 1 "[]"] assms by (cases "run 1 []") auto

end

text \<open>Doubling and cutting off: what an undisturbed computation of the delays gives.\<close>

definition backoff :: "int \<Rightarrow> int \<Rightarrow> int \<Rightarrow> int" where
  "backoff initial longest k = min longest (initial * 2 ^ nat (k - 1))"

lemma backoff_bounds:
  assumes "0 < initial" and "initial \<le> longest"
  shows "0 < backoff initial longest k" and "backoff initial longest k \<le> longest"
  using assms by (simp_all add: backoff_def)

lemma backoff_mono:
  assumes "0 < initial" and "1 \<le> j" and "j \<le> k"
  shows "backoff initial longest j \<le> backoff initial longest k"
proof -
  have "(2 :: int) ^ nat (j - 1) \<le> 2 ^ nat (k - 1)" using assms by (intro power_increasing) auto
  then have "initial * 2 ^ nat (j - 1) \<le> initial * 2 ^ nat (k - 1)" using assms(1) by simp
  then show ?thesis by (simp add: backoff_def min_def)
qed

end
