(* ===== verification/Grpc_Client.thy ===== *)
theory Grpc_Client
  imports Config_Validate World Retry
begin

section \<open>The gRPC client: package grpcclient\<close>

text \<open>
  \<^verbatim>\<open>internal/grpcclient/client.go\<close>: the guards of \<open>Dial\<close>, the interceptors of a connection and
  their order. An invoker takes the context and the method of a call; the state \<open>'s\<close> is what
  the calls and waits act on. The codes of gRPC, the transport, the files of TLS and the circuit
  breaker are the libraries'; the interceptor of the metrics is in \<open>Clients\<close>.
\<close>

subsection \<open>Calls\<close>

record rpc_error =
  reCode :: nat
  reMessage :: string

definition codes_OK :: nat where "codes_OK = 0"
definition codes_DeadlineExceeded :: nat where "codes_DeadlineExceeded = 4"
definition codes_ResourceExhausted :: nat where "codes_ResourceExhausted = 8"
definition codes_Unavailable :: nat where "codes_Unavailable = 14"

lemmas codes_defs = codes_OK_def codes_DeadlineExceeded_def codes_ResourceExhausted_def codes_Unavailable_def

definition status_Code :: "rpc_error option \<Rightarrow> nat" where
  "status_Code err = (case err of None \<Rightarrow> codes_OK | Some e \<Rightarrow> reCode e)"

type_synonym 's invoker = "go_context \<Rightarrow> string \<Rightarrow> 's \<Rightarrow> rpc_error option \<times> 's"
type_synonym 's interceptor = "'s invoker \<Rightarrow> 's invoker"

text \<open>A pause ends with the error of the context, or with none when the timer fires first.\<close>

type_synonym ('e, 's) pause = "go_context \<Rightarrow> int \<Rightarrow> 's \<Rightarrow> 'e option \<times> 's"

subsection \<open>Retries\<close>

definition retryGRPCMethod :: "go_context \<Rightarrow> string \<Rightarrow> string list \<Rightarrow> bool" where
  "retryGRPCMethod ctx meth patterns =
     (if cIdempotencyKey ctx \<noteq> None then True else MatchesAny meth patterns)"

text \<open>The shift wraps around in 64 bits; a timer of no positive duration fires at once.\<close>

definition shifted_delay :: "retry \<Rightarrow> int \<Rightarrow> int" where
  "shifted_delay cfg number =
     (let delay = i64 (InitialBackoff cfg * 2 ^ nat (number - 1)) in
      if MaxBackoff cfg < delay then MaxBackoff cfg else delay)"

definition waitRetry :: "(rpc_error, 's) pause \<Rightarrow> go_context \<Rightarrow> retry \<Rightarrow> int \<Rightarrow> 's \<Rightarrow> rpc_error option \<times> 's" where
  "waitRetry pause ctx cfg number s = pause ctx (shifted_delay cfg number) s"

function retry_attempts ::
  "(rpc_error, 's) pause \<Rightarrow> retry \<Rightarrow> 's invoker \<Rightarrow> go_context \<Rightarrow> string \<Rightarrow> int \<Rightarrow> rpc_error option \<Rightarrow> 's \<Rightarrow>
   rpc_error option \<times> 's" where
  "retry_attempts pause cfg invoke ctx meth number last_err s =
     (if number \<le> MaxAttempts cfg then
        let (err, s1) = invoke ctx meth s; code = status_Code err in
        if code \<noteq> codes_Unavailable \<and> code \<noteq> codes_ResourceExhausted then (err, s1)
        else if number < MaxAttempts cfg then
          (case waitRetry pause ctx cfg number s1 of
             (Some waitErr, s2) \<Rightarrow> (Some waitErr, s2)
           | (None, s2) \<Rightarrow> retry_attempts pause cfg invoke ctx meth (number + 1) err s2)
        else retry_attempts pause cfg invoke ctx meth (number + 1) err s1
      else (last_err, s))"
  by pat_completeness auto
termination
  by (relation "measure (\<lambda>(_, cfg, _, _, _, number, _, _). nat (MaxAttempts cfg - number + 1))") auto

declare retry_attempts.simps [simp del]

definition retryInterceptor :: "(rpc_error, 's) pause \<Rightarrow> retry \<Rightarrow> 's interceptor" where
  "retryInterceptor pause cfg invoke = (\<lambda>ctx meth s.
     if \<not> retryGRPCMethod ctx meth (Methods cfg) then invoke ctx meth s
     else retry_attempts pause cfg invoke ctx meth 1 None s)"

subsection \<open>The other interceptors\<close>

text \<open>The settings of the breaker; the breaker itself is the library's.\<close>

record 'e breaker_settings =
  bsName :: string
  bsTimeout :: int
  bsReadyToTrip :: "int \<Rightarrow> bool"       \<comment> \<open>of the number of consecutive failures\<close>
  bsIsExcluded :: "'e \<Rightarrow> bool"

definition grpc_breaker :: "string \<Rightarrow> breaker \<Rightarrow> rpc_error option breaker_settings" where
  "grpc_breaker name cfg =
     \<lparr>bsName = name, bsTimeout = OpenTimeout cfg,
      bsReadyToTrip = (\<lambda>failures. FailureThreshold cfg \<le> failures),
      bsIsExcluded = (\<lambda>err. let code = status_Code err in
        code \<noteq> codes_Unavailable \<and> code \<noteq> codes_ResourceExhausted \<and> code \<noteq> codes_DeadlineExceeded)\<rparr>"

type_synonym 's grpc_breaker_library =
  "rpc_error option breaker_settings \<Rightarrow> ('s \<Rightarrow> rpc_error option \<times> 's) \<Rightarrow> 's \<Rightarrow> rpc_error option \<times> 's"

definition breakerInterceptor :: "'s grpc_breaker_library \<Rightarrow> string \<Rightarrow> breaker \<Rightarrow> 's interceptor" where
  "breakerInterceptor execute name cfg invoke = (\<lambda>ctx meth s. execute (grpc_breaker name cfg) (invoke ctx meth) s)"

definition timeoutInterceptor :: "int \<Rightarrow> 's interceptor" where
  "timeoutInterceptor timeout invoke = (\<lambda>ctx meth s.
     if cTimeouts ctx \<noteq> [] then invoke ctx meth s
     else invoke (with_timeout timeout ctx) meth s)"

definition authenticationMetadata :: "string \<Rightarrow> string \<Rightarrow> (string \<times> string) list" where
  "authenticationMetadata token psk =
     (if token \<noteq> [] then [(''authorization'', ''Bearer '' @ token)]
      else if psk \<noteq> [] then [(''authorization'', ''PSK '' @ psk)]
      else [])"

definition outgoing :: "string \<Rightarrow> string \<Rightarrow> go_context \<Rightarrow> (string \<times> string) list" where
  "outgoing token psk ctx =
     (if token \<noteq> [] then [(''authorization'', ''Bearer '' @ token)]
      else if psk \<noteq> [] then [(''authorization'', ''PSK '' @ psk)]
      else []) @
     (case requestid_FromContext ctx of None \<Rightarrow> [] | Some i \<Rightarrow> [(''x-request-id'', i)]) @
     (case cIdempotencyKey ctx of None \<Rightarrow> [] | Some key \<Rightarrow> [(''idempotency-key'', key)])"

definition metadataInterceptor :: "string \<Rightarrow> string \<Rightarrow> 's interceptor" where
  "metadataInterceptor token psk invoke = (\<lambda>ctx meth s.
     invoke (ctx\<lparr>cMetadata := cMetadata ctx @ outgoing token psk ctx\<rparr>) meth s)"

definition metadataStreamInterceptor :: "string \<Rightarrow> string \<Rightarrow> go_context \<Rightarrow> go_context" where
  "metadataStreamInterceptor token psk ctx = ctx\<lparr>cMetadata := cMetadata ctx @ authenticationMetadata token psk\<rparr>"

subsection \<open>TLS\<close>

record tls_config =
  tcEnabled :: bool
  tcServerName :: string
  tcCAFile :: string
  tcCertFile :: string
  tcKeyFile :: string
  tcAllowInsecureToken :: bool

datatype transport =
    InsecureTransport
  | TLSTransport string "string option" "(string \<times> string) option"   \<comment> \<open>server name, CA, key pair\<close>

text \<open>Reading files and parsing certificates.\<close>

record tls_library =
  readFile :: "string \<Rightarrow> go_error + string"
  appendCerts :: "string \<Rightarrow> bool"
  loadKeyPair :: "string \<Rightarrow> string \<Rightarrow> go_error option"

definition transportCredentials :: "tls_library \<Rightarrow> tls_config \<Rightarrow> go_error + transport" where
  "transportCredentials lib cfg =
     (if \<not> tcEnabled cfg then Inr InsecureTransport
      else
        (case
           (if tcCAFile cfg \<noteq> [] then
              (case readFile lib (tcCAFile cfg) of
                 Inl e \<Rightarrow> Inl (Wrapped ''read grpc CA'' e)
               | Inr pem \<Rightarrow> if \<not> appendCerts lib pem then Inl (ErrorString ''parse grpc CA'') else Inr (Some pem))
            else Inr None)
         of
           Inl e \<Rightarrow> Inl e
         | Inr roots \<Rightarrow>
             if tcCertFile cfg \<noteq> [] \<or> tcKeyFile cfg \<noteq> [] then
               (if tcCertFile cfg = [] \<or> tcKeyFile cfg = []
                then Inl (ErrorString ''grpc client certificate and key must be configured together'')
                else case loadKeyPair lib (tcCertFile cfg) (tcKeyFile cfg) of
                  Some e \<Rightarrow> Inl (Wrapped ''load grpc client certificate'' e)
                | None \<Rightarrow> Inr (TLSTransport (tcServerName cfg) roots (Some (tcCertFile cfg, tcKeyFile cfg))))
             else Inr (TLSTransport (tcServerName cfg) roots None)))"

subsection \<open>Dial\<close>

record client_config =
  ccTarget :: string
  ccTimeout :: int
  ccToken :: string
  ccPSK :: string
  ccTLS :: tls_config
  ccName :: string
  ccRetry :: retry
  ccBreaker :: breaker

record 's connection =
  coTarget :: string
  coTransport :: transport
  coUnary :: "'s interceptor list"
  coStream :: "go_context \<Rightarrow> go_context"

definition client_interceptors ::
  "'s grpc_breaker_library \<Rightarrow> (rpc_error, 's) pause \<Rightarrow> client_config \<Rightarrow> 's interceptor list" where
  "client_interceptors execute pause cfg =
     [timeoutInterceptor (ccTimeout cfg), metadataInterceptor (ccToken cfg) (ccPSK cfg)] @
     (if brEnabled (ccBreaker cfg) then [breakerInterceptor execute (ccName cfg) (ccBreaker cfg)] else []) @
     (if 1 < MaxAttempts (ccRetry cfg) then [retryInterceptor pause (ccRetry cfg)] else [])"

text \<open>\<open>newClient\<close> is the library's \<open>grpc.NewClient\<close>, which can refuse a target.\<close>

definition Dial ::
  "tls_library \<Rightarrow> 's grpc_breaker_library \<Rightarrow> (rpc_error, 's) pause \<Rightarrow> (string \<Rightarrow> go_error option) \<Rightarrow>
   client_config \<Rightarrow> go_error + 's connection" where
  "Dial lib execute pause newClient cfg =
     (if ccTarget cfg = [] then Inl (ErrorString ''grpc client target is required'')
      else if ccTimeout cfg \<le> 0 then Inl (ErrorString ''grpc client timeout must be positive'')
      else case transportCredentials lib (ccTLS cfg) of
        Inl e \<Rightarrow> Inl e
      | Inr transport \<Rightarrow>
          if ccToken cfg \<noteq> [] \<and> \<not> tcEnabled (ccTLS cfg) \<and> \<not> tcAllowInsecureToken (ccTLS cfg)
          then Inl (ErrorString ''refusing to send grpc bearer token without TLS'')
          else if ccPSK cfg \<noteq> [] \<and> ccToken cfg \<noteq> []
          then Inl (ErrorString ''grpc client bearer token and PSK are mutually exclusive'')
          else if ccPSK cfg \<noteq> [] \<and> \<not> tcEnabled (ccTLS cfg) \<and> \<not> tcAllowInsecureToken (ccTLS cfg)
          then Inl (ErrorString ''refusing to send grpc PSK without TLS'')
          else case newClient (ccTarget cfg) of
            Some e \<Rightarrow> Inl e
          | None \<Rightarrow>
              Inr \<lparr>coTarget = ccTarget cfg, coTransport = transport,
                   coUnary = client_interceptors execute pause cfg,
                   coStream = metadataStreamInterceptor (ccToken cfg) (ccPSK cfg)\<rparr>)"

text \<open>\<open>WithChainUnaryInterceptor\<close>: the first of the list is the outermost.\<close>

definition chained :: "'s interceptor list \<Rightarrow> 's interceptor" where
  "chained interceptors invoke = foldr (\<lambda>i. i) interceptors invoke"

subsection \<open>Runs of the retry loop\<close>

text \<open>Calls and waits recorded in a list: the backend answers from what happened so far.\<close>

definition recorded_call :: "(go_context \<Rightarrow> 'm \<Rightarrow> 'r event list \<Rightarrow> 'r) \<Rightarrow>
    go_context \<Rightarrow> 'm \<Rightarrow> 'r event list \<Rightarrow> 'r \<times> 'r event list" where
  "recorded_call ask ctx meth tr = (let r = ask ctx meth tr in (r, tr @ [Called r]))"

definition recorded_pause :: "('r event list \<Rightarrow> 'e option) \<Rightarrow> ('e, 'r event list) pause" where
  "recorded_pause stopped ctx d tr = (let tr' = tr @ [Waited d] in (stopped tr', tr'))"

definition transient :: "rpc_error option \<Rightarrow> bool" where
  "transient err \<longleftrightarrow> status_Code err \<in> {codes_Unavailable, codes_ResourceExhausted}"

lemma retry_attempts_step:
  assumes "1 \<le> k" and "k \<le> MaxAttempts cfg"
  shows "retry_attempts (recorded_pause stopped) cfg (recorded_call ask) ctx meth k last_err tr =
    (let r = ask ctx meth tr; called = tr @ [Called r]; waited = called @ [Waited (shifted_delay cfg k)] in
     if transient r \<and> k < MaxAttempts cfg
     then (case stopped waited of
             Some e \<Rightarrow> (Some e, waited)
           | None \<Rightarrow> retry_attempts (recorded_pause stopped) cfg (recorded_call ask) ctx meth (k + 1) r waited)
     else (r, called))"
  using assms retry_attempts.simps [of "recorded_pause stopped" cfg "recorded_call ask" ctx meth "k + 1"]
  by (subst retry_attempts.simps)
     (auto simp: recorded_call_def recorded_pause_def waitRetry_def transient_def Let_def split: option.splits)

lemma last_err_unused: "1 \<le> k \<Longrightarrow> k \<le> MaxAttempts cfg \<Longrightarrow>
    retry_attempts p cfg i ctx meth k e tr = retry_attempts p cfg i ctx meth k None tr"
  by (subst (1 2) retry_attempts.simps) simp

interpretation grpc_retry: retry_loop
  "\<lambda>k tr. retry_attempts (recorded_pause stopped) cfg (recorded_call ask) ctx meth k None tr"
  "MaxAttempts cfg" "shifted_delay cfg" "ask ctx meth" "\<lambda>tr. map_option Some (stopped tr)" transient "\<lambda>r. r" True
  for stopped cfg ask ctx meth
proof
  fix k :: int and tr
  assume k: "1 \<le> k" "k \<le> MaxAttempts cfg"
  show "retry_attempts (recorded_pause stopped) cfg (recorded_call ask) ctx meth k None tr =
    (let r = ask ctx meth tr; called = tr @ [Called r]; waited = called @ [Waited (shifted_delay cfg k)] in
     if transient r \<and> k < MaxAttempts cfg
     then (case map_option Some (stopped waited) of
             Some x \<Rightarrow> (x, waited)
           | None \<Rightarrow> retry_attempts (recorded_pause stopped) cfg (recorded_call ask) ctx meth (k + 1) None waited)
     else (r, called))"
    unfolding retry_attempts_step [OF k]
    using k last_err_unused [of "k + 1" cfg] by (auto simp: Let_def split: option.splits)
qed

lemma shifted_delay_exact:
  assumes "0 < InitialBackoff cfg" and "InitialBackoff cfg < 2 ^ 59" and "1 \<le> k" and "k \<le> 5"
  shows "shifted_delay cfg k = backoff (InitialBackoff cfg) (MaxBackoff cfg) k"
proof -
  have "(2 :: int) ^ nat (k - 1) \<le> 2 ^ 4" using assms(3,4) by (intro power_increasing) auto
  then have "InitialBackoff cfg * 2 ^ nat (k - 1) \<le> InitialBackoff cfg * 2 ^ 4" using assms(1)
    by (intro mult_left_mono) auto
  moreover have "0 < InitialBackoff cfg * 2 ^ nat (k - 1)" using assms(1) by simp
  ultimately have "in_i64 (InitialBackoff cfg * 2 ^ nat (k - 1))"
    unfolding in_i64_def using assms(2) by simp
  then show ?thesis by (simp add: shifted_delay_def backoff_def i64_exact min_def Let_def)
qed

end
