(* ===== verification/Grpc_Server.thy ===== *)
theory Grpc_Server
  imports Http_Handlers Grpc_Client
begin

section \<open>gRPC transport: package grpctransport\<close>

text \<open>
  \<^verbatim>\<open>internal/transport/grpc/server.go\<close> (the interceptors) and \<^verbatim>\<open>scheduler_server.go\<close> (the
  operations and the conversions to and from protobuf messages). The messages are generated from
  another repository; the records here have the fields the code reads and writes. The
  authorization and idempotency interceptors are the platform library's and are parameters, as
  functions on the call; metrics and the recovery from panics are in \<open>Servers\<close>.
\<close>

subsection \<open>Timestamps\<close>

record timestamp =
  tsSeconds :: int
  tsNanos :: int

definition timestamp_New :: "time \<Rightarrow> timestamp" where
  "timestamp_New t = \<lparr>tsSeconds = t div 1000000000, tsNanos = t mod 1000000000\<rparr>"

text \<open>\<open>CheckValid\<close> accepts the years 1 to 9999 and nanoseconds below a second.\<close>

definition CheckValid :: "timestamp \<Rightarrow> bool" where
  "CheckValid t \<longleftrightarrow> -62135596800 \<le> tsSeconds t \<and> tsSeconds t \<le> 253402300799 \<and>
     0 \<le> tsNanos t \<and> tsNanos t < 1000000000"

definition AsTime :: "timestamp \<Rightarrow> time" where
  "AsTime t = tsSeconds t * 1000000000 + tsNanos t"

text \<open>The error of \<open>CheckValid\<close> is dropped by the callers: \<open>Inl ()\<close>.\<close>

definition protoTime :: "timestamp option \<Rightarrow> unit + time option" where
  "protoTime value =
     (case value of
        None \<Rightarrow> Inr None
      | Some t \<Rightarrow> if \<not> CheckValid t then Inl () else Inr (Some (AsTime t)))"

subsection \<open>Messages\<close>

record pb_job =
  pjId :: string
  pjTenantId :: string
  pjApplicationId :: string
  pjName :: string
  pjCronExpression :: string
  pjTimezone :: string
  pjUpstream :: string
  pjFullMethod :: string
  pjRequestJson :: string
  pjTimeoutMilliseconds :: int
  pjStatus :: string
  pjVersion :: int
  pjCreatedAt :: timestamp
  pjUpdatedAt :: timestamp
  pjCreatedBy :: string
  pjUpdatedBy :: string

record pb_execution =
  peId :: string
  peJobId :: string
  peTenantId :: string
  peApplicationId :: string
  peTriggerType :: string
  peStatus :: string
  peResponseJson :: string
  peErrorCode :: string
  peErrorMessage :: string
  peStartedAt :: timestamp
  peFinishedAt :: "timestamp option"
  peDurationMilliseconds :: int
  peVersion :: int
  peCreatedAt :: timestamp
  peUpdatedAt :: timestamp
  peCreatedBy :: string
  peUpdatedBy :: string

record 'a pb_page =
  ppItems :: "'a list"
  ppTotal :: int
  ppPage :: int
  ppPageSize :: int

definition protoJob :: "job \<Rightarrow> pb_job" where
  "protoJob v =
     \<lparr>pjId = ID v, pjTenantId = TenantID v, pjApplicationId = ApplicationID v, pjName = Name v,
      pjCronExpression = CronExpression v, pjTimezone = Timezone v, pjUpstream = Upstream v,
      pjFullMethod = FullMethod v, pjRequestJson = RequestJSON v,
      pjTimeoutMilliseconds = TimeoutMilliseconds v, pjStatus = Status v, pjVersion = Version v,
      pjCreatedAt = timestamp_New (CreatedAt v), pjUpdatedAt = timestamp_New (UpdatedAt v),
      pjCreatedBy = CreatedBy v, pjUpdatedBy = UpdatedBy v\<rparr>"

definition protoExecution :: "execution \<Rightarrow> pb_execution" where
  "protoExecution v =
     \<lparr>peId = ID v, peJobId = JobID v, peTenantId = TenantID v, peApplicationId = ApplicationID v,
      peTriggerType = TriggerType v, peStatus = Status v, peResponseJson = ResponseJSON v,
      peErrorCode = ErrorCode v, peErrorMessage = ErrorMessage v,
      peStartedAt = timestamp_New (StartedAt v),
      peFinishedAt = map_option timestamp_New (FinishedAt v),
      peDurationMilliseconds = DurationMilliseconds v, peVersion = Version v,
      peCreatedAt = timestamp_New (CreatedAt v), peUpdatedAt = timestamp_New (UpdatedAt v),
      peCreatedBy = CreatedBy v, peUpdatedBy = UpdatedBy v\<rparr>"

definition protoInput ::
  "string \<Rightarrow> string \<Rightarrow> string \<Rightarrow> string \<Rightarrow> string \<Rightarrow> string \<Rightarrow> string \<Rightarrow> string \<Rightarrow> int \<Rightarrow> bool \<Rightarrow> input" where
  "protoInput tenantID applicationID name expression timezone upstream method requestJSON timeout enabled1 =
     \<lparr>inTenantID = tenantID, inApplicationID = applicationID, inName = name, inCronExpression = expression,
      inTimezone = timezone, inUpstream = upstream, inFullMethod = method, inRequestJSON = requestJSON,
      inTimeoutMilliseconds = timeout, inEnabled = enabled1\<rparr>"

text \<open>\<open>int32\<close> of an \<open>int\<close> wraps around.\<close>

definition i32 :: "int \<Rightarrow> int" where
  "i32 x = (x + 2 ^ 31) mod 2 ^ 32 - 2 ^ 31"

definition pb_page_of :: "('a \<Rightarrow> 'b) \<Rightarrow> 'a page \<Rightarrow> 'b pb_page" where
  "pb_page_of f p =
     \<lparr>ppItems = map f (Items p), ppTotal = Total p, ppPage = i32 (PageNumber p), ppPageSize = i32 (PageSize p)\<rparr>"

subsection \<open>Operations\<close>

type_synonym status = "grpc_code \<times> string"
type_synonym 'a rpc = "(status, world, 'a) prog"

text \<open>The fields of the requests the operations read.\<close>

record pb_create =
  pcTenantId :: string
  pcApplicationId :: string
  pcName :: string
  pcCronExpression :: string
  pcTimezone :: string
  pcUpstream :: string
  pcFullMethod :: string
  pcRequestJson :: string
  pcTimeoutMilliseconds :: int
  pcEnabled :: bool

record pb_update =
  puId :: string
  puVersion :: int
  puFields :: pb_create      \<comment> \<open>the tenant and the application are not read\<close>

record pb_list_jobs =
  plTenantId :: string
  plApplicationId :: string
  plKeyword :: string
  plIds :: "string list"
  plStatuses :: "string list"
  plStatus :: string
  plUpstreams :: "string list"
  plCreatedFrom :: "timestamp option"
  plCreatedTo :: "timestamp option"
  plPage :: int
  plPageSize :: int

record pb_list_executions =
  pxJobId :: string
  pxKeyword :: string
  pxIds :: "string list"
  pxStatuses :: "string list"
  pxTriggerTypes :: "string list"
  pxStartedFrom :: "timestamp option"
  pxStartedTo :: "timestamp option"
  pxDurationMin :: "int option"
  pxDurationMax :: "int option"
  pxPage :: int
  pxPageSize :: int

definition create_input :: "pb_create \<Rightarrow> input" where
  "create_input r = protoInput (pcTenantId r) (pcApplicationId r) (pcName r) (pcCronExpression r)
     (pcTimezone r) (pcUpstream r) (pcFullMethod r) (pcRequestJson r) (pcTimeoutMilliseconds r) (pcEnabled r)"

definition update_input :: "pb_create \<Rightarrow> input" where
  "update_input r = protoInput [] [] (pcName r) (pcCronExpression r)
     (pcTimezone r) (pcUpstream r) (pcFullMethod r) (pcRequestJson r) (pcTimeoutMilliseconds r) (pcEnabled r)"

definition CreateJob_rpc :: "env \<Rightarrow> go_context \<Rightarrow> pb_create \<Rightarrow> pb_job rpc" where
  "CreateJob_rpc env ctx r =
     attempt (on_error grpcError (Create env ctx (create_input r))) (\<lambda>value. ok (protoJob value))"

definition UpdateJob_rpc :: "env \<Rightarrow> go_context \<Rightarrow> pb_update \<Rightarrow> pb_job rpc" where
  "UpdateJob_rpc env ctx r =
     attempt (on_error grpcError (Update env ctx (puId r) (update_input (puFields r)) (puVersion r)))
       (\<lambda>value. ok (protoJob value))"

definition DeleteJob_rpc :: "env \<Rightarrow> go_context \<Rightarrow> string \<Rightarrow> int \<Rightarrow> unit rpc" where
  "DeleteJob_rpc env ctx i version = on_error grpcError (Delete env ctx i version)"

definition GetJob_rpc :: "env \<Rightarrow> go_context \<Rightarrow> string \<Rightarrow> pb_job rpc" where
  "GetJob_rpc env ctx i =
     attempt (on_error grpcError (Get env ctx i)) (\<lambda>value. ok (protoJob value))"

definition ListJobs_rpc :: "env \<Rightarrow> go_context \<Rightarrow> pb_list_jobs \<Rightarrow> pb_job pb_page rpc" where
  "ListJobs_rpc env ctx r =
     (case protoTime (plCreatedFrom r) of
        Inl u \<Rightarrow> fail (GInvalidArgument, ''invalid created_from'')
      | Inr createdFrom \<Rightarrow>
     (case protoTime (plCreatedTo r) of
        Inl u \<Rightarrow> fail (GInvalidArgument, ''invalid created_to'')
      | Inr createdTo \<Rightarrow>
          attempt (on_error grpcError (List_jobs env ctx
            \<lparr>jfTenantID = plTenantId r, jfApplicationID = plApplicationId r, jfKeyword = plKeyword r,
             jfIDs = plIds r, jfStatuses = list_statuses (plStatuses r) (plStatus r),
             jfUpstreams = plUpstreams r, jfCreatedFrom = createdFrom, jfCreatedTo = createdTo\<rparr>
            (plPage r) (plPageSize r))) (\<lambda>page. ok (pb_page_of protoJob page))))"

definition TriggerJob_rpc :: "env \<Rightarrow> go_context \<Rightarrow> string \<Rightarrow> int \<Rightarrow> pb_execution rpc" where
  "TriggerJob_rpc env ctx i expected =
     attempt (on_error grpcError (Trigger env ctx i expected)) (\<lambda>value. ok (protoExecution value))"

definition GetExecution_rpc :: "env \<Rightarrow> go_context \<Rightarrow> string \<Rightarrow> pb_execution rpc" where
  "GetExecution_rpc env ctx i =
     attempt (on_error grpcError (GetExecution env ctx i)) (\<lambda>value. ok (protoExecution value))"

definition ListExecutions_rpc :: "env \<Rightarrow> go_context \<Rightarrow> pb_list_executions \<Rightarrow> pb_execution pb_page rpc" where
  "ListExecutions_rpc env ctx r =
     (case protoTime (pxStartedFrom r) of
        Inl u \<Rightarrow> fail (GInvalidArgument, ''invalid started_from'')
      | Inr startedFrom \<Rightarrow>
     (case protoTime (pxStartedTo r) of
        Inl u \<Rightarrow> fail (GInvalidArgument, ''invalid started_to'')
      | Inr startedTo \<Rightarrow>
          attempt (on_error grpcError (ListExecutions env ctx
            \<lparr>efJobID = pxJobId r, efKeyword = pxKeyword r, efIDs = pxIds r, efStatuses = pxStatuses r,
             efTriggerTypes = pxTriggerTypes r, efStartedFrom = startedFrom, efStartedTo = startedTo,
             efDurationMin = pxDurationMin r, efDurationMax = pxDurationMax r\<rparr>
            (pxPage r) (pxPageSize r))) (\<lambda>page. ok (pb_page_of protoExecution page))))"

subsection \<open>Interceptors\<close>

text \<open>
  A unary call: its method, its incoming metadata by key, its context. A handler answers a status
  or a reply. Here too an interceptor takes the rest of the chain.
\<close>

record call =
  caMethod :: string
  caMetadata :: "string \<Rightarrow> string list"
  caCtx :: go_context
  caEnvironment :: string
  caHeader :: "(string \<times> string) list"   \<comment> \<open>response metadata\<close>

type_synonym ('r, 'w) rpc_handler = "call \<Rightarrow> (status, 'w, 'r) prog"

definition environmentInterceptor :: "string \<Rightarrow> ('r, 'w) rpc_handler \<Rightarrow> ('r, 'w) rpc_handler" where
  "environmentInterceptor profile next = (\<lambda>c. next (c\<lparr>caEnvironment := profile\<rparr>))"

definition requestIDInterceptor :: "string \<Rightarrow> ('r, 'w) rpc_handler \<Rightarrow> ('r, 'w) rpc_handler" where
  "requestIDInterceptor generated next = (\<lambda>c.
     let values = caMetadata c ''x-request-id'';
         given = (if values \<noteq> [] \<and> Valid_request_id (hd values) then hd values else []);
         i = (if given = [] then generated else given)
     in next (c\<lparr>caHeader := caHeader c @ [(''x-request-id'', i)], caCtx := (caCtx c)\<lparr>cRequestID := Some i\<rparr>\<rparr>))"

definition idempotencyInterceptor :: "(string \<Rightarrow> bool) \<Rightarrow> ('r, 'w) rpc_handler \<Rightarrow> ('r, 'w) rpc_handler" where
  "idempotencyInterceptor valid next = (\<lambda>c.
     let values = caMetadata c ''idempotency-key'' in
     if values = [] then next c
     else if \<not> valid (hd values) then fail (GInvalidArgument, ''invalid idempotency-key'')
     else next (c\<lparr>caCtx := (caCtx c)\<lparr>cIdempotencyKey := Some (hd values)\<rparr>\<rparr>))"

definition authenticateGRPC ::
  "(string \<Rightarrow> go_error + principal) \<Rightarrow> auth_config \<Rightarrow> call \<Rightarrow> status + go_context" where
  "authenticateGRPC verify cfg c =
     (let values = caMetadata c ''authorization''; ctx = caCtx c in
      if pskEnabled (authPSK cfg) \<and> MatchesAny (caMethod c) (pskGRPCMethods (authPSK cfg)) then
        (if values = [] \<or> \<not> VerifyPSK (hd values) (pskKey (authPSK cfg))
         then Inl (GUnauthenticated, ''missing or invalid PSK'')
         else Inr (ctx\<lparr>cPrincipal := Some psk_principal\<rparr>))
      else if MatchesAny (caMethod c) (authSkipGRPCMethods cfg) then Inr ctx
      else if values = [] then Inl (GUnauthenticated, ''missing bearer token'')
      else case cut CHR '' '' (hd values) of
        None \<Rightarrow> Inl (GUnauthenticated, ''invalid bearer token'')
      | Some (scheme, raw) \<Rightarrow>
          if \<not> EqualFold scheme ''Bearer'' then Inl (GUnauthenticated, ''invalid bearer token'')
          else case verify raw of
            Inl e \<Rightarrow> Inl (GUnauthenticated, ''invalid or expired token'')
          | Inr identity \<Rightarrow> Inr (ctx\<lparr>cPrincipal := Some identity\<rparr>))"

definition authInterceptor ::
  "(string \<Rightarrow> go_error + principal) \<Rightarrow> auth_config \<Rightarrow> ('r, 'w) rpc_handler \<Rightarrow> ('r, 'w) rpc_handler" where
  "authInterceptor verify cfg next = (\<lambda>c.
     case authenticateGRPC verify cfg c of
       Inl e \<Rightarrow> fail e
     | Inr authCtx \<Rightarrow> next (c\<lparr>caCtx := authCtx\<rparr>))"

definition grpc_service :: string where
  "grpc_service = ''/platform.scheduler.v1.SchedulerService/''"

definition schedulerGRPCRequirement :: "bool \<Rightarrow> string \<Rightarrow> requirement option" where
  "schedulerGRPCRequirement active method =
     (if \<not> active then None
      else map_of
        [(grpc_service @ ''CreateJob'', tenant_requirement ''scheduler.job'' ''create''),
         (grpc_service @ ''UpdateJob'', tenant_requirement ''scheduler.job'' ''update''),
         (grpc_service @ ''DeleteJob'', tenant_requirement ''scheduler.job'' ''delete''),
         (grpc_service @ ''GetJob'', tenant_requirement ''scheduler.job'' ''read''),
         (grpc_service @ ''ListJobs'', tenant_requirement ''scheduler.job'' ''list''),
         (grpc_service @ ''TriggerJob'', tenant_requirement ''scheduler.job'' ''trigger''),
         (grpc_service @ ''GetExecution'', tenant_requirement ''scheduler.execution'' ''read''),
         (grpc_service @ ''ListExecutions'', tenant_requirement ''scheduler.execution'' ''list'')] method)"

record ('r, 'w) grpc_deps =
  gdGeneratedID :: string
  gdValidKey :: "string \<Rightarrow> bool"
  gdVerify :: "string \<Rightarrow> go_error + principal"
  gdAuthorize :: "(string \<Rightarrow> requirement option) \<Rightarrow> ('r, 'w) rpc_handler \<Rightarrow> ('r, 'w) rpc_handler"
  gdIdempotent :: "string list \<Rightarrow> ('r, 'w) rpc_handler \<Rightarrow> ('r, 'w) rpc_handler"

definition serve_grpc :: "('r, 'w) grpc_deps \<Rightarrow> config \<Rightarrow> ('r, 'w) rpc_handler \<Rightarrow> ('r, 'w) rpc_handler" where
  "serve_grpc d cfg next =
     environmentInterceptor (activeProfile (cRuntime cfg)) (
     requestIDInterceptor (gdGeneratedID d) (
     idempotencyInterceptor (gdValidKey d) (
     authInterceptor (gdVerify d) (cAuth cfg) (
     gdAuthorize d (schedulerGRPCRequirement (cAuthorizationEnabled cfg)) (
     gdIdempotent d (idemGRPCMethods (cIdempotency cfg)) next)))))"

subsection \<open>Streams\<close>

text \<open>
  The same steps for streams (the service has none of its own, but the health service and the
  reflection do): a stream is the call it was opened with, and its handler ends with a status or
  none. \<open>setHeader\<close> is the error of sending the header.
\<close>

type_synonym 'w stream_handler = "call \<Rightarrow> (status, 'w, unit) prog"

definition environmentStreamInterceptor :: "string \<Rightarrow> 'w stream_handler \<Rightarrow> 'w stream_handler" where
  "environmentStreamInterceptor profile next = (\<lambda>stream. next (stream\<lparr>caEnvironment := profile\<rparr>))"

definition requestIDStreamInterceptor ::
  "(call \<Rightarrow> go_error option) \<Rightarrow> string \<Rightarrow> 'w stream_handler \<Rightarrow> 'w stream_handler" where
  "requestIDStreamInterceptor setHeader generated next = (\<lambda>stream.
     let values = caMetadata stream ''x-request-id'';
         given = (if values \<noteq> [] \<and> Valid_request_id (hd values) then hd values else []);
         i = (if given = [] then generated else given);
         opened = stream\<lparr>caHeader := caHeader stream @ [(''x-request-id'', i)]\<rparr>
     in case setHeader opened of
          Some e \<Rightarrow> fail (GInternal, ''set request metadata'')
        | None \<Rightarrow> next (opened\<lparr>caCtx := (caCtx stream)\<lparr>cRequestID := Some i\<rparr>\<rparr>))"

definition idempotencyStreamInterceptor :: "(string \<Rightarrow> bool) \<Rightarrow> 'w stream_handler \<Rightarrow> 'w stream_handler" where
  "idempotencyStreamInterceptor valid next = (\<lambda>stream.
     let values = caMetadata stream ''idempotency-key'' in
     if values = [] then next stream
     else if \<not> valid (hd values) then fail (GInvalidArgument, ''invalid idempotency-key'')
     else next (stream\<lparr>caCtx := (caCtx stream)\<lparr>cIdempotencyKey := Some (hd values)\<rparr>\<rparr>))"

definition authStreamInterceptor ::
  "(string \<Rightarrow> go_error + principal) \<Rightarrow> auth_config \<Rightarrow> 'w stream_handler \<Rightarrow> 'w stream_handler" where
  "authStreamInterceptor verify cfg next = (\<lambda>stream.
     case authenticateGRPC verify cfg stream of
       Inl e \<Rightarrow> fail e
     | Inr ctx \<Rightarrow> next (stream\<lparr>caCtx := ctx\<rparr>))"

subsection \<open>TLS of the server\<close>

text \<open>The key pair, and the certificates of the clients' authority when clients must have one.\<close>

definition serverCredentials ::
  "tls_library \<Rightarrow> grpc_tls_config \<Rightarrow> go_error + (string \<times> string) \<times> string option" where
  "serverCredentials lib cfg =
     (case loadKeyPair lib (gtlsCertFile cfg) (gtlsKeyFile cfg) of
        Some e \<Rightarrow> Inl (Wrapped ''load grpc certificate'' e)
      | None \<Rightarrow>
          if gtlsClientCAFile cfg \<noteq> [] then
            (case readFile lib (gtlsClientCAFile cfg) of
               Inl e \<Rightarrow> Inl (Wrapped ''read grpc client CA'' e)
             | Inr pem \<Rightarrow>
                 if \<not> appendCerts lib pem then Inl (ErrorString ''parse grpc client CA'')
                 else Inr ((gtlsCertFile cfg, gtlsKeyFile cfg), Some pem))
          else Inr ((gtlsCertFile cfg, gtlsKeyFile cfg), None))"

subsection \<open>Health\<close>

text \<open>The health service of gRPC.\<close>

datatype serving_status = SERVING | NOT_SERVING

definition health_Check ::
  "bool \<Rightarrow> (string \<times> go_error option) option \<Rightarrow> (string \<times> go_error option) option \<Rightarrow> serving_status" where
  "health_Check database_first db redis =
     (let (status, ready) = Ready database_first db redis in if ready then SERVING else NOT_SERVING)"

definition health_List :: "(string \<times> serving_status) list" where
  "health_List = [([], SERVING)]"

end
