(* ===== verification/Servers.thy ===== *)
theory Servers
  imports Http_Access Grpc_Server
begin

section \<open>The servers: routes, observation, panics, life cycle\<close>

text \<open>
  The rest of \<^verbatim>\<open>transport/http/server.go\<close> and \<^verbatim>\<open>transport/grpc/server.go\<close>: the routes outside the
  API and their guards, the interceptors that count requests and turn panics into answers, and
  starting and stopping. A handler that may panic returns, with its state, the value it panicked
  with. Listening, serving and shutting down belong to the libraries; their answers are arguments.
\<close>

subsection \<open>Routes of the HTTP server\<close>

definition pprof_routes :: "(string \<times> string) list" where
  "pprof_routes =
     [(''GET'', ''/debug/pprof/''), (''GET'', ''/debug/pprof/cmdline''), (''GET'', ''/debug/pprof/profile''),
      (''POST'', ''/debug/pprof/symbol''), (''GET'', ''/debug/pprof/symbol''), (''GET'', ''/debug/pprof/trace'')] @
     map (\<lambda>profile. (''GET'', ''/debug/pprof/'' @ profile))
       [''allocs'', ''block'', ''goroutine'', ''heap'', ''mutex'', ''threadcreate'']"

definition routes :: "config \<Rightarrow> (string \<times> string) list" where
  "routes cfg =
     concat (map (\<lambda>meth. [(meth, ''/live''), (meth, ''/ready'')]) [''GET'', ''POST'']) @
     (if obsMetricsEnabled (cObservability cfg) then [(''GET'', ''/metrics'')] else []) @
     (if obsPprofEnabled (cObservability cfg) then pprof_routes else []) @
     (if swEnabled (cSwagger cfg) then [(''GET'', ''/swagger/*any'')] else []) @
     map (\<lambda>path. (''POST'', path)) api_routes"

text \<open>No route is registered twice, which gin would answer with a panic at start.\<close>

lemma distinct_optional:
  "distinct (a @ b @ c @ d @ e) \<Longrightarrow>
     distinct (a @ (if m then b else []) @ (if p then c else []) @ (if s then d else []) @ e)"
  by auto

lemma routes_distinct: "distinct (routes cfg)"
  unfolding routes_def by (rule distinct_optional) code_simp

text \<open>The groups outside the API: the profiles behind their token, the documentation behind a JWT.\<close>

definition serve_pprof :: "('b, 'w) http_deps \<Rightarrow> config \<Rightarrow> ('b, 'w) middleware" where
  "serve_pprof d cfg next = router_chain d cfg (pprofAuth (obsPprofToken (cObservability cfg)) next)"

definition serve_swagger :: "('b, 'w) http_deps \<Rightarrow> config \<Rightarrow> ('b, 'w) middleware" where
  "serve_swagger d cfg next =
     router_chain d cfg (if swRequireAuth (cSwagger cfg) then JWT_mw (hdVerify d) next else next)"

text \<open>The profiles are served to the holder of the token only.\<close>

lemma pprofAuth_decides:
  "pprofAuth expected next (c, w) =
     (if \<exists>scheme. cut CHR '' '' (gHeader c ''Authorization'') = Some (scheme, expected) \<and> EqualFold scheme ''Bearer''
      then next (c, w) else (write_status 401 c, w))"
  by (auto simp: pprofAuth_def split: option.splits)

subsection \<open>Counting and recovering: HTTP\<close>

text \<open>The status gin reports: 200 when nothing was written.\<close>

definition written_status :: "'b gin \<Rightarrow> int" where
  "written_status c = (case gWritten c of None \<Rightarrow> 200 | Some (status, body) \<Rightarrow> status)"

definition HTTPMetrics_mw :: "bool \<Rightarrow> (string \<times> string \<times> int \<Rightarrow> 'w \<Rightarrow> 'w) \<Rightarrow> ('b, 'w) middleware" where
  "HTTPMetrics_mw active count next = (\<lambda>(c, w).
     let (c', w') = next (c, w) in
     if \<not> active then (c', w')
     else let route = (if gFullPath c' = [] then ''unmatched'' else gFullPath c')
          in (c', count (gMethod c', route, written_status c') w'))"

type_synonym ('b, 'w) panicking = "'b gin \<times> 'w \<Rightarrow> ('b gin \<times> 'w) \<times> string option"

text \<open>
  The panic is logged, with the value the handler panicked with, and then answered. gin writes the
  body in any case: after a response that was already sent, whose status stays, it follows as
  another body. (The stack trace gin prints on the error output of the process is left out.)
\<close>

definition internal_error :: "'b gin \<Rightarrow> 'b response" where
  "internal_error c =
     \<lparr>rCode = CodeInternal, rMessage = ''internal server error'', rBody = None, rRequestID = gRequestID c\<rparr>"

definition AbortWithStatusJSON :: "int \<Rightarrow> 'b response \<Rightarrow> 'b gin \<Rightarrow> 'b gin" where
  "AbortWithStatusJSON status r c =
     (if gWritten c = None then write_json status r c else c\<lparr>gMore := gMore c @ [r]\<rparr>)"

definition Recovery_mw :: "(string \<times> string \<Rightarrow> 'w \<Rightarrow> 'w) \<Rightarrow> ('b, 'w) panicking \<Rightarrow> ('b, 'w) handler" where
  "Recovery_mw log_error next = (\<lambda>s.
     case next s of
       (s', None) \<Rightarrow> s'
     | ((c', w'), Some recovered) \<Rightarrow>
         (AbortWithStatusJSON 500 (internal_error c') c', log_error (gRequestID c', recovered) w'))"

definition calm :: "('b, 'w) handler \<Rightarrow> ('b, 'w) panicking" where
  "calm next = (\<lambda>s. (next s, None))"

text \<open>Without a panic and with the metrics off, both are transparent, as \<open>router_chain\<close> has them.\<close>

lemma Recovery_calm: "Recovery_mw log_error (calm next) = next"
  by (simp add: Recovery_mw_def calm_def fun_eq_iff)

lemma HTTPMetrics_off: "HTTPMetrics_mw False count next = next"
  by (simp add: HTTPMetrics_mw_def fun_eq_iff)

lemma HTTPMetrics_response: "fst (HTTPMetrics_mw active count next s) = fst (next s)"
  by (cases s) (simp add: HTTPMetrics_mw_def Let_def split: prod.split)

lemma AbortWithStatusJSON_cases:
  "gWritten c = None \<Longrightarrow> AbortWithStatusJSON status r c = c\<lparr>gWritten := Some (status, Some r)\<rparr>"
  "gWritten c = Some x \<Longrightarrow> AbortWithStatusJSON status r c = c\<lparr>gMore := gMore c @ [r]\<rparr>"
  by (simp_all add: AbortWithStatusJSON_def write_json_def)

subsection \<open>Counting and recovering: gRPC\<close>

text \<open>A handler that panics returns no reply and no status.\<close>

type_synonym ('r, 'w) panicking_rpc = "call \<Rightarrow> 'w \<Rightarrow> (status + 'r) option \<times> 'w"

definition recoveryInterceptor :: "('r, 'w) panicking_rpc \<Rightarrow> ('r, 'w) rpc_handler" where
  "recoveryInterceptor handler = (\<lambda>c w.
     case handler c w of
       (Some r, w') \<Rightarrow> (r, w')
     | (None, w') \<Rightarrow> (Inl (GInternal, ''internal server error''), w'))"

definition recoveryStreamInterceptor :: "(unit, 'w) panicking_rpc \<Rightarrow> 'w stream_handler" where
  "recoveryStreamInterceptor handler = (\<lambda>stream w.
     case handler stream w of
       (Some r, w') \<Rightarrow> (r, w')
     | (None, w') \<Rightarrow> (Inl (GInternal, ''internal server error''), w'))"

text \<open>The counters take the method and the code, \<open>None\<close> for \<open>OK\<close>.\<close>

definition status_of :: "status + 'r \<Rightarrow> grpc_code option" where
  "status_of r = (case r of Inl (code, message) \<Rightarrow> Some code | Inr _ \<Rightarrow> None)"

definition metricsInterceptor :: "bool \<Rightarrow> (string \<times> grpc_code option \<Rightarrow> 'w \<Rightarrow> 'w) \<Rightarrow> ('r, 'w) rpc_handler \<Rightarrow> ('r, 'w) rpc_handler" where
  "metricsInterceptor active count handler = (\<lambda>c w.
     let (r, w') = handler c w in
     if active then (r, count (caMethod c, status_of r) w') else (r, w'))"

definition metricsStreamInterceptor :: "bool \<Rightarrow> (string \<times> grpc_code option \<Rightarrow> 'w \<Rightarrow> 'w) \<Rightarrow> 'w stream_handler \<Rightarrow> 'w stream_handler" where
  "metricsStreamInterceptor active count handler = (\<lambda>stream w.
     let (r, w') = handler stream w in
     if active then (r, count (caMethod stream, status_of r) w') else (r, w'))"

lemma recovery_calm: "recoveryInterceptor (\<lambda>c w. apfst Some (handler c w)) = handler"
  by (auto simp: recoveryInterceptor_def fun_eq_iff apfst_def map_prod_def split: prod.split)

lemma metrics_result: "fst (metricsInterceptor active count handler c w) = fst (handler c w)"
  by (simp add: metricsInterceptor_def Let_def split: prod.split)

subsection \<open>Start and stop\<close>

text \<open>
  Whether a server serves after its start hook, given the error of \<open>net.Listen\<close>; and for the stop
  of the gRPC server, whether all calls ended before the context of the hook (\<open>None\<close>) or were cut.
\<close>

record http_server =
  hvAddr :: string
  hvReadTimeout :: int
  hvWriteTimeout :: int
  hvIdleTimeout :: int

definition New_http_server :: "config \<Rightarrow> http_server" where
  "New_http_server cfg =
     (let h = cHTTP cfg in
      \<lparr>hvAddr = httpAddress h, hvReadTimeout = httpReadTimeout h, hvWriteTimeout = httpWriteTimeout h,
       hvIdleTimeout = httpIdleTimeout h\<rparr>)"

definition http_start :: "(string \<Rightarrow> go_error option) \<Rightarrow> http_server \<Rightarrow> go_error + bool" where
  "http_start listen server =
     (case listen (hvAddr server) of Some e \<Rightarrow> Inl (Wrapped ''listen http'' e) | None \<Rightarrow> Inr True)"

definition grpc_services :: "config \<Rightarrow> string list" where
  "grpc_services cfg =
     [''platform.scheduler.v1.SchedulerService'', ''grpc.health.v1.Health''] @
     (if grpcReflectionEnabled (cGRPC cfg) then [''grpc.reflection''] else [])"

definition grpc_start :: "(string \<Rightarrow> go_error option) \<Rightarrow> config \<Rightarrow> go_error + bool" where
  "grpc_start listen cfg =
     (if \<not> grpcEnabled (cGRPC cfg) then Inr False
      else case listen (grpcAddress (cGRPC cfg)) of
        Some e \<Rightarrow> Inl (Wrapped ''listen grpc'' e)
      | None \<Rightarrow> Inr True)"

datatype ending = Graceful | Cut

definition grpc_stop :: "go_error option \<Rightarrow> (go_error + unit) \<times> ending" where
  "grpc_stop ended = (case ended of None \<Rightarrow> (Inr (), Graceful) | Some e \<Rightarrow> (Inl e, Cut))"

end
