(* ===== verification/Adapters.thy ===== *)
theory Adapters
  imports Apperror Config_Validate
begin

section \<open>The adapters of the infrastructure\<close>

text \<open>
  The packages \<^verbatim>\<open>internal/database\<close> (opening a connection), \<^verbatim>\<open>internal/cache\<close>, \<^verbatim>\<open>internal/eventbus\<close>,
  \<^verbatim>\<open>internal/logging\<close> and \<^verbatim>\<open>internal/observability/tracing.go\<close>: what each takes from the
  configuration, what it hands to its library, and how it reports a failure. The libraries, the
  file system and the services behind them are fields of the library records. A pool or a client
  whose first ping fails is closed, which the models do not show.
\<close>

subsection \<open>The database: database.go\<close>

record pgx_config =
  pgxDatabase :: string
  pgxRuntimeParams :: "string \<rightharpoonup> string"
  pgxRest :: string

record mysql_config =
  myDBName :: string
  myParseTime :: bool
  myLocation :: string
  myRest :: string

datatype data_source = PgxSource pgx_config | NamedSource string string   \<comment> \<open>driver, data source name\<close>

record pool =
  plSource :: data_source
  plMaxOpenConns :: int
  plMaxIdleConns :: int
  plConnMaxLifetime :: int
  plConnMaxIdleTime :: int

record database_library =
  pgxParse :: "string \<Rightarrow> go_error + pgx_config"
  mysqlParse :: "string \<Rightarrow> go_error + mysql_config"
  formatDSN :: "mysql_config \<Rightarrow> string"
  zoneError :: "string \<Rightarrow> go_error option"
  sqlxOpen :: "string \<Rightarrow> string \<Rightarrow> go_error option"
  pingPool :: "pool \<Rightarrow> int \<Rightarrow> go_error option"

definition driverName :: "string \<Rightarrow> go_error + string" where
  "driverName dbType =
     (if dbType = ''mysql'' then Inr ''mysql''
      else if dbType = ''postgres'' \<or> dbType = ''kingbase'' then Inr ''pgx''
      else Inl (ErrorString (''unsupported database type '' @ dbType)))"

definition zone :: string where "zone = ''Asia/Shanghai''"

text \<open>\<open>sqlx.Open\<close> for a named driver.\<close>

definition open_source :: "database_library \<Rightarrow> string \<Rightarrow> string \<Rightarrow> go_error + data_source" where
  "open_source lib driver dsn =
     (case sqlxOpen lib driver dsn of
        Some e \<Rightarrow> Inl (Wrapped ''open database'' e)
      | None \<Rightarrow> Inr (NamedSource driver dsn))"

definition connect :: "database_library \<Rightarrow> database_config \<Rightarrow> string \<Rightarrow> go_error + data_source" where
  "connect lib cfg driver =
     (if driver = ''pgx'' then
        (case pgxParse lib (dbcDSN cfg) of
           Inl e \<Rightarrow> Inl (Wrapped ''parse database dsn'' e)
         | Inr c \<Rightarrow>
             let c = (if dbcName cfg \<noteq> [] then c\<lparr>pgxDatabase := dbcName cfg\<rparr> else c);
                 params = pgxRuntimeParams c;
                 params = (if dbcSchema cfg \<noteq> [] then params(''search_path'' \<mapsto> dbcSchema cfg) else params)
             in Inr (PgxSource (c\<lparr>pgxRuntimeParams := params(''timezone'' \<mapsto> zone)\<rparr>)))
      else if driver = ''mysql'' then
        (case mysqlParse lib (dbcDSN cfg) of
           Inl e \<Rightarrow> Inl (Wrapped ''parse database dsn'' e)
         | Inr c \<Rightarrow>
             let c = (if dbcName cfg \<noteq> [] then c\<lparr>myDBName := dbcName cfg\<rparr> else c) in
             case zoneError lib zone of
               Some e \<Rightarrow> Inl (Wrapped ''load database timezone'' e)
             | None \<Rightarrow> open_source lib driver (formatDSN lib (c\<lparr>myParseTime := True, myLocation := zone\<rparr>)))
      else open_source lib driver (dbcDSN cfg))"

definition Open_database :: "database_library \<Rightarrow> database_config \<Rightarrow> go_error + pool" where
  "Open_database lib cfg =
     and_then (driverName (dbcType cfg)) (\<lambda>driver.
     and_then (connect lib cfg driver) (\<lambda>source.
       let db = \<lparr>plSource = source, plMaxOpenConns = dbcMaxOpenConns cfg, plMaxIdleConns = dbcMaxIdleConns cfg,
                 plConnMaxLifetime = dbcConnMaxLifetime cfg, plConnMaxIdleTime = dbcConnMaxIdleTime cfg\<rparr>
       in case pingPool lib db (dbcPingTimeout cfg) of
            Some e \<Rightarrow> Inl (Wrapped ''ping database'' e)
          | None \<Rightarrow> Inr db))"

text \<open>The type a configuration may name has a driver, and every session of pgx has its time zone.\<close>

lemma driverName_Inr: "(\<exists>driver. driverName t = Inr driver) \<longleftrightarrow> isDBType t"
  by (auto simp: driverName_def isDBType_def)

lemma pgx_session:
  assumes "Open_database lib cfg = Inr db" and "plSource db = PgxSource c"
  shows "pgxRuntimeParams c ''timezone'' = Some zone \<and>
    (dbcSchema cfg \<noteq> [] \<longrightarrow> pgxRuntimeParams c ''search_path'' = Some (dbcSchema cfg)) \<and>
    (dbcName cfg \<noteq> [] \<longrightarrow> pgxDatabase c = dbcName cfg) \<and> dbcType cfg \<noteq> ''mysql''"
  using assms
  by (auto simp: Open_database_def and_then_Inr connect_def open_source_def driverName_def Let_def
      split: if_splits sum.splits option.splits)

subsection \<open>Redis: cache/redis.go\<close>

record redis_options =
  roAddr :: string
  roUsername :: string
  roPassword :: string
  roDB :: int
  roDialTimeout :: int
  roReadTimeout :: int
  roWriteTimeout :: int

definition Open_redis :: "(redis_options \<Rightarrow> go_error option) \<Rightarrow> redis_config \<Rightarrow> go_error + redis_options" where
  "Open_redis ping cfg =
     (let client = \<lparr>roAddr = redisAddress cfg, roUsername = redisUsername cfg, roPassword = redisPassword cfg,
            roDB = redisDB cfg, roDialTimeout = redisDialTimeout cfg, roReadTimeout = redisReadTimeout cfg,
            roWriteTimeout = redisWriteTimeout cfg\<rparr>
      in case ping client of
           Some e \<Rightarrow> Inl (Wrapped ''ping redis'' e)
         | None \<Rightarrow> Inr client)"

subsection \<open>The event bus: eventbus/bus.go\<close>

text \<open>The platform's configuration of a bus, with its library: a bus is what it was made from.\<close>

record bus_options =
  boURLs :: "string list"
  boClientName :: string
  boStreamName :: string
  boSubjects :: "string list"
  boStorage :: string
  boMaxAge :: int
  boDuplicateWindow :: int
  boConnectTimeout :: int
  boReconnectWait :: int
  boPublishTimeout :: int
  boConsumerAckWait :: int
  boConsumerMaxDeliver :: int

record bus_library =
  busNew :: "bus_options \<Rightarrow> go_error option"
  busPublish :: "bus_options \<Rightarrow> string \<Rightarrow> string \<Rightarrow> go_error option"
  busClose :: "bus_options \<Rightarrow> go_error option"

definition New_bus :: "bus_library \<Rightarrow> config \<Rightarrow> go_error + bus_options option" where
  "New_bus lib cfg =
     (if \<not> busEnabled (cEventBus cfg) then Inr None
      else
        let e = cEventBus cfg;
            options = \<lparr>boURLs = busURLs e, boClientName = appName (cApp cfg), boStreamName = busStreamName e,
              boSubjects = busSubjects e, boStorage = busStorage e, boMaxAge = busMaxAge e,
              boDuplicateWindow = busDuplicateWindow e, boConnectTimeout = busConnectTimeout e,
              boReconnectWait = busReconnectWait e, boPublishTimeout = busPublishTimeout e,
              boConsumerAckWait = busConsumerAckWait e, boConsumerMaxDeliver = busConsumerMaxDeliver e\<rparr>
        in case busNew lib options of Some err \<Rightarrow> Inl err | None \<Rightarrow> Inr (Some options))"

definition Publish :: "bus_library \<Rightarrow> bus_options option \<Rightarrow> string \<Rightarrow> string \<Rightarrow> go_error option" where
  "Publish lib bus subject envelope =
     (case bus of
        None \<Rightarrow> Some (ErrorString ''event bus is disabled'')
      | Some b \<Rightarrow> busPublish lib b subject envelope)"

definition Close_bus :: "bus_library \<Rightarrow> bus_options option \<Rightarrow> go_error option" where
  "Close_bus lib bus = (case bus of None \<Rightarrow> None | Some b \<Rightarrow> busClose lib b)"

subsection \<open>Logging and tracing\<close>

record logger =
  lgLevel :: int
  lgText :: bool         \<comment> \<open>the text handler, else JSON\<close>
  lgFile :: string
  lgMaxSizeMB :: int
  lgMaxBackups :: int
  lgMaxAgeDays :: int
  lgCompress :: bool
  lgAttributes :: "(string \<times> string) list"

record log_library =
  makeDirectoryOf :: "string \<Rightarrow> go_error option"
  levelOf :: "string \<Rightarrow> go_error + int"

definition New_logger :: "log_library \<Rightarrow> log_config \<Rightarrow> go_error + logger" where
  "New_logger lib cfg =
     (case makeDirectoryOf lib (logFile cfg) of
        Some e \<Rightarrow> Inl (Wrapped ''create log directory'' e)
      | None \<Rightarrow>
     (case levelOf lib (to_lower (logLevel cfg)) of
        Inl e \<Rightarrow> Inl (Wrapped ''parse log level'' e)
      | Inr level \<Rightarrow>
          Inr \<lparr>lgLevel = level, lgText = (logFormat cfg = ''text''), lgFile = logFile cfg, lgMaxSizeMB = logMaxSizeMB cfg,
               lgMaxBackups = logMaxBackups cfg, lgMaxAgeDays = logMaxAgeDays cfg, lgCompress = logCompress cfg,
               lgAttributes = []\<rparr>))"

record tracing =
  trEnabled :: bool
  trProvider :: "(string \<times> string \<times> rat option) option"    \<comment> \<open>endpoint, service name, sample ratio\<close>

definition NewTracing :: "(string \<Rightarrow> go_error option) \<Rightarrow> config \<Rightarrow> go_error + tracing" where
  "NewTracing exporter cfg =
     (let o1 = cObservability cfg in
      if \<not> obsTracingEnabled o1 then Inr \<lparr>trEnabled = False, trProvider = None\<rparr>
      else case exporter (obsTracingEndpoint o1) of
        Some e \<Rightarrow> Inl (Wrapped ''create OTLP trace exporter'' e)
      | None \<Rightarrow>
          Inr \<lparr>trEnabled = True,
               trProvider = Some (obsTracingEndpoint o1, appName (cApp cfg), obsTracingSampleRatio o1)\<rparr>)"

end
