(* ===== verification/Observation.thy ===== *)
theory Observation
  imports Http_Handlers Adapters
begin

section \<open>Metrics, build information, the idempotency manager\<close>

text \<open>
  \<^verbatim>\<open>internal/observability/metrics.go\<close>: the collectors that are registered, with their labels;
  \<^verbatim>\<open>internal/buildinfo\<close>: what the version operation reports; \<^verbatim>\<open>internal/idempotency/manager.go\<close>: the
  options of the platform's manager. The registry panics when a collector is registered twice and
  a counter when it is given another number of label values than it has labels.
\<close>

subsection \<open>Collectors\<close>

datatype collector =
    GoCollector
  | ProcessCollector
  | CounterVec string "string list"       \<comment> \<open>name, labels\<close>
  | HistogramVec string "string list"
  | DBStatsCollector string
  | GaugeFunc string

record metrics =
  meEnabled :: bool
  meRegistry :: "collector list"

definition HTTPRequests :: collector where "HTTPRequests = CounterVec ''http_requests_total'' [''method'', ''route'', ''status'']"
definition HTTPDuration :: collector where "HTTPDuration = HistogramVec ''http_request_duration_seconds'' [''method'', ''route'']"
definition CronRuns :: collector where "CronRuns = CounterVec ''cron_runs_total'' [''job'', ''status'']"
definition CronDuration :: collector where "CronDuration = HistogramVec ''cron_run_duration_seconds'' [''job'']"
definition GRPCRequests :: collector where "GRPCRequests = CounterVec ''grpc_server_requests_total'' [''method'', ''code'']"
definition GRPCDuration :: collector where "GRPCDuration = HistogramVec ''grpc_server_duration_seconds'' [''method'']"
definition OutboundRequests :: collector where
  "OutboundRequests = CounterVec ''outbound_requests_total'' [''protocol'', ''client'', ''status'']"
definition OutboundDuration :: collector where
  "OutboundDuration = HistogramVec ''outbound_request_duration_seconds'' [''protocol'', ''client'']"

definition registerRedisMetrics :: "collector list" where
  "registerRedisMetrics = map GaugeFunc
     [''redis_pool_hits_total'', ''redis_pool_misses_total'', ''redis_pool_timeouts_total'',
      ''redis_pool_connections'', ''redis_pool_idle_connections'']"

definition NewMetrics :: "config \<Rightarrow> 'd option \<Rightarrow> 'c option \<Rightarrow> metrics" where
  "NewMetrics cfg db client =
     \<lparr>meEnabled = obsMetricsEnabled (cObservability cfg),
      meRegistry =
        [GoCollector, ProcessCollector, HTTPRequests, HTTPDuration, CronRuns, CronDuration, GRPCRequests, GRPCDuration,
         OutboundRequests, OutboundDuration] @
        (if db \<noteq> None then [DBStatsCollector ''primary''] else []) @
        (if client \<noteq> None then registerRedisMetrics else [])\<rparr>"

text \<open>Whether a collector takes these label values.\<close>

fun takes :: "collector \<Rightarrow> string list \<Rightarrow> bool" where
  "takes (CounterVec n ls) vs \<longleftrightarrow> length vs = length ls"
| "takes (HistogramVec n ls) vs \<longleftrightarrow> length vs = length ls"
| "takes c vs \<longleftrightarrow> vs = []"

lemma registry_distinct: "distinct (meRegistry (NewMetrics cfg db client))"
proof -
  have "distinct ([GoCollector, ProcessCollector, HTTPRequests, HTTPDuration, CronRuns, CronDuration, GRPCRequests, GRPCDuration,
         OutboundRequests, OutboundDuration] @ [DBStatsCollector ''primary''] @ registerRedisMetrics)"
    by code_simp
  then show ?thesis by (auto simp: NewMetrics_def)
qed

text \<open>The calls of the service: \<open>HTTPMetrics\<close>, \<open>ObserveCron\<close>, the gRPC interceptors.\<close>

lemma labels_taken:
  "takes HTTPRequests [meth, route, status]" "takes HTTPDuration [meth, route]"
  "takes CronRuns [j, status]" "takes CronDuration [j]"
  "takes GRPCRequests [meth, code]" "takes GRPCDuration [meth]"
  "takes OutboundRequests [protocol, client, status]" "takes OutboundDuration [protocol, client]"
  by (simp_all add: HTTPRequests_def HTTPDuration_def CronRuns_def CronDuration_def GRPCRequests_def GRPCDuration_def
      OutboundRequests_def OutboundDuration_def)

subsection \<open>Build information\<close>

text \<open>
  \<open>Duration.Round\<close> to a second goes half away from zero; the text of a duration is the standard
  library's, the argument \<open>show_duration\<close>.
\<close>

definition round_second :: "int \<Rightarrow> int" where
  "round_second d =
     (let q = \<bar>d\<bar> div 1000000000; r = \<bar>d\<bar> mod 1000000000
      in sgn d * (if r + r < 1000000000 then q else q + 1) * 1000000000)"

record build_variables =
  bvVersion :: string
  bvCommit :: string
  bvBuildTime :: string
  bvStartedAt :: time

definition unlinked :: "time \<Rightarrow> build_variables" where
  "unlinked started = \<lparr>bvVersion = ''dev'', bvCommit = ''unknown'', bvBuildTime = ''unknown'', bvStartedAt = started\<rparr>"

definition Current :: "(int \<Rightarrow> string) \<Rightarrow> build_variables \<Rightarrow> time \<Rightarrow> build_info" where
  "Current show_duration b now =
     \<lparr>biVersion = bvVersion b, biCommit = bvCommit b, biBuildTime = bvBuildTime b, biStartedAt = bvStartedAt b,
      biUptime = show_duration (round_second (now - bvStartedAt b))\<rparr>"

lemma round_second_near: "\<bar>round_second d - d\<bar> \<le> 500000000"
proof -
  define m :: int where "m = 1000000000"
  define q r where "q = \<bar>d\<bar> div m" and "r = \<bar>d\<bar> mod m"
  have x: "\<bar>d\<bar> = q * m + r" and r: "0 \<le> r" "r < m" by (simp_all add: q_def r_def m_def)
  define a where "a = (if r + r < m then q else q + 1)"
  have "\<bar>a * m - \<bar>d\<bar>\<bar> \<le> 500000000"
    using r unfolding x a_def by (auto simp: algebra_simps m_def)
  moreover have "round_second d - d = sgn d * (a * m - \<bar>d\<bar>)"
    by (simp add: round_second_def a_def q_def r_def m_def Let_def right_diff_distrib mult.assoc [symmetric] sgn_mult_abs)
  ultimately show ?thesis by (cases d "0 :: int" rule: linorder_cases) (simp_all add: abs_mult)
qed

subsection \<open>Idempotency\<close>

record idempotency_options =
  ioEnabled :: bool
  ioService :: string
  ioProcessingTTL :: int
  ioResultTTL :: int
  ioFailureTTL :: int

definition New_idempotency :: "config \<Rightarrow> idempotency_options" where
  "New_idempotency cfg =
     (let i = cIdempotency cfg in
      \<lparr>ioEnabled = idemEnabled i, ioService = appName (cApp cfg), ioProcessingTTL = idemProcessingTTL i,
       ioResultTTL = idemResultTTL i, ioFailureTTL = idemFailureTTL i\<rparr>)"

end
