(* ===== verification/Documentation.thy ===== *)
theory Documentation
  imports Http_Wire Servers Observation
begin

section \<open>The API documentation: docs/docs.go\<close>

text \<open>
  The Swagger document the service publishes under \<^verbatim>\<open>/swagger\<close>, as data: one definition per
  operation and per schema, in the order of the template, and what it means for a JSON document to
  conform to a schema of Swagger 2.0. A property that is not required may be absent, properties
  that are not listed are allowed, and \<open>null\<close> is not a value of a type.
\<close>

subsection \<open>Schemas\<close>

datatype schema =
    SAny
  | SString
  | SInteger
  | SBoolean
  | SArray schema
  | SMap schema
  | SRef string
  | SObject "string list" "(string \<times> schema) list"    \<comment> \<open>required, properties\<close>
  | SAllOf "schema list"

record doc_operation =
  doSummary :: string
  doTags :: "string list"
  doSecurity :: "string list"
  doConsumes :: "string list"
  doRequest :: "schema option"                          \<comment> \<open>the schema of the required body parameter\<close>
  doResponses :: "(string \<times> string \<times> schema) list"   \<comment> \<open>status, description, schema\<close>

record doc_info =
  diVersion :: string
  diHost :: string
  diBasePath :: string
  diSchemes :: "string list"
  diTitle :: string
  diDescription :: string

definition SwaggerInfo :: doc_info where
  "SwaggerInfo = \<lparr>diVersion = ''1.0'', diHost = [], diBasePath = ''/'', diSchemes = [''http'', ''https''],
     diTitle = ''Go API Template'',
     diDescription = ''Production-oriented Go Web API scaffold. Application error codes: 0 success; 10000-19999 common/input; 20000-29999 authentication/authorization; 30000-39999 business; 50000-59999 infrastructure.''\<rparr>"

definition security_definitions :: "(string \<times> string \<times> string) list" where
  "security_definitions = [(''Bearer'', ''Authorization'', ''header''), (''PSK'', ''Authorization'', ''header'')]"

subsection \<open>Operations\<close>

definition doc_me :: doc_operation where
  "doc_me =
     \<lparr>doSummary = ''Return the authenticated subject'', doTags = [''authentication''], doSecurity = [''Bearer''],
      doConsumes = [], doRequest = None,
      doResponses =
         [(''200'', ''OK'', SAllOf [SRef ''httptransport.Response'', SObject [] [(''body'',
         SRef ''httptransport.MeResponseBody'')]]), (''401'', ''Code 20001: unauthorized'',
         SRef ''httptransport.Response'')]\<rparr>"

definition doc_scheduler_executions_get :: doc_operation where
  "doc_scheduler_executions_get =
     \<lparr>doSummary = ''Get a job execution'', doTags = [''scheduler''], doSecurity = [''Bearer''],
      doConsumes = [''application/json''], doRequest = Some (SRef ''httptransport.JobIDRequest''),
      doResponses =
         [(''200'', ''OK'', SAllOf [SRef ''httptransport.Response'', SObject [] [(''body'',
         SRef ''httptransport.ExecutionBody'')]])]\<rparr>"

definition doc_scheduler_executions_list :: doc_operation where
  "doc_scheduler_executions_list =
     \<lparr>doSummary = ''List executions for a job'', doTags = [''scheduler''], doSecurity = [''Bearer''],
      doConsumes = [''application/json''], doRequest = Some (SRef ''httptransport.ListExecutionsRequest''),
      doResponses =
         [(''200'', ''OK'', SAllOf [SRef ''httptransport.Response'', SObject [] [(''body'',
         SRef ''httptransport.ExecutionPageBody'')]])]\<rparr>"

definition doc_scheduler_jobs_create :: doc_operation where
  "doc_scheduler_jobs_create =
     \<lparr>doSummary = ''Create a dynamic unary gRPC scheduled job'', doTags = [''scheduler''], doSecurity = [''Bearer''],
      doConsumes = [''application/json''], doRequest = Some (SRef ''httptransport.CreateJobRequest''),
      doResponses =
         [(''200'', ''OK'', SAllOf [SRef ''httptransport.Response'', SObject [] [(''body'',
         SRef ''httptransport.JobBody'')]])]\<rparr>"

definition doc_scheduler_jobs_delete :: doc_operation where
  "doc_scheduler_jobs_delete =
     \<lparr>doSummary = ''Soft-delete a scheduled job with optimistic locking'', doTags = [''scheduler''], doSecurity = [''Bearer''],
      doConsumes = [''application/json''], doRequest = Some (SRef ''httptransport.DeleteJobRequest''),
      doResponses =
         [(''200'', ''OK'', SRef ''httptransport.Response'')]\<rparr>"

definition doc_scheduler_jobs_get :: doc_operation where
  "doc_scheduler_jobs_get =
     \<lparr>doSummary = ''Get a scheduled job'', doTags = [''scheduler''], doSecurity = [''Bearer''],
      doConsumes = [''application/json''], doRequest = Some (SRef ''httptransport.JobIDRequest''),
      doResponses =
         [(''200'', ''OK'', SAllOf [SRef ''httptransport.Response'', SObject [] [(''body'',
         SRef ''httptransport.JobBody'')]])]\<rparr>"

definition doc_scheduler_jobs_list :: doc_operation where
  "doc_scheduler_jobs_list =
     \<lparr>doSummary = ''List scheduled jobs'', doTags = [''scheduler''], doSecurity = [''Bearer''],
      doConsumes = [''application/json''], doRequest = Some (SRef ''httptransport.ListJobsRequest''),
      doResponses =
         [(''200'', ''OK'', SAllOf [SRef ''httptransport.Response'', SObject [] [(''body'',
         SRef ''httptransport.JobPageBody'')]])]\<rparr>"

definition doc_scheduler_jobs_trigger :: doc_operation where
  "doc_scheduler_jobs_trigger =
     \<lparr>doSummary = ''Trigger a job immediately'', doTags = [''scheduler''], doSecurity = [''Bearer''],
      doConsumes = [''application/json''], doRequest = Some (SRef ''httptransport.TriggerJobRequest''),
      doResponses =
         [(''200'', ''OK'', SAllOf [SRef ''httptransport.Response'', SObject [] [(''body'',
         SRef ''httptransport.ExecutionBody'')]])]\<rparr>"

definition doc_scheduler_jobs_update :: doc_operation where
  "doc_scheduler_jobs_update =
     \<lparr>doSummary = ''Update a scheduled job with optimistic locking'', doTags = [''scheduler''], doSecurity = [''Bearer''],
      doConsumes = [''application/json''], doRequest = Some (SRef ''httptransport.UpdateJobRequest''),
      doResponses =
         [(''200'', ''OK'', SAllOf [SRef ''httptransport.Response'', SObject [] [(''body'',
         SRef ''httptransport.JobBody'')]])]\<rparr>"

definition doc_version :: doc_operation where
  "doc_version =
     \<lparr>doSummary = ''Return build and runtime version information'', doTags = [''operations''], doSecurity = [],
      doConsumes = [], doRequest = None,
      doResponses =
         [(''200'', ''OK'', SAllOf [SRef ''httptransport.Response'', SObject [] [(''body'',
         SRef ''buildinfo.Info'')]])]\<rparr>"

definition doc_live :: doc_operation where
  "doc_live =
     \<lparr>doSummary = ''Check process liveness'', doTags = [''operations''], doSecurity = [],
      doConsumes = [], doRequest = None,
      doResponses =
         [(''200'', ''OK'', SAllOf [SRef ''httptransport.Response'', SObject [] [(''body'',
         SRef ''health.Status'')]])]\<rparr>"

definition doc_ready :: doc_operation where
  "doc_ready =
     \<lparr>doSummary = ''Check database and Redis readiness'', doTags = [''operations''], doSecurity = [],
      doConsumes = [], doRequest = None,
      doResponses =
         [(''200'', ''OK'', SAllOf [SRef ''httptransport.Response'', SObject [] [(''body'',
         SRef ''health.Status'')]]), (''503'', ''Code 50003: dependency unavailable'',
         SAllOf [SRef ''httptransport.Response'', SObject [] [(''body'', SRef ''health.Status'')]])]\<rparr>"

text \<open>Every operation is documented for \<open>POST\<close>, with \<^verbatim>\<open>application/json\<close> produced.\<close>

definition documented :: "(string \<times> doc_operation) list" where
  "documented =
     [(''/api/v1/me'', doc_me), (''/api/v1/scheduler/executions/get'',
     doc_scheduler_executions_get), (''/api/v1/scheduler/executions/list'',
     doc_scheduler_executions_list), (''/api/v1/scheduler/jobs/create'',
     doc_scheduler_jobs_create), (''/api/v1/scheduler/jobs/delete'',
     doc_scheduler_jobs_delete), (''/api/v1/scheduler/jobs/get'',
     doc_scheduler_jobs_get), (''/api/v1/scheduler/jobs/list'', doc_scheduler_jobs_list),
     (''/api/v1/scheduler/jobs/trigger'', doc_scheduler_jobs_trigger),
     (''/api/v1/scheduler/jobs/update'', doc_scheduler_jobs_update),
     (''/api/v1/version'', doc_version), (''/live'', doc_live), (''/ready'', doc_ready)]"

subsection \<open>Definitions\<close>

definition BuildInfo_schema :: schema where
  "BuildInfo_schema =
     SObject [] [(''build_time'', SString), (''commit'', SString), (''started_at'', SString), (''uptime'',
     SString), (''version'', SString)]"

definition HealthDependency_schema :: schema where
  "HealthDependency_schema =
     SObject [] [(''latency'', SString), (''status'', SString)]"

definition HealthStatus_schema :: schema where
  "HealthStatus_schema =
     SObject [] [(''dependencies'', SMap (SRef ''health.Dependency'')), (''status'', SString)]"

definition CreateJobRequest_schema :: schema where
  "CreateJobRequest_schema =
     SObject [''cron_expression'', ''full_method'', ''name'', ''timeout_milliseconds'',
     ''upstream''] [(''application_id'', SString), (''cron_expression'', SString), (''enabled'', SBoolean),
     (''full_method'', SString), (''name'', SString), (''request_json'', SString), (''tenant_id'', SString),
     (''timeout_milliseconds'', SInteger), (''timezone'', SString), (''upstream'', SString)]"

definition DeleteJobRequest_schema :: schema where
  "DeleteJobRequest_schema =
     SObject [''id'', ''version''] [(''id'', SString), (''version'', SInteger)]"

definition ExecutionBody_schema :: schema where
  "ExecutionBody_schema =
     SObject [] [(''application_id'', SString), (''created_at'', SString), (''created_by'', SString),
     (''duration_milliseconds'', SInteger), (''error_code'', SString), (''error_message'', SString),
     (''finished_at'', SString), (''id'', SString), (''job_id'', SString), (''response_json'', SString),
     (''started_at'', SString), (''status'', SString), (''tenant_id'', SString), (''trigger_type'', SString),
     (''updated_at'', SString), (''updated_by'', SString), (''version'', SInteger)]"

definition ExecutionPageBody_schema :: schema where
  "ExecutionPageBody_schema =
     SObject [] [(''items'', SArray (SRef ''httptransport.ExecutionBody'')), (''page'', SInteger),
     (''page_size'', SInteger), (''total'', SInteger)]"

definition JobBody_schema :: schema where
  "JobBody_schema =
     SObject [] [(''application_id'', SString), (''created_at'', SString), (''created_by'', SString),
     (''cron_expression'', SString), (''full_method'', SString), (''id'', SString), (''name'', SString),
     (''request_json'', SString), (''status'', SString), (''tenant_id'', SString), (''timeout_milliseconds'',
     SInteger), (''timezone'', SString), (''updated_at'', SString), (''updated_by'', SString), (''upstream'',
     SString), (''version'', SInteger)]"

definition JobIDRequest_schema :: schema where
  "JobIDRequest_schema =
     SObject [''id''] [(''id'', SString)]"

definition JobPageBody_schema :: schema where
  "JobPageBody_schema =
     SObject [] [(''items'', SArray (SRef ''httptransport.JobBody'')), (''page'', SInteger), (''page_size'',
     SInteger), (''total'', SInteger)]"

definition ListExecutionsRequest_schema :: schema where
  "ListExecutionsRequest_schema =
     SObject [''job_id''] [(''duration_max_milliseconds'', SInteger), (''duration_min_milliseconds'',
     SInteger), (''ids'', SArray SString), (''job_id'', SString), (''keyword'', SString), (''page'', SInteger),
     (''page_size'', SInteger), (''started_from'', SString), (''started_to'', SString), (''statuses'',
     SArray SString), (''trigger_types'', SArray SString)]"

definition ListJobsRequest_schema :: schema where
  "ListJobsRequest_schema =
     SObject [''application_id'', ''tenant_id''] [(''application_id'', SString), (''created_from'', SString),
     (''created_to'', SString), (''ids'', SArray SString), (''keyword'', SString), (''page'', SInteger),
     (''page_size'', SInteger), (''status'', SString), (''statuses'', SArray SString), (''tenant_id'',
     SString), (''upstreams'', SArray SString)]"

definition MeResponseBody_schema :: schema where
  "MeResponseBody_schema =
     SObject [] [(''subject'', SString)]"

definition Response_schema :: schema where
  "Response_schema =
     SObject [] [(''body'', SAny), (''code'', SInteger), (''message'', SString), (''request_id'', SString)]"

definition TriggerJobRequest_schema :: schema where
  "TriggerJobRequest_schema =
     SObject [''expected_version'', ''id''] [(''expected_version'', SInteger), (''id'', SString)]"

definition UpdateJobRequest_schema :: schema where
  "UpdateJobRequest_schema =
     SObject [''cron_expression'', ''full_method'', ''id'', ''name'', ''timeout_milliseconds'', ''upstream'',
     ''version''] [(''application_id'', SString), (''cron_expression'', SString), (''enabled'', SBoolean),
     (''full_method'', SString), (''id'', SString), (''name'', SString), (''request_json'', SString),
     (''tenant_id'', SString), (''timeout_milliseconds'', SInteger), (''timezone'', SString), (''upstream'',
     SString), (''version'', SInteger)]"

definition definitions :: "(string \<times> schema) list" where
  "definitions =
     [(''buildinfo.Info'', BuildInfo_schema), (''health.Dependency'',
     HealthDependency_schema), (''health.Status'', HealthStatus_schema),
     (''httptransport.CreateJobRequest'', CreateJobRequest_schema),
     (''httptransport.DeleteJobRequest'', DeleteJobRequest_schema),
     (''httptransport.ExecutionBody'', ExecutionBody_schema),
     (''httptransport.ExecutionPageBody'', ExecutionPageBody_schema),
     (''httptransport.JobBody'', JobBody_schema), (''httptransport.JobIDRequest'',
     JobIDRequest_schema), (''httptransport.JobPageBody'', JobPageBody_schema),
     (''httptransport.ListExecutionsRequest'', ListExecutionsRequest_schema),
     (''httptransport.ListJobsRequest'', ListJobsRequest_schema),
     (''httptransport.MeResponseBody'', MeResponseBody_schema),
     (''httptransport.Response'', Response_schema), (''httptransport.TriggerJobRequest'',
     TriggerJobRequest_schema), (''httptransport.UpdateJobRequest'',
     UpdateJobRequest_schema)]"
text \<open>Serving the document sets its version to the one of the build.\<close>

definition published_info :: "config \<Rightarrow> build_variables \<Rightarrow> doc_info option" where
  "published_info cfg b =
     (if swEnabled (cSwagger cfg) then Some (SwaggerInfo\<lparr>diVersion := bvVersion b\<rparr>) else None)"

subsection \<open>Conformance\<close>

definition object_ok :: "string list \<Rightarrow> (string \<times> (json \<Rightarrow> bool)) list \<Rightarrow> json \<Rightarrow> bool" where
  "object_ok required props v =
     (case v of
        JObj ms \<Rightarrow>
          list_all (\<lambda>name. name \<in> set (map fst ms)) required \<and>
          list_all (\<lambda>(name, ok). list_all (\<lambda>(key, v). key = name \<longrightarrow> ok v) ms) props
      | _ \<Rightarrow> False)"

primrec valid :: "(string \<Rightarrow> json \<Rightarrow> bool) \<Rightarrow> schema \<Rightarrow> json \<Rightarrow> bool" where
  "valid named SAny = (\<lambda>v. True)"
| "valid named SString = (\<lambda>v. case v of JStr s \<Rightarrow> True | _ \<Rightarrow> False)"
| "valid named SInteger = (\<lambda>v. case v of JInt n \<Rightarrow> True | _ \<Rightarrow> False)"
| "valid named SBoolean = (\<lambda>v. case v of JBool b \<Rightarrow> True | _ \<Rightarrow> False)"
| "valid named (SArray s) = (\<lambda>v. case v of JArr vs \<Rightarrow> list_all (valid named s) vs | _ \<Rightarrow> False)"
| "valid named (SMap s) = (\<lambda>v. case v of JObj ms \<Rightarrow> list_all (\<lambda>(key, v). valid named s v) ms | _ \<Rightarrow> False)"
| "valid named (SRef name) = named name"
| "valid named (SObject required props) = object_ok required (map (map_prod id (valid named)) props)"
| "valid named (SAllOf ss) = (\<lambda>v. list_all (\<lambda>ok. ok v) (map (valid named) ss))"

text \<open>References are followed to a depth; in this document a reference leads to at most one other.\<close>

primrec named_schema :: "nat \<Rightarrow> string \<Rightarrow> json \<Rightarrow> bool" where
  "named_schema 0 name = (\<lambda>v. False)"
| "named_schema (Suc n) name =
     (case map_of definitions name of None \<Rightarrow> (\<lambda>v. False) | Some s \<Rightarrow> valid (named_schema n) s)"

definition conforms :: "schema \<Rightarrow> json \<Rightarrow> bool" where
  "conforms = valid (named_schema 2)"

primrec references :: "schema \<Rightarrow> string list" where
  "references SAny = []"
| "references SString = []"
| "references SInteger = []"
| "references SBoolean = []"
| "references (SArray s) = references s"
| "references (SMap s) = references s"
| "references (SRef name) = [name]"
| "references (SObject required props) = concat (map (\<lambda>(name, rs). rs) (map (map_prod id references) props))"
| "references (SAllOf ss) = concat (map references ss)"

definition referenced :: "string list \<Rightarrow> string list" where
  "referenced names = concat (map (\<lambda>name. case map_of definitions name of None \<Rightarrow> [] | Some s \<Rightarrow> references s) names)"

definition operation_schemas :: "doc_operation \<Rightarrow> schema list" where
  "operation_schemas op =
     (case doRequest op of None \<Rightarrow> [] | Some s \<Rightarrow> [s]) @ map (\<lambda>(status, description, s). s) (doResponses op)"

text \<open>Every reference is defined, and two steps reach the last one.\<close>

lemma references_defined:
  "list_all (\<lambda>(path, op). list_all (\<lambda>name. map_of definitions name \<noteq> None \<and>
      list_all (\<lambda>name. map_of definitions name \<noteq> None \<and> referenced [name] = []) (referenced [name]))
      (concat (map references (operation_schemas op)))) documented"
  by code_simp

text \<open>The documented paths are routes for \<open>POST\<close>, and every operation of the group is documented.\<close>

lemma documented_routes: "list_all (\<lambda>(path, op). (''POST'', path) \<in> set (routes cfg)) documented"
  and api_documented: "list_all (\<lambda>path. map_of documented path \<noteq> None) api_routes"
proof -
  have "list_all (\<lambda>(path, op). path \<in> set (api_routes @ [''/live'', ''/ready''])) documented" by code_simp
  then show "list_all (\<lambda>(path, op). (''POST'', path) \<in> set (routes cfg)) documented"
    by (auto simp: list_all_iff routes_def)
  show "list_all (\<lambda>path. map_of documented path \<noteq> None) api_routes" by code_simp
qed

end
