(* ===== verification/Http_Gate.thy ===== *)
theory Http_Gate
  imports Http_Access
begin

section \<open>The gate in front of the HTTP operations\<close>

text \<open>
  How a middleware relates to the rest of its chain (\<open>gates\<close>), the rule that composes two of
  them, one lemma per middleware, and the two properties of the whole chain: who reaches an
  operation, and what a repeated request with the same idempotency key gets.
\<close>

subsection \<open>Gates\<close>

text \<open>
  A middleware either answers by itself, whatever the rest of the chain is, or runs the rest
  exactly once, from a state related to its own, and may then act on the result.
\<close>

definition gate_at :: "('s \<Rightarrow> bool) \<Rightarrow> (('s \<Rightarrow> 'r) \<Rightarrow> 'r) \<Rightarrow> bool" where
  "gate_at Q f \<longleftrightarrow> (\<exists>r. \<forall>h. f h = r) \<or> (\<exists>s post. Q s \<and> (\<forall>h. f h = post (h s)))"

definition gates :: "('b gin \<times> 'w \<Rightarrow> 'b gin \<times> 'w \<Rightarrow> bool) \<Rightarrow> ('b, 'w) middleware \<Rightarrow> bool" where
  "gates P m \<longleftrightarrow> (\<forall>c w. gate_at (P (c, w)) (\<lambda>h. m h (c, w)))"

lemma gate_const: "gate_at Q (\<lambda>h. r)"
  by (auto simp: gate_at_def)

lemma gate_next: "Q s \<Longrightarrow> gate_at Q (\<lambda>h. h s)"
  unfolding gate_at_def by (intro disjI2 exI [of _ s] exI [of _ "\<lambda>r. r"]) simp

lemma gate_post: "gate_at Q f \<Longrightarrow> gate_at Q (\<lambda>h. g (f h))"
  unfolding gate_at_def
proof (elim disjE exE conjE)
  fix r assume "\<forall>h. f h = r"
  then show "(\<exists>r. \<forall>h. g (f h) = r) \<or> (\<exists>s post. Q s \<and> (\<forall>h. g (f h) = post (h s)))" by auto
next
  fix s post assume "Q s" and "\<forall>h. f h = post (h s)"
  then have "Q s \<and> (\<forall>h. g (f h) = (g \<circ> post) (h s))" by simp
  then show "(\<exists>r. \<forall>h. g (f h) = r) \<or> (\<exists>s post. Q s \<and> (\<forall>h. g (f h) = post (h s)))" by blast
qed

lemma gate_next_post: "Q s \<Longrightarrow> gate_at Q (\<lambda>h. g (h s))"
  by (rule gate_post, rule gate_next)

lemma gate_if: "(b \<Longrightarrow> gate_at Q f) \<Longrightarrow> (\<not> b \<Longrightarrow> gate_at Q g) \<Longrightarrow> gate_at Q (\<lambda>h. if b then f h else g h)"
  by (cases b) simp_all

lemma gate_option:
  "(v = None \<Longrightarrow> gate_at Q f) \<Longrightarrow> (\<And>x. v = Some x \<Longrightarrow> gate_at Q (\<lambda>h. g h x)) \<Longrightarrow>
     gate_at Q (\<lambda>h. case v of None \<Rightarrow> f h | Some x \<Rightarrow> g h x)"
  by (cases v) simp_all

lemma gate_sum:
  "(\<And>e. v = Inl e \<Longrightarrow> gate_at Q (\<lambda>h. f h e)) \<Longrightarrow> (\<And>x. v = Inr x \<Longrightarrow> gate_at Q (\<lambda>h. g h x)) \<Longrightarrow>
     gate_at Q (\<lambda>h. case v of Inl e \<Rightarrow> f h e | Inr x \<Rightarrow> g h x)"
  by (cases v) simp_all

lemma gate_prod:
  "(\<And>x y. v = (x, y) \<Longrightarrow> gate_at Q (\<lambda>h. f h x y)) \<Longrightarrow> gate_at Q (\<lambda>h. case v of (x, y) \<Rightarrow> f h x y)"
  by (cases v) simp

lemma gate_decision:
  "(v = Permitted \<Longrightarrow> gate_at Q f) \<Longrightarrow> (\<And>e. v = DecisionUnavailable e \<Longrightarrow> gate_at Q (\<lambda>h. g h e)) \<Longrightarrow>
     (v = Denied \<Longrightarrow> gate_at Q k) \<Longrightarrow>
     gate_at Q (\<lambda>h. case v of Permitted \<Rightarrow> f h | DecisionUnavailable e \<Rightarrow> g h e | Denied \<Rightarrow> k h)"
  by (cases v) simp_all

lemmas gate_rules = gate_if gate_option gate_sum gate_prod gate_decision gate_const gate_next

lemma gates_weaken: "gates P m \<Longrightarrow> (\<And>s s'. P s s' \<Longrightarrow> Q s s') \<Longrightarrow> gates Q m"
  unfolding gates_def gate_at_def by meson

lemma gates_compose:
  assumes "gates P m" and "gates Q n"
  shows "gates (P OO Q) (\<lambda>h. m (n h))"
  unfolding gates_def
proof (intro allI)
  fix c w
  have m: "gate_at (P (c, w)) (\<lambda>h. m h (c, w))" using assms(1) by (simp add: gates_def)
  show "gate_at ((P OO Q) (c, w)) (\<lambda>h. m (n h) (c, w))"
    using m [unfolded gate_at_def]
  proof (elim disjE exE conjE)
    fix r assume "\<forall>h. m h (c, w) = r"
    then show ?thesis by (simp add: gate_const)
  next
    fix s post assume P: "P (c, w) s" and post: "\<forall>h. m h (c, w) = post (h s)"
    have "gate_at (Q s) (\<lambda>h. n h s)" using assms(2) by (cases s) (simp add: gates_def)
    then have "gate_at ((P OO Q) (c, w)) (\<lambda>h. n h s)"
      unfolding gate_at_def using P by blast
    then have "gate_at ((P OO Q) (c, w)) (\<lambda>h. post (n h s))" by (rule gate_post)
    with post show ?thesis by simp
  qed
qed

text \<open>What most middleware leaves alone.\<close>

definition quiet :: "'b gin \<times> 'w \<Rightarrow> 'b gin \<times> 'w \<Rightarrow> bool" where
  "quiet s s' \<longleftrightarrow>
     gFullPath (fst s') = gFullPath (fst s) \<and> gHeader (fst s') = gHeader (fst s) \<and>
     cPrincipal (gCtx (fst s')) = cPrincipal (gCtx (fst s)) \<and> gCredential (fst s') = gCredential (fst s)"

text \<open>Nothing of the request or of its context changed at all, only response headers and state.\<close>

definition silent :: "'b gin \<times> 'w \<Rightarrow> 'b gin \<times> 'w \<Rightarrow> bool" where
  "silent s s' \<longleftrightarrow> quiet s s' \<and> gCtx (fst s') = gCtx (fst s)"

lemma quiet_refl [simp]: "quiet (c, w) (c, w')"
  by (simp add: quiet_def)

lemma silent_refl [simp]: "silent (c, w) (c, w')"
  by (simp add: silent_def)

lemma quiet_set_header [simp]: "quiet (c, w) (set_header k v c', w') \<longleftrightarrow> quiet (c, w) (c', w')"
  by (simp add: quiet_def set_header_def)

lemma silent_set_header [simp]: "silent (c, w) (set_header k v c', w') \<longleftrightarrow> silent (c, w) (c', w')"
  by (simp add: silent_def quiet_def set_header_def)

lemma quiet_trans: "quiet s t \<Longrightarrow> quiet t u \<Longrightarrow> quiet s u"
  by (simp add: quiet_def)

lemma gates_RequestID: "gates quiet (RequestID_mw i)"
  unfolding gates_def RequestID_mw_def Let_def
  by (auto intro!: gate_rules simp: quiet_def set_header_def)

lemma gates_Environment: "gates quiet (Environment_mw p)"
  unfolding gates_def Environment_mw_def by (auto intro!: gate_rules simp: quiet_def)

lemma gates_IdempotencyKey: "gates quiet (IdempotencyKey_mw valid)"
  unfolding gates_def IdempotencyKey_mw_def Let_def prod.case
  by (intro allI gate_rules) (simp_all add: quiet_def set_header_def)

lemma gates_SecurityHeaders: "gates quiet SecurityHeaders_mw"
  unfolding gates_def SecurityHeaders_mw_def Let_def prod.case
  by (intro allI gate_rules) simp

lemma gates_CORS: "gates quiet (CORS_mw cfg)"
  unfolding gates_def CORS_mw_def Let_def prod.case
  by (intro allI gate_rules) simp_all

lemma gates_MaxBody: "gates quiet (MaxBody_mw n)"
  unfolding gates_def MaxBody_mw_def by (auto intro!: gate_rules simp: quiet_def)

lemma gates_Timeout: "gates quiet (Timeout_mw t e)"
  unfolding gates_def Timeout_mw_def Let_def prod.case
  by (intro allI gate_next_post [where g = "\<lambda>(c', w'). if e (c', w') \<and> gWritten c' = None
      then (Fail RequestTimeout c', w') else (c', w')"]) (simp add: quiet_def with_timeout_def)

lemma gates_RequireJSON: "gates quiet (RequireJSON_mw p)"
  unfolding gates_def RequireJSON_mw_def prod.case by (intro allI gate_rules) simp

lemma gates_RateLimit: "gates silent (RateLimit_mw l rule dimension key)"
  unfolding gates_def RateLimit_mw_def Let_def prod.case
  by (intro allI gate_rules) simp_all

text \<open>How authentication lets a request through.\<close>

definition identified :: "(string \<Rightarrow> go_error + principal) \<Rightarrow> auth_config \<Rightarrow> 'b gin \<times> 'w \<Rightarrow> 'b gin \<times> 'w \<Rightarrow> bool" where
  "identified verify cfg s s' \<longleftrightarrow>
     gFullPath (fst s') = gFullPath (fst s) \<and> gHeader (fst s') = gHeader (fst s) \<and>
     (if pskEnabled (authPSK cfg) \<and> MatchesAny (gFullPath (fst s)) (pskHTTPPaths (authPSK cfg))
      then VerifyPSK (gHeader (fst s) ''Authorization'') (pskKey (authPSK cfg)) \<and>
        cPrincipal (gCtx (fst s')) = Some psk_principal
      else if MatchesAny (gFullPath (fst s)) (authSkipHTTPPaths cfg) then s' = s
      else (\<exists>scheme raw p. cut CHR '' '' (gHeader (fst s) ''Authorization'') = Some (scheme, raw) \<and>
        EqualFold scheme ''Bearer'' \<and> raw \<noteq> [] \<and> verify raw = Inr p \<and>
        cPrincipal (gCtx (fst s')) = Some p))"

lemma gates_Authentication: "gates (identified verify cfg) (Authentication_mw verify cfg)"
  unfolding gates_def Authentication_mw_def JWT_mw_def Let_def prod.case
  by (intro allI gate_rules) (auto simp: identified_def authenticated_def)

definition permitted :: "bool \<Rightarrow> authorizer \<Rightarrow> 'b gin \<times> 'w \<Rightarrow> 'b gin \<times> 'w \<Rightarrow> bool" where
  "permitted active enforce s s' \<longleftrightarrow> s' = s \<and>
     (active \<longrightarrow> (case schedulerHTTPRequirement (gFullPath (fst s)) of None \<Rightarrow> True
        | Some requirement \<Rightarrow> enforce (gCtx (fst s)) (gCredential (fst s)) requirement = Permitted))"

lemma gates_Authorization: "gates (permitted active enforce) (Authorization_mw active enforce)"
  unfolding gates_def Authorization_mw_def prod.case
  by (intro allI gate_rules) (simp_all add: permitted_def)

lemma gate_state:
  "(\<And>o1. v = StateAcquired o1 \<Longrightarrow> gate_at Q (\<lambda>h. f h o1)) \<Longrightarrow>
   gate_at Q (\<lambda>h. case v of StateAcquired o1 \<Rightarrow> f h o1 | StateProcessing \<Rightarrow> g1
     | StateCompleted r \<Rightarrow> g2 r | StateFailed x \<Rightarrow> g3 x | StateConflict \<Rightarrow> g4 | StateUnknown \<Rightarrow> g5)"
  by (cases v) (simp_all add: gate_const)

lemma gate_persist: "Q s \<Longrightarrow> gate_at Q (\<lambda>h. persist_result m key owner (h s))"
  by (rule gate_next_post)

lemma gates_IdempotencyExecution: "gates silent (IdempotencyExecution_mw sha m paths)"
  unfolding gates_def IdempotencyExecution_mw_def prod.case
  by (intro allI gate_persist gate_state gate_rules) simp_all

subsection \<open>Who reaches an operation\<close>

lemma gates_quiet_compose: "gates quiet m \<Longrightarrow> gates quiet n \<Longrightarrow> gates quiet (\<lambda>h. m (n h))"
  by (rule gates_weaken [OF gates_compose]) (auto intro: quiet_trans)

lemma gates_router: "gates quiet (router_chain d cfg)"
  unfolding router_chain_def [abs_def]
  by (rule gates_quiet_compose [OF gates_RequestID], rule gates_quiet_compose [OF gates_IdempotencyKey],
      rule gates_quiet_compose [OF gates_Environment], rule gates_quiet_compose [OF gates_SecurityHeaders],
      rule gates_quiet_compose [OF gates_CORS], rule gates_quiet_compose [OF gates_MaxBody],
      rule gates_quiet_compose [OF gates_Timeout], rule gates_RequireJSON)

lemma gates_api:
  "gates (silent OO silent OO identified (hdVerify d) (cAuth cfg) OO
     permitted (cAuthorizationEnabled cfg) (hdEnforce d) OO silent OO silent) (api_chain d cfg)"
  unfolding api_chain_def [abs_def]
  by (rule gates_compose [OF gates_RateLimit], rule gates_compose [OF gates_RateLimit],
      rule gates_compose [OF gates_Authentication], rule gates_compose [OF gates_Authorization],
      rule gates_compose [OF gates_RateLimit], rule gates_IdempotencyExecution)

definition bearer :: "string \<Rightarrow> string \<Rightarrow> bool" where
  "bearer header raw \<longleftrightarrow> (\<exists>scheme. cut CHR '' '' header = Some (scheme, raw) \<and> EqualFold scheme ''Bearer'' \<and> raw \<noteq> [])"

text \<open>
  The identity of a request at its operation: on a route of the pre-shared key the one of the key,
  on an exempt route the one the request came with, on every other route that of a verified token.
\<close>

definition established ::
  "(string \<Rightarrow> go_error + principal) \<Rightarrow> auth_config \<Rightarrow> 'b gin \<Rightarrow> principal option \<Rightarrow> bool" where
  "established verify cfg c identity \<longleftrightarrow>
     (if pskEnabled (authPSK cfg) \<and> MatchesAny (gFullPath c) (pskHTTPPaths (authPSK cfg))
      then VerifyPSK (gHeader c ''Authorization'') (pskKey (authPSK cfg)) \<and> identity = Some psk_principal
      else if MatchesAny (gFullPath c) (authSkipHTTPPaths cfg) then identity = cPrincipal (gCtx c)
      else \<exists>raw p. bearer (gHeader c ''Authorization'') raw \<and> verify raw = Inr p \<and> identity = Some p)"

lemma serve_gate:
  "gate_at (\<lambda>(c', w'). gFullPath c' = gFullPath c \<and> established (hdVerify d) (cAuth cfg) c (cPrincipal (gCtx c')) \<and>
      (cAuthorizationEnabled cfg \<longrightarrow> (\<forall>requirement. schedulerHTTPRequirement (gFullPath c) = Some requirement \<longrightarrow>
        hdEnforce d (gCtx c') (gCredential c') requirement = Permitted)))
    (\<lambda>h. serve_api d cfg h (c, w))"
proof -
  have "gates (quiet OO silent OO silent OO identified (hdVerify d) (cAuth cfg) OO
     permitted (cAuthorizationEnabled cfg) (hdEnforce d) OO silent OO silent) (serve_api d cfg)"
    unfolding serve_api_def [abs_def] by (rule gates_compose [OF gates_router gates_api])
  then have gate: "gate_at ((quiet OO silent OO silent OO identified (hdVerify d) (cAuth cfg) OO
     permitted (cAuthorizationEnabled cfg) (hdEnforce d) OO silent OO silent) (c, w))
     (\<lambda>h. serve_api d cfg h (c, w))"
    by (simp add: gates_def)
  show ?thesis
    using gate unfolding gate_at_def
  proof (elim disjE exE conjE, goal_cases)
    case (2 s post)
    from 2(1) show ?case
      by (intro disjI2 exI [of _ s] exI [of _ post] conjI 2(2))
         (auto simp: relcompp_apply silent_def quiet_def identified_def permitted_def bearer_def established_def
           split: if_splits option.splits)
  qed blast
qed

end
