(* ===== verification/Config_Load.thy ===== *)
theory Config_Load
  imports Config_Validate
begin

section \<open>Loading the configuration: LoadWithProfile and setDefaults\<close>

text \<open>
  The rest of \<^verbatim>\<open>internal/config/config.go\<close>: the defaults of every key, the hook that turns a
  text into a list, and \<open>LoadWithProfile\<close>, which reads a file, chooses the profile, merges the
  file of that profile, and validates the result. What viper and the file system do (binding
  variables, reading and merging files, decoding) is the argument \<open>viper\<close>; \<open>'v\<close> is the type
  of the settings viper holds.
\<close>

subsection \<open>Splitting texts\<close>

text \<open>\<open>strings.Split\<close> at a comma, \<open>strings.Trim\<close> with a set of characters.\<close>

fun split_on :: "char \<Rightarrow> string \<Rightarrow> string list" where
  "split_on sep [] = [[]]"
| "split_on sep (c # cs) =
     (if c = sep then [] # split_on sep cs
      else (case split_on sep cs of [] \<Rightarrow> [[c]] | w # ws \<Rightarrow> (c # w) # ws))"

definition trim_set :: "char list \<Rightarrow> string \<Rightarrow> string" where
  "trim_set cutset s = rev (dropWhile (\<lambda>c. c \<in> set cutset) (rev (dropWhile (\<lambda>c. c \<in> set cutset) s)))"

definition stringToStringSliceHook :: "string \<Rightarrow> string list" where
  "stringToStringSliceHook text =
     (let raw0 = trim_space text;
          raw = (if has_prefix raw0 ''['' \<and> has_suffix raw0 '']''
                 then trim_space (take (length raw0 - 2) (drop 1 raw0)) else raw0)
      in if raw = [] then []
         else map (\<lambda>v. trim_set [CHR 0x22, CHR 0x27] (trim_space v)) (split_on CHR '','' raw))"

subsection \<open>Profiles\<close>

definition lower_or_digit :: "char \<Rightarrow> bool" where
  "lower_or_digit c \<longleftrightarrow> is_lower c \<or> is_digit c"

text \<open>\<^verbatim>\<open>^[a-z0-9][a-z0-9_-]*$\<close>\<close>

definition validProfile :: "string \<Rightarrow> bool" where
  "validProfile s \<longleftrightarrow>
     (case s of
        [] \<Rightarrow> False
      | c # cs \<Rightarrow> lower_or_digit c \<and> list_all (\<lambda>d. lower_or_digit d \<or> d = CHR ''_'' \<or> d = CHR ''-'') cs)"

text \<open>\<open>filepath.Ext\<close>: from the last dot of the last path element, else empty.\<close>

definition file_ext :: "string \<Rightarrow> string" where
  "file_ext path =
     (let tail = takeWhile (\<lambda>c. c \<noteq> CHR ''.'' \<and> c \<noteq> slash) (rev path);
          before = drop (length tail) (rev path)
      in if before \<noteq> [] \<and> hd before = CHR ''.'' then CHR ''.'' # rev tail else [])"

definition profileConfigPath :: "string \<Rightarrow> string \<Rightarrow> string" where
  "profileConfigPath path profile =
     (let extension = file_ext path; base = trim_suffix path extension
      in base @ ''-'' @ profile @ extension)"

subsection \<open>LoadWithProfile\<close>

datatype 'v read_result =
    ReadOk 'v | ConfigFileNotFound 'v | ReadFailed string

datatype stat_result = FileExists | FileMissing | StatFailed string

record 'v viper =
  bindEnv :: "string list \<Rightarrow> string option"          \<comment> \<open>BindEnv, the error if it fails\<close>
  readInConfig :: "string \<Rightarrow> 'v read_result"          \<comment> \<open>defaults, environment and the file\<close>
  getEnvName :: "'v \<Rightarrow> string"                        \<comment> \<open>GetString("app.env")\<close>
  statFile :: "string \<Rightarrow> stat_result"                 \<comment> \<open>os.Stat\<close>
  mergeInConfig :: "string \<Rightarrow> 'v \<Rightarrow> string + 'v"
  setEnvName :: "string \<Rightarrow> 'v \<Rightarrow> 'v"                   \<comment> \<open>Set("app.env", profile)\<close>
  unmarshal :: "'v \<Rightarrow> string + config"

datatype load_error =
    BindEnvironmentProfile string
  | BindAuthorizationTarget string
  | ReadConfigError string
  | InvalidProfile string
  | MergeProfile string string
  | InspectProfile string string
  | DecodeConfig string
  | InvalidConfig config_error

definition normal_profile :: "string \<Rightarrow> string" where
  "normal_profile s = to_lower (trim_space s)"

definition read_base :: "'v viper \<Rightarrow> string \<Rightarrow> load_error + 'v" where
  "read_base v path =
     (case readInConfig v path of
        ReadOk s \<Rightarrow> Inr s
      | ConfigFileNotFound s \<Rightarrow> if path \<noteq> [] then Inl (ReadConfigError ''not found'') else Inr s
      | ReadFailed e \<Rightarrow> Inl (ReadConfigError e))"

definition merge_profile ::
  "'v viper \<Rightarrow> string \<Rightarrow> string \<Rightarrow> 'v \<Rightarrow> load_error + ('v \<times> string list)" where
  "merge_profile v path profilePath s =
     (if profilePath = path then Inr (s, [path])
      else case statFile v profilePath of
        FileExists \<Rightarrow>
          (case mergeInConfig v profilePath s of
             Inl e \<Rightarrow> Inl (MergeProfile profilePath e)
           | Inr s' \<Rightarrow> Inr (s', [path, profilePath]))
      | FileMissing \<Rightarrow> Inr (s, [path])
      | StatFailed e \<Rightarrow> Inl (InspectProfile profilePath e))"

definition copy_database_names :: "config \<Rightarrow> config" where
  "copy_database_names c =
     c\<lparr>cMigration := (cMigration c)\<lparr>migSchema := dbcSchema (cDatabase c), migDatabaseName := dbcName (cDatabase c)\<rparr>\<rparr>"

text \<open>The last part: decoding, validation, and the record of what was loaded.\<close>

definition decode_and_validate :: "'v viper \<Rightarrow> string \<Rightarrow> 'v \<times> string list \<Rightarrow> load_error + config" where
  "decode_and_validate v profile loaded =
     (case unmarshal v (setEnvName v profile (fst loaded)) of
        Inl e \<Rightarrow> Inl (DecodeConfig e)
      | Inr decoded \<Rightarrow>
          let cfg = copy_database_names decoded in
          (case Validate cfg of
             Inl e \<Rightarrow> Inl (InvalidConfig e)
           | Inr u \<Rightarrow> Inr (cfg\<lparr>cRuntime := \<lparr>activeProfile = profile, configFiles = snd loaded\<rparr>\<rparr>)))"

definition LoadWithProfile :: "'v viper \<Rightarrow> string \<Rightarrow> string \<Rightarrow> load_error + config" where
  "LoadWithProfile v path explicitProfile =
     (case bindEnv v [''app.env'', ''APP_ENV'', ''APP_APP_ENV''] of
        Some e \<Rightarrow> Inl (BindEnvironmentProfile e)
      | None \<Rightarrow>
     (case bindEnv v [''outbound.grpc.authorization.target'', ''APP_OUTBOUND_GRPC_AUTHORIZATION_TARGET''] of
        Some e \<Rightarrow> Inl (BindAuthorizationTarget e)
      | None \<Rightarrow>
     and_then (read_base v path) (\<lambda>s.
     let explicit = normal_profile explicitProfile;
         profile = (if explicit = [] then normal_profile (getEnvName v s) else explicit)
     in if \<not> validProfile profile then Inl (InvalidProfile profile)
     else and_then (merge_profile v path (profileConfigPath path profile) s)
       (decode_and_validate v profile))))"

definition Load :: "'v viper \<Rightarrow> string \<Rightarrow> load_error + config" where
  "Load v path = LoadWithProfile v path []"

subsection \<open>Defaults\<close>

datatype setting =
  SBool bool | SInt int | SFloat rat | SText string | STexts "string list" | SMap

definition setRateLimitDefaults :: "string \<Rightarrow> int \<Rightarrow> int \<Rightarrow> (string \<times> setting) list" where
  "setRateLimitDefaults key rate burst =
     [(key @ ''.rate'', SInt rate), (key @ ''.burst'', SInt burst), (key @ ''.period'', SText ''1m'')]"

definition setDefaults :: "(string \<times> setting) list" where
  "setDefaults =
     [(''app.name'', SText ''scheduler-service''),
      (''app.env'', SText ''development''),
      (''app.shutdown_timeout'', SText ''10s''),
      (''http.address'', SText ''127.0.0.1:8080''),
      (''http.read_timeout'', SText ''10s''),
      (''http.write_timeout'', SText ''15s''),
      (''http.idle_timeout'', SText ''60s''),
      (''http.request_timeout'', SText ''10s''),
      (''http.max_body_bytes'', SInt (2 ^ 20)),
      (''http.trusted_proxies'', STexts []),
      (''http.cors.enabled'', SBool False),
      (''http.cors.allowed_origins'', STexts []),
      (''http.cors.allowed_headers'', STexts [''Authorization'', ''Content-Type'', ''X-Request-ID'']),
      (''http.cors.exposed_headers'', STexts [''X-Request-ID'', ''X-RateLimit-Limit'', ''X-RateLimit-Remaining'', ''Retry-After'']),
      (''http.cors.max_age'', SText ''12h''),
      (''grpc.enabled'', SBool True),
      (''grpc.address'', SText ''127.0.0.1:9090''),
      (''grpc.reflection_enabled'', SBool True),
      (''grpc.max_receive_bytes'', SInt (16 * 2 ^ 20)),
      (''grpc.tls.enabled'', SBool False),
      (''grpc.tls.cert_file'', SText ''''),
      (''grpc.tls.key_file'', SText ''''),
      (''grpc.tls.client_ca_file'', SText ''''),
      (''log.level'', SText ''info''),
      (''log.format'', SText ''json''),
      (''log.file'', SText ''logs/app.log''),
      (''log.max_size_mb'', SInt 100),
      (''log.max_backups'', SInt 10),
      (''log.max_age_days'', SInt 30),
      (''log.compress'', SBool True),
      (''database.ping_timeout'', SText ''5s''),
      (''database.max_open_conns'', SInt 25),
      (''database.max_idle_conns'', SInt 10),
      (''database.conn_max_lifetime'', SText ''5m''),
      (''database.conn_max_idle_time'', SText ''1m''),
      (''database.enabled'', SBool False),
      (''database.name'', SText ''platform''),
      (''database.schema'', SText ''scheduler''),
      (''database.type'', SText ''postgres''),
      (''database.dsn'', SText ''''),
      (''redis.address'', SText ''127.0.0.1:6379''),
      (''redis.dial_timeout'', SText ''5s''),
      (''redis.read_timeout'', SText ''3s''),
      (''redis.write_timeout'', SText ''3s''),
      (''redis.enabled'', SBool False),
      (''redis.username'', SText ''''),
      (''redis.password'', SText ''''),
      (''redis.db'', SInt 0),
      (''health.database_timeout'', SText ''2s''),
      (''health.redis_timeout'', SText ''2s''),
      (''rate_limit.enabled'', SBool False),
      (''rate_limit.fail_open'', SBool False)] @
     setRateLimitDefaults ''rate_limit.ip'' 120 30 @
     setRateLimitDefaults ''rate_limit.api'' 10000 1000 @
     setRateLimitDefaults ''rate_limit.user'' 600 100 @
     setRateLimitDefaults ''rate_limit.login'' 10 3 @
     [(''observability.metrics_enabled'', SBool True),
      (''observability.tracing_enabled'', SBool False),
      (''observability.tracing_endpoint'', SText ''http://127.0.0.1:4318''),
      (''observability.tracing_sample_ratio'', SFloat (1 / 10)),
      (''observability.pprof_enabled'', SBool False),
      (''observability.pprof_token'', SText ''''),
      (''swagger.enabled'', SBool True),
      (''swagger.require_auth'', SBool False),
      (''jwt.issuer'', SText ''scheduler-service''),
      (''jwt.secret'', SText ''''),
      (''jwt.ttl'', SText ''2h''),
      (''auth.client_id'', SText ''''),
      (''auth.client_secret'', SText ''''),
      (''auth.jwks_url'', SText ''''),
      (''auth.issuer'', SText ''identity-service''),
      (''auth.audience'', SText ''scheduler-service''),
      (''auth.skip_http_paths'', STexts [''/api/v1/version'']),
      (''auth.skip_grpc_methods'', STexts [''/grpc.health.v1.Health/*'']),
      (''auth.psk.enabled'', SBool False),
      (''auth.psk.key'', SText ''''),
      (''auth.psk.http_paths'', STexts []),
      (''auth.psk.grpc_methods'', STexts []),
      (''authorization.enabled'', SBool False),
      (''cron.enabled'', SBool True),
      (''cron.timezone'', SText ''Asia/Shanghai''),
      (''cron.sample_spec'', SText ''0 */5 * * * *''),
      (''cron.execution_retention'', SText ''2160h''),
      (''cron.execution_cleanup_interval'', SText ''1h''),
      (''cron.execution_cleanup_batch_size'', SInt 500),
      (''migration.path'', SText ''migrations/postgres''),
      (''migration.database_url'', SText ''''),
      (''migration.auto_up'', SBool False),
      (''migration.create_schema'', SBool False),
      (''migration.table'', SText ''scheduler_schema_migrations''),
      (''user.cache_ttl'', SText ''5m''),
      (''user.lock_ttl'', SText ''10s''),
      (''user.lock_retry_delay'', SText ''100ms''),
      (''idempotency.enabled'', SBool False),
      (''idempotency.processing_ttl'', SText ''30s''),
      (''idempotency.result_ttl'', SText ''24h''),
      (''idempotency.failure_ttl'', SText ''5m''),
      (''event_bus.enabled'', SBool False),
      (''event_bus.urls'', STexts [''nats://127.0.0.1:4222'']),
      (''event_bus.stream_name'', SText ''PLATFORM_EVENTS''),
      (''event_bus.subjects'', STexts [''platform.>'']),
      (''event_bus.storage'', SText ''file''),
      (''event_bus.max_age'', SText ''168h''),
      (''event_bus.duplicate_window'', SText ''10m''),
      (''event_bus.connect_timeout'', SText ''5s''),
      (''event_bus.reconnect_wait'', SText ''1s''),
      (''event_bus.publish_timeout'', SText ''5s''),
      (''event_bus.consumer_ack_wait'', SText ''30s''),
      (''event_bus.consumer_max_deliver'', SInt 10),
      (''operation_log.enabled'', SBool False),
      (''operation_log.subject'', SText ''platform.operation-log.recorded.v1''),
      (''operation_log.max_payload_bytes'', SInt 16384),
      (''outbound.http'', SMap),
      (''outbound.grpc'', SMap)]"

end
