(* ===== verification/Config_Decode.thy ===== *)
theory Config_Decode
  imports Config_Load
begin

section \<open>Decoding settings by the tags of the structs\<close>

text \<open>
  The \<open>mapstructure\<close> tags of the structs of \<^verbatim>\<open>internal/config/config.go\<close>: which key feeds which
  field. A key that is not set leaves the zero value; a text becomes a list by
  \<open>stringToStringSliceHook\<close> and a duration by \<open>time.ParseDuration\<close>, the argument \<open>pd\<close>. The
  clients of the two outbound maps are arguments. Settings of the wrong kind, which the
  decoder of the library refuses or converts, do not occur here and read as the zero value.
\<close>

type_synonym settings = "string \<Rightarrow> setting option"

definition text_of :: "settings \<Rightarrow> string \<Rightarrow> string" where
  "text_of look k = (case look k of Some (SText t) \<Rightarrow> t | _ \<Rightarrow> [])"

definition bool_of :: "settings \<Rightarrow> string \<Rightarrow> bool" where
  "bool_of look k = (case look k of Some (SBool b) \<Rightarrow> b | _ \<Rightarrow> False)"

definition int_of :: "settings \<Rightarrow> string \<Rightarrow> int" where
  "int_of look k = (case look k of Some (SInt i) \<Rightarrow> i | _ \<Rightarrow> 0)"

definition float_of :: "settings \<Rightarrow> string \<Rightarrow> rat option" where
  "float_of look k = (case look k of Some (SFloat q) \<Rightarrow> Some q | _ \<Rightarrow> Some 0)"

definition texts_of :: "settings \<Rightarrow> string \<Rightarrow> string list" where
  "texts_of look k =
     (case look k of
        Some (STexts ts) \<Rightarrow> ts
      | Some (SText t) \<Rightarrow> stringToStringSliceHook t
      | _ \<Rightarrow> [])"

definition duration_of :: "(string \<Rightarrow> int) \<Rightarrow> settings \<Rightarrow> string \<Rightarrow> int" where
  "duration_of pd look k = (case look k of Some (SText t) \<Rightarrow> pd t | _ \<Rightarrow> 0)"

lemmas look_defs = text_of_def bool_of_def int_of_def float_of_def texts_of_def duration_of_def

definition decode_log :: "(string \<Rightarrow> int) \<Rightarrow> settings \<Rightarrow> log_config" where
  "decode_log pd look =
     \<lparr>logLevel = text_of look ''log.level'',
      logFormat = text_of look ''log.format'',
      logFile = text_of look ''log.file'',
      logMaxSizeMB = int_of look ''log.max_size_mb'',
      logMaxBackups = int_of look ''log.max_backups'',
      logMaxAgeDays = int_of look ''log.max_age_days'',
      logCompress = bool_of look ''log.compress''\<rparr>"

definition decode_app :: "(string \<Rightarrow> int) \<Rightarrow> settings \<Rightarrow> app_config" where
  "decode_app pd look =
     \<lparr>appName = text_of look ''app.name'',
      appSchema = text_of look ''app.schema'',
      appEnv = text_of look ''app.env'',
      appShutdownTimeout = duration_of pd look ''app.shutdown_timeout''\<rparr>"

definition decode_http :: "(string \<Rightarrow> int) \<Rightarrow> settings \<Rightarrow> http_config" where
  "decode_http pd look =
     \<lparr>httpAddress = text_of look ''http.address'',
      httpReadTimeout = duration_of pd look ''http.read_timeout'',
      httpWriteTimeout = duration_of pd look ''http.write_timeout'',
      httpIdleTimeout = duration_of pd look ''http.idle_timeout'',
      httpRequestTimeout = duration_of pd look ''http.request_timeout'',
      httpMaxBodyBytes = int_of look ''http.max_body_bytes'',
      httpTrustedProxies = texts_of look ''http.trusted_proxies'',
      httpCORS =
       \<lparr>corsEnabled = bool_of look ''http.cors.enabled'',
        corsAllowedOrigins = texts_of look ''http.cors.allowed_origins'',
        corsAllowedHeaders = texts_of look ''http.cors.allowed_headers'',
        corsExposedHeaders = texts_of look ''http.cors.exposed_headers'',
        corsMaxAge = duration_of pd look ''http.cors.max_age''\<rparr>\<rparr>"

definition decode_grpc :: "(string \<Rightarrow> int) \<Rightarrow> settings \<Rightarrow> grpc_config" where
  "decode_grpc pd look =
     \<lparr>grpcEnabled = bool_of look ''grpc.enabled'',
      grpcAddress = text_of look ''grpc.address'',
      grpcReflectionEnabled = bool_of look ''grpc.reflection_enabled'',
      grpcMaxReceiveBytes = int_of look ''grpc.max_receive_bytes'',
      grpcTLS =
       \<lparr>gtlsEnabled = bool_of look ''grpc.tls.enabled'',
        gtlsCertFile = text_of look ''grpc.tls.cert_file'',
        gtlsKeyFile = text_of look ''grpc.tls.key_file'',
        gtlsClientCAFile = text_of look ''grpc.tls.client_ca_file''\<rparr>\<rparr>"

definition decode_database :: "(string \<Rightarrow> int) \<Rightarrow> settings \<Rightarrow> database_config" where
  "decode_database pd look =
     \<lparr>dbcEnabled = bool_of look ''database.enabled'',
      dbcName = text_of look ''database.name'',
      dbcSchema = text_of look ''database.schema'',
      dbcType = text_of look ''database.type'',
      dbcDSN = text_of look ''database.dsn'',
      dbcMaxOpenConns = int_of look ''database.max_open_conns'',
      dbcMaxIdleConns = int_of look ''database.max_idle_conns'',
      dbcConnMaxLifetime = duration_of pd look ''database.conn_max_lifetime'',
      dbcConnMaxIdleTime = duration_of pd look ''database.conn_max_idle_time'',
      dbcPingTimeout = duration_of pd look ''database.ping_timeout''\<rparr>"

definition decode_redis :: "(string \<Rightarrow> int) \<Rightarrow> settings \<Rightarrow> redis_config" where
  "decode_redis pd look =
     \<lparr>redisEnabled = bool_of look ''redis.enabled'',
      redisAddress = text_of look ''redis.address'',
      redisUsername = text_of look ''redis.username'',
      redisPassword = text_of look ''redis.password'',
      redisDB = int_of look ''redis.db'',
      redisDialTimeout = duration_of pd look ''redis.dial_timeout'',
      redisReadTimeout = duration_of pd look ''redis.read_timeout'',
      redisWriteTimeout = duration_of pd look ''redis.write_timeout''\<rparr>"

definition decode_health :: "(string \<Rightarrow> int) \<Rightarrow> settings \<Rightarrow> health_config" where
  "decode_health pd look =
     \<lparr>healthDatabaseTimeout = duration_of pd look ''health.database_timeout'',
      healthRedisTimeout = duration_of pd look ''health.redis_timeout''\<rparr>"

definition decode_rate_limit :: "(string \<Rightarrow> int) \<Rightarrow> settings \<Rightarrow> rate_limit_config" where
  "decode_rate_limit pd look =
     \<lparr>rlEnabled = bool_of look ''rate_limit.enabled'',
      rlFailOpen = bool_of look ''rate_limit.fail_open'',
      rlIP =
       \<lparr>ruleRate = int_of look ''rate_limit.ip.rate'',
        ruleBurst = int_of look ''rate_limit.ip.burst'',
        rulePeriod = duration_of pd look ''rate_limit.ip.period''\<rparr>,
      rlAPI =
       \<lparr>ruleRate = int_of look ''rate_limit.api.rate'',
        ruleBurst = int_of look ''rate_limit.api.burst'',
        rulePeriod = duration_of pd look ''rate_limit.api.period''\<rparr>,
      rlUser =
       \<lparr>ruleRate = int_of look ''rate_limit.user.rate'',
        ruleBurst = int_of look ''rate_limit.user.burst'',
        rulePeriod = duration_of pd look ''rate_limit.user.period''\<rparr>,
      rlLogin =
       \<lparr>ruleRate = int_of look ''rate_limit.login.rate'',
        ruleBurst = int_of look ''rate_limit.login.burst'',
        rulePeriod = duration_of pd look ''rate_limit.login.period''\<rparr>\<rparr>"

definition decode_observability :: "(string \<Rightarrow> int) \<Rightarrow> settings \<Rightarrow> observability_config" where
  "decode_observability pd look =
     \<lparr>obsMetricsEnabled = bool_of look ''observability.metrics_enabled'',
      obsTracingEnabled = bool_of look ''observability.tracing_enabled'',
      obsTracingEndpoint = text_of look ''observability.tracing_endpoint'',
      obsTracingSampleRatio = float_of look ''observability.tracing_sample_ratio'',
      obsPprofEnabled = bool_of look ''observability.pprof_enabled'',
      obsPprofToken = text_of look ''observability.pprof_token''\<rparr>"

definition decode_swagger :: "(string \<Rightarrow> int) \<Rightarrow> settings \<Rightarrow> swagger_config" where
  "decode_swagger pd look =
     \<lparr>swEnabled = bool_of look ''swagger.enabled'',
      swRequireAuth = bool_of look ''swagger.require_auth''\<rparr>"

definition decode_jwt :: "(string \<Rightarrow> int) \<Rightarrow> settings \<Rightarrow> jwt_config" where
  "decode_jwt pd look =
     \<lparr>jwtIssuer = text_of look ''jwt.issuer'',
      jwtSecret = text_of look ''jwt.secret'',
      jwtTTL = duration_of pd look ''jwt.ttl''\<rparr>"

definition decode_auth :: "(string \<Rightarrow> int) \<Rightarrow> settings \<Rightarrow> auth_config" where
  "decode_auth pd look =
     \<lparr>authJWKSURL = text_of look ''auth.jwks_url'',
      authIssuer = text_of look ''auth.issuer'',
      authAudience = text_of look ''auth.audience'',
      authClientID = text_of look ''auth.client_id'',
      authClientSecret = text_of look ''auth.client_secret'',
      authSkipHTTPPaths = texts_of look ''auth.skip_http_paths'',
      authSkipGRPCMethods = texts_of look ''auth.skip_grpc_methods'',
      authPSK =
       \<lparr>pskEnabled = bool_of look ''auth.psk.enabled'',
        pskKey = text_of look ''auth.psk.key'',
        pskHTTPPaths = texts_of look ''auth.psk.http_paths'',
        pskGRPCMethods = texts_of look ''auth.psk.grpc_methods''\<rparr>\<rparr>"

definition decode_cron :: "(string \<Rightarrow> int) \<Rightarrow> settings \<Rightarrow> cron_config" where
  "decode_cron pd look =
     \<lparr>cronEnabled = bool_of look ''cron.enabled'',
      cronTimezone = text_of look ''cron.timezone'',
      cronSampleSpec = text_of look ''cron.sample_spec'',
      cronExecutionRetention = duration_of pd look ''cron.execution_retention'',
      cronExecutionCleanupInterval = duration_of pd look ''cron.execution_cleanup_interval'',
      cronExecutionCleanupBatchSize = int_of look ''cron.execution_cleanup_batch_size''\<rparr>"

definition decode_migration :: "(string \<Rightarrow> int) \<Rightarrow> settings \<Rightarrow> migration_config" where
  "decode_migration pd look =
     \<lparr>migAutoUp = bool_of look ''migration.auto_up'',
      migCreateSchema = bool_of look ''migration.create_schema'',
      migPath = text_of look ''migration.path'',
      migDatabaseURL = text_of look ''migration.database_url'',
      migTable = text_of look ''migration.table'',
      migSchema = '''',
      migDatabaseName = ''''\<rparr>"

definition decode_user :: "(string \<Rightarrow> int) \<Rightarrow> settings \<Rightarrow> user_config" where
  "decode_user pd look =
     \<lparr>userCacheTTL = duration_of pd look ''user.cache_ttl'',
      userLockTTL = duration_of pd look ''user.lock_ttl'',
      userLockRetryDelay = duration_of pd look ''user.lock_retry_delay''\<rparr>"

definition decode_idempotency :: "(string \<Rightarrow> int) \<Rightarrow> settings \<Rightarrow> idempotency_config" where
  "decode_idempotency pd look =
     \<lparr>idemEnabled = bool_of look ''idempotency.enabled'',
      idemHTTPPaths = texts_of look ''idempotency.http_paths'',
      idemGRPCMethods = texts_of look ''idempotency.grpc_methods'',
      idemProcessingTTL = duration_of pd look ''idempotency.processing_ttl'',
      idemResultTTL = duration_of pd look ''idempotency.result_ttl'',
      idemFailureTTL = duration_of pd look ''idempotency.failure_ttl''\<rparr>"

definition decode_event_bus :: "(string \<Rightarrow> int) \<Rightarrow> settings \<Rightarrow> event_bus_config" where
  "decode_event_bus pd look =
     \<lparr>busEnabled = bool_of look ''event_bus.enabled'',
      busURLs = texts_of look ''event_bus.urls'',
      busStreamName = text_of look ''event_bus.stream_name'',
      busSubjects = texts_of look ''event_bus.subjects'',
      busStorage = text_of look ''event_bus.storage'',
      busMaxAge = duration_of pd look ''event_bus.max_age'',
      busDuplicateWindow = duration_of pd look ''event_bus.duplicate_window'',
      busConnectTimeout = duration_of pd look ''event_bus.connect_timeout'',
      busReconnectWait = duration_of pd look ''event_bus.reconnect_wait'',
      busPublishTimeout = duration_of pd look ''event_bus.publish_timeout'',
      busConsumerAckWait = duration_of pd look ''event_bus.consumer_ack_wait'',
      busConsumerMaxDeliver = int_of look ''event_bus.consumer_max_deliver''\<rparr>"

definition decode_operation_log :: "(string \<Rightarrow> int) \<Rightarrow> settings \<Rightarrow> operation_log_config" where
  "decode_operation_log pd look =
     \<lparr>olEnabled = bool_of look ''operation_log.enabled'',
      olSubject = text_of look ''operation_log.subject'',
      olMaxPayloadBytes = int_of look ''operation_log.max_payload_bytes''\<rparr>"

definition decode ::
  "(string \<Rightarrow> int) \<Rightarrow> (string \<times> upstream) list \<Rightarrow> (string \<times> upstream) list \<Rightarrow> settings \<Rightarrow> config" where
  "decode pd http grpc look =
     \<lparr>cRuntime = \<lparr>activeProfile = '''', configFiles = []\<rparr>,
      cLog = decode_log pd look,
      cApp = decode_app pd look,
      cHTTP = decode_http pd look,
      cGRPC = decode_grpc pd look,
      cDatabase = decode_database pd look,
      cRedis = decode_redis pd look,
      cHealth = decode_health pd look,
      cRateLimit = decode_rate_limit pd look,
      cObservability = decode_observability pd look,
      cSwagger = decode_swagger pd look,
      cJWT = decode_jwt pd look,
      cAuth = decode_auth pd look,
      cAuthorizationEnabled = bool_of look ''authorization.enabled'',
      cCron = decode_cron pd look,
      cMigration = decode_migration pd look,
      cUser = decode_user pd look,
      cIdempotency = decode_idempotency pd look,
      cOutboundHTTP = http,
      cOutboundGRPC = grpc,
      cEventBus = decode_event_bus pd look,
      cOperationLog = decode_operation_log pd look\<rparr>"

lemmas decode_defs = decode_def decode_log_def decode_app_def decode_http_def decode_grpc_def
  decode_database_def decode_redis_def decode_health_def decode_rate_limit_def
  decode_observability_def decode_swagger_def decode_jwt_def decode_auth_def decode_cron_def
  decode_migration_def decode_user_def decode_idempotency_def decode_event_bus_def
  decode_operation_log_def

end
