(* ===== verification/Config_Theorems.thy ===== *)
theory Config_Theorems
  imports Config_Decode
begin

section \<open>Properties of the configuration\<close>

text \<open>
  The values \<open>setDefaults\<close> gives, a sample configuration for production, and what a
  configuration that passed \<open>Validate\<close> guarantees.
\<close>

subsection \<open>The defaults\<close>

text \<open>The nanoseconds of the duration texts the checks depend on.\<close>


definition seconds :: int where "seconds = 1000000000"

definition default_durations :: "(string \<times> int) list" where
  "default_durations =
     [(''10s'', 10 * seconds), (''1m'', 60 * seconds), (''2s'', 2 * seconds), (''5m'', 300 * seconds),
      (''100ms'', 100000000), (''2160h'', 2160 * 3600 * seconds), (''1h'', 3600 * seconds)]"

definition durations_read :: "(string \<Rightarrow> int) \<Rightarrow> bool" where
  "durations_read pd \<longleftrightarrow> (\<forall>(t, n) \<in> set default_durations. pd t = n)"

definition defaults :: settings where
  "defaults = map_of setDefaults"

lemma default_text_values:
  "text_of defaults ''app.env'' = ''development''"
  "text_of defaults ''http.address'' = ''127.0.0.1:8080''"
  "text_of defaults ''grpc.address'' = ''127.0.0.1:9090''"
  "text_of defaults ''database.name'' = ''platform''"
  "text_of defaults ''database.schema'' = ''scheduler''"
  "text_of defaults ''auth.client_id'' = ''''"
  "text_of defaults ''auth.client_secret'' = ''''"
  "int_of defaults ''grpc.max_receive_bytes'' = 16777216"
  "int_of defaults ''cron.execution_cleanup_batch_size'' = 500"
  "float_of defaults ''observability.tracing_sample_ratio'' = Some (1 / 10)"
  by code_simp+

lemma default_lists:
  "texts_of defaults ''auth.skip_http_paths'' = [''/api/v1/version'']"
  "texts_of defaults ''auth.skip_grpc_methods'' = [''/grpc.health.v1.Health/*'']"
  "texts_of defaults ''auth.psk.http_paths'' = []"
  "texts_of defaults ''auth.psk.grpc_methods'' = []"
  "texts_of defaults ''idempotency.http_paths'' = []"
  "texts_of defaults ''idempotency.grpc_methods'' = []"
  by code_simp+

lemma default_durations_of:
  "duration_of pd defaults ''http.request_timeout'' = pd ''10s''"
  "duration_of pd defaults ''health.database_timeout'' = pd ''2s''"
  "duration_of pd defaults ''health.redis_timeout'' = pd ''2s''"
  "duration_of pd defaults ''user.cache_ttl'' = pd ''5m''"
  "duration_of pd defaults ''user.lock_ttl'' = pd ''10s''"
  "duration_of pd defaults ''user.lock_retry_delay'' = pd ''100ms''"
  "duration_of pd defaults ''cron.execution_retention'' = pd ''2160h''"
  "duration_of pd defaults ''cron.execution_cleanup_interval'' = pd ''1h''"
  by code_simp+

lemma default_switches:
  "bool_of defaults ''grpc.enabled''"
  "bool_of defaults ''swagger.enabled''"
  "bool_of defaults ''grpc.reflection_enabled''"
  "\<not> bool_of defaults ''grpc.tls.enabled''"
  "\<not> bool_of defaults ''database.enabled''"
  "\<not> bool_of defaults ''redis.enabled''"
  "\<not> bool_of defaults ''http.cors.enabled''"
  "\<not> bool_of defaults ''rate_limit.enabled''"
  "\<not> bool_of defaults ''observability.tracing_enabled''"
  "\<not> bool_of defaults ''observability.pprof_enabled''"
  by code_simp+

lemma default_switches_off:
  "\<not> bool_of defaults ''auth.psk.enabled''"
  "\<not> bool_of defaults ''authorization.enabled''"
  "\<not> bool_of defaults ''migration.auto_up''"
  "\<not> bool_of defaults ''idempotency.enabled''"
  "\<not> bool_of defaults ''event_bus.enabled''"
  "\<not> bool_of defaults ''operation_log.enabled''"
  by code_simp+

lemmas default_values = default_text_values default_lists default_durations_of default_switches
  default_switches_off

definition default_config :: "(string \<Rightarrow> int) \<Rightarrow> config" where
  "default_config pd = decode pd [] [] defaults"

lemma pattern_checks:
  "check_http_pattern k ''/api/v1/version'' = Inr ()"
  "check_grpc_pattern k ''/grpc.health.v1.Health/*'' = Inr ()"
  "validMigrationTable ''platform''" "validMigrationTable ''scheduler''"
  by code_simp+

lemma default_durations_positive:
  assumes "durations_read pd"
  shows "0 < pd ''10s''" "0 < pd ''2s''" "0 < pd ''5m''" "0 < pd ''100ms''" "0 < pd ''2160h''" "0 < pd ''1h''"
  using assms by (simp_all add: durations_read_def default_durations_def seconds_def)

lemma default_config_accepted:
  assumes "durations_read pd"
  shows "Validate (default_config pd) = Inr ()"
  using default_durations_positive [OF assms]
  unfolding Validate_Inr check_servers_def check_limits_def check_access_def check_events_def
    check_outbound_def production_def has_client_def ratio_outside_def default_config_def
    decode_defs Let_def
  by (simp add: default_values pattern_checks)

definition as_production :: "config \<Rightarrow> config" where
  "as_production c = c\<lparr>cApp := (cApp c)\<lparr>appEnv := ''production''\<rparr>\<rparr>"

lemma default_config_refused:
  "Validate (as_production (default_config pd)) = Inl (Refused ''grpc tls must be enabled in production'')"
  unfolding Validate_def check_servers_def as_production_def production_def default_config_def
    decode_defs Let_def
  by (simp add: default_values pattern_checks checks.simps(2) reject_if_def)

subsection \<open>A configuration for production\<close>

definition sample_pd :: "string \<Rightarrow> int" where
  "sample_pd t = (case map_of default_durations t of Some n \<Rightarrow> n | None \<Rightarrow> 0)"

lemma sample_pd_reads: "durations_read sample_pd"
  by (simp add: durations_read_def sample_pd_def default_durations_def)

definition sample_retry :: retry where
  "sample_retry = \<lparr>MaxAttempts = 3, InitialBackoff = 100000000, MaxBackoff = 1000000000,
     Methods = [''/platform.authorization.v1.AuthorizationService/*'']\<rparr>"

definition sample_client :: upstream where
  "sample_client =
     \<lparr>upAddress = ''authorization:9090'', upTimeout = seconds,
      upAuth = \<lparr>caType = ''bearer'', caToken = ''token''\<rparr>, upRetry = sample_retry,
      upBreaker = \<lparr>brEnabled = True, FailureThreshold = 5, OpenTimeout = seconds\<rparr>,
      upTLS = \<lparr>tlsEnabled = True, tlsAllowInsecure = False, tlsServerName = '''', tlsCAFile = '''',
        tlsCertFile = '''', tlsKeyFile = ''''\<rparr>\<rparr>"

definition sample_production :: config where
  "sample_production =
     (let c = default_config sample_pd in
      (as_production c)
       \<lparr>cGRPC := (cGRPC c)\<lparr>grpcReflectionEnabled := False,
          grpcTLS := \<lparr>gtlsEnabled = True, gtlsCertFile = ''tls.crt'', gtlsKeyFile = ''tls.key'', gtlsClientCAFile = ''''\<rparr>\<rparr>,
        cSwagger := \<lparr>swEnabled = True, swRequireAuth = True\<rparr>,
        cAuth := (cAuth c)\<lparr>authJWKSURL := ''https://id/jwks'', authIssuer := ''id'', authAudience := ''scheduler''\<rparr>,
        cAuthorizationEnabled := True,
        cOutboundGRPC := [(''authorization'', sample_client)]\<rparr>)"

lemma sample_retry_pattern:
  "check_retry_pattern n ''/platform.authorization.v1.AuthorizationService/*'' = Inr ()"
  unfolding check_retry_pattern_Inr by code_simp

lemma sample_client_accepted: "check_upstream f b (n, sample_client) = Inr ()"
  using sample_retry_pattern [of n, unfolded check_retry_pattern_Inr]
  by (simp add: check_upstream_Inr upstream_ok_def credentials_ok_def retry_ok_def sample_client_def
      sample_retry_def seconds_def)

lemma default_fields:
  "cApp (default_config pd) = decode_app pd defaults" "cHTTP (default_config pd) = decode_http pd defaults"
  "cGRPC (default_config pd) = decode_grpc pd defaults" "cAuth (default_config pd) = decode_auth pd defaults"
  "cDatabase (default_config pd) = decode_database pd defaults"
  "cRedis (default_config pd) = decode_redis pd defaults" "cHealth (default_config pd) = decode_health pd defaults"
  "cRateLimit (default_config pd) = decode_rate_limit pd defaults"
  "cObservability (default_config pd) = decode_observability pd defaults"
  "cJWT (default_config pd) = decode_jwt pd defaults" "cCron (default_config pd) = decode_cron pd defaults"
  "cMigration (default_config pd) = decode_migration pd defaults"
  "cUser (default_config pd) = decode_user pd defaults"
  "cIdempotency (default_config pd) = decode_idempotency pd defaults"
  "cEventBus (default_config pd) = decode_event_bus pd defaults"
  "cOperationLog (default_config pd) = decode_operation_log pd defaults"
  "cOutboundHTTP (default_config pd) = []"
  by (simp_all add: default_config_def decode_def)

lemma sample_fields:
  "cApp sample_production = (cApp (default_config sample_pd))\<lparr>appEnv := ''production''\<rparr>"
  "cGRPC sample_production = (cGRPC (default_config sample_pd))\<lparr>grpcReflectionEnabled := False,
     grpcTLS := \<lparr>gtlsEnabled = True, gtlsCertFile = ''tls.crt'', gtlsKeyFile = ''tls.key'', gtlsClientCAFile = []\<rparr>\<rparr>"
  "cSwagger sample_production = \<lparr>swEnabled = True, swRequireAuth = True\<rparr>"
  "cAuth sample_production = (cAuth (default_config sample_pd))\<lparr>authJWKSURL := ''https://id/jwks'',
     authIssuer := ''id'', authAudience := ''scheduler''\<rparr>"
  "cAuthorizationEnabled sample_production"
  "cOutboundGRPC sample_production = [(''authorization'', sample_client)]"
  "cHTTP sample_production = cHTTP (default_config sample_pd)"
  "cDatabase sample_production = cDatabase (default_config sample_pd)"
  "cRedis sample_production = cRedis (default_config sample_pd)"
  "cHealth sample_production = cHealth (default_config sample_pd)"
  "cRateLimit sample_production = cRateLimit (default_config sample_pd)"
  "cObservability sample_production = cObservability (default_config sample_pd)"
  "cJWT sample_production = cJWT (default_config sample_pd)"
  "cCron sample_production = cCron (default_config sample_pd)"
  "cMigration sample_production = cMigration (default_config sample_pd)"
  "cUser sample_production = cUser (default_config sample_pd)"
  "cIdempotency sample_production = cIdempotency (default_config sample_pd)"
  "cEventBus sample_production = cEventBus (default_config sample_pd)"
  "cOperationLog sample_production = cOperationLog (default_config sample_pd)"
  "cOutboundHTTP sample_production = cOutboundHTTP (default_config sample_pd)"
  by (simp_all add: sample_production_def as_production_def Let_def)

lemmas sample_values = sample_fields default_fields default_values pattern_checks

lemma sample_servers: "checks (check_servers sample_production) = Inr ()"
  unfolding check_servers_def Let_def production_def has_client_def
  by (simp add: sample_values decode_database_def decode_grpc_def decode_http_def decode_migration_def)

lemma sample_limits: "checks (check_limits sample_production) = Inr ()"
  using default_durations_positive [OF sample_pd_reads]
  unfolding check_limits_def Let_def
  by (simp add: sample_values ratio_outside_def decode_http_def decode_health_def decode_redis_def
      decode_rate_limit_def decode_observability_def)

lemma sample_access: "checks (check_access sample_production) = Inr ()"
  unfolding check_access_def Let_def production_def has_client_def
  by (simp add: sample_values decode_auth_def)

lemma sample_events: "checks (check_events sample_production) = Inr ()"
  using default_durations_positive [OF sample_pd_reads]
  unfolding check_events_def Let_def
  by (simp add: sample_values decode_user_def decode_idempotency_def decode_event_bus_def
      decode_operation_log_def decode_cron_def)

lemma sample_outbound: "checks (check_outbound sample_production) = Inr ()"
  unfolding check_outbound_def by (simp add: sample_values sample_client_accepted)

lemma sample_production_accepted: "Validate sample_production = Inr ()"
  using sample_servers sample_limits sample_access sample_events sample_outbound
  by (simp only: Validate_Inr)


subsection \<open>Hardening\<close>






subsection \<open>Patterns\<close>



subsection \<open>Profiles\<close>

lemma Validate_runtime: "Validate (c\<lparr>cRuntime := r\<rparr>) = Validate c"
  by (simp add: Validate_def check_servers_def check_limits_def check_access_def check_events_def
      check_outbound_def production_def has_client_def named_rules_def)

lemma Validate_copied: "Validate (copy_database_names c) = Validate c"
  by (simp add: Validate_def check_servers_def check_limits_def check_access_def check_events_def
      check_outbound_def production_def has_client_def named_rules_def copy_database_names_def Let_def)

lemma merge_profile_Inr:
  "merge_profile v path pp s = Inr (s', files) \<Longrightarrow> files = [path] \<or> files = [path, pp]"
  by (auto simp: merge_profile_def split: if_splits stat_result.splits sum.splits)

lemma decode_and_validate_Inr:
  "decode_and_validate v profile (s', files) = Inr c \<longleftrightarrow>
     (\<exists>decoded. unmarshal v (setEnvName v profile s') = Inr decoded \<and>
        Validate (copy_database_names decoded) = Inr () \<and>
        c = (copy_database_names decoded)\<lparr>cRuntime := \<lparr>activeProfile = profile, configFiles = files\<rparr>\<rparr>)"
  by (auto simp: decode_and_validate_def Let_def split: sum.split)

lemma LoadWithProfile_Inr:
  assumes "LoadWithProfile v path explicitProfile = Inr c"
  obtains s s' decoded files profile where
    "read_base v path = Inr s"
    "profile = (if normal_profile explicitProfile = [] then normal_profile (getEnvName v s)
       else normal_profile explicitProfile)"
    "validProfile profile"
    "merge_profile v path (profileConfigPath path profile) s = Inr (s', files)"
    "unmarshal v (setEnvName v profile s') = Inr decoded"
    "Validate (copy_database_names decoded) = Inr ()"
    "c = (copy_database_names decoded)\<lparr>cRuntime := \<lparr>activeProfile = profile, configFiles = files\<rparr>\<rparr>"
proof -
  from assms obtain s profile r where base: "read_base v path = Inr s"
    and profile: "profile = (if normal_profile explicitProfile = [] then normal_profile (getEnvName v s)
       else normal_profile explicitProfile)" "validProfile profile"
    and merged: "merge_profile v path (profileConfigPath path profile) s = Inr r"
    and final: "decode_and_validate v profile r = Inr c"
    unfolding LoadWithProfile_def Let_def
    by (auto simp: and_then_Inr split: option.splits if_splits)
  obtain s' files where r: "r = (s', files)" by (rule prod.exhaust)
  with final obtain decoded where "unmarshal v (setEnvName v profile s') = Inr decoded"
    "Validate (copy_database_names decoded) = Inr ()"
    "c = (copy_database_names decoded)\<lparr>cRuntime := \<lparr>activeProfile = profile, configFiles = files\<rparr>\<rparr>"
    by (auto simp: decode_and_validate_Inr)
  from that [OF base profile merged [unfolded r] this] show thesis .
qed

definition sample_viper :: "string viper" where
  "sample_viper =
     \<lparr>bindEnv = (\<lambda>ks. None), readInConfig = (\<lambda>path. ReadOk ''development''), getEnvName = (\<lambda>s. s),
      statFile = (\<lambda>path. FileMissing), mergeInConfig = (\<lambda>path s. Inr s), setEnvName = (\<lambda>p s. p),
      unmarshal = (\<lambda>s. Inr (sample_production\<lparr>cApp := (cApp sample_production)\<lparr>appEnv := s\<rparr>\<rparr>))\<rparr>"

lemma sample_env: "sample_production\<lparr>cApp := (cApp sample_production)\<lparr>appEnv := ''production''\<rparr>\<rparr> = sample_production"
  by (simp add: sample_production_def as_production_def Let_def)

lemma sample_profile: "normal_profile '' PRODUCTION'' = ''production''" "validProfile ''production''"
  "profileConfigPath ''config.yaml'' ''production'' = ''config-production.yaml''"
  by code_simp+

lemma sample_load:
  "LoadWithProfile sample_viper ''config.yaml'' '' PRODUCTION'' =
     Inr ((copy_database_names sample_production)
       \<lparr>cRuntime := \<lparr>activeProfile = ''production'', configFiles = [''config.yaml'']\<rparr>\<rparr>)"
  by (simp add: LoadWithProfile_def sample_viper_def read_base_def and_then_def sample_profile
      merge_profile_def decode_and_validate_def sample_env Validate_copied sample_production_accepted)

text \<open>
  A loaded configuration passed \<open>Validate\<close>, and its environment is the profile that was
  chosen: the explicit one when it is not blank, lowered and without surrounding white space, so
  that no spelling of \<^verbatim>\<open>production\<close> avoids the production checks and no profile file changes
  the environment. Only the given file and the file of the profile were read, and the
  migrations use the schema and the database of the service.
\<close>

lemma loading_fixes_the_profile:
  assumes "LoadWithProfile v path explicitProfile = Inr c"
    and "\<forall>s profile d. unmarshal v (setEnvName v profile s) = Inr d \<longrightarrow> appEnv (cApp d) = profile"
  shows "Validate c = Inr () \<and> validProfile (activeProfile (cRuntime c)) \<and>
     appEnv (cApp c) = activeProfile (cRuntime c) \<and>
     (normal_profile explicitProfile \<noteq> [] \<longrightarrow> activeProfile (cRuntime c) = normal_profile explicitProfile) \<and>
     configFiles (cRuntime c) \<in>
       {[path], [path, profileConfigPath path (activeProfile (cRuntime c))]} \<and>
     migSchema (cMigration c) = dbcSchema (cDatabase c) \<and> migDatabaseName (cMigration c) = dbcName (cDatabase c)"
  using assms(1)
proof (rule LoadWithProfile_Inr)
  fix s s' decoded files profile
  assume profile: "profile = (if normal_profile explicitProfile = [] then normal_profile (getEnvName v s)
      else normal_profile explicitProfile)" "validProfile profile"
    and merged: "merge_profile v path (profileConfigPath path profile) s = Inr (s', files)"
    and decoded: "unmarshal v (setEnvName v profile s') = Inr decoded"
    and valid: "Validate (copy_database_names decoded) = Inr ()"
    and c: "c = (copy_database_names decoded)\<lparr>cRuntime := \<lparr>activeProfile = profile, configFiles = files\<rparr>\<rparr>"
  have "appEnv (cApp decoded) = profile" using assms(2) decoded by blast
  with profile merge_profile_Inr [OF merged] valid show ?thesis
    by (simp add: c Validate_runtime, simp add: copy_database_names_def)
qed

lemma sample_profile_loaded:
  "\<exists>c. LoadWithProfile sample_viper ''config.yaml'' '' PRODUCTION'' = Inr c \<and> appEnv (cApp c) = ''production''"
proof -
  have "\<forall>s profile d. unmarshal sample_viper (setEnvName sample_viper profile s) = Inr d \<longrightarrow>
      appEnv (cApp d) = profile"
    by (auto simp: sample_viper_def)
  from loading_fixes_the_profile [OF sample_load this] show ?thesis
    by (intro exI [of _ "(copy_database_names sample_production)
        \<lparr>cRuntime := \<lparr>activeProfile = ''production'', configFiles = [''config.yaml'']\<rparr>\<rparr>"])
       (simp add: sample_load)
qed

end
