(* ===== verification/Sample.thy ===== *)
theory Sample
  imports Service
begin

section \<open>A sample environment\<close>

text \<open>
  One concrete environment, with the values the witnesses of the properties are evaluated at: a
  clock that advances by a millisecond per use, a MySQL database without errors and without
  other writers, an application verifier that grants the application \<open>app\<close> to the tenant
  \<open>t1\<close> only, an invoker that answers every call, and a lock that is always free.
\<close>

definition marks :: "nat \<Rightarrow> string" where
  "marks n = CHR ''?'' # concat (replicate (n - 1) '', ?'')"

definition expand_marks :: "nat \<Rightarrow> string \<Rightarrow> string" where
  "expand_marks n q = concat (map (\<lambda>c. if c = CHR ''?'' then marks n else [c]) q)"

definition sample_env :: env where
  "sample_env =
     \<lparr>nowAt = (\<lambda>n. int n * 1000000),
      uuidAt = (\<lambda>n. CHR ''u'' # replicate n CHR ''x''),
      interfere = (\<lambda>_ d. d),
      dbEnabled = True,
      driver = ''mysql'',
      dbError = (\<lambda>_ _. None),
      commitError = (\<lambda>_ _. None),
      dbNow = (\<lambda>n. int n * 1000000),
      violationError = (\<lambda>_. ErrorString ''constraint violated''),
      indexFits = (\<lambda>_. True),
      stringsToLower = to_lower,
      sqlLower = to_lower,
      sqlLike = (\<lambda>text pattern. pattern = text),
      sqlTextLe = (\<lambda>a b. length a \<le> length b),
      sqlxIn = (\<lambda>q vs. Inr (expand_marks (length vs) q, vs)),
      verifyGrant = (\<lambda>_ t a. if t = ''t1'' \<and> a = ''app'' then Granted else NotGranted),
      invokerValidate = (\<lambda>_ _ _ _. None),
      invokerInvoke = (\<lambda>_ _ _ _ _. Inr ''{}''),
      loadLocation = (\<lambda>_. None),
      parseCron = (\<lambda>_. None),
      grpcCodeName = (\<lambda>_. ''Unknown''),
      operationsEnabled = True,
      recordError = (\<lambda>_ _. None),
      lockerPresent = True,
      tryLock = (\<lambda>_ _ _. \<lparr>laRan = True, laAcquired = True, laError = (\<lambda>e. e)\<rparr>)\<rparr>"

definition sample_context :: go_context where
  "sample_context =
     \<lparr>cPrincipal = Some \<lparr>pID = ''alice'', pType = TypeUser, pTenantID = ''t1''\<rparr>,
      cRequestID = Some ''req-1'', cIdempotencyKey = None, cMetadata = [], cTimeouts = []\<rparr>"

definition sample_input :: input where
  "sample_input =
     \<lparr>inTenantID = ''t1'', inApplicationID = ''app'', inName = '' nightly '', inCronExpression = ''0 0 3 * * *'',
      inTimezone = [], inUpstream = ''billing'', inFullMethod = ''/billing.v1.Billing/Close'',
      inRequestJSON = [], inTimeoutMilliseconds = 5000, inEnabled = True\<rparr>"

definition sample_job :: job where
  "sample_job =
     \<lparr>ID = ''j1'', TenantID = ''t1'', ApplicationID = ''app'', Status = enabled, Version = 1,
      CreatedAt = 0, UpdatedAt = 0, CreatedBy = ''alice'', UpdatedBy = ''alice'',
      DeletedAt = None, DeletedBy = None, Name = ''nightly'', CronExpression = ''0 0 3 * * *'',
      Timezone = ''UTC'', Upstream = ''billing'', FullMethod = ''/billing.v1.Billing/Close'',
      RequestJSON = ''{}'', TimeoutMilliseconds = 5000\<rparr>"

text \<open>An execution of that job which ended at the time given.\<close>

definition sample_execution :: "string \<Rightarrow> time \<Rightarrow> execution" where
  "sample_execution i t =
     \<lparr>ID = i, TenantID = ''t1'', ApplicationID = ''app'', Status = succeeded, Version = 2,
      CreatedAt = t - 5, UpdatedAt = t, CreatedBy = ''alice'', UpdatedBy = ''alice'',
      DeletedAt = None, DeletedBy = None, JobID = ''j1'', TriggerType = ''manual'',
      ResponseJSON = ''{}'', ErrorCode = [], ErrorMessage = [], StartedAt = t - 5,
      FinishedAt = Some t, DurationMilliseconds = 0\<rparr>"

definition sample_world :: "job list \<Rightarrow> execution list \<Rightarrow> world" where
  "sample_world js es =
     \<lparr>wDb = \<lparr>jobs = js, executions = es\<rparr>, wBase = \<lparr>jobs = js, executions = es\<rparr>, wTick = 0, wChanged = False, wLog = [], wCalls = [], wInvokedAt = []\<rparr>"

subsection \<open>Running an operation in the sample environment\<close>

text \<open>
  Big-step evaluation rules: \<open>run\<close> holds one rule per combinator, primitive effect and
  operation, with the result in a position where resolution instantiates it, and
  \<open>sample_simps\<close> the definitions the leaves are computed with.
\<close>

named_theorems run \<open>big-step evaluation in the sample environment\<close>
named_theorems sample_simps \<open>definitions the leaves of an evaluation are computed with\<close>

lemma sample_env_sel [simp]:
 "nowAt sample_env n = int n * 1000000"
 "uuidAt sample_env n = CHR ''u'' # replicate n CHR ''x''"
 "interfere sample_env n d = d"
 "dbEnabled sample_env"
 "driver sample_env = ''mysql''"
 "dbError sample_env n c = None"
 "commitError sample_env n c = None"
 "indexFits sample_env ts"
 "stringsToLower sample_env = to_lower"
 "verifyGrant sample_env n t a = (if t = ''t1'' \<and> a = ''app'' then Granted else NotGranted)"
 "invokerValidate sample_env n u m r = None"
 "invokerInvoke sample_env n c u m r = Inr ''{}''"
 "loadLocation sample_env z = None"
 "parseCron sample_env z = None"
 "operationsEnabled sample_env"
 "recordError sample_env n e = None"
 "lockerPresent sample_env"
 "tryLock sample_env n k ttl = \<lparr>laRan = True, laAcquired = True, laError = (\<lambda>e. e)\<rparr>"
 "sqlxIn sample_env q vs = Inr (expand_marks (length vs) q, vs)"
 "sqlTextLe sample_env a b \<longleftrightarrow> length a \<le> length b"
 "sqlLower sample_env = to_lower"
 "sqlLike sample_env a b \<longleftrightarrow> b = a"
 by (simp_all add: sample_env_def)

lemma run_attempt_rule [run]: "m s = (Inr x, s1) \<Longrightarrow> f x s1 = r \<Longrightarrow> attempt m f s = r"
  by (simp add: prog_simps)

lemma run_on_error_rule [run]: "m s = (Inr x, s1) \<Longrightarrow> on_error g m s = (Inr x, s1)"
  by (simp add: prog_simps)

lemma run_ensure_rule [run]: "b \<Longrightarrow> m s = r \<Longrightarrow> ensure b e m s = r"
  by (simp add: prog_simps)

lemma run_lift_rule [run]: "r = r' \<Longrightarrow> lift_result r s = (r', s)"
  by (simp add: prog_simps)

lemma run_let_rule [run]: "v = v' \<Longrightarrow> f v' s = r \<Longrightarrow> Let v f s = r"
  by simp

lemma run_ok_rule [run]: "x = x' \<Longrightarrow> ok x s = (Inr x', s)"
  by (simp add: prog_simps)

lemma run_query_rule [run]:
  "f (wDb w) = r \<Longrightarrow> w\<lparr>wTick := Suc (wTick w)\<rparr> = w' \<Longrightarrow> query sample_env ctx f w = (r, w')"
  by (auto simp: query_def prog_simps)

lemma run_now_rule [run]:
  "int (wTick w) * 1000000 = t \<Longrightarrow> w\<lparr>wTick := Suc (wTick w)\<rparr> = w' \<Longrightarrow> s_now sample_env w = (Inr t, w')"
  by (simp add: prog_simps)

lemma run_uuid_rule [run]:
  "CHR ''u'' # replicate (wTick w) CHR ''x'' = t \<Longrightarrow> w\<lparr>wTick := Suc (wTick w)\<rparr> = w' \<Longrightarrow>
   uuid_NewString sample_env w = (Inr t, w')"
  by (simp add: prog_simps)

lemma run_exec_rule [run]:
  "f (wTick w) (wDb w) = Inr (y, d) \<Longrightarrow> w\<lparr>wTick := Suc (wTick w), wDb := d\<rparr> = w' \<Longrightarrow>
   exec_stmt sample_env ctx f w = (Inr y, w')"
  by (simp add: exec_stmt_def prog_simps)

lemma run_Within_rule [run]:
  "cPrincipal ctx = Some p \<Longrightarrow> trim_space (pID p) \<noteq> [] \<Longrightarrow>
   w\<lparr>wTick := Suc (wTick w), wBase := wDb w\<rparr> = w1 \<Longrightarrow> fn w1 = (Inr x, w2) \<Longrightarrow> w2\<lparr>wTick := Suc (wTick w2)\<rparr> = w' \<Longrightarrow>
   Within sample_env ctx fn w = (Inr x, w')"
  by (auto simp: Within_def prog_simps setAuditActor_def finish_tx_def commit_tx_def begin_on_def)

lemma run_others_rule [run]:
  "w\<lparr>wTick := Suc (wTick w)\<rparr> = w' \<Longrightarrow> others_commit sample_env held w = (Inr (), w')"
  by (cases w) (auto simp: others_commit_run begin_on_def)

lemma list_all_replicate [sample_simps]: "list_all P (replicate n x) \<longleftrightarrow> n = 0 \<or> P x"
  by (induction n) auto

lemma sample_text_fits [sample_simps]:
  "driver env = ''mysql'' \<Longrightarrow> list_all (byte_in 0 127) t \<and> length t \<le> n \<Longrightarrow> text_fits env (VarChar n, t)"
  "driver env = ''mysql'' \<Longrightarrow> list_all (byte_in 0 127) t \<and> length t \<le> 65535 \<Longrightarrow> text_fits env (ColText, t)"
  "driver env = ''mysql'' \<Longrightarrow> list_all (byte_in 0 127) t \<and> length t \<le> 16777215 \<Longrightarrow> text_fits env (MediumText, t)"
  using rune_count_le [of t] by (auto simp: text_fits_def utf8_valid_ascii Let_def)

lemma run_signal_rule [run]: "w\<lparr>wChanged := True\<rparr> = w' \<Longrightarrow> signalChanged w = (Inr (), w')"
  by (simp add: prog_simps)

lemma run_Validate_rule [run]:
  "w\<lparr>wTick := Suc (wTick w), wCalls := wCalls w @ [CallValidate u m r]\<rparr> = w' \<Longrightarrow>
   invoker_Validate sample_env u m r w = (Inr (), w')"
  by (simp add: prog_simps invoker_Validate_def)

lemma run_Invoke_rule [run]:
  "w\<lparr>wTick := Suc (wTick w), wCalls := wCalls w @ [CallInvoke c u m r], wInvokedAt := wInvokedAt w @ [wTick w]\<rparr> = w' \<Longrightarrow>
   invoker_Invoke sample_env c u m r w = (Inr (Inr ''{}''), w')"
  by (simp add: prog_simps invoker_Invoke_def)

lemma trimmed_literals [sample_simps]:
  "trim_space [] = []" "trim_space ''t1'' = ''t1''" "trim_space ''app'' = ''app''" "trim_space ''alice'' = ''alice''"
  "trim_space ''j1'' = ''j1''" "trim_space '' nightly '' = ''nightly''" "trim_space ''0 0 3 * * *'' = ''0 0 3 * * *''"
  "trim_space ''billing'' = ''billing''"
  "trim_space ''/billing.v1.Billing/Close'' = ''/billing.v1.Billing/Close''"
  "trim_space ''scheduler-service'' = ''scheduler-service''"
  by code_simp+

lemma run_grant_rule [run]:
  "tenant = ''t1'' \<and> app = ''app'' \<Longrightarrow> w\<lparr>wTick := Suc (wTick w)\<rparr> = w' \<Longrightarrow>
   verifyApplication sample_env tenant app w = (Inr (), w')"
  by (simp add: prog_simps verifyApplication_def sample_simps)

lemma run_deferred_rule [run]:
  "body w = (Inr (x, c), w1) \<Longrightarrow>
   w1\<lparr>wTick := Suc (Suc (wTick w1)),
      wLog := wLog w1 @ [(mk (Some x) c)\<lparr>Duration := time_sub (int (wTick w1) * 1000000) started,
        Succeeded := True,
        RequestID := (case requestid_FromContext ctx of None \<Rightarrow> RequestID (mk (Some x) c) | Some i \<Rightarrow> i)\<rparr>]\<rparr> = w' \<Longrightarrow>
   deferred sample_env ctx started mk body w = (Inr x, w')"
  by (auto simp: prog_simps deferred_def finishOperation.simps Let_def split: option.splits)

lemmas run_service [run] =
  Create_def [THEN fun_cong, THEN trans] Create_body_def [THEN fun_cong, THEN trans]
  Update_def [THEN fun_cong, THEN trans] Update_body_def [THEN fun_cong, THEN trans]
  Delete_def [THEN fun_cong, THEN trans] Delete_body_def [THEN fun_cong, THEN trans]
  Trigger_def [THEN fun_cong, THEN trans] Trigger_body_def [THEN fun_cong, THEN trans]
  ExecuteScheduled_def [THEN fun_cong, THEN trans] executeWithLease_def [THEN fun_cong, THEN trans]
  authorizeScope_def [THEN fun_cong, THEN trans] normalizeAndValidate_def [THEN fun_cong, THEN trans]
  CreateJob_def [THEN fun_cong, THEN trans] UpdateJob_def [THEN fun_cong, THEN trans]
  DeleteJob_def [THEN fun_cong, THEN trans] GetJob_def [THEN fun_cong, THEN trans]
  CreateExecution_def [THEN fun_cong, THEN trans] CreateManualExecution_def [THEN fun_cong, THEN trans]
  FinishExecution_def [THEN fun_cong, THEN trans] stale_def [THEN fun_cong, THEN trans]
  SoftDeleteTerminalExecutionsBefore_def [THEN fun_cong, THEN trans]

lemma run_execute_rule [run]:
  "with_timeout (timeout_duration v) ctx = ctx' \<Longrightarrow> w\<lparr>wTick := Suc (wTick w)\<rparr> = w1 \<Longrightarrow>
   executeWithLease sample_env ctx' v trig actor e w1 = (Inr x, w') \<Longrightarrow>
   execute sample_env ctx v trig actor e w = (Inr x, w')"
  by (auto simp: execute_def prog_simps Let_def)

lemmas sample_defs [sample_simps] =
  sample_world_def sample_input_def sample_context_def sample_job_def sample_execution_def
  actorFromContext_def trim_scope_def trim_input_def new_job_def statusFromEnabled_def on_jobs_def
  on_executions_def with_unit_def sql_insert_def sql_update_def job_check_def execution_check_def row_texts_def
  job_texts_fit_def execution_texts_fit_def index_fits_def byte_in_def
  audit_of_def audited_def audit_insert_def audit_update_def at_version_def set_job_def mark_deleted_def
  apply_input_def find_live_def live_def validateManualTrigger_def new_execution_def set_finished_def
  invoke_context_def requestid_FromContext_def with_timeout_def without_cancel_def i64_def scheduler_context_def
  job_entry_def input_request_def finish_of_def time_sub_def milliseconds_def timeout_duration_def

lemma truncate_sample [sample_simps]: "truncate_text ''{}'' 1048576 = ''{}''"
  by (simp add: truncate_text_def)

subsection \<open>The operations return\<close>

lemma sample_create:
  "\<exists>j w'. Create sample_env sample_context sample_input (sample_world [] []) = (Inr j, w')"
  by (intro exI) (rule run | simp add: sample_simps Let_def)+

lemma sample_update:
  "\<exists>j w'. Update sample_env sample_context ''j1'' sample_input 1 (sample_world [sample_job] []) = (Inr j, w')"
  by (intro exI) (rule run | simp add: sample_simps Let_def)+

lemma sample_delete:
  "\<exists>w'. Delete sample_env sample_context ''j1'' 1 (sample_world [sample_job] []) = (Inr (), w')"
  by (intro exI) (rule run | simp add: sample_simps Let_def)+

lemma sample_trigger:
  "\<exists>x w'. Trigger sample_env sample_context ''j1'' 1 (sample_world [sample_job] []) = (Inr x, w')"
  by (intro exI) (rule run | simp add: sample_simps Let_def)+

lemma sample_scheduled:
  "\<exists>x w'. ExecuteScheduled sample_env sample_context sample_job (sample_world [sample_job] []) = (Inr x, w')"
  by (intro exI) (rule run | simp add: sample_simps Let_def)+

end
