(* ===== verification/Transport_Theorems.thy ===== *)
theory Transport_Theorems
  imports Http_Gate Grpc_Server Config_Theorems Sample
begin

section \<open>What the transports guarantee\<close>

text \<open>
  The properties of the HTTP and gRPC servers: the gate in front of the operations (C32), the
  agreement of both transports on who is let in (C33), repeated requests (C34), the agreement
  of the operations of both transports (C35), timestamps, readiness and tokens (C38),
  with the sample requests and libraries their witnesses use.
\<close>


subsection \<open>A sample request\<close>


definition sample_headers :: "string \<Rightarrow> string" where
  "sample_headers k =
     (if k = ''Authorization'' then ''Bearer good''
      else if k = ''Content-Type'' then ''application/json'' else [])"

definition sample_gin :: "string \<Rightarrow> 'b gin" where
  "sample_gin route =
     \<lparr>gMethod = ''POST'', gFullPath = route, gHeader = sample_headers, gContentLength = 2, gTLS = True,
      gClientIP = ''10.0.0.1'', gReadBody = Inr ''{}'', gBodyLimit = None, gRequestID = [], gEnvironment = [],
      gSubject = None,
      gCtx = \<lparr>cPrincipal = None, cRequestID = None, cIdempotencyKey = None, cMetadata = [], cTimeouts = []\<rparr>,
      gCredential = None, gOut = [], gWritten = None, gMore = []\<rparr>"


lemma create_not_version: "\<not> MatchesAny ''/api/v1/scheduler/jobs/create'' [''/api/v1/version'']"
proof -
  have "literal ''/api/v1/version''" by (simp add: literal_def)
  then show ?thesis by (simp add: MatchesAny_iff Match_literal del: MatchesAny.simps)
qed

lemma sample_skip: "authSkipHTTPPaths (cAuth sample_production) = [''/api/v1/version'']"
  "\<not> pskEnabled (authPSK (cAuth sample_production))"
  by (simp_all add: sample_values decode_auth_def)






text \<open>
  A request and a call of one caller: the same \<^verbatim>\<open>Authorization\<close> text, and routes that the
  configuration treats alike.
\<close>

definition same_caller :: "auth_config \<Rightarrow> 'b gin \<Rightarrow> call \<Rightarrow> bool" where
  "same_caller cfg c g \<longleftrightarrow>
     caMetadata g ''authorization'' =
       (if gHeader c ''Authorization'' = [] then [] else [gHeader c ''Authorization'']) \<and>
     cPrincipal (caCtx g) = cPrincipal (gCtx c) \<and>
     (MatchesAny (gFullPath c) (pskHTTPPaths (authPSK cfg)) \<longleftrightarrow> MatchesAny (caMethod g) (pskGRPCMethods (authPSK cfg))) \<and>
     (MatchesAny (gFullPath c) (authSkipHTTPPaths cfg) \<longleftrightarrow> MatchesAny (caMethod g) (authSkipGRPCMethods cfg))"

lemma empty_is_no_PSK: "\<not> VerifyPSK [] key"
  by (simp add: VerifyPSK_iff)

lemma requirements_agree:
  "map schedulerHTTPRequirement (drop 2 api_routes) =
      map (\<lambda>m. schedulerGRPCRequirement True (grpc_service @ m))
        [''CreateJob'', ''UpdateJob'', ''DeleteJob'', ''GetJob'', ''ListJobs'', ''TriggerJob'',
         ''GetExecution'', ''ListExecutions'']"
  "filter (\<lambda>r. schedulerHTTPRequirement r = None) api_routes = [''/api/v1/version'', ''/api/v1/me'']"
  by code_simp+

lemma authentication_agrees:
  fixes c :: "'b gin"
  assumes same: "same_caller cfg c g" and "isl (verify [])"
  shows "case authenticateGRPC verify cfg g of
       Inl (code, message) \<Rightarrow> code = GUnauthenticated \<and>
         (\<forall>next w. \<exists>text. Authentication_mw verify cfg next (c, w) = (Fail (Unauthorized text) c, w))
     | Inr ctx \<Rightarrow> \<exists>c'. (\<forall>next w. Authentication_mw verify cfg next (c, w) = next (c', w)) \<and>
         cPrincipal (gCtx c') = cPrincipal ctx"
proof -
  define header where "header = gHeader c ''Authorization''"
  define psk where "psk \<longleftrightarrow> pskEnabled (authPSK cfg) \<and> MatchesAny (caMethod g) (pskGRPCMethods (authPSK cfg))"
  define skip where "skip \<longleftrightarrow> MatchesAny (caMethod g) (authSkipGRPCMethods cfg)"
  have psk_http: "pskEnabled (authPSK cfg) \<and> MatchesAny (gFullPath c) (pskHTTPPaths (authPSK cfg)) \<longleftrightarrow> psk"
    and skip_http: "MatchesAny (gFullPath c) (authSkipHTTPPaths cfg) \<longleftrightarrow> skip"
    and md: "caMetadata g ''authorization'' = (if header = [] then [] else [header])"
    and identity: "cPrincipal (caCtx g) = cPrincipal (gCtx c)"
    using same unfolding same_caller_def psk_def skip_def header_def by (simp_all only:)
  have http: "Authentication_mw verify cfg nxt (c, w) =
      (if psk then
        (if \<not> VerifyPSK header (pskKey (authPSK cfg)) then (Fail (Unauthorized ''missing or invalid PSK'') c, w)
         else nxt (authenticated psk_principal header (c\<lparr>gSubject := Some ''psk''\<rparr>), w))
      else if skip then nxt (c, w) else JWT_mw verify nxt (c, w))" for nxt and w :: 'w
    unfolding Authentication_mw_def by (simp only: prod.case psk_http skip_http header_def)
  have rpc: "authenticateGRPC verify cfg g =
     (if psk then
        (if header = [] \<or> \<not> VerifyPSK header (pskKey (authPSK cfg)) then Inl (GUnauthenticated, ''missing or invalid PSK'')
         else Inr ((caCtx g)\<lparr>cPrincipal := Some psk_principal\<rparr>))
      else if skip then Inr (caCtx g)
      else if header = [] then Inl (GUnauthenticated, ''missing bearer token'')
      else case cut CHR '' '' header of
        None \<Rightarrow> Inl (GUnauthenticated, ''invalid bearer token'')
      | Some (scheme, raw) \<Rightarrow>
          if \<not> EqualFold scheme ''Bearer'' then Inl (GUnauthenticated, ''invalid bearer token'')
          else case verify raw of
            Inl e \<Rightarrow> Inl (GUnauthenticated, ''invalid or expired token'')
          | Inr identity \<Rightarrow> Inr ((caCtx g)\<lparr>cPrincipal := Some identity\<rparr>))"
    unfolding authenticateGRPC_def Let_def psk_def [symmetric] skip_def [symmetric] md by simp
  obtain e where none: "verify [] = Inl e" using assms(2) by (cases "verify []") auto
  have no_psk: "\<not> VerifyPSK [] key" for key by (simp add: VerifyPSK_iff)
  have cut0: "cut CHR '' '' [] = None" by simp
  have refusal: "\<exists>t. (Fail (Unauthorized x) c, w) = (Fail (Unauthorized t) c, w)" for x and w :: 'w by blast
  have jwt: "JWT_mw verify nxt (c, w) =
      (case cut CHR '' '' header of
         None \<Rightarrow> (Fail (Unauthorized ''missing bearer token'') c, w)
       | Some (scheme, raw) \<Rightarrow>
           if \<not> EqualFold scheme ''Bearer'' \<or> raw = [] then (Fail (Unauthorized ''missing bearer token'') c, w)
           else case verify raw of
             Inl e \<Rightarrow> (Fail (Unauthorized ''invalid or expired token'') c, w)
           | Inr identity \<Rightarrow> nxt (authenticated identity header (c\<lparr>gSubject := Some (pID identity)\<rparr>), w))"
    for nxt and w :: 'w
    unfolding JWT_mw_def Let_def header_def by (simp only: prod.case)
  show ?thesis
    unfolding http rpc jwt
    by (cases psk; cases skip; cases "header = []"; cases "cut CHR '' '' header"; cases "verify (snd (the (cut CHR '' '' header)))";
        cases "snd (the (cut CHR '' '' header)) = []"; use none no_psk cut0 refusal identity in \<open>force simp: authenticated_def split: prod.split\<close>)
qed

text \<open>
  C33. HTTP and gRPC let in the same callers: the routes of the eight operations and their gRPC
  methods need the same permissions, of the other routes under \<^verbatim>\<open>/api/v1\<close> only the version and
  the identity of the caller need none, and a caller whom one transport refuses as
  unauthenticated is refused by the other, while one who is accepted gets the same identity.
\<close>

theorem transports_admit_alike:
  assumes "same_caller cfg c g" and "isl (verify [])"
  shows "map schedulerHTTPRequirement (drop 2 api_routes) =
      map (\<lambda>m. schedulerGRPCRequirement True (grpc_service @ m))
        [''CreateJob'', ''UpdateJob'', ''DeleteJob'', ''GetJob'', ''ListJobs'', ''TriggerJob'',
         ''GetExecution'', ''ListExecutions''] \<and>
    filter (\<lambda>r. schedulerHTTPRequirement r = None) api_routes = [''/api/v1/version'', ''/api/v1/me''] \<and>
    (case authenticateGRPC verify cfg g of
       Inl (code, message) \<Rightarrow> code = GUnauthenticated \<and>
         (\<forall>next w. \<exists>text. Authentication_mw verify cfg next (c, w) = (Fail (Unauthorized text) c, w))
     | Inr ctx \<Rightarrow> \<exists>c'. (\<forall>next w. Authentication_mw verify cfg next (c, w) = next (c', w)) \<and>
         cPrincipal (gCtx c') = cPrincipal ctx)"
  using requirements_agree authentication_agrees [where verify = verify, OF assms] by (simp only: simp_thms)

definition sample_call :: call where
  "sample_call =
     \<lparr>caMethod = ''/platform.scheduler.v1.SchedulerService/CreateJob'',
      caMetadata = (\<lambda>k. if k = ''authorization'' then [''Bearer good''] else []),
      caCtx = \<lparr>cPrincipal = None, cRequestID = None, cIdempotencyKey = None, cMetadata = [], cTimeouts = []\<rparr>,
      caEnvironment = [], caHeader = []\<rparr>"

definition sample_verify :: "string \<Rightarrow> go_error + principal" where
  "sample_verify raw =
     (if raw = ''good'' then Inr \<lparr>pID = ''alice'', pType = TypeUser, pTenantID = ''t1''\<rparr> else Inl (ErrorString ''bad''))"

lemma create_not_health:
  "MatchesAny ''/platform.scheduler.v1.SchedulerService/CreateJob'' [''/grpc.health.v1.Health/*''] = False"
  by code_simp

lemma sample_routes: "pskHTTPPaths (authPSK (cAuth sample_production)) = []"
  "pskGRPCMethods (authPSK (cAuth sample_production)) = []"
  "authSkipGRPCMethods (cAuth sample_production) = [''/grpc.health.v1.Health/*'']"
  by (simp_all add: sample_values decode_auth_def)

lemma sample_same_caller:
  "same_caller (cAuth sample_production) (sample_gin ''/api/v1/scheduler/jobs/create'') sample_call"
  unfolding same_caller_def sample_skip sample_routes
  using create_not_version create_not_health
  by (simp add: sample_gin_def sample_headers_def sample_call_def del: MatchesAny.simps(2))

theorem transports_admit_alike_witness:
  "\<exists>c'. (\<forall>next w. Authentication_mw sample_verify (cAuth sample_production) next
       (sample_gin ''/api/v1/scheduler/jobs/create'' :: unit gin, w :: nat) = next (c', w)) \<and>
     cPrincipal (gCtx c') = Some \<lparr>pID = ''alice'', pType = TypeUser, pTenantID = ''t1''\<rparr>"
proof -
  have fails: "isl (sample_verify [])" by (simp add: sample_verify_def)
  have "\<exists>ctx. authenticateGRPC sample_verify (cAuth sample_production) sample_call = Inr ctx \<and>
      cPrincipal ctx = Some \<lparr>pID = ''alice'', pType = TypeUser, pTenantID = ''t1''\<rparr>"
    using create_not_health
    by (simp add: authenticateGRPC_def sample_skip sample_routes sample_call_def sample_verify_def EqualFold_def
        Let_def del: MatchesAny.simps(2))
  then obtain ctx where "authenticateGRPC sample_verify (cAuth sample_production) sample_call = Inr ctx"
    and "cPrincipal ctx = Some \<lparr>pID = ''alice'', pType = TypeUser, pTenantID = ''t1''\<rparr>" by blast
  with conjunct2 [OF conjunct2 [OF transports_admit_alike [where verify = sample_verify and
    c = "sample_gin ''/api/v1/scheduler/jobs/create'' :: unit gin", OF sample_same_caller fails]]]
  show ?thesis by simp
qed

subsection \<open>Repeated requests\<close>

text \<open>
  What the idempotency manager of the platform library promises about one key: while an owner
  holds it for a fingerprint, the result the owner stores is what the next request with the same
  key and fingerprint is told.
\<close>

definition store_laws :: "('w \<Rightarrow> string \<Rightarrow> string \<Rightarrow> string \<Rightarrow> bool) \<Rightarrow> ('b, 'w) manager \<Rightarrow> bool" where
  "store_laws held m \<longleftrightarrow>
     (\<forall>key fp w owner w'. mgBegin m key fp w = (Inr (StateAcquired owner), w') \<longrightarrow> held w' key owner fp) \<and>
     (\<forall>key fp w owner r. held w key owner fp \<longrightarrow>
        fst (mgBegin m key fp (mgComplete m key owner r w)) = Inr (StateCompleted (Some r))) \<and>
     (\<forall>key fp w owner f. held w key owner fp \<longrightarrow>
        fst (mgBegin m key fp (mgFail m key owner f w)) = Inr (StateFailed f))"

definition idempotent_request ::
  "(string \<Rightarrow> string) \<Rightarrow> ('b, 'w) manager \<Rightarrow> string list \<Rightarrow> string \<Rightarrow> string \<Rightarrow> 'b gin \<Rightarrow> bool" where
  "idempotent_request sha m paths key fp c \<longleftrightarrow>
     mgEnabled m \<and> cIdempotencyKey (gCtx c) = Some key \<and> gMethod c = ''POST'' \<and>
     MatchesAny (gFullPath c) paths \<and> idempotencyFingerprint sha c = Inr fp"

lemma idempotent_first:
  assumes "idempotent_request sha m paths key fp c" and "mgBegin m key fp w = (Inr (StateAcquired owner), w1)"
  shows "IdempotencyExecution_mw sha (Some m) paths h (c, w) = persist_result m key owner (h (c, w1))"
  using assms by (simp add: IdempotencyExecution_mw_def idempotent_request_def)

lemma idempotent_completed:
  assumes "idempotent_request sha m paths key fp c" and "fst (mgBegin m key fp w) = Inr (StateCompleted (Some r))"
  shows "IdempotencyExecution_mw sha (Some m) paths h (c, w) =
    (c\<lparr>gWritten := Some (200, Some (r\<lparr>rRequestID := gRequestID c\<rparr>))\<rparr>, snd (mgBegin m key fp w))"
  using assms by (cases "mgBegin m key fp w")
    (simp add: IdempotencyExecution_mw_def idempotent_request_def write_json_def)

lemma idempotent_failed:
  assumes "idempotent_request sha m paths key fp c" and "fst (mgBegin m key fp w) = Inr (StateFailed f)"
  shows "IdempotencyExecution_mw sha (Some m) paths h (c, w) =
    (c\<lparr>gWritten := Some (faHTTPStatus f,
       Some \<lparr>rCode = faCode f, rMessage = faMessage f, rBody = None, rRequestID = gRequestID c\<rparr>)\<rparr>,
     snd (mgBegin m key fp w))"
  using assms by (cases "mgBegin m key fp w")
    (simp add: IdempotencyExecution_mw_def idempotent_request_def stop_with_def write_json_def)

definition sample_manager :: "(unit, unit idem_state option) manager" where
  "sample_manager =
     \<lparr>mgEnabled = True,
      mgBegin = (\<lambda>key fp w. case w of None \<Rightarrow> (Inr (StateAcquired ''owner''), Some StateProcessing)
         | Some (StateAcquired owner) \<Rightarrow> (Inr StateProcessing, w) | Some s \<Rightarrow> (Inr s, w)),
      mgComplete = (\<lambda>key owner r w. Some (StateCompleted (Some r))),
      mgFail = (\<lambda>key owner f w. Some (StateFailed f))\<rparr>"

definition sample_held :: "unit idem_state option \<Rightarrow> string \<Rightarrow> string \<Rightarrow> string \<Rightarrow> bool" where
  "sample_held w key owner fp \<longleftrightarrow> w = Some StateProcessing"

lemma sample_store_laws: "store_laws sample_held sample_manager"
  by (auto simp: store_laws_def sample_manager_def sample_held_def split: option.splits idem_state.splits)

text \<open>
  C34. A request with an idempotency key on a configured route runs its operation once, when the
  manager answers and keeps what it is given (\<open>store_laws\<close>), and the operation writes a response and
  does not give up the key. The first request that acquires the key leaves exactly the operation's
  response and state, with the result stored. A repetition with the same key and fingerprint gets the
  same code and message and, for a success, the same body with status 200, under its own request id; a
  failure is repeated with its status. And it runs no operation: for every operation whatsoever, the
  state it leaves is the one the manager's answer left.
\<close>

theorem repetition_replays_the_response:
  assumes "store_laws held m" and "idempotent_request sha m paths key fp c1" and "idempotent_request sha m paths key fp c2"
    and "mgBegin m key fp w = (Inr (StateAcquired owner), w1)"
    and "h (c1, w1) = (c1', w2)" and "held w1 key owner fp \<longrightarrow> held w2 key owner fp"
    and "gWritten c1' = Some (status, Some r)"
    and "w3 = (if status < 400 then mgComplete m key owner (r\<lparr>rRequestID := []\<rparr>) w2
               else mgFail m key owner \<lparr>faCode = rCode r, faMessage = rMessage r, faHTTPStatus = status\<rparr> w2)"
  shows "IdempotencyExecution_mw sha (Some m) paths h (c1, w) = (c1', w3) \<and>
     (\<forall>h2. IdempotencyExecution_mw sha (Some m) paths h2 (c2, w3) =
        (c2\<lparr>gWritten := Some (if status < 400 then 200 else status,
            Some (r\<lparr>rBody := (if status < 400 then rBody r else None), rRequestID := gRequestID c2\<rparr>))\<rparr>,
         snd (mgBegin m key fp w3)))"
proof -
  have held: "held w2 key owner fp" using assms(1,4,6) by (auto simp: store_laws_def)
  let ?stored = "r\<lparr>rRequestID := []\<rparr>"
  let ?failure = "\<lparr>faCode = rCode r, faMessage = rMessage r, faHTTPStatus = status\<rparr>"
  have first: "IdempotencyExecution_mw sha (Some m) paths h (c1, w) = (c1', w3)"
    using idempotent_first [OF assms(2,4), of h] assms(5,7,8) by (simp add: persist_result_def Let_def)
  show ?thesis
  proof (cases "400 \<le> status")
    case True
    then have "fst (mgBegin m key fp w3) = Inr (StateFailed ?failure)"
      using assms(1,8) held by (simp add: store_laws_def)
    from idempotent_failed [OF assms(3) this] True first show ?thesis by simp
  next
    case False
    then have "fst (mgBegin m key fp w3) = Inr (StateCompleted (Some ?stored))"
      using assms(1,8) held by (simp add: store_laws_def)
    from idempotent_completed [OF assms(3) this] False first show ?thesis by simp
  qed
qed

definition keyed_gin :: "string \<Rightarrow> unit gin" where
  "keyed_gin i = (sample_gin ''/api/v1/me'')
     \<lparr>gRequestID := i, gCtx := (gCtx (sample_gin ''/api/v1/me'' :: unit gin))\<lparr>cIdempotencyKey := Some ''k''\<rparr>\<rparr>"

lemma keyed_request:
  "idempotent_request (\<lambda>s. ''fp'') sample_manager [''/api/v1/me''] ''k'' ''fp'' (keyed_gin i)"
proof -
  have "literal ''/api/v1/me''" by (simp add: literal_def)
  then have "MatchesAny ''/api/v1/me'' [''/api/v1/me'']"
    by (simp add: MatchesAny_iff Match_literal del: MatchesAny.simps)
  then show ?thesis
    by (simp add: idempotent_request_def keyed_gin_def sample_gin_def sample_manager_def
        idempotencyFingerprint_def limited_body_def del: MatchesAny.simps)
qed

theorem repetition_replays_the_response_witness:
  "\<exists>w3. IdempotencyExecution_mw (\<lambda>s. ''fp'') (Some sample_manager) [''/api/v1/me''] (\<lambda>(c, w). (OK () c, w))
      (keyed_gin ''first'', None) = (OK () (keyed_gin ''first''), w3) \<and>
   (\<forall>h2. IdempotencyExecution_mw (\<lambda>s. ''fp'') (Some sample_manager) [''/api/v1/me''] h2 (keyed_gin ''second'', w3) =
      (OK () (keyed_gin ''second''), w3))"
proof -
  have begin1: "mgBegin sample_manager ''k'' ''fp'' None = (Inr (StateAcquired ''owner''), Some StateProcessing)"
    by (simp add: sample_manager_def)
  let ?first = "(\<lambda>(c, w). (OK () c, w)) :: unit gin \<times> unit idem_state option \<Rightarrow> unit gin \<times> unit idem_state option"
  let ?r = "\<lparr>rCode = 0, rMessage = ''success'', rBody = Some (), rRequestID = ''first''\<rparr>"
  have run: "?first (keyed_gin ''first'', Some StateProcessing) = (OK () (keyed_gin ''first''), Some StateProcessing)"
    by simp
  have written: "gWritten (OK () (keyed_gin ''first'')) = Some (200, Some ?r)"
    by (simp add: OK_def write_json_def keyed_gin_def CodeOK_def)
  have stored: "Some (StateCompleted (Some (?r\<lparr>rRequestID := []\<rparr>))) =
      (if (200 :: int) < 400 then mgComplete sample_manager ''k'' ''owner'' (?r\<lparr>rRequestID := []\<rparr>) (Some StateProcessing)
       else mgFail sample_manager ''k'' ''owner'' \<lparr>faCode = rCode ?r, faMessage = rMessage ?r, faHTTPStatus = 200\<rparr>
         (Some StateProcessing))"
    by (simp add: sample_manager_def)
  have "gRequestID (keyed_gin ''second'') = ''second''" by (simp add: keyed_gin_def)
  with repetition_replays_the_response [where h = ?first, OF sample_store_laws keyed_request [where i = "''first''"]
      keyed_request [where i = "''second''"] begin1 run impI written stored]
  show ?thesis by (auto simp: sample_manager_def OK_def write_json_def CodeOK_def)
qed

subsection \<open>Two transports, one service\<close>

definition grpc_of_code :: "int \<Rightarrow> grpc_code" where
  "grpc_of_code c =
     (if c = CodeInvalidArgument then GInvalidArgument
      else if c = CodeNotFound then GNotFound
      else if c = CodeUnauthorized then GUnauthenticated
      else if c = CodeForbidden then GPermissionDenied
      else if c = CodeConflict \<or> c = CodeRequestInProgress then GAborted
      else if c = CodeDependencyUnavailable then GUnavailable
      else if c = CodeRequestTimeout then GDeadlineExceeded
      else GInternal)"

lemma wire_errors: "fail_response e = (h, c, msg) \<Longrightarrow> grpcError e = (grpc_of_code c, msg)"
  by (auto simp: fail_response_def grpcError_def grpc_of_code_def Let_def Internal_def code_defs
      split: option.splits)

text \<open>The same outcome over HTTP and over gRPC: \<open>view\<close> relates the two forms of a value.\<close>

definition same_reply :: "(api_body \<Rightarrow> 'p \<Rightarrow> bool) \<Rightarrow> api \<times> world \<Rightarrow> (status + 'p) \<times> world \<Rightarrow> bool" where
  "same_reply view http rpc \<longleftrightarrow> snd http = snd rpc \<and>
     (case gWritten (fst http) of
        Some (status, Some r) \<Rightarrow>
          (case fst rpc of
             Inl (code, message) \<Rightarrow> rBody r = None \<and> code = grpc_of_code (rCode r) \<and> message = rMessage r
           | Inr p \<Rightarrow> status = 200 \<and> rCode r = CodeOK \<and> (case rBody r of Some b \<Rightarrow> view b p | None \<Rightarrow> False))
      | _ \<Rightarrow> False)"

lemma same_reply_handle:
  assumes "bind dec bound c = Inr r" and "operation (gCtx c) r = (f :: 'a service)"
    and "\<And>v. view (body v) (g v)"
  shows "same_reply view (handle dec bound operation body (c, w)) (attempt (on_error grpcError f) (\<lambda>v. ok (g v)) w)"
proof (cases "f w")
  case (Pair res w')
  show ?thesis
  proof (cases res)
    case (Inl e)
    obtain h code msg where wire: "fail_response e = (h, code, msg)" by (metis prod.collapse)
    with Inl Pair assms wire_errors [OF wire] show ?thesis
      by (simp add: same_reply_def handle_def prog_simps Fail_def write_json_def)
  next
    case (Inr v)
    with Pair assms show ?thesis
      by (simp add: same_reply_def handle_def prog_simps OK_def write_json_def)
  qed
qed

definition job_view :: "api_body \<Rightarrow> pb_job \<Rightarrow> bool" where
  "job_view b p \<longleftrightarrow> (\<exists>v. b = JobB (jobBody v) \<and> p = protoJob v)"

definition execution_view :: "api_body \<Rightarrow> pb_execution \<Rightarrow> bool" where
  "execution_view b p \<longleftrightarrow> (\<exists>v. b = ExecutionB (executionBody v) \<and> p = protoExecution v)"

definition job_page_view :: "api_body \<Rightarrow> pb_job pb_page \<Rightarrow> bool" where
  "job_page_view b p \<longleftrightarrow> (\<exists>v. b = JobPageB (jobPageBody v) \<and> p = pb_page_of protoJob v)"

definition execution_page_view :: "api_body \<Rightarrow> pb_execution pb_page \<Rightarrow> bool" where
  "execution_page_view b p \<longleftrightarrow> (\<exists>v. b = ExecutionPageB (executionPageBody v) \<and> p = pb_page_of protoExecution v)"

lemmas view_defs = job_view_def execution_view_def job_page_view_def execution_page_view_def

definition deleted_view :: "api_body \<Rightarrow> unit \<Rightarrow> bool" where
  "deleted_view b p \<longleftrightarrow> b = DeletedB"

text \<open>The requests of the two transports, field by field; times that are no time have no HTTP form.\<close>

definition update_form :: "pb_update \<Rightarrow> update_request" where
  "update_form q = \<lparr>urID = puId q, urVersion = puVersion q, urInput = update_input (puFields q)\<rparr>"

definition list_jobs_form :: "pb_list_jobs \<Rightarrow> time option \<Rightarrow> time option \<Rightarrow> list_jobs_request" where
  "list_jobs_form q from to =
     \<lparr>ljFilter = \<lparr>jfTenantID = plTenantId q, jfApplicationID = plApplicationId q, jfKeyword = plKeyword q,
        jfIDs = plIds q, jfStatuses = plStatuses q, jfUpstreams = plUpstreams q,
        jfCreatedFrom = from, jfCreatedTo = to\<rparr>,
      ljStatus = plStatus q, ljPage = plPage q, ljPageSize = plPageSize q\<rparr>"

definition list_executions_form :: "pb_list_executions \<Rightarrow> time option \<Rightarrow> time option \<Rightarrow> list_executions_request" where
  "list_executions_form q from to =
     \<lparr>leFilter = \<lparr>efJobID = pxJobId q, efKeyword = pxKeyword q, efIDs = pxIds q, efStatuses = pxStatuses q,
        efTriggerTypes = pxTriggerTypes q, efStartedFrom = from, efStartedTo = to,
        efDurationMin = pxDurationMin q, efDurationMax = pxDurationMax q\<rparr>,
      lePage = pxPage q, lePageSize = pxPageSize q\<rparr>"

lemmas form_defs = update_form_def list_jobs_form_def list_executions_form_def

lemmas handler_defs = CreateJob_h_def UpdateJob_h_def DeleteJob_h_def GetJob_h_def ListJobs_h_def
  TriggerJob_h_def GetExecution_h_def ListExecutions_h_def

lemmas rpc_defs = CreateJob_rpc_def UpdateJob_rpc_def DeleteJob_rpc_def GetJob_rpc_def ListJobs_rpc_def
  TriggerJob_rpc_def GetExecution_rpc_def ListExecutions_rpc_def

lemma attempt_ok: "attempt m ok = m"
  by (rule ext) (simp add: prog_simps split: prod.splits sum.splits)

lemma same_reply_unit:
  assumes "bind dec bound c = Inr r"
  shows "same_reply deleted_view (handle dec bound operation (\<lambda>v. DeletedB) (c, w))
     (on_error grpcError (operation (gCtx c) r) w)"
proof -
  have "same_reply deleted_view (handle dec bound operation (\<lambda>v. DeletedB) (c, w))
     (attempt (on_error grpcError (operation (gCtx c) r)) (\<lambda>v. ok ()) w)"
    by (rule same_reply_handle [OF assms refl]) (simp add: deleted_view_def)
  then show ?thesis by (simp add: attempt_ok)
qed

text \<open>
  C35. The two transports are one service: when the HTTP request of an operation is accepted and
  carries what the gRPC request carries, both run the same operation for the same context and
  leave the same state; an error is answered with the same message and with the gRPC status that
  belongs to the code of the HTTP body, and a result is the same job, execution or page, in the
  form of the transport (the page numbers of gRPC are 32 bits wide).
\<close>

theorem transports_agree:
  "(bind create_decoder input_bound c = Inr (create_input create) \<longrightarrow>
      same_reply job_view (CreateJob_h env create_decoder (c, w)) (CreateJob_rpc env (gCtx c) create w)) \<and>
   (bind update_decoder update_bound c = Inr (update_form update) \<longrightarrow>
      same_reply job_view (UpdateJob_h env update_decoder (c, w)) (UpdateJob_rpc env (gCtx c) update w)) \<and>
   (bind delete_decoder delete_bound c = Inr \<lparr>drID = i, drVersion = version\<rparr> \<longrightarrow>
      same_reply deleted_view (DeleteJob_h env delete_decoder (c, w)) (DeleteJob_rpc env (gCtx c) i version w)) \<and>
   (bind get_decoder (\<lambda>i. i \<noteq> []) c = Inr i \<longrightarrow>
      same_reply job_view (GetJob_h env get_decoder (c, w)) (GetJob_rpc env (gCtx c) i w) \<and>
      same_reply execution_view (GetExecution_h env get_decoder (c, w)) (GetExecution_rpc env (gCtx c) i w)) \<and>
   (bind trigger_decoder trigger_bound c = Inr \<lparr>trID = i, trExpectedVersion = version\<rparr> \<longrightarrow>
      same_reply execution_view (TriggerJob_h env trigger_decoder (c, w)) (TriggerJob_rpc env (gCtx c) i version w)) \<and>
   (protoTime (plCreatedFrom jq) = Inr from \<and> protoTime (plCreatedTo jq) = Inr to \<and>
    bind jobs_decoder list_jobs_bound c = Inr (list_jobs_form jq from to) \<longrightarrow>
      same_reply job_page_view (ListJobs_h env jobs_decoder (c, w)) (ListJobs_rpc env (gCtx c) jq w)) \<and>
   (protoTime (pxStartedFrom xq) = Inr from \<and> protoTime (pxStartedTo xq) = Inr to \<and>
    bind executions_decoder list_executions_bound c = Inr (list_executions_form xq from to) \<longrightarrow>
      same_reply execution_page_view (ListExecutions_h env executions_decoder (c, w))
        (ListExecutions_rpc env (gCtx c) xq w))"
  (is "?create \<and> ?update \<and> ?delete \<and> ?get \<and> ?trigger \<and> ?jobs \<and> ?executions")
proof (intro conjI)
  show ?create unfolding handler_defs rpc_defs
    by (rule impI, rule same_reply_handle, assumption) (auto simp: view_defs)
  show ?update unfolding handler_defs rpc_defs
    by (rule impI, rule same_reply_handle, assumption) (auto simp: view_defs form_defs)
  show ?delete unfolding handler_defs rpc_defs
  proof
    assume "bind delete_decoder delete_bound c = Inr \<lparr>drID = i, drVersion = version\<rparr>"
    from same_reply_unit [OF this, of "\<lambda>ctx r. Delete env ctx (drID r) (drVersion r)" w]
    show "same_reply deleted_view (handle delete_decoder delete_bound (\<lambda>ctx r. Delete env ctx (drID r) (drVersion r))
        (\<lambda>v. DeletedB) (c, w)) (on_error grpcError (Delete env (gCtx c) i version) w)"
      by simp
  qed
  show ?get unfolding handler_defs rpc_defs
    by (intro impI conjI) (rule same_reply_handle, assumption, auto simp: view_defs)+
  show ?trigger unfolding handler_defs rpc_defs
    by (rule impI, rule same_reply_handle, assumption) (auto simp: view_defs)
  show ?jobs unfolding handler_defs
    by (rule impI, simp only: ListJobs_rpc_def sum.case, rule same_reply_handle)
       (auto simp: view_defs form_defs)
  show ?executions unfolding handler_defs
    by (rule impI, simp only: ListExecutions_rpc_def sum.case, rule same_reply_handle)
       (auto simp: view_defs form_defs)
qed

theorem transports_agree_witness:
  "same_reply execution_view
     (TriggerJob_h sample_env (\<lambda>c. Inr \<lparr>trID = ''j1'', trExpectedVersion = 1\<rparr>)
        (sample_gin ''/api/v1/scheduler/jobs/trigger'', sample_world [sample_job] []))
     (TriggerJob_rpc sample_env (gCtx (sample_gin ''/api/v1/scheduler/jobs/trigger'' :: api)) ''j1'' 1
        (sample_world [sample_job] []))"
proof -
  have "bind (\<lambda>c :: api. Inr \<lparr>trID = ''j1'', trExpectedVersion = 1\<rparr>) trigger_bound
      (sample_gin ''/api/v1/scheduler/jobs/trigger'') = Inr \<lparr>trID = ''j1'', trExpectedVersion = 1\<rparr>"
    by (simp add: bind_def trigger_bound_def version_bound_def)
  then show ?thesis using transports_agree by blast
qed

subsection \<open>Times over the wire\<close>

text \<open>
  Times survive the trip over gRPC: a timestamp is accepted as the time \<open>t\<close> exactly when it
  is the timestamp that \<open>timestamppb.New\<close> makes of \<open>t\<close> and \<open>t\<close> lies in the years 1 to 9999; so what
  a server sends is read back unchanged, no two timestamps denote one time, and a timestamp that
  is absent stays absent.
\<close>

lemma timestamps_round_trip:
  "(protoTime (Some ts) = Inr (Some t) \<longleftrightarrow>
      ts = timestamp_New t \<and> -62135596800 * 1000000000 \<le> t \<and> t < 253402300800 * 1000000000) \<and>
   (protoTime value = Inr None \<longleftrightarrow> value = None)"
proof -
  have "AsTime (timestamp_New t) = t" by (simp add: AsTime_def timestamp_New_def)
  moreover have "CheckValid (timestamp_New t) \<longleftrightarrow> -62135596800 * 1000000000 \<le> t \<and> t < 253402300800 * 1000000000"
  proof -
    have "t = t div 1000000000 * 1000000000 + t mod 1000000000" by simp
    moreover have "0 \<le> t mod 1000000000" "t mod 1000000000 < 1000000000" by simp_all
    ultimately have "-62135596800 \<le> t div 1000000000 \<longleftrightarrow> -62135596800 * 1000000000 \<le> t"
      and "t div 1000000000 \<le> 253402300799 \<longleftrightarrow> t < 253402300800 * 1000000000"
      by linarith+
    then show ?thesis by (simp add: CheckValid_def timestamp_New_def)
  qed
  moreover have "ts = timestamp_New (AsTime ts)" if "CheckValid ts"
    using that by (cases ts) (simp add: CheckValid_def AsTime_def timestamp_New_def)
  ultimately show ?thesis by (auto simp: protoTime_def split: option.split)
qed

subsection \<open>Readiness\<close>

text \<open>
  Readiness does not depend on which of the two checks answers first, and all three views of
  it agree: the service is ready exactly when every configured dependency answered its ping, HTTP
  then answers 200 and else 503 with the same report, and the gRPC health service \<open>SERVING\<close> and
  else \<open>NOT_SERVING\<close>; the report has the result of each of the two checks.
\<close>

lemma readiness_is_confluent:
  "Ready True db redis = Ready False db redis \<and>
   (snd (Ready f db redis) \<longleftrightarrow> available db \<and> available redis) \<and>
   (health_Check f db redis = (if available db \<and> available redis then SERVING else NOT_SERVING)) \<and>
   hsDependencies (fst (Ready f db redis)) =
     [''database'' \<mapsto> crDependency (checkDatabase db), ''redis'' \<mapsto> crDependency (checkRedis redis)] \<and>
   gWritten (fst (Ready_h f db redis (c, w))) =
     Some (if available db \<and> available redis
       then (200, Some \<lparr>rCode = CodeOK, rMessage = ''success'',
               rBody = Some (HealthB (fst (Ready f db redis))), rRequestID = gRequestID c\<rparr>)
       else (503, Some \<lparr>rCode = CodeDependencyUnavailable, rMessage = ''service is not ready'',
               rBody = Some (HealthB (fst (Ready f db redis))), rRequestID = gRequestID c\<rparr>))"
  by (cases f) (auto simp: Ready_def checkDatabase_def checkRedis_def check_dependency_ready health_Check_def
      Ready_h_def OK_def write_json_def fun_upd_twist)

subsection \<open>Tokens\<close>










end
