(* ===== verification/Documentation_Theorems.thy ===== *)
theory Documentation_Theorems
  imports Documentation Transport_Theorems
begin

section \<open>The documentation and the service agree\<close>

text \<open>
  What the operations read and write against what the Swagger document says: the responses conform
  to their documented schema, and the requests that the document requires to have a property are
  the ones the service refuses without it.
\<close>

subsection \<open>Bodies\<close>



lemma defined:
  "map_of definitions ''buildinfo.Info'' = Some BuildInfo_schema"
  "map_of definitions ''health.Dependency'' = Some HealthDependency_schema"
  "map_of definitions ''health.Status'' = Some HealthStatus_schema"
  "map_of definitions ''httptransport.CreateJobRequest'' = Some CreateJobRequest_schema"
  "map_of definitions ''httptransport.DeleteJobRequest'' = Some DeleteJobRequest_schema"
  "map_of definitions ''httptransport.ExecutionBody'' = Some ExecutionBody_schema"
  "map_of definitions ''httptransport.ExecutionPageBody'' = Some ExecutionPageBody_schema"
  "map_of definitions ''httptransport.JobBody'' = Some JobBody_schema"
  "map_of definitions ''httptransport.JobIDRequest'' = Some JobIDRequest_schema"
  "map_of definitions ''httptransport.JobPageBody'' = Some JobPageBody_schema"
  "map_of definitions ''httptransport.ListExecutionsRequest'' = Some ListExecutionsRequest_schema"
  "map_of definitions ''httptransport.ListJobsRequest'' = Some ListJobsRequest_schema"
  "map_of definitions ''httptransport.MeResponseBody'' = Some MeResponseBody_schema"
  "map_of definitions ''httptransport.Response'' = Some Response_schema"
  "map_of definitions ''httptransport.TriggerJobRequest'' = Some TriggerJobRequest_schema"
  "map_of definitions ''httptransport.UpdateJobRequest'' = Some UpdateJobRequest_schema"
  by (simp_all add: definitions_def)

lemmas schema_defs =
  BuildInfo_schema_def HealthDependency_schema_def HealthStatus_schema_def ExecutionBody_schema_def
  ExecutionPageBody_schema_def JobBody_schema_def JobPageBody_schema_def MeResponseBody_schema_def Response_schema_def











subsection \<open>Responses\<close>











lemmas operation_docs = doc_me_def doc_scheduler_executions_get_def doc_scheduler_executions_list_def
  doc_scheduler_jobs_create_def doc_scheduler_jobs_delete_def doc_scheduler_jobs_get_def doc_scheduler_jobs_list_def
  doc_scheduler_jobs_trigger_def doc_scheduler_jobs_update_def doc_version_def doc_live_def doc_ready_def













subsection \<open>Requests\<close>

















definition required_properties :: "doc_operation \<Rightarrow> string list" where
  "required_properties op =
     (case doRequest op of
        Some (SRef name) \<Rightarrow> (case map_of definitions name of Some (SObject required props) \<Rightarrow> required | _ \<Rightarrow> [])
      | _ \<Rightarrow> [])"

lemma required:
  "required_properties doc_scheduler_jobs_create =
     [''cron_expression'', ''full_method'', ''name'', ''timeout_milliseconds'', ''upstream'']"
  "required_properties doc_scheduler_jobs_update =
     [''cron_expression'', ''full_method'', ''id'', ''name'', ''timeout_milliseconds'', ''upstream'', ''version'']"
  "required_properties doc_scheduler_jobs_delete = [''id'', ''version'']"
  "required_properties doc_scheduler_jobs_get = [''id'']"
  "required_properties doc_scheduler_jobs_list = [''application_id'', ''tenant_id'']"
  "required_properties doc_scheduler_jobs_trigger = [''expected_version'', ''id'']"
  "required_properties doc_scheduler_executions_get = [''id'']"
  "required_properties doc_scheduler_executions_list = [''job_id'']"
  "required_properties doc_me = []" "required_properties doc_version = []"
  "required_properties doc_live = []" "required_properties doc_ready = []"
  by (simp_all add: required_properties_def operation_docs defined CreateJobRequest_schema_def UpdateJobRequest_schema_def
      DeleteJobRequest_schema_def JobIDRequest_schema_def ListJobsRequest_schema_def TriggerJobRequest_schema_def
      ListExecutionsRequest_schema_def)







subsection \<open>The operations of the table\<close>










text \<open>
  A request arrives as it was sent: when a client marshals a value of a request struct, with
  numbers of 64 bits and times whose text is read back, and the service reads that document, the
  operation gets that value.
\<close>

lemma requests_arrive_as_sent:
  assumes "\<And>t. parse (format t) = Some t"
  shows "(in_i64 (inTimeoutMilliseconds i) \<and> read c = Inr (JObj (JobInput_members i)) \<longrightarrow>
      decode_into read JobInput_struct zero_input c = Inr i) \<and>
    (in_i64 (urVersion u) \<and> in_i64 (inTimeoutMilliseconds (urInput u)) \<and>
       read c = Inr (JObj (UpdateJobRequest_members u)) \<longrightarrow>
      decode_into read UpdateJobRequest_struct zero_update c = Inr u) \<and>
    (in_i64 (drVersion d) \<and> read c = Inr (JObj (DeleteJobRequest_members d)) \<longrightarrow>
      decode_into read DeleteJobRequest_struct zero_delete c = Inr d) \<and>
    (read c = Inr (JObj (JobIDRequest_members k)) \<longrightarrow> decode_into read JobIDRequest_struct [] c = Inr k) \<and>
    (in_i64 (trExpectedVersion t) \<and> read c = Inr (JObj (TriggerJobRequest_members t)) \<longrightarrow>
      decode_into read TriggerJobRequest_struct zero_trigger c = Inr t) \<and>
    (in_i64 (ljPage lj) \<and> in_i64 (ljPageSize lj) \<and> read c = Inr (JObj (ListJobsRequest_members format lj)) \<longrightarrow>
      decode_into read (ListJobsRequest_struct parse) zero_list_jobs c = Inr lj) \<and>
    (in_i64 (lePage le) \<and> in_i64 (lePageSize le) \<and> pred_option in_i64 (efDurationMin (leFilter le)) \<and>
       pred_option in_i64 (efDurationMax (leFilter le)) \<and>
       read c = Inr (JObj (ListExecutionsRequest_members format le)) \<longrightarrow>
      decode_into read (ListExecutionsRequest_struct parse) zero_list_executions c = Inr le)"
  by (auto simp: decode_into_def store_object_def input_round_trip update_round_trip small_round_trips
      list_jobs_round_trip [where format = format, OF assms] list_executions_round_trip [where format = format, OF assms]
      split: option.splits)

text \<open>A text for the times that is read back: a sign and as many strokes.\<close>

definition strokes :: "time \<Rightarrow> string" where
  "strokes t = (if t < 0 then CHR ''-'' else CHR ''+'') # replicate (nat \<bar>t\<bar>) CHR ''|''"

definition count_strokes :: "string \<Rightarrow> time option" where
  "count_strokes s =
     (case s of [] \<Rightarrow> None | sign # rest \<Rightarrow> Some (if sign = CHR ''-'' then - int (length rest) else int (length rest)))"

lemma strokes_counted: "count_strokes (strokes t) = Some t"
  by (simp add: count_strokes_def strokes_def)

lemma sample_input_arrives:
  "decode_into (\<lambda>c. Inr (JObj (JobInput_members sample_input))) JobInput_struct zero_input (sample_gin []) = Inr sample_input"
proof -
  have "in_i64 (inTimeoutMilliseconds sample_input)" by (simp add: sample_input_def in_i64_def)
  with requests_arrive_as_sent [of count_strokes strokes, OF strokes_counted, of sample_input
      "\<lambda>c. Inr (JObj (JobInput_members sample_input))" "sample_gin []"]
  show ?thesis by blast
qed

end
