(* ===== verification/Http_Server.thy ===== *)
theory Http_Server
  imports Http_Gate Servers
begin

section \<open>The whole chain of the HTTP server, with panics\<close>

text \<open>
  All that \<open>NewServer\<close> of \<^verbatim>\<open>transport/http/server.go\<close> puts in front of an operation, in its order:
  next to \<open>serve_api\<close> the request logger, the recovery from panics and the metrics. A panic unwinds
  the chain up to the recovery, so that what the middleware in between does after \<open>c.Next()\<close> is left
  out. The state of that part of the chain carries the value of the panic, if any, and what follows
  \<open>c.Next()\<close> is skipped when there is one; nothing in it undoes what was done before. (The tracing
  middleware of the library is transparent, and a panic about a connection that is gone, which gin
  does not answer, is not shown.)
\<close>

subsection \<open>Unwinding\<close>

type_synonym 'w unwinding = "'w \<times> string option"

definition unless_panic :: "('w \<Rightarrow> 'w) \<Rightarrow> 'w unwinding \<Rightarrow> 'w unwinding" where
  "unless_panic f = (\<lambda>(w, p). if p = None then (f w, None) else (w, p))"

definition on_state :: "('w \<Rightarrow> 'x \<times> 'w) \<Rightarrow> 'w unwinding \<Rightarrow> 'x \<times> 'w unwinding" where
  "on_state f = (\<lambda>(w, p). let (x, w') = f w in (x, (w', p)))"

definition unwinding_limiter :: "'w limiter \<Rightarrow> 'w unwinding limiter" where
  "unwinding_limiter l =
     \<lparr>liEnabled = liEnabled l, liFailOpen = liFailOpen l,
      liBackend = map_option (\<lambda>backend key rule. on_state (backend key rule)) (liBackend l)\<rparr>"

definition unwinding_manager :: "('b, 'w) manager \<Rightarrow> ('b, 'w unwinding) manager" where
  "unwinding_manager m =
     \<lparr>mgEnabled = mgEnabled m, mgBegin = (\<lambda>key fingerprint. on_state (mgBegin m key fingerprint)),
      mgComplete = (\<lambda>key owner r. unless_panic (mgComplete m key owner r)),
      mgFail = (\<lambda>key owner f. unless_panic (mgFail m key owner f))\<rparr>"

definition unwinding_deps :: "('b, 'w) http_deps \<Rightarrow> ('b, 'w unwinding) http_deps" where
  "unwinding_deps d =
     \<lparr>hdGeneratedID = hdGeneratedID d, hdValidKey = hdValidKey d,
      hdExceeded = (\<lambda>(c, (w, p)). p = None \<and> hdExceeded d (c, w)),
      hdParseMediaType = hdParseMediaType d, hdLimiter = unwinding_limiter (hdLimiter d), hdVerify = hdVerify d,
      hdEnforce = hdEnforce d, hdSha256Hex = hdSha256Hex d, hdManager = map_option unwinding_manager (hdManager d)\<rparr>"

text \<open>A handler that may panic, as a handler on such a state, and back.\<close>

definition raising :: "('b, 'w) panicking \<Rightarrow> ('b, 'w unwinding) handler" where
  "raising next = (\<lambda>(c, (w, p)). case next (c, w) of ((c', w'), q) \<Rightarrow> (c', (w', q)))"

definition unwound :: "('b, 'w unwinding) handler \<Rightarrow> ('b, 'w) panicking" where
  "unwound h = (\<lambda>(c, w). case h (c, (w, None)) of (c', (w', p)) \<Rightarrow> ((c', w'), p))"

subsection \<open>The request logger\<close>

record log_line =
  llRequestID :: string
  llMethod :: string
  llPath :: string
  llStatus :: int
  llClientIP :: string

definition request_line :: "'b gin \<Rightarrow> log_line" where
  "request_line c =
     \<lparr>llRequestID = gRequestID c, llMethod = gMethod c, llPath = gFullPath c, llStatus = written_status c,
      llClientIP = gClientIP c\<rparr>"

definition RequestLogger_mw :: "(log_line \<Rightarrow> 'w \<Rightarrow> 'w) \<Rightarrow> ('b, 'w) middleware" where
  "RequestLogger_mw log_info next = (\<lambda>s. let (c, w) = next s in (c, log_info (request_line c) w))"

subsection \<open>NewServer\<close>

record ('b, 'w) observers =
  obMetricsEnabled :: bool
  obCount :: "string \<times> string \<times> int \<Rightarrow> 'w \<Rightarrow> 'w"
  obLog :: "log_line \<Rightarrow> 'w \<Rightarrow> 'w"
  obPanic :: "string \<times> string \<Rightarrow> 'w \<Rightarrow> 'w"   \<comment> \<open>\<open>http panic recovered\<close>: the request id and the panic\<close>

definition recovered_chain :: "('b, 'w) http_deps \<Rightarrow> config \<Rightarrow> ('b, 'w) observers \<Rightarrow> ('b, 'w unwinding) middleware" where
  "recovered_chain d cfg o1 next =
     (let u = unwinding_deps d in
      HTTPMetrics_mw (obMetricsEnabled o1) (\<lambda>labels. unless_panic (obCount o1 labels)) (
      SecurityHeaders_mw (
      CORS_mw (httpCORS (cHTTP cfg)) (
      MaxBody_mw (httpMaxBodyBytes (cHTTP cfg)) (
      Timeout_mw (httpRequestTimeout (cHTTP cfg)) (hdExceeded u) (
      RequireJSON_mw (hdParseMediaType u) (
      api_chain u cfg next)))))))"

definition serve_http ::
  "('b, 'w) http_deps \<Rightarrow> config \<Rightarrow> ('b, 'w) observers \<Rightarrow> ('b, 'w) panicking \<Rightarrow> ('b, 'w) handler" where
  "serve_http d cfg o1 operation =
     RequestID_mw (hdGeneratedID d) (
     IdempotencyKey_mw (hdValidKey d) (
     Environment_mw (activeProfile (cRuntime cfg)) (
     RequestLogger_mw (obLog o1) (
     Recovery_mw (obPanic o1) (unwound (recovered_chain d cfg o1 (raising operation)))))))"

subsection \<open>Without panics\<close>

text \<open>A middleware on the larger state is the one on the smaller state, as long as nothing panics.\<close>

definition steady :: "('b, 'w unwinding) handler \<Rightarrow> ('b, 'w) handler \<Rightarrow> bool" where
  "steady h' h \<longleftrightarrow> (\<forall>c w. h' (c, (w, None)) = (case h (c, w) of (c', w') \<Rightarrow> (c', (w', None))))"

lemma steadyD: "steady h' h \<Longrightarrow> h' (c, (w, None)) = (case h (c, w) of (c', w') \<Rightarrow> (c', (w', None)))"
  by (simp add: steady_def)

lemma steady_calm: "steady (raising (calm h)) h"
  by (simp add: steady_def raising_def calm_def split: prod.split)

lemma unwound_steady: "steady h' h \<Longrightarrow> unwound h' = calm h"
  by (auto simp: unwound_def calm_def fun_eq_iff steady_def split: prod.split)

lemma steady_RateLimit:
  "steady h' h \<Longrightarrow> steady (RateLimit_mw (unwinding_limiter l) rule dimension key h') (RateLimit_mw l rule dimension key h)"
  by (auto simp: steady_def RateLimit_mw_def unwinding_limiter_def Allow_def on_state_def Let_def
      split: option.splits sum.splits prod.splits)

lemma steady_Authentication: "steady h' h \<Longrightarrow> steady (Authentication_mw verify cfg h') (Authentication_mw verify cfg h)"
  by (auto simp: steady_def Authentication_mw_def JWT_mw_def Let_def split: option.splits sum.splits prod.splits)

lemma steady_Authorization: "steady h' h \<Longrightarrow> steady (Authorization_mw active enforce h') (Authorization_mw active enforce h)"
  by (auto simp: steady_def Authorization_mw_def split: option.splits decision.splits prod.splits)

lemma persist_steady:
  "persist_result (unwinding_manager m) key owner (c, (w, None)) =
     (case persist_result m key owner (c, w) of (c', w') \<Rightarrow> (c', (w', None)))"
  by (auto simp: persist_result_def unwinding_manager_def unless_panic_def Let_def split: option.splits prod.splits)

lemma steady_IdempotencyExecution:
  fixes h :: "('b, 'w) handler" and mgr :: "('b, 'w) manager option"
  assumes "steady h' h"
  shows "steady (IdempotencyExecution_mw sha (map_option unwinding_manager mgr) paths h')
    (IdempotencyExecution_mw sha mgr paths h)"
  unfolding steady_def
proof (intro allI)
  fix c :: "'b gin" and w :: 'w
  have begin_ok: "mgBegin (unwinding_manager m) key fingerprint (w, None) =
      (case mgBegin m key fingerprint w of (x, w') \<Rightarrow> (x, (w', None)))" for m :: "('b, 'w) manager" and key fingerprint
    by (simp add: unwinding_manager_def on_state_def Let_def split: prod.split)
  have active: "mgEnabled (unwinding_manager m) = mgEnabled m" for m :: "('b, 'w) manager" by (simp add: unwinding_manager_def)
  show "IdempotencyExecution_mw sha (map_option unwinding_manager mgr) paths h' (c, (w, None)) =
      (case IdempotencyExecution_mw sha mgr paths h (c, w) of (c', w') \<Rightarrow> (c', (w', None)))"
    unfolding IdempotencyExecution_mw_def prod.case option.map
    by (cases "cIdempotencyKey (gCtx c)"; cases mgr)
      (simp_all add: steadyD [OF assms] begin_ok persist_steady active split: sum.split prod.split idem_state.split option.split)
qed

lemma steady_Timeout:
  "steady h' h \<Longrightarrow> steady (Timeout_mw t (\<lambda>(c, (w, p)). p = None \<and> e (c, w)) h') (Timeout_mw t e h)"
  by (auto simp: steady_def Timeout_mw_def Let_def split: prod.split)

lemma steady_HTTPMetrics:
  "steady h' h \<Longrightarrow> steady (HTTPMetrics_mw active (\<lambda>labels. unless_panic (count labels)) h') (HTTPMetrics_mw active count h)"
  by (auto simp: steady_def HTTPMetrics_mw_def unless_panic_def Let_def split: prod.split)

lemma steady_SecurityHeaders: "steady h' h \<Longrightarrow> steady (SecurityHeaders_mw h') (SecurityHeaders_mw h)"
  by (simp add: steady_def SecurityHeaders_mw_def Let_def)

lemma steady_CORS: "steady h' h \<Longrightarrow> steady (CORS_mw cfg h') (CORS_mw cfg h)"
  by (simp add: steady_def CORS_mw_def Let_def)

lemma steady_MaxBody: "steady h' h \<Longrightarrow> steady (MaxBody_mw n h') (MaxBody_mw n h)"
  by (simp add: steady_def MaxBody_mw_def)

lemma steady_RequireJSON: "steady h' h \<Longrightarrow> steady (RequireJSON_mw p h') (RequireJSON_mw p h)"
  by (auto simp: steady_def RequireJSON_mw_def)

lemma unwinding_fields:
  "hdValidKey (unwinding_deps d) = hdValidKey d" "hdParseMediaType (unwinding_deps d) = hdParseMediaType d"
  "hdExceeded (unwinding_deps d) = (\<lambda>(c, (w, p)). p = None \<and> hdExceeded d (c, w))"
  "hdLimiter (unwinding_deps d) = unwinding_limiter (hdLimiter d)" "hdVerify (unwinding_deps d) = hdVerify d"
  "hdEnforce (unwinding_deps d) = hdEnforce d" "hdSha256Hex (unwinding_deps d) = hdSha256Hex d"
  "hdManager (unwinding_deps d) = map_option unwinding_manager (hdManager d)"
  by (simp_all add: unwinding_deps_def)

lemma steady_chain:
  assumes "steady h' h"
  shows "steady (recovered_chain d cfg o1 h')
    (HTTPMetrics_mw (obMetricsEnabled o1) (obCount o1) (SecurityHeaders_mw (CORS_mw (httpCORS (cHTTP cfg)) (
       MaxBody_mw (httpMaxBodyBytes (cHTTP cfg)) (Timeout_mw (httpRequestTimeout (cHTTP cfg)) (hdExceeded d) (
       RequireJSON_mw (hdParseMediaType d) (api_chain d cfg h)))))))"
  unfolding recovered_chain_def api_chain_def Let_def unwinding_fields
  by (intro steady_HTTPMetrics steady_SecurityHeaders steady_CORS steady_MaxBody steady_Timeout steady_RequireJSON
      steady_RateLimit steady_Authentication steady_Authorization steady_IdempotencyExecution assms)

text \<open>
  So for an operation that does not panic, and observers that are off, the server is the chain the
  other properties are about.
\<close>

lemma serve_http_calm:
  fixes h :: "('b, 'w) handler"
  assumes "\<not> obMetricsEnabled o1" and "\<And>l w. obLog o1 l w = w"
  shows "serve_http d cfg o1 (calm h) = serve_api d cfg h"
proof -
  have "obMetricsEnabled o1 = False" using assms(1) by simp
  moreover have "RequestLogger_mw (obLog o1) m = m" for m :: "('b, 'w) handler"
    using assms(2) by (auto simp: RequestLogger_mw_def fun_eq_iff split: prod.split)
  ultimately show ?thesis
    unfolding serve_http_def serve_api_def router_chain_def
    by (simp add: unwound_steady [OF steady_chain [OF steady_calm]] Recovery_calm HTTPMetrics_off)
qed

subsection \<open>With a panic\<close>

text \<open>
  A middleware answers by itself, or runs the rest of the chain once, on a state without a panic,
  and leaves alone what a panic comes back with.
\<close>

definition passes :: "(('b, 'w unwinding) handler \<Rightarrow> 'b gin \<times> 'w unwinding) \<Rightarrow> bool" where
  "passes f \<longleftrightarrow> (\<exists>r. \<forall>h. f h = r) \<or>
     (\<exists>c w post. (\<forall>h. f h = post (h (c, (w, None)))) \<and> (\<forall>c w p. post (c, (w, Some p)) = (c, (w, Some p))))"

definition lets_pass :: "('b, 'w unwinding) middleware \<Rightarrow> bool" where
  "lets_pass m \<longleftrightarrow> (\<forall>c w. passes (\<lambda>h. m h (c, (w, None))))"

lemma passes_const: "passes (\<lambda>h. r)"
  unfolding passes_def by blast

lemma passes_post:
  assumes "passes f" and "\<And>c w p. g (c, (w, Some p)) = (c, (w, Some p))"
  shows "passes (\<lambda>h. g (f h))"
  using assms(1) unfolding passes_def
proof (elim disjE exE conjE)
  fix c w post
  assume "\<forall>h. f h = post (h (c, (w, None)))" and "\<forall>c w p. post (c, (w, Some p)) = (c, (w, Some p))"
  with assms(2) show "(\<exists>r. \<forall>h. g (f h) = r) \<or>
      (\<exists>c w post. (\<forall>h. g (f h) = post (h (c, (w, None)))) \<and> (\<forall>c w p. post (c, (w, Some p)) = (c, (w, Some p))))"
    by (intro disjI2 exI [of _ c] exI [of _ w] exI [of _ "\<lambda>s. g (post s)"]) simp
qed (intro disjI1, metis)

lemma passes_next: "passes (\<lambda>h. h (c, (w, None)))"
  unfolding passes_def by (intro disjI2 exI [of _ c] exI [of _ w] exI [of _ "\<lambda>s. s"]) simp

lemma passes_next_post:
  "(\<And>c w p. g (c, (w, Some p)) = (c, (w, Some p))) \<Longrightarrow> passes (\<lambda>h. g (h (c, (w, None))))"
  by (rule passes_post [OF passes_next])

lemma passes_if: "(b \<Longrightarrow> passes f) \<Longrightarrow> (\<not> b \<Longrightarrow> passes g) \<Longrightarrow> passes (\<lambda>h. if b then f h else g h)"
  by (cases b) simp_all

lemma passes_option:
  "(v = None \<Longrightarrow> passes f) \<Longrightarrow> (\<And>x. v = Some x \<Longrightarrow> passes (\<lambda>h. g h x)) \<Longrightarrow>
     passes (\<lambda>h. case v of None \<Rightarrow> f h | Some x \<Rightarrow> g h x)"
  by (cases v) simp_all

lemma passes_sum:
  "(\<And>e. v = Inl e \<Longrightarrow> passes (\<lambda>h. f h e)) \<Longrightarrow> (\<And>x. v = Inr x \<Longrightarrow> passes (\<lambda>h. g h x)) \<Longrightarrow>
     passes (\<lambda>h. case v of Inl e \<Rightarrow> f h e | Inr x \<Rightarrow> g h x)"
  by (cases v) simp_all

lemma passes_prod: "(\<And>x y. v = (x, y) \<Longrightarrow> passes (\<lambda>h. f h x y)) \<Longrightarrow> passes (\<lambda>h. case v of (x, y) \<Rightarrow> f h x y)"
  by (cases v) simp

lemma passes_decision:
  "passes f \<Longrightarrow> (\<And>e. passes (\<lambda>h. g h e)) \<Longrightarrow> passes k \<Longrightarrow>
     passes (\<lambda>h. case v of Permitted \<Rightarrow> f h | DecisionUnavailable e \<Rightarrow> g h e | Denied \<Rightarrow> k h)"
  by (cases v) simp_all

lemma passes_state:
  "(\<And>o1. v = StateAcquired o1 \<Longrightarrow> passes (\<lambda>h. f h o1)) \<Longrightarrow>
   passes (\<lambda>h. case v of StateAcquired o1 \<Rightarrow> f h o1 | StateProcessing \<Rightarrow> g1
     | StateCompleted r \<Rightarrow> g2 r | StateFailed x \<Rightarrow> g3 x | StateConflict \<Rightarrow> g4 | StateUnknown \<Rightarrow> g5)"
  by (cases v) (simp_all add: passes_const)

lemmas passes_rules = passes_if passes_option passes_sum passes_prod passes_decision passes_const passes_next

lemma lets_pass_compose:
  assumes "lets_pass m" and "lets_pass n"
  shows "lets_pass (\<lambda>h. m (n h))"
  unfolding lets_pass_def
proof (intro allI)
  fix c w
  have "passes (\<lambda>h. m h (c, (w, None)))" using assms(1) by (simp add: lets_pass_def)
  then show "passes (\<lambda>h. m (n h) (c, (w, None)))"
    unfolding passes_def [of "\<lambda>h. m h (c, (w, None))"]
  proof (elim disjE exE conjE)
    fix r assume "\<forall>h. m h (c, (w, None)) = r"
    then show ?thesis by (simp add: passes_const)
  next
    fix c' w' post
    assume m: "\<forall>h. m h (c, (w, None)) = post (h (c', (w', None)))"
      and post: "\<forall>c w p. post (c, (w, Some p)) = (c, (w, Some p))"
    have "passes (\<lambda>h. post (n h (c', (w', None))))"
      by (rule passes_post) (use assms(2) post in \<open>simp_all add: lets_pass_def\<close>)
    with m show ?thesis by simp
  qed
qed

lemma lets_pass_RateLimit: "lets_pass (RateLimit_mw (unwinding_limiter l) rule dimension key)"
  unfolding lets_pass_def RateLimit_mw_def unwinding_limiter_def Allow_def on_state_def Let_def prod.case
  by (intro allI passes_rules)
    (auto split: option.splits sum.splits prod.splits intro!: passes_rules)

lemma lets_pass_Authentication: "lets_pass (Authentication_mw verify cfg)"
  unfolding lets_pass_def Authentication_mw_def JWT_mw_def Let_def prod.case by (intro allI passes_rules)

lemma lets_pass_Authorization: "lets_pass (Authorization_mw active enforce)"
  unfolding lets_pass_def Authorization_mw_def prod.case by (intro allI passes_rules)

lemma lets_pass_SecurityHeaders: "lets_pass SecurityHeaders_mw"
  unfolding lets_pass_def SecurityHeaders_mw_def Let_def prod.case by (intro allI passes_rules)

lemma lets_pass_CORS: "lets_pass (CORS_mw cfg)"
  unfolding lets_pass_def CORS_mw_def Let_def prod.case by (intro allI passes_rules)

lemma lets_pass_MaxBody: "lets_pass (MaxBody_mw n)"
  unfolding lets_pass_def MaxBody_mw_def prod.case by (intro allI passes_rules)

lemma lets_pass_RequireJSON: "lets_pass (RequireJSON_mw p)"
  unfolding lets_pass_def RequireJSON_mw_def prod.case by (intro allI passes_rules)

lemma lets_pass_Timeout: "lets_pass (Timeout_mw t (\<lambda>(c, (w, p)). p = None \<and> e (c, w)))"
  unfolding lets_pass_def Timeout_mw_def Let_def prod.case
  by (intro allI, rule passes_next_post [where g = "\<lambda>(c', w'). if (case w' of (w, p) \<Rightarrow> p = None \<and> e (c', w)) \<and>
      gWritten c' = None then (Fail RequestTimeout c', w') else (c', w')"]) simp

lemma lets_pass_HTTPMetrics: "lets_pass (HTTPMetrics_mw active (\<lambda>labels. unless_panic (count labels)))"
  unfolding lets_pass_def HTTPMetrics_mw_def prod.case Let_def
  by (intro allI, rule passes_next_post [where g = "\<lambda>(c', w'). if \<not> active then (c', w')
      else (c', unless_panic (count (gMethod c', if gFullPath c' = [] then ''unmatched'' else gFullPath c', written_status c')) w')"])
    (simp add: unless_panic_def)

lemma persist_passes: "persist_result (unwinding_manager m) key owner (c, (w, Some p)) = (c, (w, Some p))"
  by (auto simp: persist_result_def unwinding_manager_def unless_panic_def Let_def split: option.splits)

lemma begin_passes: "mgBegin (unwinding_manager m) key fingerprint (w, None) = (x, y) \<Longrightarrow> snd y = None"
  by (auto simp: unwinding_manager_def on_state_def Let_def split: prod.splits)

lemma passes_from: "snd y = None \<Longrightarrow> passes (\<lambda>h. persist_result (unwinding_manager m) key owner (h (c, y)))"
  by (cases y) (simp add: passes_next_post persist_passes)

lemma lets_pass_IdempotencyExecution: "lets_pass (IdempotencyExecution_mw sha (map_option unwinding_manager mgr) paths)"
  unfolding lets_pass_def IdempotencyExecution_mw_def prod.case
  by (cases mgr) (auto intro!: passes_rules passes_state passes_from dest: begin_passes)

lemma lets_pass_api: "lets_pass (api_chain (unwinding_deps d) cfg)"
  unfolding api_chain_def [abs_def] unwinding_fields
  by (rule lets_pass_compose [OF lets_pass_RateLimit], rule lets_pass_compose [OF lets_pass_RateLimit],
      rule lets_pass_compose [OF lets_pass_Authentication], rule lets_pass_compose [OF lets_pass_Authorization],
      rule lets_pass_compose [OF lets_pass_RateLimit], rule lets_pass_IdempotencyExecution)

lemma lets_pass_chain: "lets_pass (recovered_chain d cfg o1)"
  unfolding recovered_chain_def [abs_def] Let_def unwinding_fields
  by (rule lets_pass_compose [OF lets_pass_HTTPMetrics], rule lets_pass_compose [OF lets_pass_SecurityHeaders],
      rule lets_pass_compose [OF lets_pass_CORS], rule lets_pass_compose [OF lets_pass_MaxBody],
      rule lets_pass_compose [OF lets_pass_Timeout], rule lets_pass_compose [OF lets_pass_RequireJSON], rule lets_pass_api)

subsection \<open>What a panic leaves\<close>

text \<open>The answer to a panic, and the two lines it gets in the log: the panic, then the request.\<close>

definition after_panic :: "('b, 'w) observers \<Rightarrow> string \<Rightarrow> 'b gin \<Rightarrow> 'w \<Rightarrow> 'b gin \<times> 'w" where
  "after_panic o1 p c w =
     (let c' = AbortWithStatusJSON 500 (internal_error c) c
      in (c', obLog o1 (request_line c') (obPanic o1 (gRequestID c, p) w)))"

lemma recovered_panic:
  assumes "h (c, (w, None)) = (c', (w', Some p))"
  shows "RequestLogger_mw (obLog o1) (Recovery_mw (obPanic o1) (unwound h)) (c, w) = after_panic o1 p c' w'"
  using assms by (simp add: RequestLogger_mw_def Recovery_mw_def unwound_def after_panic_def Let_def)

lemma inner_panics:
  "(\<exists>r. \<forall>operation. RequestLogger_mw (obLog o1) (Recovery_mw (obPanic o1) (unwound (recovered_chain d cfg o1 (raising operation)))) s = r) \<or>
   (\<exists>s'. \<forall>operation c w p. operation s' = ((c, w), Some p) \<longrightarrow>
      RequestLogger_mw (obLog o1) (Recovery_mw (obPanic o1) (unwound (recovered_chain d cfg o1 (raising operation)))) s = after_panic o1 p c w)"
proof -
  obtain c w where s: "s = (c, w)" by (cases s)
  have "passes (\<lambda>h. recovered_chain d cfg o1 h (c, (w, None)))"
    using lets_pass_chain [of d cfg o1] by (simp add: lets_pass_def)
  then show ?thesis
    unfolding passes_def
  proof (elim disjE exE conjE)
    fix r assume "\<forall>h. recovered_chain d cfg o1 h (c, (w, None)) = r"
    then show ?thesis
      by (intro disjI1 exI [of _ "RequestLogger_mw (obLog o1) (Recovery_mw (obPanic o1) (unwound (\<lambda>s. r))) s"] allI)
        (simp add: s RequestLogger_mw_def Recovery_mw_def unwound_def)
  next
    fix c1 w1 post
    assume chain: "\<forall>h. recovered_chain d cfg o1 h (c, (w, None)) = post (h (c1, (w1, None)))"
      and post: "\<forall>c w p. post (c, (w, Some p)) = (c, (w, Some p))"
    show ?thesis
    proof (intro disjI2 exI [of _ "(c1, w1)"] allI impI)
      fix operation :: "('a, 'b) panicking" and c2 w2 p
      assume "operation (c1, w1) = ((c2, w2), Some p)"
      then have "recovered_chain d cfg o1 (raising operation) (c, (w, None)) = (c2, (w2, Some p))"
        by (simp add: chain post raising_def)
      then show "RequestLogger_mw (obLog o1) (Recovery_mw (obPanic o1) (unwound (recovered_chain d cfg o1 (raising operation)))) s =
          after_panic o1 p c2 w2"
        unfolding s by (rule recovered_panic)
    qed
  qed
qed

text \<open>The middleware outside the recovery only prepares the request.\<close>

definition prepares :: "('b, 'w) middleware \<Rightarrow> bool" where
  "prepares m \<longleftrightarrow> (\<forall>s. (\<exists>r. \<forall>h. m h s = r) \<or> (\<exists>s'. \<forall>h. m h s = h s'))"

lemma prepares_RequestID: "prepares (RequestID_mw i)"
  unfolding prepares_def RequestID_mw_def Let_def split_paired_All prod.case
  by (intro allI disjI2 exI, rule refl)

lemma prepares_Environment: "prepares (Environment_mw profile)"
  unfolding prepares_def Environment_mw_def split_paired_All prod.case
  by (intro allI disjI2 exI, rule refl)

lemma prepares_IdempotencyKey: "prepares (IdempotencyKey_mw valid)"
  unfolding prepares_def
proof
  fix s :: "'a gin \<times> 'b"
  obtain c w where s: "s = (c, w)" by (cases s)
  show "(\<exists>r. \<forall>h. IdempotencyKey_mw valid h s = r) \<or> (\<exists>s'. \<forall>h. IdempotencyKey_mw valid h s = h s')"
    unfolding s IdempotencyKey_mw_def Let_def prod.case
    by (cases "gHeader c ''Idempotency-Key'' = []"; cases "valid (gHeader c ''Idempotency-Key'')") (simp_all, blast+)
qed

lemma prepares_compose: "prepares m \<Longrightarrow> prepares n \<Longrightarrow> prepares (\<lambda>h. m (n h))"
  unfolding prepares_def by metis

lemma panics_are_contained:
  "(\<exists>r. \<forall>operation. serve_http d cfg o1 operation s = r) \<or>
   (\<exists>s'. \<forall>operation c w p. operation s' = ((c, w), Some p) \<longrightarrow> serve_http d cfg o1 operation s = after_panic o1 p c w)"
proof -
  have "prepares (\<lambda>h. RequestID_mw (hdGeneratedID d) (IdempotencyKey_mw (hdValidKey d)
      (Environment_mw (activeProfile (cRuntime cfg)) h)))"
    by (intro prepares_compose [OF prepares_RequestID] prepares_compose [OF prepares_IdempotencyKey] prepares_Environment)
  then have outer: "(\<exists>r. \<forall>h. RequestID_mw (hdGeneratedID d) (IdempotencyKey_mw (hdValidKey d)
      (Environment_mw (activeProfile (cRuntime cfg)) h)) s = r) \<or>
    (\<exists>s'. \<forall>h. RequestID_mw (hdGeneratedID d) (IdempotencyKey_mw (hdValidKey d)
      (Environment_mw (activeProfile (cRuntime cfg)) h)) s = h s')"
    unfolding prepares_def by blast
  then show ?thesis
    unfolding serve_http_def using inner_panics [of o1 d cfg] by metis
qed

end
