(* ===== verification/Grpc_Chain.thy ===== *)
theory Grpc_Chain
  imports Servers
begin

section \<open>The whole chains of the gRPC server, with panics\<close>

text \<open>
  The two chains that \<open>NewServer\<close> of \<^verbatim>\<open>transport/grpc/server.go\<close> installs, with the interceptors for
  panics and metrics in their places. As in \<open>Http_Server\<close>, the part of a chain that a panic unwinds
  has a flag in its state, and what an interceptor does after its handler is skipped when it is set.
  The interceptors of the platform library are taken on such states.
\<close>

definition unless_flagged :: "('w \<Rightarrow> 'w) \<Rightarrow> 'w \<times> bool \<Rightarrow> 'w \<times> bool" where
  "unless_flagged f = (\<lambda>(w, panicked). (if panicked then w else f w, panicked))"

text \<open>The result of a handler that panics is never used.\<close>

definition raising_rpc :: "('r, 'w) panicking_rpc \<Rightarrow> ('r, 'w \<times> bool) rpc_handler" where
  "raising_rpc handler = (\<lambda>c (w, panicked).
     case handler c w of
       (Some r, w') \<Rightarrow> (r, (w', panicked))
     | (None, w') \<Rightarrow> (Inl (GInternal, []), (w', True)))"

definition unwound_rpc :: "('r, 'w \<times> bool) rpc_handler \<Rightarrow> ('r, 'w) panicking_rpc" where
  "unwound_rpc handler = (\<lambda>c w.
     case handler c (w, False) of (r, (w', panicked)) \<Rightarrow> (if panicked then None else Some r, w'))"

definition serve_unary ::
  "('r, 'w) grpc_deps \<Rightarrow> ('r, 'w \<times> bool) grpc_deps \<Rightarrow> config \<Rightarrow> bool \<Rightarrow> (string \<times> grpc_code option \<Rightarrow> 'w \<Rightarrow> 'w) \<Rightarrow>
   ('r, 'w) panicking_rpc \<Rightarrow> ('r, 'w) rpc_handler" where
  "serve_unary outer inner cfg active count operation =
     environmentInterceptor (activeProfile (cRuntime cfg)) (
     requestIDInterceptor (gdGeneratedID outer) (
     idempotencyInterceptor (gdValidKey outer) (
     recoveryInterceptor (unwound_rpc (
       authInterceptor (gdVerify outer) (cAuth cfg) (
       gdAuthorize inner (schedulerGRPCRequirement (cAuthorizationEnabled cfg)) (
       gdIdempotent inner (idemGRPCMethods (cIdempotency cfg)) (
       metricsInterceptor active (\<lambda>labels. unless_flagged (count labels)) (
       raising_rpc operation)))))))))"

definition serve_stream ::
  "(call \<Rightarrow> go_error option) \<Rightarrow> string \<Rightarrow> (string \<Rightarrow> bool) \<Rightarrow> (string \<Rightarrow> go_error + principal) \<Rightarrow> config \<Rightarrow> bool \<Rightarrow>
   (string \<times> grpc_code option \<Rightarrow> 'w \<Rightarrow> 'w) \<Rightarrow> (unit, 'w) panicking_rpc \<Rightarrow> 'w stream_handler" where
  "serve_stream setHeader generated valid verify cfg active count operation =
     environmentStreamInterceptor (activeProfile (cRuntime cfg)) (
     requestIDStreamInterceptor setHeader generated (
     idempotencyStreamInterceptor valid (
     recoveryStreamInterceptor (unwound_rpc (
       authStreamInterceptor verify (cAuth cfg) (
       metricsStreamInterceptor active (\<lambda>labels. unless_flagged (count labels)) (
       raising_rpc operation)))))))"

subsection \<open>Streams\<close>

lemma stream_tail:
  "recoveryStreamInterceptor (unwound_rpc (authStreamInterceptor verify cfg (
       metricsStreamInterceptor active (\<lambda>labels. unless_flagged (count labels)) (raising_rpc operation)))) stream w =
   (case authenticateGRPC verify cfg stream of
      Inl e \<Rightarrow> (Inl e, w)
    | Inr ctx \<Rightarrow>
        (case operation (stream\<lparr>caCtx := ctx\<rparr>) w of
           (None, w') \<Rightarrow> (Inl (GInternal, ''internal server error''), w')
         | (Some r, w') \<Rightarrow> (r, if active then count (caMethod stream, status_of r) w' else w')))"
  by (auto simp: recoveryStreamInterceptor_def unwound_rpc_def authStreamInterceptor_def metricsStreamInterceptor_def
      raising_rpc_def unless_flagged_def fail_def Let_def split: sum.split prod.split option.split)

text \<open>The interceptors outside the recovery refuse a stream, or open it for the same method and metadata.\<close>

definition opens :: "('w stream_handler \<Rightarrow> 'w stream_handler) \<Rightarrow> bool" where
  "opens m \<longleftrightarrow> (\<forall>stream.
     (\<exists>e. \<forall>h w. m h stream w = (Inl e, w)) \<or>
     (\<exists>opened. caMethod opened = caMethod stream \<and> caMetadata opened = caMetadata stream \<and> (\<forall>h. m h stream = h opened)))"

lemma opens_environment: "opens (environmentStreamInterceptor profile)"
  unfolding opens_def environmentStreamInterceptor_def
  by (intro allI disjI2) (metis call.select_convs(1,2) call.surjective call.update_convs(4))

lemma opens_requestID: "opens (requestIDStreamInterceptor setHeader generated)"
  unfolding opens_def
proof
  fix stream :: call
  let ?given_values = "caMetadata stream ''x-request-id''"
  let ?given = "if ?given_values \<noteq> [] \<and> Valid_request_id (hd ?given_values) then hd ?given_values else []"
  let ?i = "if ?given = [] then generated else ?given"
  let ?opened = "stream\<lparr>caHeader := caHeader stream @ [(''x-request-id'', ?i)]\<rparr>"
  have eq: "requestIDStreamInterceptor setHeader generated h stream =
      (case setHeader ?opened of Some e \<Rightarrow> fail (GInternal, ''set request metadata'')
       | None \<Rightarrow> h (?opened\<lparr>caCtx := (caCtx stream)\<lparr>cRequestID := Some ?i\<rparr>\<rparr>))" for h :: "'a stream_handler"
    by (simp add: requestIDStreamInterceptor_def Let_def)
  show "(\<exists>e. \<forall>h (w :: 'a). requestIDStreamInterceptor setHeader generated h stream w = (Inl e, w)) \<or>
    (\<exists>opened. caMethod opened = caMethod stream \<and> caMetadata opened = caMetadata stream \<and>
       (\<forall>h :: 'a stream_handler. requestIDStreamInterceptor setHeader generated h stream = h opened))"
  proof (cases "setHeader ?opened")
    case None
    then show ?thesis unfolding eq
      by (intro disjI2 exI [of _ "?opened\<lparr>caCtx := (caCtx stream)\<lparr>cRequestID := Some ?i\<rparr>\<rparr>"]) simp
  next
    case (Some e)
    then show ?thesis unfolding eq
      by (intro disjI1 exI [of _ "(GInternal, ''set request metadata'')"]) (simp add: fail_def)
  qed
qed

lemma opens_idempotency: "opens (idempotencyStreamInterceptor valid)"
  unfolding opens_def
proof
  fix stream :: call
  let ?given_values = "caMetadata stream ''idempotency-key''"
  show "(\<exists>e. \<forall>h (w :: 'a). idempotencyStreamInterceptor valid h stream w = (Inl e, w)) \<or>
    (\<exists>opened. caMethod opened = caMethod stream \<and> caMetadata opened = caMetadata stream \<and>
       (\<forall>h :: 'a stream_handler. idempotencyStreamInterceptor valid h stream = h opened))"
  proof (cases "?given_values = [] \<or> valid (hd ?given_values)")
    case True
    then show ?thesis
      by (intro disjI2 exI [of _ "if ?given_values = [] then stream
            else stream\<lparr>caCtx := (caCtx stream)\<lparr>cIdempotencyKey := Some (hd ?given_values)\<rparr>\<rparr>"])
        (auto simp: idempotencyStreamInterceptor_def Let_def)
  next
    case False
    then show ?thesis
      by (intro disjI1 exI [of _ "(GInvalidArgument, ''invalid idempotency-key'')"])
        (simp add: idempotencyStreamInterceptor_def fail_def)
  qed
qed

lemma opens_compose: "opens m \<Longrightarrow> opens n \<Longrightarrow> opens (\<lambda>h. m (n h))"
  unfolding opens_def by metis

text \<open>
  A stream is refused before its handler, or the handler runs once, for an identity that was
  established from the metadata the stream came with; a panic is answered as an internal error and
  not counted.
\<close>

lemma stream_served:
  fixes count :: "string \<times> grpc_code option \<Rightarrow> 'w \<Rightarrow> 'w" and stream :: call
  shows
  "(\<exists>e. \<forall>operation w. serve_stream setHeader generated valid verify cfg active count operation stream w = (Inl e, w)) \<or>
   (\<exists>opened ctx. caMethod opened = caMethod stream \<and> caMetadata opened = caMetadata stream \<and>
      authenticateGRPC verify (cAuth cfg) opened = Inr ctx \<and>
      (\<forall>operation w. serve_stream setHeader generated valid verify cfg active count operation stream w =
        (case operation (opened\<lparr>caCtx := ctx\<rparr>) w of
           (None, w') \<Rightarrow> (Inl (GInternal, ''internal server error''), w')
         | (Some r, w') \<Rightarrow> (r, if active then count (caMethod stream, status_of r) w' else w'))))"
proof -
  let ?outer = "\<lambda>h :: 'w stream_handler. environmentStreamInterceptor (activeProfile (cRuntime cfg))
      (requestIDStreamInterceptor setHeader generated (idempotencyStreamInterceptor valid h))"
  have "opens ?outer"
    by (intro opens_compose [OF opens_environment] opens_compose [OF opens_requestID] opens_idempotency)
  then have "(\<exists>e. \<forall>h w. ?outer h stream w = (Inl e, w)) \<or>
     (\<exists>opened. caMethod opened = caMethod stream \<and> caMetadata opened = caMetadata stream \<and> (\<forall>h. ?outer h stream = h opened))"
    unfolding opens_def by (rule spec)
  then show ?thesis
  proof (elim disjE exE conjE)
    fix e assume "\<forall>h w. ?outer h stream w = (Inl e, w)"
    then show ?thesis unfolding serve_stream_def by (intro disjI1 exI [of _ e]) simp
  next
    fix opened
    assume opened: "caMethod opened = caMethod stream" "caMetadata opened = caMetadata stream" "\<forall>h. ?outer h stream = h opened"
    show ?thesis
    proof (cases "authenticateGRPC verify (cAuth cfg) opened")
      case (Inl e)
      with opened show ?thesis unfolding serve_stream_def by (intro disjI1 exI [of _ e]) (simp add: stream_tail)
    next
      case (Inr ctx)
      with opened show ?thesis unfolding serve_stream_def
        by (intro disjI2 exI [of _ opened] exI [of _ ctx]) (simp add: stream_tail split: prod.split option.split)
    qed
  qed
qed

end
