(* ===== verification/Server_Theorems.thy ===== *)
theory Server_Theorems
  imports Http_Server Grpc_Chain Transport_Theorems
begin

section \<open>The servers and panics\<close>

text \<open>What a panic of an operation leaves behind, on both transports.\<close>





subsection \<open>gRPC\<close>

text \<open>
  For a unary call the same holds behind interceptors of the library that let the call pass: the
  panic is answered as an internal error and not counted.
\<close>

lemma unary_panic:
  assumes "\<And>resolve h c w. gdAuthorize inner resolve h c w = h c w" and "\<And>methods h c w. gdIdempotent inner methods h c w = h c w"
    and "authenticateGRPC (gdVerify outer) (cAuth cfg) c = Inr ctx" and "operation (c\<lparr>caCtx := ctx\<rparr>) w = (None, w')"
  shows "recoveryInterceptor (unwound_rpc (authInterceptor (gdVerify outer) (cAuth cfg) (
       gdAuthorize inner (schedulerGRPCRequirement (cAuthorizationEnabled cfg)) (
       gdIdempotent inner (idemGRPCMethods (cIdempotency cfg)) (
       metricsInterceptor active (\<lambda>labels. unless_flagged (count labels)) (raising_rpc operation)))))) c w =
     (Inl (GInternal, ''internal server error''), w')"
  using assms
  by (simp add: recoveryInterceptor_def unwound_rpc_def authInterceptor_def metricsInterceptor_def raising_rpc_def
      unless_flagged_def Let_def)

end
