(* ===== verification/History.thy ===== *)
theory History
  imports Service
begin

section \<open>Integrity and history of the two tables\<close>

text \<open>
  What every operation of the service keeps true of the database (\<open>integrity\<close>: primary keys,
  the CHECK and FOREIGN KEY constraints, and the life cycle of an execution, whose status,
  version, end time and deletion mark always agree), and how rows may change over time
  (\<open>job_history\<close>, \<open>execution_history\<close>: no row is ever removed, its identity and scope never
  change, every change raises the version, a deleted job never changes again, an execution
  goes from running to terminal to deleted and its result is never rewritten). The locale
  \<open>repository_guarantee\<close> carries any such guarantee from the repository to the operations of
  the service; it is interpreted on \<open>lifecycle\<close>.
\<close>

subsection \<open>Row histories\<close>

definition rows_evolve :: "('r \<Rightarrow> 'r \<Rightarrow> bool) \<Rightarrow> 'r list \<Rightarrow> 'r list \<Rightarrow> bool" where
  "rows_evolve S rows rows' \<longleftrightarrow> (\<forall>r \<in> set rows. \<exists>r' \<in> set rows'. S r r')"

locale row_history =
  fixes S :: "'r \<Rightarrow> 'r \<Rightarrow> bool"
  assumes S_same: "S r r"
    and S_chain: "S r s \<Longrightarrow> S s t \<Longrightarrow> S r t"
begin

lemma evolve_same: "rows_evolve S rows rows"
  by (auto simp: rows_evolve_def intro: S_same)

lemma evolve_chain: "rows_evolve S a b \<Longrightarrow> rows_evolve S b c \<Longrightarrow> rows_evolve S a c"
  unfolding rows_evolve_def by (meson S_chain)

lemma evolve_append: "rows_evolve S rows (rows @ new)"
  by (auto simp: rows_evolve_def intro: S_same)

lemma evolve_map:
  assumes "\<And>r. r \<in> set rows \<Longrightarrow> P r \<Longrightarrow> S r (g r)"
  shows "rows_evolve S rows (map (\<lambda>r. if P r then g r else r) rows)"
  unfolding rows_evolve_def
proof
  fix r assume "r \<in> set rows"
  then have "S r (if P r then g r else r)" by (auto intro: assms S_same)
  moreover from \<open>r \<in> set rows\<close>
  have "(if P r then g r else r) \<in> set (map (\<lambda>r. if P r then g r else r) rows)"
    unfolding set_map by (rule imageI)
  ultimately show "\<exists>r' \<in> set (map (\<lambda>r. if P r then g r else r) rows). S r r'" ..
qed

end

definition job_history :: "job \<Rightarrow> job \<Rightarrow> bool" where
  "job_history j j' \<longleftrightarrow>
     ID j' = ID j \<and> TenantID j' = TenantID j \<and> ApplicationID j' = ApplicationID j \<and>
     CreatedAt j' = CreatedAt j \<and> CreatedBy j' = CreatedBy j \<and>
     (j' = j \<or> Version j < Version j' \<and> live j)"

definition execution_history :: "execution \<Rightarrow> execution \<Rightarrow> bool" where
  "execution_history x x' \<longleftrightarrow>
     ID x' = ID x \<and> JobID x' = JobID x \<and> TenantID x' = TenantID x \<and> ApplicationID x' = ApplicationID x \<and>
     TriggerType x' = TriggerType x \<and> StartedAt x' = StartedAt x \<and>
     CreatedAt x' = CreatedAt x \<and> CreatedBy x' = CreatedBy x \<and>
     (x' = x \<or>
      Version x < Version x' \<and> live x \<and> terminal x' \<and>
      (Status x = running \<or>
       Status x' = Status x \<and> ResponseJSON x' = ResponseJSON x \<and> ErrorCode x' = ErrorCode x \<and>
       ErrorMessage x' = ErrorMessage x \<and> FinishedAt x' = FinishedAt x \<and>
       DurationMilliseconds x' = DurationMilliseconds x))"

interpretation jobs: row_history job_history
  by unfold_locales (auto simp: job_history_def)

interpretation execs: row_history execution_history
  by unfold_locales (auto simp: execution_history_def terminal_def)

subsection \<open>Integrity\<close>

definition job_sound :: "job \<Rightarrow> bool" where
  "job_sound j \<longleftrightarrow>
     1 \<le> Version j \<and> Status j \<in> set [enabled, disabled, ''deleted''] \<and>
     100 \<le> TimeoutMilliseconds j \<and> TimeoutMilliseconds j \<le> 1800000"

definition execution_state :: "execution \<Rightarrow> bool" where
  "execution_state x \<longleftrightarrow>
     Status x = running \<and> Version x = 1 \<and> live x \<and> FinishedAt x = None \<or>
     terminal x \<and> Version x = 2 \<and> live x \<and> FinishedAt x \<noteq> None \<or>
     terminal x \<and> Version x = 3 \<and> \<not> live x \<and> FinishedAt x \<noteq> None"

definition execution_sound :: "job list \<Rightarrow> execution \<Rightarrow> bool" where
  "execution_sound js x \<longleftrightarrow>
     JobID x \<in> set (map ID js) \<and> TriggerType x \<in> set [''scheduled'', ''manual''] \<and> execution_state x"

definition integrity :: "db \<Rightarrow> bool" where
  "integrity d \<longleftrightarrow>
     distinct (map ID (jobs d)) \<and> distinct (map ID (executions d)) \<and>
     (\<forall>j \<in> set (jobs d). job_sound j) \<and> (\<forall>x \<in> set (executions d). execution_sound (jobs d) x)"

definition lifecycle :: "db \<Rightarrow> db \<Rightarrow> bool" where
  "lifecycle d d' \<longleftrightarrow> (integrity d \<longrightarrow>
     integrity d' \<and> rows_evolve job_history (jobs d) (jobs d') \<and>
     rows_evolve execution_history (executions d) (executions d'))"

lemma lifecycle_same: "lifecycle d d"
  by (simp add: lifecycle_def jobs.evolve_same execs.evolve_same)

lemma lifecycle_chain: "lifecycle d e \<Longrightarrow> lifecycle e f \<Longrightarrow> lifecycle d f"
  by (auto simp: lifecycle_def intro: jobs.evolve_chain execs.evolve_chain)

subsection \<open>The statements of the repository respect the life cycle\<close>

lemma running_not_terminal: "Status x = running \<Longrightarrow> \<not> terminal x"
  by (simp add: terminal_def)

lemma map_ID_update:
  assumes "\<And>r. ID (g r) = ID r"
  shows "map ID (map (\<lambda>r. if P r then g r else r) rows) = map ID rows"
  using assms by simp

lemma lifecycle_insert_job:
  assumes "sql_insert (job_check env) (audit_insert au value) (jobs d) = Inr js" and "Version value = 1"
  shows "lifecycle d (d\<lparr>jobs := js\<rparr>)"
proof -
  let ?new = "audit_insert au value"
  from assms have js: "js = jobs d @ [?new]" and fresh: "ID ?new \<notin> ID ` set (jobs d)"
    and "job_check env ?new = None"
    by (auto simp: sql_insert_Inr)
  then have "job_sound ?new"
    using assms(2) by (auto simp: job_check_def job_sound_def split: if_splits)
  then show ?thesis
    using fresh
    by (auto simp: lifecycle_def integrity_def js execution_sound_def jobs.evolve_append execs.evolve_same)
qed

lemma lifecycle_update_job:
  assumes upd: "sql_update (job_check env) au (at_version i expected) f (jobs d) = Inr (c, js)"
    and f: "\<And>r. ID (f r) = ID r" "\<And>r. TenantID (f r) = TenantID r"
      "\<And>r. ApplicationID (f r) = ApplicationID r" "\<And>r. CreatedAt (f r) = CreatedAt r"
      "\<And>r. CreatedBy (f r) = CreatedBy r"
  shows "lifecycle d (d\<lparr>jobs := js\<rparr>)"
proof -
  define g where "g = (\<lambda>r. audit_update au r ((f r)\<lparr>Version := Version r + 1\<rparr>))"
  define P :: "job \<Rightarrow> bool" where "P = at_version i expected"
  from upd have js: "js = map (\<lambda>r. if P r then g r else r) (jobs d)"
    and ok: "\<And>r. r \<in> set (jobs d) \<Longrightarrow> P r \<Longrightarrow> job_check env (g r) = None"
    unfolding sql_update_Inr g_def P_def by auto
  have ids: "map ID js = map ID (jobs d)"
    unfolding js by (rule map_ID_update) (simp add: g_def f)
  have ver: "Version (g r) = Version r + 1" for r :: job by (simp add: g_def)
  have sound: "job_sound (g r)" if "r \<in> set (jobs d)" "P r" "job_sound r" for r
    using ok [OF that(1,2)] that(3) by (auto simp: job_check_def job_sound_def ver split: if_splits)
  have "job_history r (g r)" if "P r" for r
    using that by (auto simp: job_history_def g_def P_def at_version_def live_def f
        audit_update_def Let_def split: option.split)
  then have "rows_evolve job_history (jobs d) js" unfolding js by (intro jobs.evolve_map) auto
  moreover have "\<forall>j \<in> set js. job_sound j" if "integrity d"
    using that sound by (auto simp: integrity_def js)
  then have "integrity (d\<lparr>jobs := js\<rparr>)" if "integrity d"
    using that ids by (simp add: integrity_def execution_sound_def)
  ultimately show ?thesis by (simp add: lifecycle_def execs.evolve_same)
qed

lemma lifecycle_insert_execution:
  assumes "sql_insert (execution_check env (jobs d)) (audit_insert au value) (executions d) = Inr es"
    and "Version value = 1" and "Status value = running" and "DeletedAt value = None" and "FinishedAt value = None"
  shows "lifecycle d (d\<lparr>executions := es\<rparr>)"
proof -
  let ?new = "audit_insert au value"
  have finish: "FinishedAt ?new = None" "JobID ?new = JobID value"
    using assms(5) by (auto simp: audit_insert_def split: option.split)
  from assms have es: "es = executions d @ [?new]" and fresh: "ID ?new \<notin> ID ` set (executions d)"
    and check: "execution_check env (jobs d) ?new = None"
    by (auto simp: sql_insert_Inr)
  then have "execution_sound (jobs d) ?new"
    using assms finish by (auto simp: execution_check_def execution_sound_def execution_state_def live_def split: if_splits)
  then show ?thesis
    using fresh by (auto simp: lifecycle_def integrity_def es execs.evolve_append jobs.evolve_same)
qed

lemma lifecycle_update_executions:
  assumes upd: "sql_update check au P f (executions d) = Inr (c, es)"
    and step: "\<And>r. r \<in> set (executions d) \<Longrightarrow> P r \<Longrightarrow> execution_state r \<Longrightarrow>
      check (audit_update au r ((f r)\<lparr>Version := Version r + 1\<rparr>)) = None \<Longrightarrow>
      execution_state (audit_update au r ((f r)\<lparr>Version := Version r + 1\<rparr>)) \<and>
      execution_history r (audit_update au r ((f r)\<lparr>Version := Version r + 1\<rparr>))"
    and f: "\<And>r. ID (f r) = ID r"
  shows "lifecycle d (d\<lparr>executions := es\<rparr>)"
proof -
  define g where "g = (\<lambda>r. audit_update au r ((f r)\<lparr>Version := Version r + 1\<rparr>))"
  from upd have es: "es = map (\<lambda>r. if P r then g r else r) (executions d)"
    and ok: "\<And>r. r \<in> set (executions d) \<Longrightarrow> P r \<Longrightarrow> check (g r) = None"
    unfolding sql_update_Inr g_def by auto
  have ids: "map ID es = map ID (executions d)"
    unfolding es by (rule map_ID_update) (simp add: g_def f)
  have one: "execution_state (g r)" "execution_history r (g r)"
    if "r \<in> set (executions d)" "P r" "execution_state r" for r
    using step [OF that] ok [OF that(1,2)] by (auto simp: g_def)
  show ?thesis
    unfolding lifecycle_def
  proof
    assume I: "integrity d"
    then have state: "execution_state r" if "r \<in> set (executions d)" for r
      using that by (auto simp: integrity_def execution_sound_def)
    then have "rows_evolve execution_history (executions d) es"
      unfolding es by (intro execs.evolve_map one) auto
    moreover have "execution_sound (jobs d) (g r)" if "r \<in> set (executions d)" "P r" for r
      using I that one [OF that state [OF that(1)]]
      by (auto simp: integrity_def execution_sound_def execution_history_def)
    then have "\<forall>x \<in> set es. execution_sound (jobs d) x"
      using I by (auto simp: integrity_def es)
    then have "integrity (d\<lparr>executions := es\<rparr>)"
      using I ids by (simp add: integrity_def)
    ultimately show "integrity (d\<lparr>executions := es\<rparr>) \<and>
        rows_evolve job_history (jobs d) (jobs (d\<lparr>executions := es\<rparr>)) \<and>
        rows_evolve execution_history (executions d) (executions (d\<lparr>executions := es\<rparr>))"
      by (simp add: jobs.evolve_same)
  qed
qed

lemma lifecycle_finish:
  assumes upd: "sql_update (execution_check env js) au (\<lambda>r. ID r = ID value \<and> Version r = Version value)
      (set_finished value) (executions d) = Inr (c, es)"
    and fin: "Version value = 1" "terminal value" "FinishedAt value \<noteq> None"
  shows "lifecycle d (d\<lparr>executions := es\<rparr>)"
proof (rule lifecycle_update_executions [OF upd])
  fix r :: execution
  assume "ID r = ID value \<and> Version r = Version value" and state: "execution_state r"
  with fin have "Status r = running" "live r" by (auto simp: execution_state_def)
  with fin state
  show "execution_state (audit_update au r ((set_finished value r)\<lparr>Version := Version r + 1\<rparr>)) \<and>
      execution_history r (audit_update au r ((set_finished value r)\<lparr>Version := Version r + 1\<rparr>))"
    by (cases au)
       (auto simp: execution_state_def execution_history_def set_finished_def audit_update_def
         live_def terminal_def Let_def)
qed (simp add: set_finished_def)

lemma lifecycle_retention:
  assumes upd: "sql_update check au (\<lambda>r. ID r \<in> S \<and> expired before r) (mark_deleted af) (executions d) = Inr (c, es)"
  shows "lifecycle d (d\<lparr>executions := es\<rparr>)"
proof (rule lifecycle_update_executions [OF upd])
  fix r :: execution
  assume "ID r \<in> S \<and> expired before r" and state: "execution_state r"
  then show "execution_state (audit_update au r ((mark_deleted af r)\<lparr>Version := Version r + 1\<rparr>)) \<and>
      execution_history r (audit_update au r ((mark_deleted af r)\<lparr>Version := Version r + 1\<rparr>))"
    by (cases au)
       (auto simp: execution_state_def execution_history_def mark_deleted_def audit_update_def
         live_def terminal_def expired_def Let_def)
qed (simp add: mark_deleted_def)

subsection \<open>From the repository to the service\<close>

text \<open>The laws a guarantee must have at the repository; the operations of the service then keep it.\<close>

locale repository_guarantee = db_guarantee +
  assumes create_job: "Version value = 1 \<Longrightarrow> tx_keeps (CreateJob env ctx value)"
    and update_job: "tx_keeps (UpdateJob env ctx j v)"
    and delete_job: "tx_keeps (DeleteJob env ctx i v af)"
    and create_execution: "Version x = 1 \<Longrightarrow> Status x = running \<Longrightarrow> DeletedAt x = None \<Longrightarrow>
      FinishedAt x = None \<Longrightarrow> tx_keeps (CreateExecution env ctx x)"
    and finish_execution: "Version x = 1 \<Longrightarrow> terminal x \<Longrightarrow> FinishedAt x \<noteq> None \<Longrightarrow>
      tx_keeps (FinishExecution env ctx x)"
    and retention: "tx_keeps (SoftDeleteTerminalExecutionsBefore env ctx t n af)"
begin

lemma keeps_GetJob: "db_keeps (GetJob env ctx i)"
  unfolding GetJob_def by (rule keeps_query)

lemma keeps_verifyApplication: "db_keeps (verifyApplication env t a)"
  unfolding verifyApplication_def
  by (intro keeps_attempt keeps_tick) (auto intro: combinators split: grant.split)

lemma keeps_authorizeScope: "db_keeps (authorizeScope env ctx t a)"
  unfolding authorizeScope_def Let_def
  by (intro combinators keeps_verifyApplication)

lemma keeps_normalizeAndValidate: "db_keeps (normalizeAndValidate env input)"
  unfolding normalizeAndValidate_def Let_def
  by (intro combinators keeps_invoker_Validate)

lemma keeps_finishOperation:
  "finishOperation env' ctx started en e w = (r, w') \<Longrightarrow> wDb w' = wDb w"
  by (auto simp: finishOperation.simps Let_def split: if_splits option.splits)

lemma keeps_deferred: "db_keeps body \<Longrightarrow> db_keeps (deferred env ctx started mk body)"
proof (rule keepsI)
  fix w r w' assume body: "db_keeps body" and run: "deferred env ctx started mk body w = (r, w')"
  obtain q w1 where b: "body w = (q, w1)" by fastforce
  from body b have "G (wDb w) (wDb w1)" by (rule keepsD)
  moreover from run b have "wDb w' = wDb w1"
    by (auto simp: deferred_def dest: keeps_finishOperation split: sum.splits prod.splits option.splits)
  ultimately show "G (wDb w) (wDb w')" by simp
qed

lemmas service_parts = combinators effects keeps_GetJob keeps_authorizeScope keeps_verifyApplication
  keeps_normalizeAndValidate keeps_Within

lemma keeps_Create: "db_keeps (Create env ctx input)"
  unfolding Create_def Create_body_def Let_def
  by (intro service_parts keeps_deferred create_job) (simp add: new_job_def)

lemma keeps_Update: "db_keeps (Update env ctx i input v)"
  unfolding Update_def Update_body_def Let_def
  by (intro service_parts keeps_deferred update_job)

lemma keeps_Delete: "db_keeps (Delete env ctx i v)"
  unfolding Delete_def Delete_body_def Let_def
  by (intro service_parts keeps_deferred tx.keeps_attempt tx_s_now delete_job)

lemma keeps_CreateManualExecution:
  assumes "Version x = 1" "Status x = running" "DeletedAt x = None" "FinishedAt x = None"
  shows "tx_keeps (CreateManualExecution env ctx x v)"
  unfolding CreateManualExecution_def
  by (intro tx.combinators tx_exec_stmt tx_others_commit create_execution assms) (simp add: G_same)

lemma keeps_executeWithLease: "db_keeps (executeWithLease env ctx value trig actor v)"
proof -
  have fin: "db_keeps (Within env fctx (FinishExecution env fctx (finish_of env (new_execution i value trig t actor) t' a)))"
    for fctx i t t' a
    by (intro keeps_Within finish_execution)
       (auto simp: finish_of_def new_execution_def terminal_def Let_def split: sum.split)
  show ?thesis
    unfolding executeWithLease_def Let_def
    by (intro service_parts fin tx.keeps_if keeps_CreateManualExecution create_execution)
       (simp_all add: new_execution_def)
qed

lemma keeps_execute: "db_keeps (execute env ctx value trig actor v)"
proof -
  have run: "db_keeps (\<lambda>w. case executeWithLease env c value trig actor v w of
      (Inl e, w') \<Rightarrow> (f e, w') | (Inr x, w') \<Rightarrow> (g x, w'))" for c f g
    using keeps_executeWithLease [of c "value" trig actor v]
    by (auto simp: keeps_def split: prod.split sum.split) (metis snd_conv)+
  have idle: "db_keeps (\<lambda>w. (r, w))" for r by (simp add: keeps_def G_same)
  show ?thesis
    unfolding execute_def Let_def by (intro combinators keeps_tick run idle)
qed

lemma keeps_Trigger: "db_keeps (Trigger env ctx i v)"
  unfolding Trigger_def Trigger_body_def Let_def
  by (intro service_parts keeps_deferred keeps_execute)

lemma keeps_ExecuteScheduled: "db_keeps (ExecuteScheduled env ctx value)"
  unfolding ExecuteScheduled_def Let_def by (intro service_parts keeps_execute)

lemma keeps_case_prod: "(\<And>a b. db_keeps (f a b)) \<Longrightarrow> db_keeps (case p of (a, b) \<Rightarrow> f a b)"
  by (cases p) simp

lemma keeps_Get: "db_keeps (Get env ctx i)"
  unfolding Get_def by (intro service_parts)

lemma keeps_List_jobs: "db_keeps (List_jobs env ctx flt page n)"
  unfolding List_jobs_def ListJobs_def Let_def by (intro service_parts keeps_case_prod)

lemma keeps_GetExecution: "db_keeps (GetExecution env ctx i)"
  unfolding GetExecution_def GetExecution_row_def by (intro service_parts)

lemma keeps_ListExecutions: "db_keeps (ListExecutions env ctx flt page n)"
  unfolding ListExecutions_def ListExecutions_rows_def Let_def by (intro service_parts keeps_case_prod)

end

subsection \<open>The life cycle is a guarantee of the service\<close>

text \<open>Other replicas run the same service: what they commit respects the life cycle as well.\<close>

definition env_lifecycle :: "env \<Rightarrow> bool" where
  "env_lifecycle env \<longleftrightarrow> (\<forall>n d. lifecycle d (interfere env n d))"

interpretation lifeb: db_guarantee "\<lambda>d d'. env_lifecycle env \<longrightarrow> lifecycle d d'" env for env
  by unfold_locales (auto simp: env_lifecycle_def lifecycle_same intro: lifecycle_chain)

lemma on_jobs_Inr: "on_jobs r d = Inr (x, d') \<longleftrightarrow> (\<exists>js. r = Inr (x, js) \<and> d' = d\<lparr>jobs := js\<rparr>)"
  by (auto simp: on_jobs_def split: sum.splits)

lemma on_executions_Inr:
  "on_executions r d = Inr (x, d') \<longleftrightarrow> (\<exists>es. r = Inr (x, es) \<and> d' = d\<lparr>executions := es\<rparr>)"
  by (auto simp: on_executions_def split: sum.splits)

lemma with_unit_Inr: "with_unit r = Inr (u, x) \<longleftrightarrow> r = Inr x"
  by (auto simp: with_unit_def split: sum.splits)

lemmas statement_Inr = on_jobs_Inr on_executions_Inr with_unit_Inr

interpretation life: repository_guarantee "\<lambda>d d'. env_lifecycle env \<longrightarrow> lifecycle d d'" env for env
proof unfold_locales
  let ?K = "\<lambda>w w'. (env_lifecycle env \<longrightarrow> lifecycle (wDb w) (wDb w')) \<and>
    (env_lifecycle env \<longrightarrow> lifecycle (wBase w) (wBase w'))"
  fix ctx
  show "keeps ?K (CreateJob env ctx v)" if "Version v = 1" for v
    unfolding CreateJob_def
    by (intro lifeb.tx_exec_stmt) (auto simp: statement_Inr intro: lifecycle_insert_job that)
  show "keeps ?K (UpdateJob env ctx j v)" for j v
    unfolding UpdateJob_def stale_def
    by (intro lifeb.tx.combinators lifeb.tx_others_commit lifeb.tx_exec_stmt)
       (auto simp: statement_Inr set_job_def intro!: lifecycle_update_job)
  show "keeps ?K (DeleteJob env ctx i v af)" for i v af
    unfolding DeleteJob_def stale_def
    by (intro lifeb.tx.combinators lifeb.tx_others_commit lifeb.tx_exec_stmt)
       (auto simp: statement_Inr mark_deleted_def intro!: lifecycle_update_job)
  show "keeps ?K (CreateExecution env ctx x)"
    if "Version x = 1" "Status x = running" "DeletedAt x = None" "FinishedAt x = None" for x
    unfolding CreateExecution_def
    by (intro lifeb.tx_exec_stmt) (auto simp: statement_Inr intro: lifecycle_insert_execution that)
  show "keeps ?K (FinishExecution env ctx x)"
    if "Version x = 1" "terminal x" "FinishedAt x \<noteq> None" for x
    unfolding FinishExecution_def stale_def
    by (intro lifeb.tx.combinators lifeb.tx_others_commit lifeb.tx_exec_stmt)
       (auto simp: statement_Inr intro!: lifecycle_finish [OF _ that])
  show "keeps ?K (SoftDeleteTerminalExecutionsBefore env ctx t n af)" for t n af
    unfolding SoftDeleteTerminalExecutionsBefore_def
    by (intro lifeb.tx.combinators lifeb.tx_others_commit lifeb.tx_exec_stmt)
       (auto simp: statement_Inr lifecycle_same intro: lifecycle_retention)
qed

end
