(* ===== verification/Cleanup.thy ===== *)
theory Cleanup
  imports History Config_Model
begin

section \<open>Retention: package job, cleanup.go\<close>

text \<open>
  \<open>ExecutionCleaner\<close>: its construction with safe defaults, one pass of the batch loop
  (\<open>clean\<close>), and its background goroutine. The loop of \<open>clean\<close> has no
  bound in the code; here it takes fuel, and \<open>clean_terminates\<close> gives the number of rounds that
  always suffices.
\<close>

record cleaner =
  clRetention :: int
  clInterval :: int
  clBatchSize :: int
  clEnabled :: bool

definition NewExecutionCleaner :: "bool \<Rightarrow> cron_config \<Rightarrow> bool \<Rightarrow> go_error + cleaner" where
  "NewExecutionCleaner dependencies cron databaseEnabled =
     (if \<not> dependencies then Inl (ErrorString ''scheduler execution cleaner dependencies are required'')
      else
        let retention = (if cronExecutionRetention cron \<le> 0 then 90 * 24 * 3600000000000 else cronExecutionRetention cron);
            interval = (if cronExecutionCleanupInterval cron \<le> 0 then 3600000000000 else cronExecutionCleanupInterval cron);
            batch = (if cronExecutionCleanupBatchSize cron \<le> 0 then 500 else cronExecutionCleanupBatchSize cron)
        in Inr \<lparr>clRetention = retention, clInterval = interval, clBatchSize = batch, clEnabled = databaseEnabled\<rparr>)"

definition cleaner_context :: "go_context \<Rightarrow> go_context" where
  "cleaner_context ctx =
     ctx\<lparr>cPrincipal := Some \<lparr>pID = ''scheduler-service'', pType = TypeSystem, pTenantID = []\<rparr>\<rparr>"

text \<open>One round: the time is read, then at most a batch of expired rows is deleted in a transaction.\<close>

definition clean_round :: "env \<Rightarrow> cleaner \<Rightarrow> go_context \<Rightarrow> int service" where
  "clean_round env c ctx =
     attempt (s_now env) (\<lambda>now.
     let auditCtx = cleaner_context ctx in
     Within env auditCtx (SoftDeleteTerminalExecutionsBefore env auditCtx (now - clRetention c) (clBatchSize c)
       \<lparr>afUpdatedAt = now, afUpdatedBy = ''scheduler-service''\<rparr>))"

fun clean :: "nat \<Rightarrow> env \<Rightarrow> cleaner \<Rightarrow> go_context \<Rightarrow> world \<Rightarrow> ((go_error + unit) \<times> world) option" where
  "clean 0 env c ctx w = None"
| "clean (Suc fuel) env c ctx w =
     (case clean_round env c ctx w of
        (Inl e, w') \<Rightarrow> Some (Inl e, w')
      | (Inr deleted, w') \<Rightarrow>
          if deleted < clBatchSize c then Some (Inr (), w') else clean fuel env c ctx w')"

subsection \<open>What one round deletes\<close>

lemma take_filter_set:
  "set (take n (sort_by le xs)) \<subseteq> set xs"
  by (metis set_sort_by set_take_subset)

lemma distinct_ids_inj:
  "distinct (map ID rows) \<Longrightarrow> r \<in> set rows \<Longrightarrow> s \<in> set rows \<Longrightarrow> ID r = ID s \<Longrightarrow> r = s"
  by (metis distinct_map inj_onD)

text \<open>The rows a batch picks.\<close>

definition batch :: "env \<Rightarrow> time \<Rightarrow> int \<Rightarrow> execution list \<Rightarrow> execution list" where
  "batch env before limit rows = take (nat limit) (sort_by (oldest_first env) (filter (expired before) rows))"

lemma batch_members: "x \<in> set (batch env before limit rows) \<Longrightarrow> x \<in> set rows \<and> expired before x"
  unfolding batch_def using take_filter_set by fastforce

lemma batch_distinct: "distinct (map ID rows) \<Longrightarrow> distinct (map ID (batch env before limit rows))"
  unfolding batch_def take_map [symmetric]
  by (intro distinct_take) (simp add: distinct_map_filter)

lemma batch_length:
  "length (batch env before limit rows) = min (nat limit) (length (filter (expired before) rows))"
  by (simp add: batch_def min.commute)

text \<open>
  The rows the UPDATE of a round finds: those picked in \<open>rows\<close> that are in \<open>rows'\<close>, the rows by
  then, and still expired there.
\<close>

definition still_expired :: "env \<Rightarrow> time \<Rightarrow> int \<Rightarrow> execution list \<Rightarrow> execution list \<Rightarrow> execution list" where
  "still_expired env before limit rows rows' =
     filter (\<lambda>x. ID x \<in> ID ` set (batch env before limit rows) \<and> expired before x) rows'"

text \<open>When nobody has touched the rows in between, it finds the whole batch.\<close>

lemma still_expired_undisturbed:
  assumes ids: "distinct (map ID rows)"
  shows "set (still_expired env before limit rows rows) = set (batch env before limit rows)"
    and "length (still_expired env before limit rows rows) = length (batch env before limit rows)"
proof -
  show same: "set (still_expired env before limit rows rows) = set (batch env before limit rows)"
    using ids by (auto simp: still_expired_def dest: batch_members distinct_ids_inj)
  have "distinct (still_expired env before limit rows rows)" "distinct (batch env before limit rows)"
    using ids batch_distinct [OF ids] by (simp_all add: still_expired_def distinct_map)
  with same show "length (still_expired env before limit rows rows) = length (batch env before limit rows)"
    by (metis distinct_card)
qed

text \<open>What others committed between two statements: nothing, or a step of theirs.\<close>

definition meanwhile :: "env \<Rightarrow> db \<Rightarrow> db \<Rightarrow> bool" where
  "meanwhile env d d' \<longleftrightarrow> d' = d \<or> (\<exists>n. d' = interfere env n d)"

lemma others_commit_Inr:
  "others_commit env held w = (r, w') \<Longrightarrow>
     meanwhile env (wDb w) (wDb w') \<and> held (wDb w') = held (wDb w) \<and> wTick w' = Suc (wTick w) \<and>
     wCalls w' = wCalls w"
  by (auto simp: others_commit_run meanwhile_def split: if_splits)

lemma retention_Inr:
  assumes run: "SoftDeleteTerminalExecutionsBefore env ctx before limit af w = (Inr k, w')"
  obtains d au where "meanwhile env (wDb w) d"
    and "k = int (length (still_expired env before limit (executions (wDb w)) (executions d)))"
    and "executions (wDb w') =
      map (\<lambda>x. if x \<in> set (still_expired env before limit (executions (wDb w)) (executions d))
               then audit_update au x ((mark_deleted af x)\<lparr>Version := Version x + 1\<rparr>) else x) (executions d)"
    and "jobs (wDb w') = jobs d" and "wCalls w' = wCalls w"
proof (cases "batch env before limit (executions (wDb w)) = []")
  case True
  with run have "k = 0" "wDb w' = wDb w" "wCalls w' = wCalls w"
    by (auto simp: SoftDeleteTerminalExecutionsBefore_def batch_def prog_ok)
  with True show thesis by (intro that [of "wDb w" None]) (auto simp: still_expired_def meanwhile_def)
next
  case False
  let ?P = "\<lambda>x. ID x \<in> ID ` set (batch env before limit (executions (wDb w))) \<and> expired before x"
  from False run obtain w1 w2 n es where other: "others_commit env (\<lambda>_. ()) w1 = (Inr (), w2)"
    and w1: "wDb w1 = wDb w" "wCalls w1 = wCalls w"
    and upd: "sql_update (execution_check env (jobs (wDb w2))) (audit_of env ctx n) ?P (mark_deleted af)
        (executions (wDb w2)) = Inr (k, es)"
    and w': "wDb w' = (wDb w2)\<lparr>executions := es\<rparr>" "wCalls w' = wCalls w2"
    by (auto simp: SoftDeleteTerminalExecutionsBefore_def batch_def [symmetric] prog_ok statement_Inr)
  from others_commit_Inr [OF other] w1 have d: "meanwhile env (wDb w) (wDb w2)" "wCalls w2 = wCalls w" by auto
  from upd have "k = int (length (filter ?P (executions (wDb w2))))"
    and "es = map (\<lambda>x. if ?P x
        then audit_update (audit_of env ctx n) x ((mark_deleted af x)\<lparr>Version := Version x + 1\<rparr>) else x) (executions (wDb w2))"
    by (simp_all add: sql_update_Inr)
  with d w' show thesis
    by (intro that [of "wDb w2" "audit_of env ctx n"]) (auto simp: still_expired_def)
qed

subsection \<open>One round\<close>

text \<open>The rows after a round, and how many rows a later round could still delete.\<close>

definition deleted_from :: "audit \<Rightarrow> audit_fields \<Rightarrow> execution list \<Rightarrow> execution list \<Rightarrow> execution list" where
  "deleted_from au af sel rows =
     map (\<lambda>x. if x \<in> set sel then audit_update au x ((mark_deleted af x)\<lparr>Version := Version x + 1\<rparr>) else x) rows"

definition backlog :: "time \<Rightarrow> execution list \<Rightarrow> nat" where
  "backlog T rows = length (filter (expired T) rows)"

lemma expired_mono: "expired t x \<Longrightarrow> t \<le> T \<Longrightarrow> expired T x"
  by (auto simp: expired_def split: option.splits)

lemma deleted_not_expired:
  "expired t x \<Longrightarrow> \<not> expired T (audit_update au x ((mark_deleted af x)\<lparr>Version := Version x + 1\<rparr>))"
  by (cases au) (auto simp: expired_def audit_update_def mark_deleted_def Let_def)

lemma deleted_from_ids [simp]: "map ID (deleted_from au af sel rows) = map ID rows"
  by (simp add: deleted_from_def mark_deleted_def)

lemma backlog_deleted_from:
  assumes ids: "distinct (map ID rows)" and sel: "distinct sel" "set sel \<subseteq> set rows" "\<And>x. x \<in> set sel \<Longrightarrow> expired T x"
  shows "backlog T rows = backlog T (deleted_from au af sel rows) + length sel"
proof -
  have "length (filter (\<lambda>x. x \<in> set sel) rows) = length sel"
  proof -
    have "set (filter (\<lambda>x. x \<in> set sel) rows) = set sel" using sel by auto
    moreover have "distinct (filter (\<lambda>x. x \<in> set sel) rows)" using ids by (simp add: distinct_map)
    ultimately show ?thesis using sel(1) by (metis distinct_card)
  qed
  moreover have "filter (expired T) (deleted_from au af sel rows) = filter (\<lambda>x. x \<notin> set sel \<and> expired T x) rows"
  proof -
    have "x \<in> set sel \<Longrightarrow> \<not> expired T (audit_update au x ((mark_deleted af x)\<lparr>Version := Version x + 1\<rparr>))" for x
      using sel by (auto dest: deleted_not_expired)
    then have "filter (expired T) (deleted_from au af sel xs) = filter (\<lambda>x. x \<notin> set sel \<and> expired T x) xs" for xs
      by (induction xs) (auto simp: deleted_from_def)
    then show ?thesis .
  qed
  moreover have "length (filter (expired T) rows) =
      length (filter (\<lambda>x. x \<in> set sel) rows) + length (filter (\<lambda>x. x \<notin> set sel \<and> expired T x) rows)"
  proof -
    have "\<forall>x \<in> set rows. x \<in> set sel \<longrightarrow> expired T x" using sel by auto
    then have "length (filter (expired T) rows) =
      length (filter (\<lambda>x. x \<in> set sel) rows) + length (filter (\<lambda>x. x \<notin> set sel \<and> expired T x) rows)"
      by (induction rows) auto
    then show ?thesis .
  qed
  ultimately show ?thesis by (simp add: backlog_def)
qed

text \<open>
  A round that deletes fewer rows than the limit leaves nothing behind, if the rows that are
  expired are the same at both of its statements.
\<close>

lemma short_round_complete:
  assumes ids: "distinct (map ID rows')" and same: "\<And>x. expired t x \<Longrightarrow> x \<in> set rows' \<longleftrightarrow> x \<in> set rows"
    and few: "int (length (still_expired env t limit rows rows')) < limit" and ids0: "distinct (map ID rows)"
  shows "backlog t (deleted_from au af (still_expired env t limit rows rows') rows') = 0"
proof -
  have sub: "set (batch env t limit rows) \<subseteq> set (still_expired env t limit rows rows')"
    using same by (auto simp: still_expired_def dest: batch_members)
  have "length (batch env t limit rows) = card (set (batch env t limit rows))"
    using batch_distinct [OF ids0, of env t limit] by (simp add: distinct_map distinct_card)
  also have "\<dots> \<le> card (set (still_expired env t limit rows rows'))" using sub by (intro card_mono) auto
  also have "\<dots> \<le> length (still_expired env t limit rows rows')" by (rule card_length)
  finally have "int (length (batch env t limit rows)) < limit" using few by linarith
  then have "length (filter (expired t) rows) < nat limit"
    by (auto simp: batch_length min_def split: if_splits)
  then have "batch env t limit rows = sort_by (oldest_first env) (filter (expired t) rows)"
    by (simp add: batch_def)
  then have "{x \<in> set rows'. expired t x} \<subseteq> set (still_expired env t limit rows rows')"
    using same by (auto simp: still_expired_def)
  moreover have "\<not> expired t (audit_update au x ((mark_deleted af x)\<lparr>Version := Version x + 1\<rparr>))" 
    if "x \<in> set (still_expired env t limit rows rows')" for x
    using that by (auto simp: still_expired_def dest: deleted_not_expired)
  ultimately show ?thesis
    by (auto simp: backlog_def deleted_from_def filter_empty_conv)
qed

text \<open>The cutoff of the round that starts at \<open>w\<close>, and the tables its transaction begins with.\<close>

definition round_cutoff :: "env \<Rightarrow> cleaner \<Rightarrow> world \<Rightarrow> time" where
  "round_cutoff env c w = nowAt env (wTick w) - clRetention c"

definition round_start :: "env \<Rightarrow> world \<Rightarrow> db" where
  "round_start env w = interfere env (Suc (wTick w)) (wDb w)"

definition round_rows :: "env \<Rightarrow> cleaner \<Rightarrow> world \<Rightarrow> db \<Rightarrow> execution list" where
  "round_rows env c w d =
     still_expired env (round_cutoff env c w) (clBatchSize c) (executions (round_start env w)) (executions d)"

lemma clean_round_Inr:
  assumes run: "clean_round env c ctx w = (Inr k, w')"
  obtains d au af where "meanwhile env (round_start env w) d" and "k = int (length (round_rows env c w d))"
    and "executions (wDb w') = deleted_from au af (round_rows env c w d) (executions d)"
    and "jobs (wDb w') = jobs d" and "wCalls w' = wCalls w"
proof -
  let ?w = "w\<lparr>wTick := Suc (wTick w)\<rparr>"
  let ?af = "\<lparr>afUpdatedAt = nowAt env (wTick w), afUpdatedBy = ''scheduler-service''\<rparr>"
  from run have "Within env (cleaner_context ctx)
     (SoftDeleteTerminalExecutionsBefore env (cleaner_context ctx) (round_cutoff env c w) (clBatchSize c) ?af) ?w = (Inr k, w')"
    by (simp add: clean_round_def round_cutoff_def prog_simps Let_def)
  then obtain w1 w2 where w1: "wDb w1 = interfere env (wTick ?w) (wDb ?w)" "wCalls w1 = wCalls ?w"
    and fn: "SoftDeleteTerminalExecutionsBefore env (cleaner_context ctx) (round_cutoff env c w) (clBatchSize c) ?af w1 = (Inr k, w2)"
    and w': "w' = w2\<lparr>wTick := Suc (wTick w2)\<rparr>"
    by (rule Within_Inr)
  from w1 have start: "wDb w1 = round_start env w" by (simp add: round_start_def)
  from fn show thesis
  proof (rule retention_Inr)
    fix d au
    assume "meanwhile env (wDb w1) d"
      and "k = int (length (still_expired env (round_cutoff env c w) (clBatchSize c) (executions (wDb w1)) (executions d)))"
      and "executions (wDb w2) = map (\<lambda>x. if x \<in> set (still_expired env (round_cutoff env c w)
              (clBatchSize c) (executions (wDb w1)) (executions d))
           then audit_update au x (mark_deleted ?af x\<lparr>Version := Version x + 1\<rparr>) else x) (executions d)"
      and "jobs (wDb w2) = jobs d" and "wCalls w2 = wCalls w1"
    then show thesis using w1 w'
      by (intro that [of d au ?af]) (simp_all add: deleted_from_def round_rows_def start)
  qed
qed

subsection \<open>The loop\<close>

lemma clean_round_lifecycle:
  assumes "env_lifecycle env" and "clean_round env c ctx w = (r, w')"
  shows "lifecycle (wDb w) (wDb w')"
proof -
  have "keeps (\<lambda>w w'. env_lifecycle env \<longrightarrow> lifecycle (wDb w) (wDb w')) (clean_round env c ctx)"
    unfolding clean_round_def Let_def by (intro lifeb.combinators lifeb.effects lifeb.keeps_Within life.retention)
  from keepsD [OF this assms(2)] assms(1) show ?thesis by simp
qed

lemma clean_lifecycle:
  "env_lifecycle env \<Longrightarrow> clean fuel env c ctx w = Some (r, w') \<Longrightarrow> lifecycle (wDb w) (wDb w')"
proof (induction fuel arbitrary: w)
  case (Suc fuel)
  obtain q w1 where round: "clean_round env c ctx w = (q, w1)" by fastforce
  with Suc.prems have "lifecycle (wDb w) (wDb w1)" by (intro clean_round_lifecycle)
  with Suc round show ?case
    by (auto split: sum.splits if_splits dest: Suc.IH intro: lifecycle_chain)
qed simp

lemma interfere_ids:
  "env_lifecycle env \<Longrightarrow> integrity d \<Longrightarrow> distinct (map ID (executions (interfere env n d)))"
  by (auto simp: env_lifecycle_def lifecycle_def integrity_def)

text \<open>
  What the rest of the system may do meanwhile: never complete an execution in the past, so that
  the rows that are already older than \<open>T\<close> can only become fewer.
\<close>

definition backlog_frozen :: "env \<Rightarrow> time \<Rightarrow> bool" where
  "backlog_frozen env T \<longleftrightarrow> (\<forall>n d. backlog T (executions (interfere env n d)) \<le> backlog T (executions d))"

lemma round_integrity:
  assumes "env_lifecycle env" and "integrity (wDb w)" and "meanwhile env (round_start env w) d"
  shows "integrity d" and "integrity (round_start env w)"
  using assms by (auto simp: meanwhile_def round_start_def env_lifecycle_def lifecycle_def)

lemma clean_round_progress:
  assumes env: "env_lifecycle env" "integrity (wDb w)" "backlog_frozen env T"
    and early: "nowAt env (wTick w) - clRetention c \<le> T"
    and run: "clean_round env c ctx w = (Inr k, w')"
  shows "int (backlog T (executions (wDb w'))) + k \<le> int (backlog T (executions (wDb w)))"
proof -
  from run obtain d au af where d: "meanwhile env (round_start env w) d" and k: "k = int (length (round_rows env c w d))"
    and rows': "executions (wDb w') = deleted_from au af (round_rows env c w d) (executions d)"
    by (rule clean_round_Inr)
  have ids: "distinct (map ID (executions d))" using round_integrity(1) [OF env(1,2) d] by (simp add: integrity_def)
  have "backlog T (executions d) = backlog T (deleted_from au af (round_rows env c w d) (executions d)) + length (round_rows env c w d)"
    using ids early by (intro backlog_deleted_from)
      (auto simp: round_rows_def still_expired_def round_cutoff_def distinct_map intro: expired_mono)
  moreover have "backlog T (executions d) \<le> backlog T (executions (wDb w))"
    using env(3) d by (auto simp: backlog_frozen_def meanwhile_def round_start_def intro: order_trans)
  ultimately show ?thesis using k rows' by simp
qed

lemma clean_terminates:
  assumes env: "env_lifecycle env" "backlog_frozen env T" and batch: "0 < clBatchSize c"
    and early: "\<And>n. nowAt env n - clRetention c \<le> T"
  shows "integrity (wDb w) \<Longrightarrow> int (backlog T (executions (wDb w))) < int fuel * clBatchSize c \<Longrightarrow>
    \<exists>r w'. clean fuel env c ctx w = Some (r, w')"
proof (induction fuel arbitrary: w)
  case (Suc fuel)
  obtain q w1 where round: "clean_round env c ctx w = (q, w1)" by fastforce
  show ?case
  proof (cases q)
    case (Inr k)
    with round have run: "clean_round env c ctx w = (Inr k, w1)" by simp
    have "integrity (wDb w1)"
      using clean_round_lifecycle [OF env(1) run] Suc.prems(1) by (simp add: lifecycle_def)
    moreover have "int (backlog T (executions (wDb w1))) < int fuel * clBatchSize c" if "\<not> k < clBatchSize c"
      using clean_round_progress [OF env(1) Suc.prems(1) env(2) early run] Suc.prems(2) that
      by (simp add: algebra_simps)
    ultimately show ?thesis using run by (auto dest: Suc.IH)
  qed (use round in simp)
qed simp

text \<open>
  No other cleaner is at work: what others commit neither deletes an execution that ended before
  \<open>T\<close> nor ends one before \<open>T\<close>. Two cleaners that meet pick the same rows, and the second one's
  UPDATE finds them deleted; its round is then short and ends the pass.
\<close>

definition sole_cleaner :: "env \<Rightarrow> time \<Rightarrow> bool" where
  "sole_cleaner env T \<longleftrightarrow> (\<forall>n d x. expired T x \<longrightarrow>
     (x \<in> set (executions (interfere env n d)) \<longleftrightarrow> x \<in> set (executions d)))"

lemma clean_complete:
  assumes env: "env_lifecycle env" "sole_cleaner env T" and early: "\<And>n. nowAt env n - clRetention c \<le> T"
  shows "integrity (wDb w) \<Longrightarrow> clean fuel env c ctx w = Some (Inr (), w') \<Longrightarrow>
    \<exists>w1 k. clean_round env c ctx w1 = (Inr k, w') \<and> k < clBatchSize c \<and>
      backlog (round_cutoff env c w1) (executions (wDb w')) = 0"
proof (induction fuel arbitrary: w)
  case (Suc fuel)
  obtain q w1 where round: "clean_round env c ctx w = (q, w1)" by fastforce
  with Suc.prems obtain k where run: "clean_round env c ctx w = (Inr k, w1)"
    by (auto split: sum.splits)
  have sound: "integrity (wDb w1)"
    using clean_round_lifecycle [OF env(1) run] Suc.prems(1) by (simp add: lifecycle_def)
  show ?case
  proof (cases "k < clBatchSize c")
    case True
    from run obtain d au af where d: "meanwhile env (round_start env w) d" and k: "k = int (length (round_rows env c w d))"
      and rows: "executions (wDb w1) = deleted_from au af (round_rows env c w d) (executions d)"
      by (rule clean_round_Inr)
    from round_integrity [OF env(1) Suc.prems(1) d]
    have ids: "distinct (map ID (executions d))" "distinct (map ID (executions (round_start env w)))"
      by (simp_all add: integrity_def)
    have "x \<in> set (executions d) \<longleftrightarrow> x \<in> set (executions (round_start env w))" if "expired (round_cutoff env c w) x" for x
    proof -
      have "expired T x" using that early by (auto simp: round_cutoff_def intro: expired_mono)
      then show ?thesis using d env(2) by (auto simp: sole_cleaner_def meanwhile_def)
    qed
    then have "backlog (round_cutoff env c w) (executions (wDb w1)) = 0"
      using True k ids unfolding rows round_rows_def by (intro short_round_complete) auto
    moreover from Suc.prems(2) run True have "w' = w1" by simp
    ultimately show ?thesis using run True by blast
  next
    case False
    with Suc.prems(2) run have "clean fuel env c ctx w1 = Some (Inr (), w')" by simp
    with sound show ?thesis by (rule Suc.IH)
  qed
qed simp

subsection \<open>The background goroutine\<close>

text \<open>
  \<open>start\<close> with the goroutine it begins: a pass, the log entry of its error unless the context was
  canceled, then the ticker or, after \<open>ticks\<close> more passes, the cancellation by \<open>stop\<close>, which waits
  for the goroutine to return. A disabled cleaner starts nothing. The result has the logged errors.
\<close>

definition context_Canceled :: go_error where
  "context_Canceled = ErrorString ''context canceled''"

definition background :: go_context where
  "background = \<lparr>cPrincipal = None, cRequestID = None, cIdempotencyKey = None, cMetadata = [], cTimeouts = []\<rparr>"

fun cleaner_loop :: "nat \<Rightarrow> env \<Rightarrow> cleaner \<Rightarrow> go_context \<Rightarrow> nat \<Rightarrow> world \<Rightarrow> (go_error list \<times> world) option" where
  "cleaner_loop fuel env c ctx ticks w =
     (case clean fuel env c ctx w of
        None \<Rightarrow> None
      | Some (r, w') \<Rightarrow>
          let logged = (case r of Inl e \<Rightarrow> if errors_is e context_Canceled then [] else [e] | Inr _ \<Rightarrow> []) in
          case ticks of
            0 \<Rightarrow> Some (logged, w')
          | Suc n \<Rightarrow> map_option (apfst ((@) logged)) (cleaner_loop fuel env c ctx n w'))"

declare cleaner_loop.simps [simp del]

definition cleaner_start :: "nat \<Rightarrow> env \<Rightarrow> cleaner \<Rightarrow> nat \<Rightarrow> world \<Rightarrow> (go_error list \<times> world) option" where
  "cleaner_start fuel env c ticks w =
     (if \<not> clEnabled c then Some ([], w) else cleaner_loop fuel env c background ticks w)"

text \<open>Whether the goroutine still runs, given whether \<open>start\<close> began it.\<close>

definition cleaner_stop :: "bool \<Rightarrow> (go_error + unit) \<times> bool" where
  "cleaner_stop started = (if started then (Inr (), False) else (Inr (), started))"

text \<open>No error ends the loop, and the tables respect the life cycle for as long as it runs.\<close>

lemma cleaner_loop_lifecycle:
  assumes "env_lifecycle env"
  shows "cleaner_loop fuel env c ctx ticks w = Some (es, w') \<Longrightarrow> lifecycle (wDb w) (wDb w')"
proof (induction ticks arbitrary: w es)
  case 0
  then show ?case
    by (auto simp: cleaner_loop.simps [of _ _ _ _ 0] Let_def split: option.splits dest: clean_lifecycle [OF assms])
next
  case (Suc n)
  then obtain r w1 es1 where "clean fuel env c ctx w = Some (r, w1)" "cleaner_loop fuel env c ctx n w1 = Some (es1, w')"
    by (auto simp: cleaner_loop.simps [of _ _ _ _ "Suc n"] Let_def split: option.splits)
  then show ?case using clean_lifecycle [OF assms] Suc.IH lifecycle_chain by blast
qed

lemma cleaner_start_lifecycle:
  "env_lifecycle env \<Longrightarrow> cleaner_start fuel env c ticks w = Some (es, w') \<Longrightarrow> lifecycle (wDb w) (wDb w')"
  by (auto simp: cleaner_start_def lifecycle_same dest: cleaner_loop_lifecycle split: if_splits)

end
