(* ===== verification/Outcomes.thy ===== *)
theory Outcomes
  imports Sample Cleanup
begin

section \<open>What a successful or failed operation did\<close>

text \<open>
  Shared by the properties of the service. \<open>others env\<close> is what other replicas may have
  committed between two moments; every program that only reads keeps it (\<open>seen\<close>). The
  \<open>*_outcome\<close> lemmas open a successful operation into the database its transaction began with
  and the statement it ran there.
\<close>

inductive others :: "env \<Rightarrow> db \<Rightarrow> db \<Rightarrow> bool" for env where
  others_same: "others env d d"
| others_step: "others env d e \<Longrightarrow> others env d (interfere env n e)"

lemma others_chain: "others env e f \<Longrightarrow> others env d e \<Longrightarrow> others env d f"
  by (induction rule: others.induct) (auto intro: others_step)

interpretation seen: db_guarantee "others env" env for env
  by unfold_locales (auto intro: others_same others_step others_chain)

lemma meanwhile_others: "meanwhile env d e \<Longrightarrow> others env d e"
  unfolding meanwhile_def using others_same others_step by blast

lemma others_lifecycle: "others env d e \<Longrightarrow> env_lifecycle env \<Longrightarrow> lifecycle d e"
  by (induction rule: others.induct) (auto simp: env_lifecycle_def lifecycle_same intro: lifecycle_chain)

abbreviation seen_keeps :: "env \<Rightarrow> ('e, world, 'a) prog \<Rightarrow> bool" where
  "seen_keeps env \<equiv> keeps (\<lambda>w w'. others env (wDb w) (wDb w'))"

lemma seen_GetJob: "seen_keeps env (GetJob env ctx i)"
  unfolding GetJob_def by (rule seen.keeps_query)

lemma seen_verifyApplication: "seen_keeps env (verifyApplication env t a)"
  unfolding verifyApplication_def
  by (intro seen.keeps_attempt seen.keeps_tick) (auto intro: seen.combinators split: grant.split)

lemma seen_authorizeScope: "seen_keeps env (authorizeScope env ctx t a)"
  unfolding authorizeScope_def Let_def
  by (intro seen.combinators seen_verifyApplication)

lemma seen_normalizeAndValidate: "seen_keeps env (normalizeAndValidate env input)"
  unfolding normalizeAndValidate_def Let_def
  by (intro seen.combinators seen.keeps_invoker_Validate)

lemmas seen_parts = seen.combinators seen.effects seen_GetJob seen_authorizeScope
  seen_verifyApplication seen_normalizeAndValidate

lemmas effect_runs = run_tick run_s_now run_uuid run_signalChanged run_note_call

subsection \<open>Rows found, callers granted\<close>

lemma find_live_Some:
  "find_live i rows = Some r \<Longrightarrow> r \<in> set rows \<and> ID r = i \<and> live r"
  by (auto simp: find_live_def find_Some_iff)

lemma GetJob_Inr:
  "GetJob env ctx i w = (Inr j, w') \<Longrightarrow>
     j \<in> set (jobs (wDb w')) \<and> ID j = i \<and> live j \<and> others env (wDb w) (wDb w') \<and>
     wCalls w' = wCalls w"
  by (auto simp: GetJob_def query_Inr split: option.splits
      dest: find_live_Some intro: others_same others_step)

text \<open>Who passed the scope check.\<close>

definition entitled :: "go_context \<Rightarrow> string \<Rightarrow> bool" where
  "entitled ctx tenant \<longleftrightarrow>
     (\<exists>p. cPrincipal ctx = Some p \<and> pID p \<noteq> [] \<and>
        (pType p = TypeUser \<longrightarrow> pTenantID p \<noteq> [] \<and> pTenantID p = trim_space tenant))"

lemma verifyApplication_Inr:
  "verifyApplication env t a w = (Inr u, w') \<longleftrightarrow>
     verifyGrant env (wTick w) (trim_space t) (trim_space a) = Granted \<and> w' = w\<lparr>wTick := Suc (wTick w)\<rparr>"
  by (auto simp: verifyApplication_def prog_simps split: grant.splits)

lemma authorizeScope_Inr:
  "authorizeScope env ctx t a w = (Inr u, w') \<Longrightarrow>
     entitled ctx t \<and> trim_space t \<noteq> [] \<and> trim_space a \<noteq> [] \<and>
     verifyGrant env (wTick w) (trim_space (trim_space t)) (trim_space (trim_space a)) = Granted \<and>
     w' = w\<lparr>wTick := Suc (wTick w)\<rparr>"
  by (auto simp: authorizeScope_def Let_def prog_ok verifyApplication_Inr entitled_def split: option.splits)

text \<open>A caller that is not entitled gets an error, and nothing but time passes.\<close>

lemma authorizeScope_refused:
  "\<not> entitled ctx t \<Longrightarrow> \<exists>e. authorizeScope env ctx t a w = (Inl e, w)"
  by (cases "cPrincipal ctx") (auto simp: authorizeScope_def Let_def prog_simps entitled_def)

lemma deferred_Inr:
  "deferred env ctx started mk body w = (Inr x, w') \<Longrightarrow>
     \<exists>c w1. body w = (Inr (x, c), w1) \<and> wDb w' = wDb w1 \<and> wChanged w' = wChanged w1 \<and> wCalls w' = wCalls w1"
  by (auto simp: deferred_def finishOperation.simps Let_def split: sum.splits prod.splits option.splits if_splits)

lemma deferred_effects:
  "deferred env ctx started mk body w = (r, w') \<Longrightarrow>
     \<exists>q w1. body w = (q, w1) \<and> wDb w' = wDb w1 \<and> wChanged w' = wChanged w1 \<and> wCalls w' = wCalls w1 \<and>
       (isl q \<longrightarrow> isl r)"
  by (auto simp: deferred_def finishOperation.simps Let_def split: sum.splits prod.splits option.splits if_splits)

subsection \<open>Validated input\<close>

definition required_fields :: "input \<Rightarrow> bool" where
  "required_fields i \<longleftrightarrow>
     inTenantID i \<noteq> [] \<and> inApplicationID i \<noteq> [] \<and> inName i \<noteq> [] \<and>
     inCronExpression i \<noteq> [] \<and> inUpstream i \<noteq> [] \<and> inFullMethod i \<noteq> []"

definition input_defaults :: "input \<Rightarrow> input" where
  "input_defaults i =
     i\<lparr>inTimezone := (if inTimezone i = [] then ''Asia/Shanghai'' else inTimezone i),
       inRequestJSON := (if inRequestJSON i = [] then ''{}'' else inRequestJSON i)\<rparr>"

definition acceptable :: "env \<Rightarrow> nat \<Rightarrow> input \<Rightarrow> bool" where
  "acceptable env n i \<longleftrightarrow>
     required_fields i \<and> loadLocation env (inTimezone i) = None \<and>
     parseCron env (inCronExpression i) = None \<and>
     100 \<le> inTimeoutMilliseconds i \<and> inTimeoutMilliseconds i \<le> 1800000 \<and>
     invokerValidate env n (inUpstream i) (inFullMethod i) (inRequestJSON i) = None"

lemma invoker_Validate_Inr:
  "invoker_Validate env u m r w = (Inr x, w') \<longleftrightarrow> invokerValidate env (wTick w) u m r = None \<and>
     w' = w\<lparr>wTick := Suc (wTick w), wCalls := wCalls w @ [CallValidate u m r]\<rparr>"
  by (auto simp: invoker_Validate_def prog_ok effect_runs split: option.splits)

lemma normalizeAndValidate_Inr:
  "normalizeAndValidate env i w = (Inr out, w') \<longleftrightarrow>
     out = input_defaults (trim_input i) \<and> acceptable env (wTick w) out \<and>
     w' = w\<lparr>wTick := Suc (wTick w),
        wCalls := wCalls w @ [CallValidate (inUpstream out) (inFullMethod out) (inRequestJSON out)]\<rparr>"
proof -
  define t where "t = trim_input i"
  show ?thesis
    unfolding normalizeAndValidate_def Let_def t_def [symmetric]
    by (cases "loadLocation env (inTimezone (input_defaults t))"; cases "parseCron env (inCronExpression t)";
        cases "inTimezone t = []"; cases "inRequestJSON t = []")
       (simp_all add: prog_ok invoker_Validate_Inr input_defaults_def acceptable_def required_fields_def, 
        auto)
qed

subsection \<open>Successful mutations\<close>

lemma Create_outcome:
  assumes "Create env ctx input w = (Inr j, w')"
  obtains d au n t p where "others env (wDb w) d" and "cPrincipal ctx = Some p" and "pID p \<noteq> []"
    and "entitled ctx (inTenantID input)"
    and "j = new_job (ID j) (input_defaults (trim_input (trim_scope input))) t (pID p)"
    and "acceptable env n (input_defaults (trim_input (trim_scope input)))"
    and "ID j \<notin> ID ` set (jobs d)" and "job_check env (audit_insert au j) = None"
    and "jobs (wDb w') = jobs d @ [audit_insert au j]" and "executions (wDb w') = executions d"
    and "wChanged w'"
proof -
  let ?in = "input_defaults (trim_input (trim_scope input))"
  from assms obtain w0 c w1 where w0: "w0 = w\<lparr>wTick := Suc (wTick w)\<rparr>"
    and body: "Create_body env ctx input w0 = (Inr (j, c), w1)"
    and out: "wDb w' = wDb w1" "wChanged w' = wChanged w1"
    by (auto simp: Create_def prog_ok effect_runs dest: deferred_Inr)
  from body obtain actor w2 w3 n t i w5 where actor: "actorFromContext ctx = Inr actor"
    and auth: "authorizeScope env ctx (inTenantID (trim_scope input)) (inApplicationID (trim_scope input)) w0 = (Inr (), w2)"
    and valid: "normalizeAndValidate env (trim_scope input) w2 = (Inr c, w3)"
    and j: "j = new_job i c t actor"
    and tx: "Within env ctx (CreateJob env ctx j) (w3\<lparr>wTick := n\<rparr>) = (Inr (), w5)"
    and w1: "w1 = w5\<lparr>wChanged := True\<rparr>"
    by (auto simp: Create_body_def Let_def prog_ok effect_runs)
  from valid have c: "c = ?in" and acc: "acceptable env (wTick w2) ?in" and w3: "wDb w3 = wDb w2"
    by (auto simp: normalizeAndValidate_Inr)
  from auth have ent: "entitled ctx (trim_space (inTenantID input))" and w2: "wDb w2 = wDb w"
    by (auto dest!: authorizeScope_Inr simp: trim_scope_def w0)
  from actor obtain p where p: "cPrincipal ctx = Some p" "pID p \<noteq> []" "actor = pID p"
    by (auto simp: actorFromContext_def split: option.splits if_splits)
  from tx obtain w6 w7 where "wDb w6 = interfere env n (wDb w)"
    and "CreateJob env ctx j w6 = (Inr (), w7)" and "w5 = w7\<lparr>wTick := Suc (wTick w7)\<rparr>"
    by (rule Within_Inr) (simp add: w3 w2)
  then show thesis
    using ent acc c p j out w1
    by (intro that [of "interfere env n (wDb w)" p t "wTick w2" "audit_of env ctx (wTick w6)"])
       (auto simp: CreateJob_def prog_ok statement_Inr sql_insert_Inr new_job_def entitled_def
          intro: others_same others_step)
qed

lemma actorFromContext_Inr:
  "actorFromContext ctx = Inr a \<Longrightarrow> \<exists>p. cPrincipal ctx = Some p \<and> pID p \<noteq> [] \<and> a = pID p"
  by (auto simp: actorFromContext_def split: option.splits if_splits)

text \<open>What a successful update wrote: the definition \<open>c\<close> validated from the request and the row it read.\<close>

definition updated_job :: "input \<Rightarrow> job \<Rightarrow> time \<Rightarrow> string \<Rightarrow> job" where
  "updated_job c cur t actor = (apply_input c cur)\<lparr>UpdatedAt := t, UpdatedBy := actor\<rparr>"

definition scoped_input :: "input \<Rightarrow> job \<Rightarrow> input" where
  "scoped_input input cur =
     input_defaults (trim_input (input\<lparr>inTenantID := TenantID cur, inApplicationID := ApplicationID cur\<rparr>))"

lemma stale_attempt_Inr:
  "attempt (exec_stmt env ctx f) stale w = (Inr u, w') \<longleftrightarrow>
     dbError env (wTick w) ctx = None \<and>
     (\<exists>d n. f (wTick w) (wDb w) = Inr (n, d) \<and> n \<noteq> 0 \<and> w' = w\<lparr>wTick := Suc (wTick w), wDb := d\<rparr>)"
  by (auto simp: stale_def prog_ok)

definition rewritten :: "audit \<Rightarrow> ('a row_scheme \<Rightarrow> 'a row_scheme) \<Rightarrow> 'a row_scheme \<Rightarrow> 'a row_scheme" where
  "rewritten au f r = audit_update au r ((f r)\<lparr>Version := Version r + 1\<rparr>)"

text \<open>An UPDATE guarded by identity and version that affected a row.\<close>

lemma versioned_update:
  assumes "sql_update check au (at_version i v) f rows = Inr (k, rows')" and "k \<noteq> 0"
  obtains row where "row \<in> set rows" and "at_version i v row" and "Version row < max_i64"
    and "check (rewritten au f row) = None"
    and "rows' = map (\<lambda>r. if at_version i v r then rewritten au f r else r) rows"
proof -
  from assms have "filter (at_version i v) rows \<noteq> []" by (auto simp: sql_update_Inr)
  then obtain row where "row \<in> set rows" "at_version i v row" by (auto simp: filter_empty_conv)
  with assms that [of row] show thesis by (auto simp: sql_update_Inr rewritten_def)
qed

lemma Update_outcome:
  assumes "Update env ctx i input v w = (Inr j, w')"
  obtains cur d e au n t p row where "others env (wDb w) e" and "cur \<in> set (jobs e)" and "ID cur = trim_space i" and "live cur"
    and "others env e d" and "1 \<le> v" and "cPrincipal ctx = Some p" and "pID p \<noteq> []"
    and "entitled ctx (TenantID cur)"
    and "acceptable env n (scoped_input input cur)"
    and "j = (updated_job (scoped_input input cur) cur t (pID p))\<lparr>Version := i64 (v + 1)\<rparr>"
    and "at_version (trim_space i) v row" and "row \<in> set (jobs d)" and "Version row < max_i64"
    and "jobs (wDb w') = map (\<lambda>r. if at_version (trim_space i) v r
           then rewritten au (set_job (updated_job (scoped_input input cur) cur t (pID p))) r else r) (jobs d)"
    and "executions (wDb w') = executions d" and "wChanged w'"
proof -
  from assms obtain w0 c w1 where w0: "w0 = w\<lparr>wTick := Suc (wTick w)\<rparr>"
    and body: "Update_body env ctx i input v w0 = (Inr (j, c), w1)"
    and out: "wDb w' = wDb w1" "wChanged w' = wChanged w1"
    by (auto simp: Update_def prog_ok effect_runs dest: deferred_Inr)
  from body obtain actor cur w2 w3 w4 t w5 where v: "1 \<le> v" and actor: "actorFromContext ctx = Inr actor"
    and get: "GetJob env ctx (trim_space i) w0 = (Inr cur, w2)"
    and auth: "authorizeScope env ctx (TenantID cur) (ApplicationID cur) w2 = (Inr (), w3)"
    and valid: "normalizeAndValidate env (input\<lparr>inTenantID := TenantID cur, inApplicationID := ApplicationID cur\<rparr>) w3 = (Inr c, w4)"
    and tx: "Within env ctx (UpdateJob env ctx (updated_job c cur t actor) v) (w4\<lparr>wTick := Suc (wTick w4)\<rparr>) = (Inr (), w5)"
    and j: "j = (updated_job c cur t actor)\<lparr>Version := i64 (v + 1)\<rparr>"
    and w1: "w1 = w5\<lparr>wChanged := True\<rparr>"
    by (auto simp: Update_body_def Let_def prog_ok effect_runs updated_job_def)
  from get have cur: "cur \<in> set (jobs (wDb w2))" "ID cur = trim_space i" "live cur" "others env (wDb w) (wDb w2)"
    by (auto dest: GetJob_Inr simp: w0)
  from valid have c: "c = scoped_input input cur" and acc: "acceptable env (wTick w3) (scoped_input input cur)" and w4: "wDb w4 = wDb w3"
    by (auto simp: normalizeAndValidate_Inr scoped_input_def)
  from auth have ent: "entitled ctx (TenantID cur)" and w3: "wDb w3 = wDb w2"
    by (auto dest!: authorizeScope_Inr)
  from actor obtain p where p: "cPrincipal ctx = Some p" "pID p \<noteq> []" "actor = pID p"
    by (auto dest: actorFromContext_Inr)
  from tx obtain w6 w7 where w6: "wDb w6 = interfere env (Suc (wTick w4)) (wDb w2)"
    and stmt: "UpdateJob env ctx (updated_job c cur t actor) v w6 = (Inr (), w7)" and w5: "w5 = w7\<lparr>wTick := Suc (wTick w7)\<rparr>"
    by (rule Within_Inr) (simp add: w4 w3)
  let ?d = "interfere env (Suc (wTick w4)) (wDb w2)"
  have idc: "ID (updated_job c cur t actor) = trim_space i" by (simp add: updated_job_def apply_input_def cur)
  from stmt obtain k js where upd: "sql_update (job_check env) (audit_of env ctx (wTick w6)) (at_version (trim_space i) v)
      (set_job (updated_job (scoped_input input cur) cur t (pID p))) (jobs ?d) = Inr (k, js)" "k \<noteq> 0"
      and w7: "wDb w7 = ?d\<lparr>jobs := js\<rparr>"
    unfolding UpdateJob_def stale_attempt_Inr idc by (auto simp: statement_Inr w6 c p(3))
  have later: "others env (wDb w2) ?d" by (intro others_same others_step)
  from upd show thesis
  proof (rule versioned_update)
    fix row
    assume "row \<in> set (jobs ?d)" "at_version (trim_space i) v row" "Version row < max_i64"
      and "js = map (\<lambda>r. if at_version (trim_space i) v r
        then rewritten (audit_of env ctx (wTick w6)) (set_job (updated_job (scoped_input input cur) cur t (pID p))) r else r) (jobs ?d)"
    with cur later ent acc c p j out w1 v w5 w7 show thesis
      by (intro that [of "wDb w2" cur ?d p "wTick w3" t row "audit_of env ctx (wTick w6)"]) auto
  qed
qed

lemma Delete_outcome:
  assumes "Delete env ctx i v w = (Inr u, w')"
  obtains cur d e au t p row where "others env (wDb w) e" and "cur \<in> set (jobs e)" and "ID cur = trim_space i" and "live cur"
    and "others env e d" and "1 \<le> v" and "cPrincipal ctx = Some p" and "pID p \<noteq> []"
    and "entitled ctx (TenantID cur)"
    and "at_version (trim_space i) v row" and "row \<in> set (jobs d)" and "Version row < max_i64"
    and "jobs (wDb w') = map (\<lambda>r. if at_version (trim_space i) v r
           then rewritten au (mark_deleted \<lparr>afUpdatedAt = t, afUpdatedBy = pID p\<rparr>) r else r) (jobs d)"
    and "executions (wDb w') = executions d" and "wChanged w'"
proof -
  from assms obtain w0 c w1 where w0: "w0 = w\<lparr>wTick := Suc (wTick w)\<rparr>"
    and body: "Delete_body env ctx i v w0 = (Inr ((), c), w1)"
    and out: "wDb w' = wDb w1" "wChanged w' = wChanged w1"
    by (auto simp: Delete_def prog_ok effect_runs dest: deferred_Inr)
  from body obtain actor cur w2 w3 w5 where v: "1 \<le> v" and actor: "actorFromContext ctx = Inr actor"
    and get: "GetJob env ctx (trim_space i) w0 = (Inr cur, w2)"
    and auth: "authorizeScope env ctx (TenantID cur) (ApplicationID cur) w2 = (Inr (), w3)"
    and tx: "Within env ctx (attempt (s_now env) (\<lambda>now. DeleteJob env ctx (trim_space i) v
        \<lparr>afUpdatedAt = now, afUpdatedBy = actor\<rparr>)) w3 = (Inr (), w5)"
    and w1: "w1 = w5\<lparr>wChanged := True\<rparr>"
    by (auto simp: Delete_body_def Let_def prog_ok effect_runs)
  from get have cur: "cur \<in> set (jobs (wDb w2))" "ID cur = trim_space i" "live cur" "others env (wDb w) (wDb w2)"
    by (auto dest: GetJob_Inr simp: w0)
  from auth have ent: "entitled ctx (TenantID cur)" and w3: "wDb w3 = wDb w2"
    by (auto dest!: authorizeScope_Inr)
  from actor obtain p where p: "cPrincipal ctx = Some p" "pID p \<noteq> []" "actor = pID p"
    by (auto dest: actorFromContext_Inr)
  from tx obtain w6 w7 where w6: "wDb w6 = interfere env (wTick w3) (wDb w2)"
    and stmt: "attempt (s_now env) (\<lambda>now. DeleteJob env ctx (trim_space i) v
        \<lparr>afUpdatedAt = now, afUpdatedBy = actor\<rparr>) w6 = (Inr (), w7)" and w5: "w5 = w7\<lparr>wTick := Suc (wTick w7)\<rparr>"
    by (rule Within_Inr) (simp add: w3)
  let ?d = "interfere env (wTick w3) (wDb w2)"
  let ?af = "\<lparr>afUpdatedAt = nowAt env (wTick w6), afUpdatedBy = pID p\<rparr>"
  from stmt obtain k js where upd: "sql_update (job_check env) (audit_of env ctx (Suc (wTick w6))) (at_version (trim_space i) v)
      (mark_deleted ?af) (jobs ?d) = Inr (k, js)" "k \<noteq> 0"
      and w7: "wDb w7 = ?d\<lparr>jobs := js\<rparr>"
    unfolding DeleteJob_def by (auto simp: prog_ok effect_runs stale_def statement_Inr w6 p(3))
  have later: "others env (wDb w2) ?d" by (intro others_same others_step)
  from upd show thesis
  proof (rule versioned_update)
    fix row
    assume "row \<in> set (jobs ?d)" "at_version (trim_space i) v row" "Version row < max_i64"
      and "js = map (\<lambda>r. if at_version (trim_space i) v r
        then rewritten (audit_of env ctx (Suc (wTick w6))) (mark_deleted ?af) r else r) (jobs ?d)"
    with cur later ent p out w1 v w5 w7 show thesis
      by (intro that [of "wDb w2" cur ?d p row "audit_of env ctx (Suc (wTick w6))" "nowAt env (wTick w6)"]) auto
  qed
qed

subsection \<open>Successful executions\<close>

lemma invoker_Invoke_Inr:
  "invoker_Invoke env c u m r w = (Inr a, w') \<longleftrightarrow> a = invokerInvoke env (wTick w) c u m r \<and>
     w' = w\<lparr>wTick := Suc (wTick w), wCalls := wCalls w @ [CallInvoke c u m r], wInvokedAt := wInvokedAt w @ [wTick w]\<rparr>"
  by (auto simp: invoker_Invoke_def prog_ok effect_runs run_note_time)

lemma CreateExecution_Inr:
  "CreateExecution env ctx x w = (Inr u, w') \<Longrightarrow>
     \<exists>au. execution_check env (jobs (wDb w)) (audit_insert au x) = None \<and> ID x \<notin> ID ` set (executions (wDb w)) \<and>
       jobs (wDb w') = jobs (wDb w) \<and> executions (wDb w') = executions (wDb w) @ [audit_insert au x] \<and>
       wCalls w' = wCalls w"
  by (auto simp: CreateExecution_def prog_ok statement_Inr sql_insert_Inr)

lemma CreateManualExecution_Inr:
  assumes "CreateManualExecution env ctx x v w = (Inr u, w')"
  obtains d au j where "others env (wDb w) d" and "find_live (JobID x) (jobs d) = Some j"
    and "Version j = v" and "Status j = enabled"
    and "execution_check env (jobs d) (audit_insert au x) = None" and "ID x \<notin> ID ` set (executions d)"
    and "jobs (wDb w') = jobs d" and "executions (wDb w') = executions d @ [audit_insert au x]"
    and "wCalls w' = wCalls w"
proof -
  from assms obtain j w2 where j: "find_live (JobID x) (jobs (wDb w)) = Some j" "Version j = v" "Status j = enabled"
    and other: "others_commit env (\<lambda>d. find_live (JobID x) (jobs d)) (w\<lparr>wTick := Suc (wTick w)\<rparr>) = (Inr (), w2)"
    and ins: "CreateExecution env ctx x w2 = (Inr (), w')"
    by (auto simp: CreateManualExecution_def prog_ok split: option.splits)
  from others_commit_Inr [OF other] j have "others env (wDb w) (wDb w2)"
    "find_live (JobID x) (jobs (wDb w2)) = Some j" "wCalls w2 = wCalls w"
    by (auto dest: meanwhile_others)
  with CreateExecution_Inr [OF ins] j(2,3) that [of "wDb w2" j] show thesis by auto
qed

lemma FinishExecution_Inr:
  "FinishExecution env ctx x w = (Inr u, w') \<Longrightarrow>
     \<exists>au row. row \<in> set (executions (wDb w)) \<and> ID row = ID x \<and> Version row = Version x \<and>
       jobs (wDb w') = jobs (wDb w) \<and> wCalls w' = wCalls w \<and>
       executions (wDb w') = map (\<lambda>r. if ID r = ID x \<and> Version r = Version x
         then rewritten au (set_finished x) r else r) (executions (wDb w))"
  unfolding FinishExecution_def stale_attempt_Inr
  by (auto simp: statement_Inr sql_update_Inr filter_empty_conv rewritten_def)

lemma new_execution_fields [simp]:
  "ID (new_execution i val trig t actor) = i" "JobID (new_execution i val trig t actor) = ID val"
  "Version (new_execution i val trig t actor) = 1"
  by (simp_all add: new_execution_def)

lemma answered_Inr:
  "(case answer of Inl e \<Rightarrow> fail (f e) | Inr _ \<Rightarrow> ok x) w = (Inr y, w') \<longleftrightarrow>
     \<not> isl answer \<and> y = x \<and> w' = w"
  by (auto simp: prog_ok split: sum.splits)

text \<open>The insert of an execution, by a trigger or by the schedule.\<close>

lemma inserted:
  assumes "(if trig = ''manual'' then CreateManualExecution env ctx x v else CreateExecution env ctx x) w = (Inr u, w')"
  shows "\<exists>d au. others env (wDb w) d \<and>
    (trig = ''manual'' \<longrightarrow> (\<exists>j. find_live (JobID x) (jobs d) = Some j \<and> Version j = v \<and> Status j = enabled)) \<and>
    execution_check env (jobs d) (audit_insert au x) = None \<and> ID x \<notin> ID ` set (executions d) \<and>
    jobs (wDb w') = jobs d \<and> executions (wDb w') = executions d @ [audit_insert au x] \<and> wCalls w' = wCalls w"
proof (cases "trig = ''manual''")
  case True
  with assms have "CreateManualExecution env ctx x v w = (Inr u, w')" by simp
  then show ?thesis by (rule CreateManualExecution_Inr) blast
next
  case False
  with assms show ?thesis by (auto dest!: CreateExecution_Inr intro: others_same)
qed

lemma executeWithLease_outcome:
  assumes "executeWithLease env ctx val trig actor v w = (Inr x, w')"
  obtains d1 d2 d3 au au' i t t' resp n row where "others env (wDb w) d1"
    and "trig = ''manual'' \<Longrightarrow> \<exists>j. find_live (ID val) (jobs d1) = Some j \<and> Version j = v \<and> Status j = enabled"
    and "i \<notin> ID ` set (executions d1)" and "ID val \<in> ID ` set (jobs d1)"
    and "jobs d2 = jobs d1" and "executions d2 = executions d1 @ [audit_insert au (new_execution i val trig t actor)]"
    and "others env d2 d3" and "env_lifecycle env \<longrightarrow> lifecycle d1 d2"
    and "invokerInvoke env n (invoke_context ctx i val) (Upstream val) (FullMethod val) (RequestJSON val) = Inr resp"
    and "wCalls w' = wCalls w @ [CallInvoke (invoke_context ctx i val) (Upstream val) (FullMethod val) (RequestJSON val)]"
    and "x = (finish_of env (new_execution i val trig t actor) t' (Inr resp))\<lparr>Version := 2\<rparr>"
    and "row \<in> set (executions d3)" and "ID row = i" and "Version row = 1"
    and "jobs (wDb w') = jobs d3"
    and "executions (wDb w') = map (\<lambda>r. if ID r = i \<and> Version r = 1
         then rewritten au' (set_finished (finish_of env (new_execution i val trig t actor) t' (Inr resp))) r else r)
         (executions d3)"
proof -
  define ins where "ins x = (if trig = ''manual'' then CreateManualExecution env ctx x v else CreateExecution env ctx x)" for x
  define i where "i = uuidAt env (Suc (wTick w))"
  define t where "t = nowAt env (wTick w)"
  define fctx where "fctx = with_timeout 5000000000 (without_cancel (invoke_context ctx i val))"
  from assms obtain w1 w2 answer where
    create: "Within env ctx (ins (new_execution i val trig t actor)) (w\<lparr>wTick := Suc (Suc (wTick w))\<rparr>) = (Inr (), w1)"
    and call: "invoker_Invoke env (invoke_context ctx i val) (Upstream val) (FullMethod val) (RequestJSON val) w1 = (Inr answer, w2)"
    and fin: "Within env fctx (FinishExecution env fctx (finish_of env (new_execution i val trig t actor) (nowAt env (wTick w2)) answer))
        (w2\<lparr>wTick := Suc (wTick w2)\<rparr>) = (Inr (), w')" and returned: "\<not> isl answer"
    and x0: "x = (finish_of env (new_execution i val trig t actor) (nowAt env (wTick w2)) answer)\<lparr>Version :=
      i64 (Version (finish_of env (new_execution i val trig t actor) (nowAt env (wTick w2)) answer) + 1)\<rparr>"
    unfolding executeWithLease_def Let_def ins_def [symmetric]
    by (auto simp: prog_ok effect_runs answered_Inr fctx_def i_def t_def)
  define t' where "t' = nowAt env (wTick w2)"
  from call obtain m where answer: "answer = invokerInvoke env m (invoke_context ctx i val) (Upstream val) (FullMethod val) (RequestJSON val)"
    and w2: "wDb w2 = wDb w1" "wCalls w2 = wCalls w1 @ [CallInvoke (invoke_context ctx i val) (Upstream val) (FullMethod val) (RequestJSON val)]"
    by (auto simp: invoker_Invoke_Inr)
  let ?new = "new_execution i val trig t actor"
  from fin returned x0 obtain resp where resp: "answer = Inr resp"
    and fin: "Within env fctx (FinishExecution env fctx (finish_of env ?new t' (Inr resp)))
        (w2\<lparr>wTick := Suc (wTick w2)\<rparr>) = (Inr (), w')"
    and x: "x = (finish_of env ?new t' (Inr resp))\<lparr>Version := 2\<rparr>"
    by (cases answer) (auto simp: finish_of_def new_execution_def i64_def Let_def t'_def)
  have fid: "ID (finish_of env ?new t' (Inr resp)) = i" "Version (finish_of env ?new t' (Inr resp)) = 1"
    by (simp_all add: finish_of_def new_execution_def Let_def)
  have nid: "ID ?new = i" "JobID ?new = ID val" by (simp_all add: new_execution_def)
  from create obtain w4 w5 where w4: "wDb w4 = interfere env (Suc (Suc (wTick w))) (wDb w)" "wCalls w4 = wCalls w"
    and ins: "ins ?new w4 = (Inr (), w5)"
    and w1: "w1 = w5\<lparr>wTick := Suc (wTick w5)\<rparr>"
    by (rule Within_Inr) simp
  from inserted [OF ins [unfolded ins_def]] obtain d1 au where d1: "others env (wDb w4) d1"
    and guard: "trig = ''manual'' \<Longrightarrow> \<exists>j. find_live (ID val) (jobs d1) = Some j \<and> Version j = v \<and> Status j = enabled"
    and row: "execution_check env (jobs d1) (audit_insert au ?new) = None" "i \<notin> ID ` set (executions d1)"
      "jobs (wDb w5) = jobs d1" "executions (wDb w5) = executions d1 @ [audit_insert au ?new]" "wCalls w5 = wCalls w4"
    unfolding nid by blast
  have life: "lifecycle d1 (wDb w5)"
  proof -
    from row have "sql_insert (execution_check env (jobs d1)) (audit_insert au ?new) (executions d1) = Inr (executions (wDb w5))"
      by (simp add: sql_insert_Inr nid)
    then have "lifecycle d1 (d1\<lparr>executions := executions (wDb w5)\<rparr>)"
      by (rule lifecycle_insert_execution) (simp_all add: new_execution_def)
    moreover have "d1\<lparr>executions := executions (wDb w5)\<rparr> = wDb w5" using row(3) by simp
    ultimately show ?thesis by simp
  qed
  have "JobID (audit_insert au ?new) = ID val" by (auto simp: audit_insert_def nid split: option.split)
  with row(1) have job: "ID val \<in> ID ` set (jobs d1)" by (auto simp: execution_check_def split: if_splits)
  from fin obtain w6 w7 where w6: "wDb w6 = interfere env (Suc (wTick w2)) (wDb w5)" "wCalls w6 = wCalls w2"
    and upd: "FinishExecution env fctx (finish_of env ?new t' (Inr resp)) w6 = (Inr (), w7)"
    and w': "w' = w7\<lparr>wTick := Suc (wTick w7)\<rparr>"
    by (rule Within_Inr) (simp add: w2 w1)
  from FinishExecution_Inr [OF upd] obtain au' old where
    "old \<in> set (executions (wDb w6))" "ID old = i" "Version old = 1"
    "jobs (wDb w7) = jobs (wDb w6)" "wCalls w7 = wCalls w6"
    "executions (wDb w7) = map (\<lambda>r. if ID r = i \<and> Version r = 1
       then rewritten au' (set_finished (finish_of env ?new t' (Inr resp))) r else r) (executions (wDb w6))"
    unfolding fid by blast
  moreover have "others env (wDb w) d1" "others env (wDb w5) (wDb w6)"
    using w4 w6 d1 by (auto intro: others_same others_step others_chain)
  ultimately show thesis
    using guard row job answer resp x w' w2 w1 w4 w6 life
    by (intro that [of d1 i "wDb w5" au t "wDb w6" m resp t' old au']) auto
qed

subsection \<open>Calls to the invoker, whatever the outcome\<close>

lemma attempt_cases:
  assumes "attempt m f s = (r, s')"
  obtains (stop) e where "m s = (Inl e, s')" and "r = Inl e"
  | (go) x s1 where "m s = (Inr x, s1)" and "f x s1 = (r, s')"
  using assms by (auto simp: attempt_def split: prod.splits sum.splits)

lemma attempt_s_now: "attempt (s_now env) f w = f (nowAt env (wTick w)) (w\<lparr>wTick := Suc (wTick w)\<rparr>)"
  by (simp add: prog_simps)

lemma attempt_uuid: "attempt (uuid_NewString env) f w = f (uuidAt env (wTick w)) (w\<lparr>wTick := Suc (wTick w)\<rparr>)"
  by (simp add: prog_simps)

lemma calls_exec_stmt: "keeps same_calls (exec_stmt env ctx f)"
  by (auto simp: keeps_def same_calls_def exec_stmt_def prog_simps split: option.split sum.split prod.split)

lemma calls_setAuditActor: "keeps same_calls (setAuditActor env ctx)"
  unfolding setAuditActor_def by (intro calls.combinators calls_effects)

lemma calls_finish_tx: "keeps same_calls fn \<Longrightarrow> keeps same_calls (finish_tx env ctx fn)"
proof (rule keepsI)
  fix s r s' assume fn: "keeps same_calls fn" and run: "finish_tx env ctx fn s = (r, s')"
  obtain q t where "fn s = (q, t)" by fastforce
  with fn run show "same_calls s s'"
    by (auto simp: finish_tx_def rollback_tx_def commit_tx_def prog_simps same_calls_def
        dest!: keepsD split: sum.splits option.splits)
qed

lemma calls_others_commit: "keeps same_calls (others_commit env held)"
  by (simp add: keeps_def same_calls_def others_commit_run)

lemma calls_Within:
  assumes "keeps same_calls fn"
  shows "keeps same_calls (Within env ctx fn)"
proof -
  have move: "keeps same_calls (modifies (\<lambda>w. begin_on (f w) w))" for f
    by (simp add: keeps_def same_calls_def prog_simps)
  show ?thesis
    unfolding Within_def
    by (intro calls.combinators calls_effects calls_setAuditActor calls_finish_tx assms move)
qed

lemma calls_verifyApplication: "keeps same_calls (verifyApplication env t a)"
  unfolding verifyApplication_def
  by (intro calls.keeps_attempt calls_tick) (auto intro: calls.combinators split: grant.split)

lemma calls_authorizeScope: "keeps same_calls (authorizeScope env ctx t a)"
  unfolding authorizeScope_def Let_def by (intro calls.combinators calls_verifyApplication)

lemma calls_GetJob: "keeps same_calls (GetJob env ctx i)"
  unfolding GetJob_def by (rule calls_query)

lemma calls_CreateExecution: "keeps same_calls (CreateExecution env ctx x)"
  unfolding CreateExecution_def by (rule calls_exec_stmt)

lemma calls_CreateManualExecution: "keeps same_calls (CreateManualExecution env ctx x v)"
  unfolding CreateManualExecution_def by (intro calls.combinators calls_exec_stmt calls_others_commit calls_CreateExecution)

lemma calls_FinishExecution: "keeps same_calls (FinishExecution env ctx x)"
  unfolding FinishExecution_def stale_def by (intro calls.combinators calls_exec_stmt)

lemmas calls_parts = calls.combinators calls_effects calls_Within calls_authorizeScope calls_verifyApplication
  calls_GetJob calls_CreateExecution calls_CreateManualExecution calls_FinishExecution

lemma same_callsD: "keeps same_calls m \<Longrightarrow> m w = (r, w') \<Longrightarrow> wCalls w' = wCalls w"
  by (drule (1) keepsD) (simp add: same_calls_def)

lemma same_timesD: "keeps same_calls m \<Longrightarrow> m w = (r, w') \<Longrightarrow> wInvokedAt w' = wInvokedAt w \<and> wTick w \<le> wTick w'"
  by (drule (1) keepsD) (simp add: same_calls_def)

text \<open>The call an execution makes.\<close>

definition the_call :: "go_context \<Rightarrow> string \<Rightarrow> job \<Rightarrow> invoker_call" where
  "the_call ctx i val = CallInvoke (invoke_context ctx i val) (Upstream val) (FullMethod val) (RequestJSON val)"

text \<open>One call more, and when it was made.\<close>

definition one_call :: "go_context \<Rightarrow> job \<Rightarrow> nat \<Rightarrow> world \<Rightarrow> world \<Rightarrow> bool" where
  "one_call ctx val n w w' \<longleftrightarrow> (\<exists>i. wCalls w' = wCalls w @ [the_call ctx i val]) \<and>
     wInvokedAt w' = wInvokedAt w @ [n] \<and> wTick w \<le> n \<and> n < wTick w'"

lemma executeWithLease_invokes:
  assumes "executeWithLease env ctx val trig actor v w = (r, w')"
  shows "same_calls w w' \<or> (\<exists>n. one_call ctx val n w w')"
proof -
  define ins where "ins x = (if trig = ''manual'' then CreateManualExecution env ctx x v else CreateExecution env ctx x)" for x
  define i where "i = uuidAt env (Suc (wTick w))"
  define t where "t = nowAt env (wTick w)"
  have ins: "keeps same_calls (on_error translate (Within env ctx (ins x)))" for x
    unfolding ins_def by (intro calls_parts)
  define rest where "rest = (\<lambda>answer. attempt (s_now env) (\<lambda>finished.
     let execution = finish_of env (new_execution i val trig t actor) finished answer;
         finishCtx = with_timeout 5000000000 (without_cancel (invoke_context ctx i val)) in
     attempt (on_error translate (Within env finishCtx (FinishExecution env finishCtx execution))) (\<lambda>_.
     let execution = execution\<lparr>Version := i64 (Version execution + 1)\<rparr> in
     case answer of
       Inl e \<Rightarrow> fail (Unavailable ''scheduled gRPC invocation failed'' (Some e))
     | Inr _ \<Rightarrow> ok execution)))"
  have rest: "keeps same_calls (rest answer)" for answer
    unfolding rest_def Let_def by (intro calls_parts)
  from assms have run: "attempt (on_error translate (Within env ctx (ins (new_execution i val trig t actor)))) (\<lambda>_.
      attempt (invoker_Invoke env (invoke_context ctx i val) (Upstream val) (FullMethod val) (RequestJSON val)) rest)
      (w\<lparr>wTick := Suc (Suc (wTick w))\<rparr>) = (r, w')"
    unfolding executeWithLease_def Let_def ins_def [symmetric]
    by (simp add: attempt_s_now attempt_uuid rest_def i_def t_def Let_def cong: sum.case_cong)
  then show ?thesis
  proof (cases rule: attempt_cases)
    case stop
    then show ?thesis using keepsD [OF ins stop(1)] by (simp add: same_calls_def)
  next
    case (go u w1)
    from keepsD [OF ins go(1)] have w1: "wCalls w1 = wCalls w" "wInvokedAt w1 = wInvokedAt w" "wTick w \<le> wTick w1"
      by (simp_all add: same_calls_def)
    from go(2) show ?thesis
    proof (cases rule: attempt_cases)
      case stop
      then show ?thesis by (auto simp: invoker_Invoke_def prog_simps)
    next
      case (go answer w2)
      from keepsD [OF rest go(2)] have "wCalls w' = wCalls w2" "wInvokedAt w' = wInvokedAt w2" "wTick w2 \<le> wTick w'"
        by (simp_all add: same_calls_def)
      with go(1) w1 have "one_call ctx val (wTick w1) w w'"
        by (auto simp: invoker_Invoke_Inr the_call_def one_call_def)
      then show ?thesis by blast
    qed
  qed
qed

lemma execute_invokes:
  assumes "execute env ctx val trig actor v w = (r, w')"
  shows "same_calls w w' \<or>
    laRan (tryLock env (wTick w) (lock_key val) (lock_ttl val)) \<and>
      (\<exists>n. wTick w < n \<and> one_call (with_timeout (timeout_duration val) ctx) val n w w')"
proof (cases "lockerPresent env \<and> laRan (tryLock env (wTick w) (lock_key val) (lock_ttl val))")
  case True
  obtain q w1 where run: "executeWithLease env (with_timeout (timeout_duration val) ctx) val trig actor v
      (w\<lparr>wTick := Suc (wTick w)\<rparr>) = (q, w1)" by fastforce
  with assms True have "w' = w1" by (auto simp: execute_def Let_def prog_simps split: sum.splits)
  with executeWithLease_invokes [OF run] True show ?thesis
    by (auto simp: same_calls_def one_call_def)
next
  case False
  with assms have "same_calls w w'" by (auto simp: execute_def Let_def prog_simps same_calls_def split: if_splits)
  then show ?thesis ..
qed

lemma execute_calls:
  assumes "execute env ctx val trig actor v w = (r, w')"
  shows "wCalls w' = wCalls w \<or>
    (\<exists>i. wCalls w' = wCalls w @ [the_call (with_timeout (timeout_duration val) ctx) i val])"
  using execute_invokes [OF assms] by (auto simp: same_calls_def one_call_def)

subsection \<open>Programs that leave no trace when they fail\<close>

text \<open>
  \<open>undone env X m\<close>: if \<open>m\<close> fails, the database is as other replicas made it, or the error is
  one of the excuses \<open>X\<close>. The excuse of a transaction is a COMMIT that was applied although it
  reports an error (the connection is lost before the answer arrives), the excuse of an
  operation is that, or an operation log that refuses the entry of what was done.
\<close>

definition undone :: "env \<Rightarrow> ('e \<Rightarrow> bool) \<Rightarrow> ('e, world, 'a) prog \<Rightarrow> bool" where
  "undone env X m \<longleftrightarrow> (\<forall>w e w'. m w = (Inl e, w') \<longrightarrow> others env (wDb w) (wDb w') \<or> X e)"

definition never_fails :: "('e, world, 'a) prog \<Rightarrow> bool" where
  "never_fails m \<longleftrightarrow> (\<forall>w e w'. m w \<noteq> (Inl e, w'))"

definition commit_in_doubt :: "env \<Rightarrow> go_error \<Rightarrow> bool" where
  "commit_in_doubt env e \<longleftrightarrow> (\<exists>n c d. commitError env n c = Some (d, True) \<and> e = Wrapped ''commit transaction'' d)"

definition translated_doubt :: "env \<Rightarrow> go_error \<Rightarrow> bool" where
  "translated_doubt env e \<longleftrightarrow> (\<exists>d. commit_in_doubt env d \<and> e = translate d)"

definition log_refused :: "env \<Rightarrow> go_error \<Rightarrow> bool" where
  "log_refused env e \<longleftrightarrow> (\<exists>n en d. recordError env n en = Some d \<and> e = Unavailable ''enqueue operation log'' (Some d))"

lemma undone_seen: "seen_keeps env m \<Longrightarrow> undone env X m"
  by (auto simp: undone_def keeps_def) (metis snd_conv)

lemma undone_attempt:
  assumes "seen_keeps env m" and "\<And>x. undone env X (f x)"
  shows "undone env X (attempt m f)"
  unfolding undone_def
proof (intro allI impI)
  fix w e w' assume "attempt m f w = (Inl e, w')"
  then show "others env (wDb w) (wDb w') \<or> X e"
  proof (cases rule: attempt_cases)
    case stop
    then show ?thesis using assms(1) by (auto dest: keepsD)
  next
    case (go x w1)
    with assms(2) have "others env (wDb w1) (wDb w') \<or> X e" by (auto simp: undone_def)
    moreover from go(1) assms(1) have "others env (wDb w) (wDb w1)" by (auto dest: keepsD)
    ultimately show ?thesis using others_chain by blast
  qed
qed

lemma undone_attempt_last:
  "undone env X m \<Longrightarrow> (\<And>x. never_fails (f x)) \<Longrightarrow> undone env X (attempt m f)"
  unfolding undone_def never_fails_def attempt_Inl by blast

lemma undone_on_error: "undone env X m \<Longrightarrow> (\<And>e. X e \<Longrightarrow> Y (g e)) \<Longrightarrow> undone env Y (on_error g m)"
  by (auto simp: undone_def on_error_Inl)

lemma undone_fail: "undone env X (fail e)"
  by (intro undone_seen seen.combinators)

lemma undone_ensure: "undone env X m \<Longrightarrow> undone env X (ensure b e m)"
  by (simp add: ensure_def undone_fail)

lemma never_fails_ok: "never_fails (ok x)"
  by (simp add: never_fails_def prog_simps)

lemma never_fails_signal: "(\<And>x. never_fails (f x)) \<Longrightarrow> never_fails (attempt signalChanged f)"
  by (simp add: never_fails_def prog_simps)

text \<open>What a rollback leaves is what others have made of the tables.\<close>

interpretation base: guarantee "\<lambda>w w'. others env (wBase w) (wBase w')" for env
  by unfold_locales (auto intro: others_same others_chain)

abbreviation base_keeps :: "env \<Rightarrow> ('e, world, 'a) prog \<Rightarrow> bool" where
  "base_keeps env \<equiv> keeps (\<lambda>w w'. others env (wBase w) (wBase w'))"

lemma base_exec_stmt: "base_keeps env (exec_stmt env ctx f)"
  by (auto simp: keeps_def exec_stmt_def prog_simps others_same split: option.split sum.split prod.split)

lemma base_others_commit: "base_keeps env (others_commit env held)"
  by (auto simp: keeps_def others_commit_run intro: others_same others_step)

lemma base_s_now: "base_keeps env (s_now env)"
  by (simp add: keeps_def prog_simps others_same)

lemma base_writes:
  "base_keeps env (CreateJob env ctx j)" "base_keeps env (UpdateJob env ctx j v)"
  "base_keeps env (DeleteJob env ctx i v af)"
  unfolding CreateJob_def UpdateJob_def DeleteJob_def stale_def
  by (intro base.combinators base_exec_stmt)+

lemmas base_parts = base.keeps_attempt base_s_now base_writes

lemma finish_tx_failed:
  assumes "base_keeps env fn" and "finish_tx env ctx fn w = (Inl e, w')"
  shows "others env (wBase w) (wDb w') \<or> commit_in_doubt env e"
proof -
  obtain r w1 where run: "fn w = (r, w1)" by fastforce
  with assms(1) have "others env (wBase w) (wBase w1)" by (auto dest: keepsD)
  with assms(2) run show ?thesis
    by (auto simp: finish_tx_def rollback_tx_def commit_tx_def prog_simps commit_in_doubt_def
        split: sum.splits prod.splits option.splits if_splits)
qed

lemma undone_Within:
  assumes "base_keeps env fn"
  shows "undone env (commit_in_doubt env) (Within env ctx fn)"
  unfolding undone_def
proof (intro allI impI)
  fix w e w' assume run: "Within env ctx fn w = (Inl e, w')"
  show "others env (wDb w) (wDb w') \<or> commit_in_doubt env e"
  proof (cases "dbEnabled env \<and> dbError env (wTick w) ctx = None")
    case True
    let ?w = "begin_on (interfere env (wTick w) (wDb w)) (w\<lparr>wTick := Suc (wTick w)\<rparr>)"
    from True run have "attempt (setAuditActor env ctx) (\<lambda>_. finish_tx env ctx fn) ?w = (Inl e, w')"
      by (simp add: Within_def prog_simps split: prod.split sum.split)
    then have "others env (interfere env (wTick w) (wDb w)) (wDb w') \<or> commit_in_doubt env e"
    proof (cases rule: attempt_cases)
      case stop
      then show ?thesis by (auto dest!: seen.setAuditActor_db intro: others_same)
    next
      case (go x w1)
      from go(1) have "wBase w1 = interfere env (wTick w) (wDb w)" by (auto dest!: seen.setAuditActor_db)
      with finish_tx_failed [OF assms go(2)] show ?thesis by simp
    qed
    then show ?thesis by (auto intro: others_chain others_step others_same)
  next
    case False
    with run show ?thesis
      by (cases "dbEnabled env"; cases "dbError env (wTick w) ctx")
        (auto simp: Within_def prog_simps intro: others_same)
  qed
qed

text \<open>The error of an operation, after its log entry.\<close>

lemma undone_deferred:
  assumes "undone env (\<lambda>ec. translated_doubt env (fst ec)) body"
  shows "undone env (\<lambda>e. translated_doubt env e \<or> log_refused env e) (deferred env ctx started mk body)"
  unfolding undone_def
proof (intro allI impI)
  fix w e w' assume run: "deferred env ctx started mk body w = (Inl e, w')"
  obtain q w1 where body: "body w = (q, w1)" by fastforce
  show "others env (wDb w) (wDb w') \<or> translated_doubt env e \<or> log_refused env e"
  proof (cases q)
    case (Inl ec)
    with run body have "e = fst ec" "wDb w' = wDb w1"
      by (cases ec; auto simp: deferred_def finishOperation.simps Let_def
          split: prod.splits option.splits if_splits)+
    with assms body Inl show ?thesis unfolding undone_def by metis
  next
    case (Inr xc)
    with run body show ?thesis
      by (cases xc; auto simp: deferred_def finishOperation.simps Let_def log_refused_def
          split: prod.splits option.splits if_splits)
  qed
qed

lemma body_doubt: "commit_in_doubt env e \<Longrightarrow> translated_doubt env (fst (translate e, c))"
  by (auto simp: translated_doubt_def)

lemma undone_translated:
  "undone env (commit_in_doubt env) m \<Longrightarrow>
   undone env (\<lambda>ec. translated_doubt env (fst ec)) (on_error (\<lambda>e. (translate e, c)) m)"
  by (erule undone_on_error) (rule body_doubt)

lemmas undone_parts = undone_ensure undone_attempt undone_attempt_last undone_Within undone_translated
  never_fails_ok never_fails_signal base_parts

subsection \<open>Reads\<close>

definition sample_filter :: job_filter where
  "sample_filter = \<lparr>jfTenantID = '' t1'', jfApplicationID = ''app'', jfKeyword = [], jfIDs = [],
     jfStatuses = [''Enabled ''], jfUpstreams = [], jfCreatedFrom = None, jfCreatedTo = None\<rparr>"

lemma sample_filter_normal:
  "normalizeJobFilter (sample_filter\<lparr>jfTenantID := ''t1'', jfApplicationID := ''app''\<rparr>) =
     Inr (sample_filter\<lparr>jfTenantID := ''t1'', jfApplicationID := ''app'', jfStatuses := [enabled]\<rparr>)"
  by code_simp

lemma sample_filter_trim [sample_simps]: "trim_space '' t1'' = ''t1''"
  by code_simp

lemma sample_get:
  "\<exists>w'. Get sample_env sample_context ''j1'' (sample_world [sample_job] []) = (Inr sample_job, w')"
  unfolding Get_def
  by (intro exI) (rule run | simp add: sample_simps Let_def)+

lemma sample_list:
  "\<exists>pg w'. List_jobs sample_env sample_context sample_filter 1 10 (sample_world [sample_job] []) = (Inr pg, w') \<and>
     Items pg = [sample_job]"
proof -
  let ?f = "sample_filter\<lparr>jfTenantID := ''t1'', jfApplicationID := ''app''\<rparr>"
  let ?n = "?f\<lparr>jfStatuses := [enabled]\<rparr>"
  have scope: "sample_filter\<lparr>jfTenantID := trim_space (jfTenantID sample_filter),
      jfApplicationID := trim_space (jfApplicationID sample_filter)\<rparr> = ?f"
    by (simp add: sample_filter_def sample_simps)
  have page: "pagination 1 10 = Inr (1, 10)" "page_offset 1 10 = 0"
    by (simp_all add: pagination_def page_offset_def i64_def)
  have matches: "job_matches sample_env ?n sample_job"
    by (simp add: job_matches_def like_any_def in_list_def in_range_def sample_simps sample_filter_def)
  obtain wh where wh: "job_where sample_env ?n = Inr wh"
    by (simp add: job_where_def and_then_def sample_filter_def)
  obtain w' where "ListJobs sample_env sample_context ?n 10 0 (sample_world [sample_job] [] \<lparr>wTick := 1\<rparr>) = (Inr ([sample_job], 1), w')"
    by (simp add: ListJobs_def wh prog_simps query_def matches sample_world_def window_def)
  moreover have "authorizeScope sample_env sample_context ''t1'' ''app'' (sample_world [sample_job] []) =
      (Inr (), sample_world [sample_job] [] \<lparr>wTick := 1\<rparr>)"
    by ((rule run | simp add: sample_simps Let_def)+)
  ultimately show ?thesis
    unfolding List_jobs_def Let_def scope
    by (auto simp: prog_simps sample_filter_normal page make_page_def)
qed

lemma query_window_items:
  assumes "window env limit offset (sort_by le rows) = Inr items"
  shows "set items \<subseteq> set rows" and "length items \<le> nat limit"
proof -
  from assms have items: "items = take (nat limit) (drop (nat offset) (sort_by le rows))"
    by (auto simp: window_def split: if_splits)
  then show "length items \<le> nat limit" by simp
  have "set items \<subseteq> set (sort_by le rows)"
    unfolding items by (meson set_drop_subset set_take_subset subset_trans)
  then show "set items \<subseteq> set rows" by simp
qed

lemma ListJobs_Inr:
  assumes "ListJobs env ctx flt limit offset w = (Inr (items, count), w')"
  obtains d1 wh where "job_where env flt = Inr wh" and "others env (wDb w) d1" and "others env d1 (wDb w')"
    and "count = int (length (filter (job_matches env flt) (jobs d1)))"
    and "window env limit offset (sort_by (newest_first env CreatedAt) (filter (job_matches env flt) (jobs (wDb w')))) = Inr items"
proof (rule that)
  let ?d = "interfere env (wTick w) (wDb w)"
  show "others env (wDb w) ?d" "others env ?d (wDb w')"
    using assms by (auto simp: ListJobs_def prog_ok query_Inr intro: others_same others_step)
  show "job_where env flt = Inr (projr (job_where env flt))"
    "count = int (length (filter (job_matches env flt) (jobs ?d)))"
    "window env limit offset (sort_by (newest_first env CreatedAt) (filter (job_matches env flt) (jobs (wDb w')))) = Inr items"
    using assms by (auto simp: ListJobs_def prog_ok query_Inr)
qed

lemma ListExecutions_rows_Inr:
  assumes "ListExecutions_rows env ctx flt limit offset w = (Inr (items, count), w')"
  obtains d1 wh where "execution_where env flt = Inr wh" and "others env (wDb w) d1" and "others env d1 (wDb w')"
    and "count = int (length (filter (execution_matches env flt) (executions d1)))"
    and "window env limit offset (sort_by (newest_first env StartedAt) (filter (execution_matches env flt) (executions (wDb w')))) = Inr items"
proof (rule that)
  let ?d = "interfere env (wTick w) (wDb w)"
  show "others env (wDb w) ?d" "others env ?d (wDb w')"
    using assms by (auto simp: ListExecutions_rows_def prog_ok query_Inr intro: others_same others_step)
  show "execution_where env flt = Inr (projr (execution_where env flt))"
    "count = int (length (filter (execution_matches env flt) (executions ?d)))"
    "window env limit offset (sort_by (newest_first env StartedAt) (filter (execution_matches env flt) (executions (wDb w')))) = Inr items"
    using assms by (auto simp: ListExecutions_rows_def prog_ok query_Inr)
qed

lemma normalizeJobFilter_scope:
  "normalizeJobFilter flt = Inr flt' \<Longrightarrow> jfTenantID flt' = jfTenantID flt \<and> jfApplicationID flt' = jfApplicationID flt"
  by (auto simp: normalizeJobFilter_def Let_def and_then_Inr split: if_splits)

lemma normalizeExecutionFilter_scope:
  "normalizeExecutionFilter flt = Inr flt' \<Longrightarrow> efJobID flt' = efJobID flt"
  by (auto simp: normalizeExecutionFilter_def Let_def and_then_Inr split: if_splits option.splits)

lemma pagination_Inr:
  "pagination pg_no sz = Inr (p, n) \<longleftrightarrow>
     p = (if pg_no \<le> 0 then 1 else pg_no) \<and> n = (if sz \<le> 0 then 20 else sz) \<and> n \<le> 100"
  by (auto simp: pagination_def Let_def)

subsection \<open>Callers that are not entitled\<close>

text \<open>No row of that id belongs to a tenant the caller is entitled to.\<close>

definition stranger :: "env \<Rightarrow> go_context \<Rightarrow> string \<Rightarrow> db \<Rightarrow> bool" where
  "stranger env ctx i d \<longleftrightarrow>
     (\<forall>e j. others env d e \<longrightarrow> j \<in> set (jobs e) \<longrightarrow> ID j = i \<longrightarrow> \<not> entitled ctx (TenantID j))"

definition harmless :: "env \<Rightarrow> world \<Rightarrow> ('e + 'a) \<times> world \<Rightarrow> bool" where
  "harmless env w out \<longleftrightarrow> isl (fst out) \<and> others env (wDb w) (wDb (snd out)) \<and> wCalls (snd out) = wCalls w"

lemma on_error_attempt: "on_error g (attempt m f) = attempt (on_error g m) (\<lambda>x. on_error g (f x))"
  by (intro ext) (auto simp: prog_simps split: sum.split prod.split)

lemma harmless_fail: "harmless env w (Inl e, w)"
  by (simp add: harmless_def others_same)

lemma harmless_ensure: "harmless env w (m w) \<Longrightarrow> harmless env w (ensure b e m w)"
  by (simp add: run_ensure harmless_fail)

lemma harmless_lift:
  "(\<And>x. harmless env w (f x w)) \<Longrightarrow> harmless env w (attempt (on_error g (lift_result r)) f w)"
  by (cases r) (simp_all add: prog_simps harmless_fail)

text \<open>An operation that reads the job and then checks its scope is harmless for a stranger.\<close>

lemma harmless_scope:
  assumes "stranger env ctx i (wDb w)"
  shows "harmless env w (attempt (on_error g (GetJob env ctx i)) (\<lambda>cur.
    attempt (on_error (h cur) (authorizeScope env ctx (TenantID cur) (ApplicationID cur))) (rest cur)) w)"
proof -
  obtain q w1 where get: "GetJob env ctx i w = (q, w1)" by fastforce
  then have same: "others env (wDb w) (wDb w1)" "wCalls w1 = wCalls w"
    using keepsD [OF seen_GetJob get] same_callsD [OF calls_GetJob get] by auto
  show ?thesis
  proof (cases q)
    case (Inl e)
    with get same show ?thesis by (simp add: prog_simps harmless_def)
  next
    case (Inr cur)
    with get assms have "\<not> entitled ctx (TenantID cur)" by (auto simp: stranger_def dest: GetJob_Inr)
    then obtain e where "authorizeScope env ctx (TenantID cur) (ApplicationID cur) w1 = (Inl e, w1)"
      using authorizeScope_refused by blast
    with get Inr same show ?thesis by (simp add: prog_simps harmless_def)
  qed
qed

lemma harmless_deferred:
  assumes "harmless env w (body w)"
  shows "harmless env w (deferred env ctx started mk body w)"
proof -
  obtain q w1 where body: "body w = (q, w1)" by fastforce
  obtain r w' where run: "deferred env ctx started mk body w = (r, w')" by fastforce
  from deferred_effects [OF run] body assms run show ?thesis by (auto simp: harmless_def)
qed

lemma harmless_started:
  assumes "\<And>t. harmless env (w\<lparr>wTick := Suc (wTick w)\<rparr>) (f t (w\<lparr>wTick := Suc (wTick w)\<rparr>))"
  shows "harmless env w (attempt (s_now env) f w)"
  using assms by (simp add: attempt_s_now harmless_def)

subsection \<open>Who a trigger calls\<close>

lemma on_error_run: "on_error g m w = (r, w') \<Longrightarrow> \<exists>r'. m w = (r', w') \<and> (\<forall>x. r = Inr x \<longrightarrow> r' = Inr x)"
  by (auto simp: on_error_def split: sum.splits prod.splits)

lemma Trigger_tail_calls:
  assumes "attempt (authorizeScope env ctx (TenantID val) (ApplicationID val)) (\<lambda>_.
       attempt (lift_result (validateManualTrigger val v)) (\<lambda>_. execute env ctx val trig actor v)) w = (r, w')"
  shows "wCalls w' = wCalls w \<or>
    Version val = v \<and> Status val = enabled \<and> entitled ctx (TenantID val) \<and>
    (\<exists>k. wCalls w' = wCalls w @ [the_call (with_timeout (timeout_duration val) ctx) k val])"
  using assms
proof (cases rule: attempt_cases)
  case stop
  then show ?thesis using same_callsD [OF calls_authorizeScope] by blast
next
  case (go u w1)
  from go(1) have auth: "entitled ctx (TenantID val)" "wCalls w1 = wCalls w"
    by (auto dest!: authorizeScope_Inr)
  show ?thesis
  proof (cases "validateManualTrigger val v")
    case (Inl e)
    with go(2) auth show ?thesis by (simp add: prog_simps)
  next
    case (Inr u)
    then have "Version val = v" "Status val = enabled"
      by (auto simp: validateManualTrigger_def split: if_splits)
    moreover from Inr go(2) have "execute env ctx val trig actor v w1 = (r, w')" by (simp add: prog_simps)
    ultimately show ?thesis using execute_calls auth by metis
  qed
qed

subsection \<open>The execution on record\<close>

text \<open>What the service relies on in \<open>distlock.TryWithLock\<close>.\<close>

definition lock_contract :: "env \<Rightarrow> bool" where
  "lock_contract env \<longleftrightarrow> (\<forall>n k t. let a = tryLock env n k t in
     (laAcquired a \<longrightarrow> laRan a) \<and> (laRan a \<longrightarrow> (\<forall>e. laError a (Some e) \<noteq> None)))"

lemma execute_Inr:
  assumes run: "execute env ctx val trig actor v w = (Inr x, w')" and "lock_contract env"
  shows "executeWithLease env (with_timeout (timeout_duration val) ctx) val trig actor v
    (w\<lparr>wTick := Suc (wTick w)\<rparr>) = (Inr x, w')"
proof -
  let ?a = "tryLock env (wTick w) (lock_key val) (lock_ttl val)"
  obtain q w1 where lease: "executeWithLease env (with_timeout (timeout_duration val) ctx) val trig actor v
    (w\<lparr>wTick := Suc (wTick w)\<rparr>) = (q, w1)" by fastforce
  from assms(2) have a: "laAcquired ?a \<Longrightarrow> laRan ?a" "laRan ?a \<Longrightarrow> laError ?a (Some e) \<noteq> None" for e
    unfolding lock_contract_def Let_def by blast+
  from run have present: "lockerPresent env" by (simp add: execute_def run_ensure split: if_splits)
  show ?thesis
  proof (cases "laRan ?a")
    case True
    show ?thesis
    proof (cases q)
      case (Inl e)
      obtain e' where "laError ?a (Some e) = Some e'" using a(2) [OF True] by blast
      with run lease present True Inl show ?thesis
        by (simp add: execute_def Let_def prog_simps split: if_splits)
    next
      case (Inr y)
      with run lease present True show ?thesis
        by (auto simp: execute_def Let_def prog_simps split: option.splits if_splits)
    qed
  next
    case False
    with a(1) run present show ?thesis
      by (auto simp: execute_def Let_def prog_simps split: option.splits if_splits)
  qed
qed

lemma executeWithLease_recorded:
  assumes run: "executeWithLease env ctx val trig actor v w = (Inr x, w')"
    and env: "env_lifecycle env" and sound: "integrity (wDb w)"
  obtains row k n resp where "row \<in> set (executions (wDb w'))" and "ID row = k" and "ID row = ID x"
    and "JobID row = ID val" and "TriggerType row = trig" and "Status row = succeeded" and "Version row = 2"
    and "live row" and "invokerInvoke env n (invoke_context ctx k val) (Upstream val) (FullMethod val) (RequestJSON val) = Inr resp"
    and "wCalls w' = wCalls w @ [the_call ctx k val]"
    and "ResponseJSON row = truncate_text resp (2 ^ 20)" and "ResponseJSON x = ResponseJSON row"
    and "FinishedAt row \<noteq> None" and "FinishedAt x = FinishedAt row"
proof -
  from run obtain d1 d2 d3 au au' i t t' resp n row where d1: "others env (wDb w) d1"
    and d2: "executions d2 = executions d1 @ [audit_insert au (new_execution i val trig t actor)]"
      "env_lifecycle env \<longrightarrow> lifecycle d1 d2"
    and d3: "others env d2 d3"
    and call: "invokerInvoke env n (invoke_context ctx i val) (Upstream val) (FullMethod val) (RequestJSON val) = Inr resp"
      "wCalls w' = wCalls w @ [CallInvoke (invoke_context ctx i val) (Upstream val) (FullMethod val) (RequestJSON val)]"
    and x: "x = (finish_of env (new_execution i val trig t actor) t' (Inr resp))\<lparr>Version := 2\<rparr>"
    and row: "row \<in> set (executions d3)" "ID row = i" "Version row = 1"
    and out: "executions (wDb w') = map (\<lambda>r. if ID r = i \<and> Version r = 1
         then rewritten au' (set_finished (finish_of env (new_execution i val trig t actor) t' (Inr resp))) r else r)
         (executions d3)"
    by (rule executeWithLease_outcome)
  let ?new = "audit_insert au (new_execution i val trig t actor)"
  have s2: "integrity d2"
    using others_lifecycle [OF d1 env] sound d2(2) env by (simp add: lifecycle_def)
  with others_lifecycle [OF d3 env] have s3: "integrity d3"
    and hist: "rows_evolve execution_history (executions d2) (executions d3)" by (auto simp: lifecycle_def)
  then obtain r where r: "r \<in> set (executions d3)" "execution_history ?new r"
    using d2(1) by (auto simp: rows_evolve_def)
  have new: "ID ?new = i" "JobID ?new = ID val" "TriggerType ?new = trig" "Version ?new = 1"
    by (auto simp: audit_insert_def new_execution_def split: option.split)
  with r row s3 have "r = row" by (auto simp: execution_history_def integrity_def dest: distinct_ids_inj)
  with r new have old: "JobID row = ID val" "TriggerType row = trig" by (auto simp: execution_history_def)
  have state: "Status row = running" "live row"
    using s3 row by (auto simp: integrity_def execution_sound_def execution_state_def)
  let ?fin = "finish_of env (new_execution i val trig t actor) t' (Inr resp)"
  define row' where "row' = rewritten au' (set_finished ?fin) row"
  have "row' \<in> set (executions (wDb w'))"
    unfolding out row'_def using row by (auto intro!: image_eqI [where x = row])
  moreover have "ID row' = i" "JobID row' = ID val" "TriggerType row' = trig" "Status row' = succeeded" "Version row' = 2"
    "live row'" "ResponseJSON row' = truncate_text resp (2 ^ 20)" "FinishedAt row' = Some t'"
    using row old state by (cases au'; auto simp: row'_def rewritten_def audit_update_def set_finished_def
      finish_of_def live_def Let_def)+
  moreover have "ID x = i" "ResponseJSON x = truncate_text resp (2 ^ 20)" "FinishedAt x = Some t'"
    by (auto simp: x finish_of_def Let_def)
  ultimately show thesis
    using call by (intro that [of row' i n resp]) (auto simp: the_call_def)
qed

lemma trimmed_input_fields:
  "trim_space (inTenantID (trim_input i)) = inTenantID (trim_input i)"
  "trim_space (inApplicationID (trim_input i)) = inApplicationID (trim_input i)"
  "trim_space (inName (trim_input i)) = inName (trim_input i)"
  "trim_space (inCronExpression (trim_input i)) = inCronExpression (trim_input i)"
  "trim_space (inTimezone (trim_input i)) = inTimezone (trim_input i)"
  "trim_space (inUpstream (trim_input i)) = inUpstream (trim_input i)"
  "trim_space (inFullMethod (trim_input i)) = inFullMethod (trim_input i)"
  "trim_space (inRequestJSON (trim_input i)) = inRequestJSON (trim_input i)"
  by (simp_all add: trim_input_def)

lemma default_texts: "trim_space ''Asia/Shanghai'' = ''Asia/Shanghai''" "trim_space ''{}'' = ''{}''"
  by code_simp+

lemma input_defaults_normal: "input_defaults (trim_input (input_defaults (trim_input i))) = input_defaults (trim_input i)"
  by (cases i) (simp add: input_defaults_def trim_input_def default_texts)

subsection \<open>Sets of filter values\<close>

definition set_value :: "string list option \<Rightarrow> string \<Rightarrow> string" where
  "set_value allowed v = (case allowed of None \<Rightarrow> trim_space v | Some _ \<Rightarrow> to_lower (trim_space v))"

definition set_value_ok :: "string list option \<Rightarrow> string \<Rightarrow> bool" where
  "set_value_ok allowed v \<longleftrightarrow> trim_space v \<noteq> [] \<and> length (trim_space v) \<le> 200 \<and>
     (case allowed of None \<Rightarrow> True | Some words \<Rightarrow> set_value allowed v \<in> set words)"

definition add_new :: "'a list \<Rightarrow> 'a \<Rightarrow> 'a list" where
  "add_new acc x = (if x \<in> set acc then acc else acc @ [x])"

lemma normalizeSet_loop_Inr:
  "normalizeSet_loop allowed acc vs = Inr r \<longleftrightarrow>
     (\<forall>v \<in> set vs. set_value_ok allowed v) \<and> r = foldl add_new acc (map (set_value allowed) vs)"
proof (induction vs arbitrary: acc)
  case (Cons v vs)
  then show ?case
    by (cases allowed) (auto simp: Let_def set_value_ok_def set_value_def add_new_def)
qed auto

lemma foldl_add_new: "foldl add_new [] xs = rev (remdups (rev xs))"
proof (induction xs rule: rev_induct)
  case (snoc x xs)
  moreover have "set (foldl add_new [] xs) = set xs" by (simp add: snoc)
  ultimately show ?case by (auto simp: add_new_def)
qed simp

lemma page_offset_exact:
  "1 \<le> p \<Longrightarrow> 1 \<le> n \<Longrightarrow> p * n < 2 ^ 63 \<Longrightarrow> page_offset p n = (p - 1) * n"
proof -
  assume p: "1 \<le> p" and n: "1 \<le> n" and fit: "p * n < 2 ^ 63"
  have "p * 1 \<le> p * n" using p n by (intro mult_left_mono) auto
  then have "p \<le> p * n" by (simp only: mult_1_right)
  then have "p < 2 ^ 63" using fit by (rule le_less_trans)
  then have "in_i64 (p - 1)" using p by (simp add: in_i64_def)
  moreover have "0 \<le> (p - 1) * n" using p n by simp
  moreover have "(p - 1) * n \<le> p * n" using p n by (intro mult_right_mono) auto
  then have "(p - 1) * n < 2 ^ 63" using fit by simp
  ultimately show ?thesis by (simp add: page_offset_def i64_exact in_i64_def)
qed

subsection \<open>Placeholders of a WHERE clause\<close>

text \<open>
  What the code relies on in \<open>sqlx.In\<close>: in a query with one placeholder, it replaces it by as
  many as there are values, in a way that depends on their number only.
\<close>

definition sqlx_contract :: "env \<Rightarrow> (string \<Rightarrow> nat \<Rightarrow> string) \<Rightarrow> bool" where
  "sqlx_contract env f \<longleftrightarrow> (\<forall>q vs. vs \<noteq> [] \<longrightarrow> count_char CHR ''?'' q = 1 \<longrightarrow>
     sqlxIn env q vs = Inr (f q (length vs), vs) \<and> count_char CHR ''?'' (f q (length vs)) = length vs)"

lemma count_char_append [simp]: "count_char c (s @ t) = count_char c s + count_char c t"
  by (simp add: count_char_def)

lemma count_char_Nil [simp]: "count_char c [] = 0"
  by (simp add: count_char_def)

lemma count_char_Cons [simp]: "count_char c (x # s) = (if c = x then 1 else 0) + count_char c s"
  by (simp add: count_char_def)

lemma count_like_terms:
  "\<forall>c \<in> set columns. count_char CHR ''?'' c = 0 \<Longrightarrow> count_char CHR ''?'' (like_terms k columns) = length columns"
  by (induction k columns rule: like_terms.induct) auto

text \<open>Each builder keeps the balance of placeholders and arguments.\<close>

definition balanced :: "sql_where \<Rightarrow> bool" where
  "balanced w \<longleftrightarrow> count_char CHR ''?'' (fst w) = length (snd w)"

lemma balanced_like:
  "balanced w \<Longrightarrow> \<forall>c \<in> set columns. count_char CHR ''?'' c = 0 \<Longrightarrow> balanced (appendLikeFilter env w keyword columns)"
  by (cases w) (simp add: balanced_def count_like_terms)

lemma appendInFilter_balanced:
  assumes "sqlx_contract env f" and "balanced w" and "count_char CHR ''?'' column = 0"
  shows "\<exists>w'. appendInFilter (sqlxIn env) w column values = Inr w' \<and> balanced w' \<and>
    fst w' = fst w @ (if values = [] then [] else f ('' AND '' @ column @ '' IN (?)'') (length values))"
proof (cases "values = []")
  case False
  with assms show ?thesis
    by (cases w) (auto simp: sqlx_contract_def balanced_def)
qed (cases w, use assms in auto)

lemma balanced_time_range:
  "balanced w \<Longrightarrow> count_char CHR ''?'' column = 0 \<Longrightarrow> balanced (appendTimeRange w column lo hi)"
  by (cases w) (auto simp: balanced_def split: option.split)

lemma text_like: "fst (appendLikeFilter env w keyword columns) =
    fst w @ (if keyword = [] then [] else '' AND ('' @ like_terms 0 columns @ '')'')"
  by (cases w) simp

lemma text_time_range: "fst (appendTimeRange w column lo hi) =
    fst w @ (if lo = None then [] else '' AND '' @ column @ ''>=?'') @ (if hi = None then [] else '' AND '' @ column @ ''<?'')"
  by (cases w) (auto split: option.split)

text \<open>Two filters of the same shape: the same parts are present, with lists of the same lengths.\<close>

definition same_shape :: "job_filter \<Rightarrow> job_filter \<Rightarrow> bool" where
  "same_shape a b \<longleftrightarrow>
     (jfKeyword a = [] \<longleftrightarrow> jfKeyword b = []) \<and> length (jfIDs a) = length (jfIDs b) \<and>
     length (jfStatuses a) = length (jfStatuses b) \<and> length (jfUpstreams a) = length (jfUpstreams b) \<and>
     (jfCreatedFrom a = None \<longleftrightarrow> jfCreatedFrom b = None) \<and> (jfCreatedTo a = None \<longleftrightarrow> jfCreatedTo b = None)"

definition in_text :: "(string \<Rightarrow> nat \<Rightarrow> string) \<Rightarrow> string \<Rightarrow> nat \<Rightarrow> string" where
  "in_text f column n = (if n = 0 then [] else f ('' AND '' @ column @ '' IN (?)'') n)"

definition job_text :: "(string \<Rightarrow> nat \<Rightarrow> string) \<Rightarrow> job_filter \<Rightarrow> string" where
  "job_text f flt =
     ''tenant_id=? AND application_id=? AND deleted_at IS NULL'' @
     (if jfKeyword flt = [] then [] else '' AND ('' @ like_terms 0 [''name'', ''upstream'', ''full_method''] @ '')'') @
     in_text f ''id'' (length (jfIDs flt)) @ in_text f ''status'' (length (jfStatuses flt)) @
     in_text f ''upstream'' (length (jfUpstreams flt)) @
     (if jfCreatedFrom flt = None then [] else '' AND created_at>=?'') @
     (if jfCreatedTo flt = None then [] else '' AND created_at<?'')"

lemma job_where_text:
  assumes "sqlx_contract env f"
  shows "\<exists>w. job_where env flt = Inr w \<and> balanced w \<and> fst w = job_text f flt"
proof -
  let ?w0 = "appendLikeFilter env (''tenant_id=? AND application_id=? AND deleted_at IS NULL'',
      [ArgText (jfTenantID flt), ArgText (jfApplicationID flt)]) (jfKeyword flt) [''name'', ''upstream'', ''full_method'']"
  have b0: "balanced ?w0" by (intro balanced_like) (auto simp: balanced_def)
  obtain w1 where w1: "appendInFilter (sqlxIn env) ?w0 ''id'' (jfIDs flt) = Inr w1" "balanced w1"
    "fst w1 = fst ?w0 @ in_text f ''id'' (length (jfIDs flt))"
    using appendInFilter_balanced [OF assms b0, of "''id''" "jfIDs flt"] by (auto simp: in_text_def)
  obtain w2 where w2: "appendInFilter (sqlxIn env) w1 ''status'' (jfStatuses flt) = Inr w2" "balanced w2"
    "fst w2 = fst w1 @ in_text f ''status'' (length (jfStatuses flt))"
    using appendInFilter_balanced [OF assms w1(2), of "''status''" "jfStatuses flt"] by (auto simp: in_text_def)
  obtain w3 where w3: "appendInFilter (sqlxIn env) w2 ''upstream'' (jfUpstreams flt) = Inr w3" "balanced w3"
    "fst w3 = fst w2 @ in_text f ''upstream'' (length (jfUpstreams flt))"
    using appendInFilter_balanced [OF assms w2(2), of "''upstream''" "jfUpstreams flt"] by (auto simp: in_text_def)
  let ?w = "appendTimeRange w3 ''created_at'' (jfCreatedFrom flt) (jfCreatedTo flt)"
  have "job_where env flt = Inr ?w" using w1(1) w2(1) w3(1) by (simp add: job_where_def and_then_def)
  moreover have "balanced ?w" using w3(2) by (intro balanced_time_range) auto
  moreover have "fst ?w = job_text f flt"
    unfolding text_time_range w3(3) w2(3) w1(3) text_like job_text_def by simp
  ultimately show ?thesis by blast
qed

subsection \<open>The oldest first\<close>

text \<open>The collation of the engine is a total preorder on texts.\<close>

definition collation :: "env \<Rightarrow> bool" where
  "collation env \<longleftrightarrow> (\<forall>a b. sqlTextLe env a b \<or> sqlTextLe env b a) \<and>
     (\<forall>a b c. sqlTextLe env a b \<longrightarrow> sqlTextLe env b c \<longrightarrow> sqlTextLe env a c)"

lemma oldest_first_total: "collation env \<Longrightarrow> \<not> oldest_first env a b \<Longrightarrow> oldest_first env b a"
proof -
  assume "collation env" and ab: "\<not> oldest_first env a b"
  then have "sqlTextLe env x y \<or> sqlTextLe env y x" for x y
    unfolding collation_def by blast
  with ab show ?thesis unfolding oldest_first_def by auto
qed

lemma oldest_first_trans: "collation env \<Longrightarrow> oldest_first env a b \<Longrightarrow> oldest_first env b c \<Longrightarrow> oldest_first env a c"
proof -
  assume "collation env" and ab: "oldest_first env a b" and bc: "oldest_first env b c"
  then have "sqlTextLe env x y \<Longrightarrow> sqlTextLe env y z \<Longrightarrow> sqlTextLe env x z" for x y z
    unfolding collation_def by blast
  with ab bc show ?thesis unfolding oldest_first_def by auto
qed

lemma sorted_wrt_take_drop:
  "sorted_wrt le xs \<Longrightarrow> x \<in> set (take n xs) \<Longrightarrow> y \<in> set (drop n xs) \<Longrightarrow> le x y"
  by (subst (asm) append_take_drop_id [of n, symmetric]) (simp only: sorted_wrt_append)

lemma set_take_drop: "y \<in> set xs \<Longrightarrow> y \<notin> set (take n xs) \<Longrightarrow> y \<in> set (drop n xs)"
  by (metis Un_iff append_take_drop_id set_append)

lemma batch_oldest:
  assumes "collation env" and "x \<in> set (batch env before limit rows)"
    and "y \<in> set rows" and "expired before y" and "y \<notin> set (batch env before limit rows)"
  shows "oldest_first env x y"
proof -
  let ?s = "sort_by (oldest_first env) (filter (expired before) rows)"
  have sorted: "sorted_wrt (oldest_first env) ?s"
    using assms(1) by (intro sorted_wrt_sort_by) (auto intro: oldest_first_total oldest_first_trans)
  have "y \<in> set ?s" using assms(3,4) by simp
  moreover have "y \<notin> set (take (nat limit) ?s)" using assms(5) by (simp add: batch_def)
  ultimately have "y \<in> set (drop (nat limit) ?s)" by (rule set_take_drop)
  moreover have "x \<in> set (take (nat limit) ?s)" using assms(2) by (simp add: batch_def)
  ultimately show ?thesis using sorted_wrt_take_drop [OF sorted] by blast
qed

text \<open>The texts of a definition, with the id and the actor it is stored under, fit the columns.\<close>

definition definition_fits :: "env \<Rightarrow> string \<Rightarrow> input \<Rightarrow> string \<Rightarrow> bool" where
  "definition_fits env i c actor \<longleftrightarrow>
     list_all (text_fits env)
       [(VarChar 64, i), (VarChar 64, inTenantID c), (VarChar 64, inApplicationID c), (ColText, actor),
        (ColText, inName c), (ColText, inCronExpression c), (ColText, inTimezone c), (ColText, inUpstream c),
        (ColText, inFullMethod c), (ColText, inRequestJSON c)] \<and>
     index_fits env [i, inTenantID c, inApplicationID c, inUpstream c]"

lemma status_fits: "text_fits env (VarChar 16, statusFromEnabled b)"
proof -
  have "list_all (byte_in 0 127) (statusFromEnabled b)" "length (statusFromEnabled b) \<le> 16"
    "CHR 0x00 \<notin> set (statusFromEnabled b)"
    by (simp_all add: statusFromEnabled_def byte_in_def)
  then show ?thesis
    using rune_count_le [of "statusFromEnabled b"] by (auto simp: text_fits_def utf8_valid_ascii Let_def)
qed

lemma new_job_fits:
  assumes "\<And>t a. au = Some (t, a) \<Longrightarrow> a = actor"
  shows "job_texts_fit env (audit_insert au (new_job i c now actor)) \<longleftrightarrow> definition_fits env i c actor"
  using assms status_fits [of env "inEnabled c"]
  by (cases au) (auto simp: job_texts_fit_def row_texts_def definition_fits_def new_job_def audit_insert_def)

text \<open>Of the checks of the table, only the width and the encoding of the texts are left after validation.\<close>

lemma validated_job_table:
  assumes "normalizeAndValidate env input w = (Inr c, w')"
  shows "job_check env (audit_insert au (new_job i c now actor)) = None \<longleftrightarrow>
      job_texts_fit env (audit_insert au (new_job i c now actor))"
    and "job_check env (rewritten au (set_job (updated_job c cur t actor)) j) = None \<longleftrightarrow>
      job_texts_fit env (rewritten au (set_job (updated_job c cur t actor)) j)"
proof -
  have c: "100 \<le> inTimeoutMilliseconds c" "inTimeoutMilliseconds c \<le> 1800000"
    using assms unfolding normalizeAndValidate_Inr acceptable_def by blast+
  have insert: "TimeoutMilliseconds (audit_insert au r) = TimeoutMilliseconds r" for r
    by (cases au) (auto simp: audit_insert_def)
  have update: "TimeoutMilliseconds (rewritten au f r) = TimeoutMilliseconds (f r)" "Status (rewritten au f r) = Status (f r)" for f r
    by (cases au; auto simp: rewritten_def audit_update_def Let_def)+
  show "job_check env (audit_insert au (new_job i c now actor)) = None \<longleftrightarrow>
      job_texts_fit env (audit_insert au (new_job i c now actor))"
    using c by (simp add: job_check_def insert new_job_def statusFromEnabled_def)
  show "job_check env (rewritten au (set_job (updated_job c cur t actor)) j) = None \<longleftrightarrow>
      job_texts_fit env (rewritten au (set_job (updated_job c cur t actor)) j)"
    using c by (simp add: job_check_def update set_job_def updated_job_def apply_input_def statusFromEnabled_def)
qed

subsection \<open>Operations that must succeed\<close>

text \<open>An environment in which nothing outside the service fails.\<close>

definition healthy :: "env \<Rightarrow> bool" where
  "healthy env \<longleftrightarrow> dbEnabled env \<and> (\<forall>n c. dbError env n c = None) \<and> (\<forall>n c. commitError env n c = None) \<and>
     (\<forall>n en. recordError env n en = None) \<and> (\<forall>n t a. verifyGrant env n t a = Granted)"

lemma Within_runs:
  assumes "healthy env" and "cPrincipal ctx = Some p" and "trim_space (pID p) \<noteq> []"
    and "\<And>w1. wDb w1 = interfere env (wTick w) (wDb w) \<Longrightarrow> \<exists>x w2. fn w1 = (Inr x, w2)"
  shows "\<exists>x w'. Within env ctx fn w = (Inr x, w')"
proof -
  let ?w = "begin_on (interfere env (wTick w) (wDb w)) (w\<lparr>wTick := Suc (wTick w)\<rparr>)"
  obtain w1 where audit: "setAuditActor env ctx ?w = (Inr (), w1)" "wDb w1 = wDb ?w"
    using assms(1-3) by (cases "audited env") (auto simp: setAuditActor_Inr healthy_def)
  then obtain x w2 where "fn w1 = (Inr x, w2)" using assms(4) [of w1] by auto
  with audit assms(1) show ?thesis
    by (auto simp: Within_def finish_tx_def commit_tx_def prog_simps healthy_def)
qed

lemma authorizeScope_runs:
  assumes "healthy env" and "entitled ctx t" and "trim_space t \<noteq> []" and "trim_space a \<noteq> []"
  shows "authorizeScope env ctx t a w = (Inr (), w\<lparr>wTick := Suc (wTick w)\<rparr>)"
  using assms by (auto simp: authorizeScope_def verifyApplication_def entitled_def healthy_def prog_simps Let_def)

lemma deferred_runs:
  assumes "healthy env" and "\<exists>x c w1. body w = (Inr (x, c), w1)"
  shows "\<exists>x w'. deferred env ctx started mk body w = (Inr x, w')"
  using assms by (auto simp: deferred_def finishOperation.simps healthy_def Let_def split: prod.splits option.splits)

end
