(* ===== verification/Reachability.thy ===== *)
theory Reachability
  imports Outcomes
begin

section \<open>Runs of the service\<close>

text \<open>
  The service as a step relation: any operation, with any arguments and any outcome, a round of
  the cleaner, a transaction of another replica, and the scheduler taking the token out of the
  channel \<open>changed\<close>. \<open>reaches\<close> is any finite sequence of such steps, so a theorem about it
  speaks of every interleaving of the operations of one replica with the transactions of others.
\<close>

inductive service_step :: "env \<Rightarrow> world \<Rightarrow> world \<Rightarrow> bool" for env where
  step_Create: "Create env ctx input w = (r, w') \<Longrightarrow> service_step env w w'"
| step_Update: "Update env ctx i input v w = (r, w') \<Longrightarrow> service_step env w w'"
| step_Delete: "Delete env ctx i v w = (r', w') \<Longrightarrow> service_step env w w'"
| step_Get: "Get env ctx i w = (r, w') \<Longrightarrow> service_step env w w'"
| step_List: "List_jobs env ctx flt page n w = (rp, w') \<Longrightarrow> service_step env w w'"
| step_Trigger: "Trigger env ctx i v w = (rx, w') \<Longrightarrow> service_step env w w'"
| step_Scheduled: "ExecuteScheduled env ctx j w = (rx, w') \<Longrightarrow> service_step env w w'"
| step_GetExecution: "GetExecution env ctx i w = (rx, w') \<Longrightarrow> service_step env w w'"
| step_ListExecutions: "ListExecutions env ctx xf page n w = (rxp, w') \<Longrightarrow> service_step env w w'"
| step_clean: "clean_round env c ctx w = (rk, w') \<Longrightarrow> service_step env w w'"
| step_others: "service_step env w (w\<lparr>wDb := interfere env n (wDb w)\<rparr>)"
| step_changed: "service_step env w (w\<lparr>wChanged := False\<rparr>)"

inductive reaches :: "env \<Rightarrow> world \<Rightarrow> world \<Rightarrow> bool" for env where
  reaches_refl: "reaches env w w"
| reaches_step: "reaches env w w1 \<Longrightarrow> service_step env w1 w2 \<Longrightarrow> reaches env w w2"

inductive_cases reachesE: "reaches env w w'"

lemmas life_operations = life.keeps_Create life.keeps_Update life.keeps_Delete life.keeps_Get
  life.keeps_List_jobs life.keeps_Trigger life.keeps_ExecuteScheduled life.keeps_GetExecution
  life.keeps_ListExecutions

lemma lifecycle_interfere: "env_lifecycle env \<Longrightarrow> lifecycle d (interfere env n d)"
  by (simp add: env_lifecycle_def)

lemma step_lifecycle:
  "service_step env w w' \<Longrightarrow> env_lifecycle env \<Longrightarrow> lifecycle (wDb w) (wDb w')"
  by (induction rule: service_step.induct)
     (auto simp: lifecycle_same lifecycle_interfere dest: life_operations [THEN keepsD] clean_round_lifecycle)

lemma reaches_lifecycle:
  "reaches env w w' \<Longrightarrow> env_lifecycle env \<Longrightarrow> lifecycle (wDb w) (wDb w')"
  by (induction rule: reaches.induct)
     (auto simp: lifecycle_same dest: step_lifecycle intro: lifecycle_chain)

subsection \<open>A version is spent once\<close>

definition version_spent :: "string \<Rightarrow> int \<Rightarrow> db \<Rightarrow> bool" where
  "version_spent i v d \<longleftrightarrow> (\<exists>r \<in> set (jobs d). ID r = i \<and> v < Version r)"

lemma version_spent_stable:
  "version_spent i v d \<Longrightarrow> lifecycle d d' \<Longrightarrow> integrity d \<Longrightarrow> version_spent i v d'"
  unfolding version_spent_def lifecycle_def rows_evolve_def job_history_def by fastforce

lemma version_spent_gone:
  assumes "version_spent i v d" and "integrity d" and "r \<in> set (jobs d)"
  shows "\<not> at_version i v r"
  using assms by (auto simp: version_spent_def at_version_def integrity_def dest: distinct_ids_inj)

lemma versioned_rewrite_spends:
  assumes "jobs d' = map (\<lambda>r. if at_version i v r then rewritten au f r else r) (jobs d)"
    and "row \<in> set (jobs d)" "at_version i v row" and "\<And>r. ID (f r) = ID r"
  shows "version_spent i v d'"
proof -
  have "rewritten au f row \<in> set (jobs d')"
    using assms(1-3) by (auto intro!: image_eqI [where x = row])
  moreover have "ID (rewritten au f row) = i" "v < Version (rewritten au f row)"
    using assms(3,4) by (auto simp: rewritten_def at_version_def)
  ultimately show ?thesis by (auto simp: version_spent_def)
qed

lemma Update_spends:
  "Update env ctx i input v w = (Inr j, w') \<Longrightarrow> version_spent (trim_space i) v (wDb w')"
  by (erule Update_outcome, erule versioned_rewrite_spends, assumption+) (simp add: set_job_def)

lemma Delete_spends:
  "Delete env ctx i v w = (Inr u, w') \<Longrightarrow> version_spent (trim_space i) v (wDb w')"
  by (erule Delete_outcome, erule versioned_rewrite_spends, assumption+) (simp add: mark_deleted_def)

lemma matching_row_unspent:
  assumes "others env (wDb w) e" and "others env e d" and "env_lifecycle env" and "integrity (wDb w)"
    and row: "at_version i v row" "row \<in> set (jobs d)"
  shows "\<not> version_spent i v (wDb w)"
proof
  assume spent: "version_spent i v (wDb w)"
  have "lifecycle (wDb w) d" using assms(1-3) by (metis others_chain others_lifecycle)
  with spent assms(4) have "version_spent i v d" "integrity d"
    by (auto intro: version_spent_stable simp: lifecycle_def)
  with row show False by (auto dest: version_spent_gone)
qed

lemma Update_unspent:
  "Update env ctx i input v w = (Inr j, w') \<Longrightarrow> env_lifecycle env \<Longrightarrow> integrity (wDb w) \<Longrightarrow>
     \<not> version_spent (trim_space i) v (wDb w)"
  by (erule Update_outcome) (rule matching_row_unspent)

lemma Delete_unspent:
  "Delete env ctx i v w = (Inr u, w') \<Longrightarrow> env_lifecycle env \<Longrightarrow> integrity (wDb w) \<Longrightarrow>
     \<not> version_spent (trim_space i) v (wDb w)"
  by (erule Delete_outcome) (rule matching_row_unspent)

end
