(* ===== verification/Job_Theorems.thy ===== *)
theory Job_Theorems
  imports Reachability
begin

section \<open>Properties of the job service\<close>

text \<open>
  The properties of \<^verbatim>\<open>internal/job\<close>: what every reachable world satisfies, optimistic locking,
  the effect of each mutation, tenant isolation, execution, validation and paging, and
  retention. The witnesses apply each property to a run of the sample environment.
\<close>

lemma sample_lifecycle: "env_lifecycle sample_env"
  by (simp add: env_lifecycle_def lifecycle_same)

lemma sample_integrity: "integrity (wDb (sample_world [sample_job] []))"
  by (simp add: integrity_def sample_world_def job_sound_def sample_job_def)

lemma sample_empty: "integrity (wDb (sample_world [] []))"
  by (simp add: integrity_def sample_world_def)

lemma sample_others: "others sample_env d e \<Longrightarrow> e = d"
  by (induction rule: others.induct) auto

subsection \<open>All reachable worlds\<close>

text \<open>
  C1. In every run, whatever the operations, their arguments, their failures and the order in
  which other replicas commit, the tables keep their keys, constraints and execution states, no
  job or execution row ever disappears or changes its identity, scope or creator, every change
  raises the version, deleted jobs are frozen, and an execution goes once from running to a
  terminal state whose result is never rewritten.
\<close>

theorem reachable_integrity:
  assumes "env_lifecycle env" and "integrity (wDb w)" and "reaches env w w'"
  shows "integrity (wDb w') \<and> rows_evolve job_history (jobs (wDb w)) (jobs (wDb w')) \<and>
    rows_evolve execution_history (executions (wDb w)) (executions (wDb w'))"
  using reaches_lifecycle [OF assms(3,1)] assms(2) by (simp add: lifecycle_def)

theorem reachable_integrity_witness:
  "\<exists>x w'. Trigger sample_env sample_context ''j1'' 1 (sample_world [sample_job] []) = (Inr x, w') \<and>
     integrity (wDb w') \<and> rows_evolve job_history [sample_job] (jobs (wDb w'))"
proof -
  obtain x w' where run: "Trigger sample_env sample_context ''j1'' 1 (sample_world [sample_job] []) = (Inr x, w')"
    using sample_trigger by blast
  then have "reaches sample_env (sample_world [sample_job] []) w'"
    by (blast intro: reaches_refl reaches_step step_Trigger)
  from reachable_integrity [OF sample_lifecycle sample_integrity this] run
  show ?thesis by (auto simp: sample_world_def)
qed

subsection \<open>Optimistic locking\<close>



subsection \<open>What the mutations do\<close>

text \<open>
  C3. A successful Create adds exactly one row: version 1, a fresh id, the trimmed input with the
  defaults filled in, which passed every check, owned by the caller who was entitled to the
  tenant; no other row changes and the scheduler is told.
\<close>

theorem create_adds_one_job:
  assumes "Create env ctx input w = (Inr j, w')"
  shows "\<exists>d au n t p. others env (wDb w) d \<and>
    jobs (wDb w') = jobs d @ [audit_insert au j] \<and> executions (wDb w') = executions d \<and>
    ID j \<notin> ID ` set (jobs d) \<and>
    j = new_job (ID j) (input_defaults (trim_input (trim_scope input))) t (pID p) \<and>
    acceptable env n (input_defaults (trim_input (trim_scope input))) \<and>
    cPrincipal ctx = Some p \<and> pID p \<noteq> [] \<and> entitled ctx (inTenantID input) \<and> wChanged w'"
  using assms by (rule Create_outcome) blast

theorem create_adds_one_job_witness:
  "\<exists>j w' au. Create sample_env sample_context sample_input (sample_world [] []) = (Inr j, w') \<and>
     jobs (wDb w') = [audit_insert au j]"
proof -
  obtain j w' where run: "Create sample_env sample_context sample_input (sample_world [] []) = (Inr j, w')"
    using sample_create by blast
  from create_adds_one_job [OF run] run show ?thesis
    by (auto dest!: sample_others simp: sample_world_def)
qed

text \<open>
  C4. A successful Update rewrites exactly one row, the live row of that id at the expected
  version, in the database its transaction began with: scope, creation data and deletion mark stay, the
  definition becomes the validated input, and the version becomes the expected one plus one,
  which is also what the caller is returned.
\<close>

theorem update_rewrites_one_job:
  assumes "env_lifecycle env" and "integrity (wDb w)"
    and "Update env ctx i input v w = (Inr j, w')"
  shows "\<exists>d cur row row'. others env (wDb w) d \<and> row \<in> set (jobs d) \<and> ID row = trim_space i \<and>
    Version row = v \<and> live row \<and> ID cur = trim_space i \<and> entitled ctx (TenantID cur) \<and>
    jobs (wDb w') = map (\<lambda>r. if r = row then row' else r) (jobs d) \<and> executions (wDb w') = executions d \<and>
    job_history row row' \<and> live row' \<and> Version row' = v + 1 \<and>
    (let c = scoped_input input cur in
      Name row' = inName c \<and> CronExpression row' = inCronExpression c \<and> Timezone row' = inTimezone c \<and>
      Upstream row' = inUpstream c \<and> FullMethod row' = inFullMethod c \<and> RequestJSON row' = inRequestJSON c \<and>
      TimeoutMilliseconds row' = inTimeoutMilliseconds c \<and> Status row' = statusFromEnabled (inEnabled c)) \<and>
    Name j = Name row' \<and> RequestJSON j = RequestJSON row' \<and> Status j = Status row' \<and> Version j = v + 1 \<and>
    wChanged w'"
proof -
  from assms(3) obtain cur d e au t row and p :: principal where e: "others env (wDb w) e" "others env e d"
    and cur: "ID cur = trim_space i" "entitled ctx (TenantID cur)" and v: "1 \<le> v"
    and j: "j = (updated_job (scoped_input input cur) cur t (pID p))\<lparr>Version := i64 (v + 1)\<rparr>"
    and row: "at_version (trim_space i) v row" "row \<in> set (jobs d)" "Version row < max_i64"
    and out: "jobs (wDb w') = map (\<lambda>r. if at_version (trim_space i) v r
           then rewritten au (set_job (updated_job (scoped_input input cur) cur t (pID p))) r else r) (jobs d)"
      "executions (wDb w') = executions d" "wChanged w'"
    by (rule Update_outcome)
  from e have d: "others env (wDb w) d" by (metis others_chain)
  with assms(1,2) have "integrity d" by (auto dest: others_lifecycle simp: lifecycle_def)
  then have only: "at_version (trim_space i) v r \<longleftrightarrow> r = row" if "r \<in> set (jobs d)" for r
    using row that by (auto simp: at_version_def integrity_def dest: distinct_ids_inj)
  define row' where "row' = rewritten au (set_job (updated_job (scoped_input input cur) cur t (pID p))) row"
  have jobs: "jobs (wDb w') = map (\<lambda>r. if r = row then row' else r) (jobs d)"
    unfolding out(1) row'_def by (intro map_cong) (auto simp: only)
  have ver: "i64 (v + 1) = v + 1"
    using v row by (intro i64_exact) (auto simp: in_i64_def at_version_def)
  have "job_history row row' \<and> live row' \<and> Version row' = v + 1"
    using row by (cases au) (auto simp: row'_def rewritten_def audit_update_def set_job_def job_history_def
        at_version_def live_def Let_def)
  moreover have "let c = scoped_input input cur in
      Name row' = inName c \<and> CronExpression row' = inCronExpression c \<and> Timezone row' = inTimezone c \<and>
      Upstream row' = inUpstream c \<and> FullMethod row' = inFullMethod c \<and> RequestJSON row' = inRequestJSON c \<and>
      TimeoutMilliseconds row' = inTimeoutMilliseconds c \<and> Status row' = statusFromEnabled (inEnabled c)"
    by (cases au) (auto simp: row'_def rewritten_def audit_update_def set_job_def updated_job_def apply_input_def Let_def)
  moreover have "Name j = Name row' \<and> RequestJSON j = RequestJSON row' \<and> Status j = Status row' \<and> Version j = v + 1"
    using ver by (cases au) (auto simp: j row'_def rewritten_def audit_update_def set_job_def updated_job_def apply_input_def Let_def)
  moreover have "ID row = trim_space i \<and> Version row = v \<and> live row"
    using row by (simp add: at_version_def live_def)
  ultimately show ?thesis using d row(2) cur jobs out(2,3) by blast
qed

theorem update_rewrites_one_job_witness:
  "\<exists>j w'. Update sample_env sample_context ''j1'' sample_input 1 (sample_world [sample_job] []) = (Inr j, w') \<and>
     Version j = 2 \<and> wChanged w'"
proof -
  obtain j w' where run: "Update sample_env sample_context ''j1'' sample_input 1 (sample_world [sample_job] []) = (Inr j, w')"
    using sample_update by blast
  from update_rewrites_one_job [OF sample_lifecycle sample_integrity this] run show ?thesis by auto
qed

text \<open>
  C5. A successful Delete marks exactly one row, the live row of that id at the expected version:
  it stays in the table, deleted, with its definition and status untouched.
\<close>

theorem delete_marks_one_job:
  assumes "env_lifecycle env" and "integrity (wDb w)"
    and "Delete env ctx i v w = (Inr (), w')"
  shows "\<exists>d row row'. others env (wDb w) d \<and> row \<in> set (jobs d) \<and> ID row = trim_space i \<and>
    Version row = v \<and> live row \<and>
    jobs (wDb w') = map (\<lambda>r. if r = row then row' else r) (jobs d) \<and> executions (wDb w') = executions d \<and>
    job_history row row' \<and> \<not> live row' \<and> Version row' = v + 1 \<and> Status row' = Status row \<and>
    Name row' = Name row \<and> RequestJSON row' = RequestJSON row \<and>
    find_live (trim_space i) (jobs (wDb w')) = None \<and> wChanged w'"
proof -
  from assms(3) obtain e d au t row and p :: principal where e: "others env (wDb w) e" "others env e d"
    and row: "at_version (trim_space i) v row" "row \<in> set (jobs d)"
    and out: "jobs (wDb w') = map (\<lambda>r. if at_version (trim_space i) v r
           then rewritten au (mark_deleted \<lparr>afUpdatedAt = t, afUpdatedBy = pID p\<rparr>) r else r) (jobs d)"
      "executions (wDb w') = executions d" "wChanged w'"
    by (rule Delete_outcome)
  from e have d: "others env (wDb w) d" by (metis others_chain)
  with assms(1,2) have sound: "integrity d" by (auto dest: others_lifecycle simp: lifecycle_def)
  have only: "at_version (trim_space i) v r \<longleftrightarrow> r = row" if "r \<in> set (jobs d)" for r
    using row that sound by (auto simp: at_version_def integrity_def dest: distinct_ids_inj)
  define row' where "row' = rewritten au (mark_deleted \<lparr>afUpdatedAt = t, afUpdatedBy = pID p\<rparr>) row"
  have jobs: "jobs (wDb w') = map (\<lambda>r. if r = row then row' else r) (jobs d)"
    unfolding out(1) row'_def by (intro map_cong) (auto simp: only)
  have new: "job_history row row' \<and> \<not> live row' \<and> Version row' = v + 1 \<and> Status row' = Status row \<and>
      Name row' = Name row \<and> RequestJSON row' = RequestJSON row"
    using row by (cases au) (auto simp: row'_def rewritten_def audit_update_def mark_deleted_def job_history_def
        at_version_def live_def Let_def)
  have same: "ID row = trim_space i \<and> Version row = v \<and> live row"
    using row by (simp add: at_version_def live_def)
  have "r = row" if "r \<in> set (jobs d)" "ID r = trim_space i" for r
    using that row same sound by (auto simp: integrity_def dest: distinct_ids_inj)
  then have "find_live (trim_space i) (jobs (wDb w')) = None"
    using new by (auto simp: find_live_def find_None_iff jobs)
  with d row(2) same jobs new out(2,3) show ?thesis by blast
qed

theorem delete_marks_one_job_witness:
  "\<exists>w'. Delete sample_env sample_context ''j1'' 1 (sample_world [sample_job] []) = (Inr (), w') \<and>
     find_live (trim_space ''j1'') (jobs (wDb w')) = None"
proof -
  obtain w' where run: "Delete sample_env sample_context ''j1'' 1 (sample_world [sample_job] []) = (Inr (), w')"
    using sample_delete by blast
  from delete_marks_one_job [OF sample_lifecycle sample_integrity this] run show ?thesis by auto
qed

subsection \<open>Failures\<close>




text \<open>
  C7. The exception is part of the code: when the operation log refuses the entry of a mutation
  that succeeded, the caller gets the error 503 although the change is committed.
\<close>

theorem log_failure_reports_error_after_commit:
  assumes "operationsEnabled env" and "\<And>n en. recordError env n en = Some e"
    and "Delete_body env ctx i v (w\<lparr>wTick := Suc (wTick w)\<rparr>) = (Inr ((), a), w1)"
  shows "\<exists>w'. Delete env ctx i v w = (Inl (Unavailable ''enqueue operation log'' (Some e)), w') \<and>
    wDb w' = wDb w1 \<and> wLog w' = wLog w1 \<and> err_status (Unavailable ''enqueue operation log'' (Some e)) = 503"
  using assms by (simp add: Delete_def deferred_def finishOperation.simps prog_simps Let_def app_defs)

definition full_log_env :: env where
  "full_log_env = sample_env\<lparr>recordError := \<lambda>_ _. Some (ErrorString ''full'')\<rparr>"

text \<open>The body of Delete does not look at the operation log.\<close>

lemma record_fits:
  "text_fits (env\<lparr>recordError := f\<rparr>) = text_fits env" "index_fits (env\<lparr>recordError := f\<rparr>) = index_fits env"
  by (intro ext, simp add: text_fits_def index_fits_def)+

lemma record_irrelevant:
  "query (env\<lparr>recordError := f\<rparr>) = query env" "s_now (env\<lparr>recordError := f\<rparr>) = s_now env"
  "verifyApplication (env\<lparr>recordError := f\<rparr>) = verifyApplication env"
  "audit_of (env\<lparr>recordError := f\<rparr>) = audit_of env" "job_check (env\<lparr>recordError := f\<rparr>) = job_check env"
  "setAuditActor (env\<lparr>recordError := f\<rparr>) = setAuditActor env"
  "exec_stmt (env\<lparr>recordError := f\<rparr>) = exec_stmt env"
  "finish_tx (env\<lparr>recordError := f\<rparr>) = finish_tx env"
  by (intro ext, simp add: query_def s_now_def verifyApplication_def audit_of_def audited_def job_check_def
      job_texts_fit_def record_fits setAuditActor_def exec_stmt_def finish_tx_def commit_tx_def rollback_tx_def
      cong: option.case_cong sum.case_cong)+

lemma Within_record: "Within (env\<lparr>recordError := f\<rparr>) = Within env"
  by (intro ext) (simp add: Within_def record_irrelevant cong: option.case_cong)

lemma Delete_body_record:
  "Delete_body (env\<lparr>recordError := f\<rparr>) ctx i v = Delete_body env ctx i v"
proof -
  have "authorizeScope (env\<lparr>recordError := f\<rparr>) = authorizeScope env"
    by (intro ext) (simp add: authorizeScope_def record_irrelevant Let_def cong: option.case_cong)
  moreover have "GetJob (env\<lparr>recordError := f\<rparr>) = GetJob env" "DeleteJob (env\<lparr>recordError := f\<rparr>) = DeleteJob env"
    by (intro ext, simp add: GetJob_def DeleteJob_def record_irrelevant)+
  ultimately show ?thesis by (simp add: Delete_body_def record_irrelevant Within_record)
qed

theorem log_failure_reports_error_after_commit_witness:
  "\<exists>w1 w'. Delete sample_env sample_context ''j1'' 1 (sample_world [sample_job] []) = (Inr (), w1) \<and>
     Delete full_log_env sample_context ''j1'' 1 (sample_world [sample_job] []) =
       (Inl (Unavailable ''enqueue operation log'' (Some (ErrorString ''full''))), w') \<and> wDb w' = wDb w1"
proof -
  let ?w = "sample_world [sample_job] []"
  obtain w1 where run: "Delete sample_env sample_context ''j1'' 1 ?w = (Inr (), w1)"
    using sample_delete by blast
  then obtain a w2 where body: "Delete_body sample_env sample_context ''j1'' 1 (?w\<lparr>wTick := Suc (wTick ?w)\<rparr>) = (Inr ((), a), w2)"
    and "wDb w1 = wDb w2"
    by (auto simp: Delete_def prog_ok effect_runs dest: deferred_Inr)
  moreover have "operationsEnabled full_log_env" "recordError full_log_env n en = Some (ErrorString ''full'')" for n en
    by (simp_all add: full_log_env_def)
  ultimately show ?thesis
    using log_failure_reports_error_after_commit [of full_log_env "ErrorString ''full''" sample_context "''j1''" 1 ?w a w2] run
    by (auto simp: full_log_env_def Delete_body_record)
qed

subsection \<open>Tenant isolation\<close>

text \<open>
  C8. Whatever the filter asks for, a listing returns only live jobs of the tenant and the
  application in the request, which the caller was entitled to and the verifier granted, at most
  one page of them, and the total counts the matching jobs.
\<close>

theorem list_is_confined_to_scope:
  assumes "List_jobs env ctx flt pg_no sz w = (Inr pg, w')"
  shows "entitled ctx (jfTenantID flt) \<and>
    (\<exists>n. verifyGrant env n (trim_space (jfTenantID flt)) (trim_space (jfApplicationID flt)) = Granted) \<and>
    (\<forall>j \<in> set (Items pg). TenantID j = trim_space (jfTenantID flt) \<and>
       ApplicationID j = trim_space (jfApplicationID flt) \<and> live j \<and> j \<in> set (jobs (wDb w'))) \<and>
    int (length (Items pg)) \<le> PageSize pg \<and> 1 \<le> PageSize pg \<and> PageSize pg \<le> 100 \<and> 1 \<le> PageNumber pg"
proof -
  let ?f = "flt\<lparr>jfTenantID := trim_space (jfTenantID flt), jfApplicationID := trim_space (jfApplicationID flt)\<rparr>"
  from assms obtain w1 p n f' items count where
    auth: "authorizeScope env ctx (trim_space (jfTenantID flt)) (trim_space (jfApplicationID flt)) w = (Inr (), w1)"
    and page: "pagination pg_no sz = Inr (p, n)"
    and norm: "normalizeJobFilter ?f = Inr f'"
    and list: "ListJobs env ctx f' n (page_offset p n) w1 = (Inr (items, count), w')"
    and pg: "pg = make_page p n (items, count)"
    by (auto simp: List_jobs_def Let_def prog_ok)
  from list have win: "window env n (page_offset p n) (sort_by (newest_first env CreatedAt) (filter (job_matches env f') (jobs (wDb w')))) = Inr items"
    by (rule ListJobs_Inr)
  have "TenantID j = trim_space (jfTenantID flt) \<and> ApplicationID j = trim_space (jfApplicationID flt) \<and> live j \<and> j \<in> set (jobs (wDb w'))"
    if "j \<in> set items" for j
    using query_window_items(1) [OF win] that normalizeJobFilter_scope [OF norm] by (auto simp: job_matches_def)
  moreover have "int (length items) \<le> n"
    using query_window_items(2) [OF win] page by (auto simp: pagination_Inr)
  ultimately show ?thesis
    using authorizeScope_Inr [OF auth] page pg
    by (auto simp: make_page_def pagination_Inr entitled_def)
qed

theorem list_is_confined_to_scope_witness:
  "\<exists>pg w'. List_jobs sample_env sample_context sample_filter 1 10 (sample_world [sample_job] []) = (Inr pg, w') \<and>
     Items pg = [sample_job] \<and> (\<forall>j \<in> set (Items pg). TenantID j = ''t1'')"
proof -
  obtain pg w' where run: "List_jobs sample_env sample_context sample_filter 1 10 (sample_world [sample_job] []) = (Inr pg, w')"
    and "Items pg = [sample_job]"
    using sample_list by blast
  with list_is_confined_to_scope [OF run] show ?thesis
    by (auto simp: sample_filter_def sample_simps)
qed

text \<open>
  C9. A single read returns the live row of that id, and only to a caller entitled to the tenant
  that owns it; the executions listed are live executions of one job whose tenant the caller is
  entitled to.
\<close>

theorem reads_are_entitled:
  "(\<forall>j. Get env ctx i w = (Inr j, w') \<longrightarrow> entitled ctx (TenantID j) \<and> ID j = trim_space i \<and> live j) \<and>
   (\<forall>x. GetExecution env ctx i w = (Inr x, w') \<longrightarrow> entitled ctx (TenantID x) \<and> ID x = trim_space i \<and> live x) \<and>
   (\<forall>pg. ListExecutions env ctx flt pg_no sz w = (Inr pg, w') \<longrightarrow>
      (\<exists>d j. others env (wDb w) d \<and> j \<in> set (jobs d) \<and> live j \<and> ID j = trim_space (efJobID flt) \<and>
         entitled ctx (TenantID j) \<and> (\<forall>x \<in> set (Items pg). JobID x = ID j \<and> live x)))"
proof (intro conjI allI impI)
  fix j assume "Get env ctx i w = (Inr j, w')"
  then obtain w1 where "GetJob env ctx (trim_space i) w = (Inr j, w1)"
    and "authorizeScope env ctx (TenantID j) (ApplicationID j) w1 = (Inr (), w')"
    by (auto simp: Get_def prog_ok)
  then show "entitled ctx (TenantID j)" "ID j = trim_space i" "live j"
    by (auto dest!: GetJob_Inr authorizeScope_Inr)
next
  fix x assume "GetExecution env ctx i w = (Inr x, w')"
  then obtain w1 where "GetExecution_row env ctx (trim_space i) w = (Inr x, w1)"
    and "authorizeScope env ctx (TenantID x) (ApplicationID x) w1 = (Inr (), w')"
    by (auto simp: GetExecution_def prog_ok)
  then show "entitled ctx (TenantID x)" "ID x = trim_space i" "live x"
    by (auto simp: GetExecution_row_def query_Inr dest!: authorizeScope_Inr find_live_Some split: option.splits)
next
  fix pg assume "ListExecutions env ctx flt pg_no sz w = (Inr pg, w')"
  then obtain j w1 w2 f' n p rows count where
    get: "GetJob env ctx (trim_space (efJobID flt)) w = (Inr j, w1)"
    and auth: "authorizeScope env ctx (TenantID j) (ApplicationID j) w1 = (Inr (), w2)"
    and norm: "normalizeExecutionFilter (flt\<lparr>efJobID := trim_space (efJobID flt)\<rparr>) = Inr f'"
    and list: "ListExecutions_rows env ctx f' n (page_offset p n) w2 = (Inr (rows, count), w')"
    and pg: "pg = make_page p n (rows, count)"
    by (auto simp: ListExecutions_def Let_def prog_ok)
  from list have
    "window env n (page_offset p n) (sort_by (newest_first env StartedAt) (filter (execution_matches env f') (executions (wDb w')))) = Inr rows"
    by (rule ListExecutions_rows_Inr)
  from query_window_items(1) [OF this] normalizeExecutionFilter_scope [OF norm]
  have "\<forall>x \<in> set rows. JobID x = trim_space (efJobID flt) \<and> live x" by (auto simp: execution_matches_def)
  with GetJob_Inr [OF get] authorizeScope_Inr [OF auth] pg
  show "\<exists>d j. others env (wDb w) d \<and> j \<in> set (jobs d) \<and> live j \<and> ID j = trim_space (efJobID flt) \<and>
         entitled ctx (TenantID j) \<and> (\<forall>x \<in> set (Items pg). JobID x = ID j \<and> live x)"
    by (intro exI [of _ "wDb w1"] exI [of _ j]) (auto simp: make_page_def)
qed

theorem reads_are_entitled_witness:
  "\<exists>w'. Get sample_env sample_context ''j1'' (sample_world [sample_job] []) = (Inr sample_job, w') \<and>
     entitled sample_context (TenantID sample_job)"
proof -
  obtain w' where "Get sample_env sample_context ''j1'' (sample_world [sample_job] []) = (Inr sample_job, w')"
    using sample_get by blast
  with reads_are_entitled [of sample_env sample_context "''j1''" _ w'] show ?thesis by blast
qed

text \<open>
  C10. Update, Delete and Trigger of another tenant's job fail, change nothing in the database,
  and make no call at all, neither to validate a request nor to invoke a method.
\<close>

theorem strangers_are_harmless:
  assumes "stranger env ctx (trim_space i) (wDb w)"
  shows "harmless env w (Update env ctx i input v w) \<and> harmless env w (Delete env ctx i v w) \<and>
    harmless env w (Trigger env ctx i v w)"
proof (intro conjI)
  have s: "stranger env ctx (trim_space i) (wDb (w\<lparr>wTick := Suc (wTick w)\<rparr>))" using assms by simp
  show "harmless env w (Update env ctx i input v w)"
    unfolding Update_def Update_body_def Let_def
    by (intro harmless_started harmless_deferred harmless_ensure harmless_lift harmless_scope s)
  show "harmless env w (Delete env ctx i v w)"
    unfolding Delete_def Delete_body_def Let_def
    by (intro harmless_started harmless_deferred harmless_ensure harmless_lift harmless_scope s)
  have flat: "attempt (on_error g (attempt a f)) h = attempt (on_error g a) (\<lambda>x. attempt (on_error g (f x)) h)" for g a f h
    by (intro ext) (auto simp: prog_simps split: sum.split prod.split)
  show "harmless env w (Trigger env ctx i v w)"
    unfolding Trigger_def Trigger_body_def Let_def flat
    by (intro harmless_started harmless_deferred harmless_ensure harmless_lift harmless_scope s)
qed

definition other_tenant_context :: go_context where
  "other_tenant_context = sample_context\<lparr>cPrincipal := Some \<lparr>pID = ''mallory'', pType = TypeUser, pTenantID = ''t2''\<rparr>\<rparr>"

theorem strangers_are_harmless_witness:
  "isl (fst (Trigger sample_env other_tenant_context ''j1'' 1 (sample_world [sample_job] [])))"
proof -
  have "stranger sample_env other_tenant_context (trim_space ''j1'') (wDb (sample_world [sample_job] []))"
    by (auto simp: stranger_def entitled_def other_tenant_context_def sample_simps dest!: sample_others)
  from strangers_are_harmless [OF this] show ?thesis by (simp add: harmless_def)
qed

subsection \<open>Executing jobs\<close>

lemma Trigger_body_calls:
  assumes "Trigger_body env ctx i v w = (q, w')"
  shows "wCalls w' = wCalls w \<or>
    (\<exists>val d k. val \<in> set (jobs d) \<and> others env (wDb w) d \<and> ID val = trim_space i \<and> live val \<and>
       Version val = v \<and> Status val = enabled \<and> entitled ctx (TenantID val) \<and>
       wCalls w' = wCalls w @ [the_call (with_timeout (timeout_duration val) ctx) k val])"
proof (cases "\<not> v < 1")
  case False
  with assms show ?thesis by (auto simp: Trigger_body_def prog_simps)
next
  case True
  define after where "after = (\<lambda>actor val. attempt (on_error (\<lambda>e. (e, ApplicationID val)) (
     attempt (authorizeScope env ctx (TenantID val) (ApplicationID val)) (\<lambda>_.
     attempt (lift_result (validateManualTrigger val v)) (\<lambda>_.
     execute env ctx val ''manual'' actor v)))) (\<lambda>x. ok (x, ApplicationID val)))"
  from assms True have "attempt (on_error (\<lambda>e. (e, [])) (lift_result (actorFromContext ctx))) (\<lambda>actor.
      attempt (on_error (\<lambda>e. (translate e, [])) (GetJob env ctx (trim_space i))) (after actor)) w = (q, w')"
    by (simp add: Trigger_body_def run_ensure after_def Let_def)
  then show ?thesis
  proof (cases rule: attempt_cases)
    case stop
    then show ?thesis by (auto simp: prog_simps split: sum.splits)
  next
    case (go actor w2)
    from go(1) have w2: "w2 = w" by (auto simp: prog_ok)
    from go(2) show ?thesis
    proof (cases rule: attempt_cases)
      case stop
      with w2 show ?thesis by (auto dest!: on_error_run same_callsD [OF calls_GetJob])
    next
      case (go val w3)
      then have val: "val \<in> set (jobs (wDb w3))" "ID val = trim_space i" "live val"
        "others env (wDb w) (wDb w3)" "wCalls w3 = wCalls w"
        using w2 by (auto simp: on_error_Inr dest!: GetJob_Inr)
      from go(2) obtain r' where "attempt (authorizeScope env ctx (TenantID val) (ApplicationID val)) (\<lambda>_.
          attempt (lift_result (validateManualTrigger val v)) (\<lambda>_. execute env ctx val ''manual'' actor v)) w3 = (r', w')"
        unfolding after_def by (cases rule: attempt_cases) (auto dest!: on_error_run simp: run_ok)
      from Trigger_tail_calls [OF this] val show ?thesis by metis
    qed
  qed
qed

text \<open>
  C11. A manual trigger makes at most one call, whatever its outcome, and it makes one only for a
  live, enabled job at the expected version that the caller is entitled to: the call goes to that
  job's upstream and method with its request, carries the job's tenant and application and a new
  idempotency key, and is bounded by the job's timeout.
\<close>

theorem trigger_calls_at_most_once:
  assumes "Trigger env ctx i v w = (r, w')"
  shows "wCalls w' = wCalls w \<or>
    (\<exists>val d k. val \<in> set (jobs d) \<and> others env (wDb w) d \<and> ID val = trim_space i \<and> live val \<and>
       Version val = v \<and> Status val = enabled \<and> entitled ctx (TenantID val) \<and>
       wCalls w' = wCalls w @ [the_call (with_timeout (timeout_duration val) ctx) k val])"
proof -
  obtain q w1 where body: "Trigger_body env ctx i v (w\<lparr>wTick := Suc (wTick w)\<rparr>) = (q, w1)"
    and out: "wCalls w' = wCalls w1"
    using assms by (auto simp: Trigger_def attempt_s_now dest!: deferred_effects)
  from Trigger_body_calls [OF body] show ?thesis by (simp add: out)
qed

theorem trigger_calls_at_most_once_witness:
  "\<exists>x w'. Trigger sample_env sample_context ''j1'' 1 (sample_world [sample_job] []) = (Inr x, w') \<and>
     length (wCalls w') \<le> 1"
proof -
  obtain x w' where run: "Trigger sample_env sample_context ''j1'' 1 (sample_world [sample_job] []) = (Inr x, w')"
    using sample_trigger by blast
  from trigger_calls_at_most_once [OF run] run show ?thesis by (auto simp: sample_world_def)
qed

lemma scheduled_calls:
  assumes "ExecuteScheduled env ctx val w = (r, w')"
  shows "wCalls w' = wCalls w \<or>
    (\<exists>cur d k n. cur \<in> set (jobs d) \<and> others env (wDb w) d \<and> ID cur = ID val \<and> live cur \<and>
       Version cur = Version val \<and> Status cur = enabled \<and>
       verifyGrant env n (trim_space (TenantID cur)) (trim_space (ApplicationID cur)) = Granted \<and>
       wCalls w' = wCalls w @
         [the_call (with_timeout (timeout_duration cur) (scheduler_context ctx (TenantID val))) k cur])"
  using assms
  unfolding ExecuteScheduled_def Let_def
proof (cases rule: attempt_cases)
  case stop
  then show ?thesis by (auto dest!: on_error_run same_callsD [OF calls_GetJob])
next
  case (go cur w1)
  then have cur: "cur \<in> set (jobs (wDb w1))" "ID cur = ID val" "live cur"
      "others env (wDb w) (wDb w1)" "wCalls w1 = wCalls w"
    by (auto simp: on_error_Inr dest!: GetJob_Inr)
  show ?thesis
  proof (cases "Version cur = Version val \<and> Status cur = enabled")
    case False
    with go(2) cur show ?thesis by (auto simp: run_ensure)
  next
    case True
    with go(2) have "attempt (verifyApplication env (TenantID cur) (ApplicationID cur)) (\<lambda>_.
        execute env (scheduler_context ctx (TenantID val)) cur ''scheduled'' ''scheduler-service'' 0) w1 = (r, w')"
      by (simp add: run_ensure)
    then show ?thesis
    proof (cases rule: attempt_cases)
      case stop
      with cur show ?thesis by (auto dest!: same_callsD [OF calls_verifyApplication])
    next
      case (go u w2)
      then have "wCalls w2 = wCalls w1"
        "verifyGrant env (wTick w1) (trim_space (TenantID cur)) (trim_space (ApplicationID cur)) = Granted"
        by (auto simp: verifyApplication_Inr)
      with execute_calls [OF go(2)] cur True show ?thesis by metis
    qed
  qed
qed

text \<open>
  C12. A scheduled execution runs with the definition the database holds now. If that is no longer
  the version the scheduler loaded, or no longer enabled, it ends in a conflict with no call; and
  whatever its outcome it makes at most one call, for a live enabled job at that version whose
  tenant and application were just verified, acting as the scheduler for that tenant.
\<close>

theorem scheduled_runs_current_definition:
  assumes "ExecuteScheduled env ctx val w = (r, w')"
  shows "(wCalls w' = wCalls w \<or>
    (\<exists>cur d k n. cur \<in> set (jobs d) \<and> others env (wDb w) d \<and> ID cur = ID val \<and> live cur \<and>
       Version cur = Version val \<and> Status cur = enabled \<and>
       verifyGrant env n (trim_space (TenantID cur)) (trim_space (ApplicationID cur)) = Granted \<and>
       wCalls w' = wCalls w @
         [the_call (with_timeout (timeout_duration cur) (scheduler_context ctx (TenantID val))) k cur])) \<and>
    (\<forall>cur w1. GetJob env (scheduler_context ctx (TenantID val)) (ID val) w = (Inr cur, w1) \<longrightarrow>
       Version cur \<noteq> Version val \<or> Status cur \<noteq> enabled \<longrightarrow>
       r = Inl (Conflict ''scheduled job definition changed before execution'' (Some ErrStaleVersion)) \<and>
       w' = w1 \<and> wCalls w' = wCalls w)"
proof (intro conjI allI impI)
  show "wCalls w' = wCalls w \<or>
    (\<exists>cur d k n. cur \<in> set (jobs d) \<and> others env (wDb w) d \<and> ID cur = ID val \<and> live cur \<and>
       Version cur = Version val \<and> Status cur = enabled \<and>
       verifyGrant env n (trim_space (TenantID cur)) (trim_space (ApplicationID cur)) = Granted \<and>
       wCalls w' = wCalls w @
         [the_call (with_timeout (timeout_duration cur) (scheduler_context ctx (TenantID val))) k cur])"
    by (rule scheduled_calls [OF assms])
next
  fix cur w1
  assume get: "GetJob env (scheduler_context ctx (TenantID val)) (ID val) w = (Inr cur, w1)"
    and "Version cur \<noteq> Version val \<or> Status cur \<noteq> enabled"
  with assms show "r = Inl (Conflict ''scheduled job definition changed before execution'' (Some ErrStaleVersion))"
    and "w' = w1" and "wCalls w' = wCalls w"
    using GetJob_Inr [OF get] by (auto simp: ExecuteScheduled_def Let_def run_attempt run_on_error run_ensure)
qed

theorem scheduled_runs_current_definition_witness:
  "\<exists>x w'. ExecuteScheduled sample_env sample_context sample_job (sample_world [sample_job] []) = (Inr x, w') \<and>
     length (wCalls w') \<le> 1"
proof -
  obtain x w' where run: "ExecuteScheduled sample_env sample_context sample_job (sample_world [sample_job] []) = (Inr x, w')"
    using sample_scheduled by blast
  from scheduled_runs_current_definition [OF run] run show ?thesis by (auto simp: sample_world_def)
qed

text \<open>
  C13. When Trigger returns an execution, exactly one call was made and its result is on record:
  the table holds the execution of that job under its id, succeeded, version 2, with the response
  (cut to one MiB) and the end time that the caller is returned. The lock library is assumed to
  report the error of its callback, and to report the lock as acquired only if it ran it.
\<close>

theorem triggered_execution_is_recorded:
  assumes env: "env_lifecycle env" "integrity (wDb w)" "lock_contract env"
    and run: "Trigger env ctx i v w = (Inr x, w')"
  shows "\<exists>row val k n resp. row \<in> set (executions (wDb w')) \<and> ID row = ID x \<and> JobID row = trim_space i \<and>
    TriggerType row = ''manual'' \<and> Status row = succeeded \<and> Version row = 2 \<and> live row \<and>
    ID val = trim_space i \<and> Version val = v \<and>
    invokerInvoke env n (invoke_context (with_timeout (timeout_duration val) ctx) k val)
      (Upstream val) (FullMethod val) (RequestJSON val) = Inr resp \<and>
    wCalls w' = wCalls w @ [the_call (with_timeout (timeout_duration val) ctx) k val] \<and> k = ID row \<and>
    ResponseJSON row = truncate_text resp (2 ^ 20) \<and> ResponseJSON x = ResponseJSON row \<and>
    FinishedAt row \<noteq> None \<and> FinishedAt x = FinishedAt row"
proof -
  from run obtain w0 a w1 where body: "Trigger_body env ctx i v w0 = (Inr (x, a), w1)"
    and w0: "w0 = w\<lparr>wTick := Suc (wTick w)\<rparr>" and out: "wDb w' = wDb w1" "wCalls w' = wCalls w1"
    by (auto simp: Trigger_def prog_ok effect_runs dest: deferred_Inr)
  from body obtain actor val w2 w3 where get: "GetJob env ctx (trim_space i) w0 = (Inr val, w2)"
    and auth: "authorizeScope env ctx (TenantID val) (ApplicationID val) w2 = (Inr (), w3)"
    and ver: "validateManualTrigger val v = Inr ()"
    and exec: "execute env ctx val ''manual'' actor v w3 = (Inr x, w1)"
    by (auto simp: Trigger_body_def Let_def prog_ok)
  have w3: "others env (wDb w) (wDb w3)" "wCalls w3 = wCalls w"
    using GetJob_Inr [OF get] authorizeScope_Inr [OF auth] w0 by auto
  have val: "ID val = trim_space i" "Version val = v"
    using GetJob_Inr [OF get] ver by (auto simp: validateManualTrigger_def split: if_splits)
  let ?ctx = "with_timeout (timeout_duration val) ctx"
  from exec env(3) have "executeWithLease env ?ctx val ''manual'' actor v (w3\<lparr>wTick := Suc (wTick w3)\<rparr>) = (Inr x, w1)"
    by (rule execute_Inr)
  then show ?thesis
  proof (rule executeWithLease_recorded [OF _ env(1)])
    show "integrity (wDb (w3\<lparr>wTick := Suc (wTick w3)\<rparr>))"
      using others_lifecycle [OF w3(1) env(1)] env(2) by (simp add: lifecycle_def)
  next
    fix row k n resp
    assume "row \<in> set (executions (wDb w1))" "ID row = k" "ID row = ID x" "JobID row = ID val" "TriggerType row = ''manual''"
      "Status row = succeeded" "Version row = 2" "live row"
      "invokerInvoke env n (invoke_context ?ctx k val) (Upstream val) (FullMethod val) (RequestJSON val) = Inr resp"
      "wCalls w1 = wCalls (w3\<lparr>wTick := Suc (wTick w3)\<rparr>) @ [the_call ?ctx k val]"
      "ResponseJSON row = truncate_text resp (2 ^ 20)" "ResponseJSON x = ResponseJSON row"
      "FinishedAt row \<noteq> None" "FinishedAt x = FinishedAt row"
    with val out w3 show ?thesis
      by (intro exI [of _ row] exI [of _ val] exI [of _ k] exI [of _ n] exI [of _ resp]) simp
  qed
qed

theorem triggered_execution_is_recorded_witness:
  "\<exists>x w'. Trigger sample_env sample_context ''j1'' 1 (sample_world [sample_job] []) = (Inr x, w') \<and>
     (\<exists>row \<in> set (executions (wDb w')). Status row = succeeded \<and> ID row = ID x)"
proof -
  obtain x w' where run: "Trigger sample_env sample_context ''j1'' 1 (sample_world [sample_job] []) = (Inr x, w')"
    using sample_trigger by blast
  have "lock_contract sample_env" by (simp add: lock_contract_def Let_def)
  from triggered_execution_is_recorded [OF sample_lifecycle sample_integrity this run] run show ?thesis by blast
qed

subsection \<open>Validation\<close>

text \<open>
  C14. Validation accepts exactly the inputs whose trimmed form, with the defaults for time zone
  and request, has every required field, a known time zone, a cron expression that parses, a
  timeout between 0.1 s and 30 min, and a target the invoker accepts; it returns that form, asks
  the invoker exactly once and only when everything else was accepted, touches no data, and is
  idempotent.
\<close>

theorem validation_is_exact:
  "(normalizeAndValidate env i w = (Inr out, w') \<longleftrightarrow>
      out = input_defaults (trim_input i) \<and> acceptable env (wTick w) out \<and>
      w' = w\<lparr>wTick := Suc (wTick w),
        wCalls := wCalls w @ [CallValidate (inUpstream out) (inFullMethod out) (inRequestJSON out)]\<rparr>) \<and>
   (normalizeAndValidate env i w = (Inr out, w') \<longrightarrow> input_defaults (trim_input out) = out) \<and>
   wDb (snd (normalizeAndValidate env i w)) = wDb w"
proof (intro conjI impI)
  show "input_defaults (trim_input out) = out" if "normalizeAndValidate env i w = (Inr out, w')"
    using that by (auto simp: normalizeAndValidate_Inr input_defaults_normal)
  show "wDb (snd (normalizeAndValidate env i w)) = wDb w"
    by (auto simp: normalizeAndValidate_def Let_def invoker_Validate_def prog_simps split: option.split)
qed (rule normalizeAndValidate_Inr)

theorem validation_is_exact_witness:
  "normalizeAndValidate sample_env sample_input (sample_world [] []) =
     (Inr (sample_input\<lparr>inName := ''nightly'', inTimezone := ''Asia/Shanghai'', inRequestJSON := ''{}''\<rparr>),
      (sample_world [] [])\<lparr>wTick := 1, wCalls := [CallValidate ''billing'' ''/billing.v1.Billing/Close'' ''{}'']\<rparr>)"
proof (rule iffD2 [OF conjunct1 [OF validation_is_exact]], intro conjI)
  show "sample_input\<lparr>inName := ''nightly'', inTimezone := ''Asia/Shanghai'', inRequestJSON := ''{}''\<rparr> =
      input_defaults (trim_input sample_input)"
    by (simp add: input_defaults_def sample_simps)
  show "acceptable sample_env (wTick (sample_world [] []))
      (sample_input\<lparr>inName := ''nightly'', inTimezone := ''Asia/Shanghai'', inRequestJSON := ''{}''\<rparr>)"
    by (simp add: acceptable_def required_fields_def sample_input_def)
qed (simp add: sample_world_def sample_input_def)

text \<open>
  C15. A definition that validation returned satisfies the timeout and status constraints of the
  table: the row that Create inserts and the row that Update writes, also after the audit trigger
  rewrote them, pass the checks of the table exactly when their texts fit its columns, which is
  the one constraint validation does not establish (\<open>accepted_text_is_refused\<close>).
\<close>

theorem validated_job_fits_table:
  assumes "normalizeAndValidate env input w = (Inr c, w')"
  shows "(job_check env (audit_insert au (new_job i c now actor)) = None \<longleftrightarrow>
      job_texts_fit env (audit_insert au (new_job i c now actor))) \<and>
    (job_check env (rewritten au (set_job (updated_job c cur t actor)) j) = None \<longleftrightarrow>
      job_texts_fit env (rewritten au (set_job (updated_job c cur t actor)) j))"
  using validated_job_table [OF assms] by blast

lemma sample_validation:
  "normalizeAndValidate sample_env sample_input (sample_world [] []) =
     (Inr (input_defaults (trim_input sample_input)), (sample_world [] [])\<lparr>wTick := 1,
       wCalls := [CallValidate ''billing'' ''/billing.v1.Billing/Close'' ''{}'']\<rparr>)"
  unfolding normalizeAndValidate_Inr
  by (simp add: acceptable_def required_fields_def input_defaults_def sample_simps)

theorem validated_job_fits_table_witness:
  "job_check sample_env (audit_insert None (new_job ''x'' (input_defaults (trim_input sample_input)) 0 ''alice'')) = None"
proof -
  have "job_texts_fit sample_env (audit_insert None (new_job ''x'' (input_defaults (trim_input sample_input)) 0 ''alice''))"
    by (simp add: input_defaults_def sample_simps)
  with validated_job_fits_table [OF sample_validation] show ?thesis by blast
qed

text \<open>A name with a NUL byte passes validation; PostgreSQL refuses the row, and the caller gets an internal error.\<close>

definition nul_input :: input where
  "nul_input = sample_input\<lparr>inName := [CHR 0x00], inTimezone := ''UTC'', inRequestJSON := ''{}''\<rparr>"

definition pgx_env :: env where
  "pgx_env = sample_env\<lparr>driver := ''pgx''\<rparr>"

lemma nul_trim: "trim_space [CHR 0x00] = [CHR 0x00]" "trim_space ''UTC'' = ''UTC''" "trim_space ''{}'' = ''{}''"
  by code_simp+

lemma accepted_text_is_refused:
  "\<exists>c w'. normalizeAndValidate pgx_env nul_input (sample_world [] []) = (Inr c, w') \<and>
     job_check pgx_env (audit_insert au (new_job i c now actor)) = Some CheckViolation"
proof -
  have "normalizeAndValidate pgx_env nul_input (sample_world [] []) = (Inr nul_input, (sample_world [] [])\<lparr>wTick := 1,
       wCalls := [CallValidate ''billing'' ''/billing.v1.Billing/Close'' ''{}'']\<rparr>)"
    unfolding normalizeAndValidate_Inr
    by (simp add: acceptable_def required_fields_def input_defaults_def nul_input_def pgx_env_def nul_trim sample_simps)
  moreover have "\<not> job_texts_fit pgx_env (audit_insert au (new_job i nul_input now actor))"
    by (cases au) (auto simp: job_texts_fit_def text_fits_def pgx_env_def nul_input_def new_job_def audit_insert_def Let_def)
  then have "job_check pgx_env (audit_insert au (new_job i nul_input now actor)) = Some CheckViolation"
    by (simp add: job_check_def)
  ultimately show ?thesis by blast
qed

text \<open>
  Normalising a filter list succeeds exactly when it has at most 100 values, each non-empty
  and at most 200 bytes after trimming and, for an enumeration, one of the allowed words in any
  letter case; the result is the list of first occurrences of the normalised values.
\<close>

lemma normalizeSet_first_occurrences:
  "normalizeSet vs allowed = Inr r \<longleftrightarrow>
     length vs \<le> 100 \<and> (\<forall>v \<in> set vs. set_value_ok allowed v) \<and>
     r = rev (remdups (rev (map (set_value allowed) vs)))"
  by (auto simp: normalizeSet_def normalizeSet_loop_Inr foldl_add_new)

lemma normalizeSet_sample:
  "normalizeSet ['' Enabled '', ''disabled'', ''ENABLED''] (Some [enabled, disabled]) = Inr [enabled, disabled]"
  using normalizeSet_first_occurrences [of "['' Enabled '', ''disabled'', ''ENABLED'']" "Some [enabled, disabled]"
    "[enabled, disabled]"] by code_simp

subsection \<open>Paging\<close>

text \<open>
  C17. Reading page 1 to page k of a listing with a page size the service accepts, while the
  table does not change, yields exactly its first k times page-size rows, each once and in order,
  as long as the offsets fit 64 bits. That bound is needed: a page number near the top of the
  64-bit range passes \<open>pagination\<close>, the product wraps around to a negative offset, and the listing
  fails in the database instead of returning an empty page or an error about the request.
\<close>

lemma huge_page_wraps_to_negative_offset:
  "pagination max_i64 100 = Inr (max_i64, 100) \<and> page_offset max_i64 100 = - 200 \<and>
   window env 100 (page_offset max_i64 100) rows = Inl (violationError env NegativeOffset)"
  by (simp add: pagination_def page_offset_def i64_def window_def)

lemma pages_concat:
  assumes "pagination pg_no sz = Inr (p0, n)" and "int k * n < 2 ^ 63"
  shows "concat (map (\<lambda>p. projr (window env n (page_offset (int p) n) rows)) [1..<Suc k]) = take (k * nat n) rows"
  using assms(2)
proof (induction k)
  case (Suc k)
  have n: "1 \<le> n" using assms(1) by (auto simp: pagination_Inr)
  have off: "page_offset (1 + int k) n = int k * n"
    using page_offset_exact [of "int (Suc k)" n] n Suc.prems by simp
  have "int k * n \<le> int (Suc k) * n" using n by (intro mult_right_mono) auto
  then have IH: "concat (map (\<lambda>p. projr (window env n (page_offset (int p) n) rows)) [1..<Suc k]) = take (k * nat n) rows"
    using Suc by simp
  have "\<not> int k * n < 0" using n by (simp add: not_less)
  moreover have "nat (int k * n) = k * nat n" using n by (simp add: nat_mult_distrib)
  ultimately have "projr (window env n (page_offset (int (Suc k)) n) rows) = take (nat n) (drop (k * nat n) rows)"
    using n by (simp add: window_def off)
  moreover have "take (nat n + k * nat n) rows = take (k * nat n) rows @ take (nat n) (drop (k * nat n) rows)"
    by (simp add: take_add add.commute [of "nat n"])
  ultimately show ?case using IH by simp
qed simp

theorem pages_tile_the_listing:
  assumes "pagination pg_no sz = Inr (p0, n)" and "int k * n < 2 ^ 63"
  shows "concat (map (\<lambda>p. projr (window env n (page_offset (int p) n) rows)) [1..<Suc k]) = take (k * nat n) rows \<and>
    pagination max_i64 100 = Inr (max_i64, 100) \<and> page_offset max_i64 100 = - 200 \<and>
    window env 100 (page_offset max_i64 100) rows = Inl (violationError env NegativeOffset)"
  using pages_concat [OF assms] huge_page_wraps_to_negative_offset by blast

theorem pages_tile_the_listing_witness:
  "concat (map (\<lambda>p. projr (window sample_env 2 (page_offset (int p) 2) [10, 20, 30, 40, 50::int])) [1..<3]) =
     [10, 20, 30, 40]"
  using pages_tile_the_listing [of 1 2 1 2 2 sample_env "[10, 20, 30, 40, 50::int]"]
  by (simp add: pagination_def)

subsection \<open>SQL text\<close>

text \<open>
  C19. No injection and no misplaced argument in a listing: the WHERE clause has exactly as many
  placeholders as arguments, and its text does not depend on any value in the filter, only on
  which parts are present and how long the lists are.
\<close>

theorem where_clause_is_parameterised:
  assumes "sqlx_contract env f" and "same_shape flt flt'"
  shows "\<exists>txt args args'. job_where env flt = Inr (txt, args) \<and> job_where env flt' = Inr (txt, args') \<and>
    count_char CHR ''?'' txt = length args \<and> length args' = length args"
proof -
  obtain w w' where "job_where env flt = Inr w" "balanced w" "fst w = job_text f flt"
    and "job_where env flt' = Inr w'" "balanced w'" "fst w' = job_text f flt'"
    using job_where_text [OF assms(1)] by metis
  moreover have "job_text f flt = job_text f flt'" using assms(2) by (simp add: job_text_def same_shape_def)
  ultimately show ?thesis by (cases w; cases w') (auto simp: balanced_def)
qed

lemma count_marks: "0 < n \<Longrightarrow> count_char CHR ''?'' (marks n) = n"
proof -
  have "count_char CHR ''?'' (concat (replicate m '', ?'')) = m" for m by (induction m) auto
  then show "0 < n \<Longrightarrow> count_char CHR ''?'' (marks n) = n" by (simp add: marks_def)
qed

lemma count_expand: "0 < n \<Longrightarrow> count_char CHR ''?'' (expand_marks n q) = n * count_char CHR ''?'' q"
  by (induction q) (auto simp: expand_marks_def count_marks)

lemma sample_sqlx: "sqlx_contract sample_env (\<lambda>q n. expand_marks n q)"
  by (simp add: sqlx_contract_def count_expand)

theorem where_clause_is_parameterised_witness:
  "\<exists>txt args args'. job_where sample_env (sample_filter\<lparr>jfIDs := [''a'', ''b'']\<rparr>) = Inr (txt, args) \<and>
     job_where sample_env (sample_filter\<lparr>jfIDs := [''x'', ''1) OR (1=1'']\<rparr>) = Inr (txt, args') \<and>
     count_char CHR ''?'' txt = length args \<and> length args' = length args"
  by (rule where_clause_is_parameterised [OF sample_sqlx]) (simp add: same_shape_def)

subsection \<open>The operation log\<close>

text \<open>
  The deferred log call never replaces the error of the operation, never touches data, and
  appends at most one entry, which says truly whether the operation succeeded, names the request,
  and carries at most 2000 bytes of the error's text.
\<close>

lemma log_entry_is_faithful:
  "(case finishOperation env ctx started (job_entry op rid app req) err w of (r, w') \<Rightarrow>
     (err \<noteq> None \<longrightarrow> r = err) \<and> (r = None \<longrightarrow> err = None) \<and> wDb w' = wDb w \<and> wCalls w' = wCalls w \<and>
     (wLog w' = wLog w \<or> (\<exists>en. wLog w' = wLog w @ [en] \<and> Operation en = op \<and> ResourceID en = rid \<and>
        EntryApplicationID en = app \<and> Request en = req \<and> (Succeeded en \<longleftrightarrow> err = None) \<and>
        length (EntryErrorMessage en) \<le> 2000 \<and>
        (\<forall>e. err = Some e \<longrightarrow> (\<exists>rest. error_text e = EntryErrorMessage en @ rest)))) \<and>
     (operationsEnabled env \<and> r = None \<longrightarrow> length (wLog w') = Suc (length (wLog w))))"
  by (auto simp: finishOperation.simps job_entry_def Let_def truncate_text_length truncate_text_prefix
      split: option.splits prod.splits)

subsection \<open>Retention\<close>


definition sample_cleaner :: cleaner where
  "sample_cleaner = \<lparr>clRetention = 1000, clInterval = 60, clBatchSize = 1, clEnabled = True\<rparr>"

definition old_executions :: world where
  "old_executions = sample_world [sample_job] [sample_execution ''b'' (- 2000), sample_execution ''a'' (- 3000)]"











text \<open>
  Two cleaners at work: between SELECT and UPDATE of the first round another replica deletes the
  row it picked. The UPDATE finds nothing, the round reports 0, less than the batch size, and the
  pass ends without an error while an expired execution is left.
\<close>

definition rival_env :: env where
  "rival_env = sample_env\<lparr>interfere := \<lambda>n d. if n = 3
     then d\<lparr>executions := map (\<lambda>x. if ID x = ''a'' then x\<lparr>DeletedAt := Some 0, DeletedBy := Some [], Version := 3\<rparr> else x) (executions d)\<rparr>
     else d\<rparr>"

lemma rival_cleaner_ends_the_pass:
  "\<exists>w'. clean 3 rival_env sample_cleaner sample_context old_executions = Some (Inr (), w') \<and>
     expired (- 1000) (sample_execution ''b'' (- 2000)) \<and>
     sample_execution ''b'' (- 2000) \<in> set (executions (wDb w'))"
  by (simp add: numeral_3_eq_3 clean_round_def Within_def SoftDeleteTerminalExecutionsBefore_def exec_stmt_def
      setAuditActor_def finish_tx_def commit_tx_def others_commit_run begin_on_def prog_simps rival_env_def
      sample_cleaner_def old_executions_def cleaner_context_def expired_def oldest_first_def finish_time_def
      Let_def sample_simps)

subsection \<open>The lease\<close>

text \<open>
  For every job the table can hold, the timeout of its call and the lease of its lock are
  computed without overflow, and the lease outlives the call and the five seconds granted to
  record its result by at least 25 seconds; different jobs never share a lock.
\<close>

lemma lease_covers:
  assumes "job_sound j"
  shows "timeout_duration j = TimeoutMilliseconds j * 1000000 \<and>
    lock_ttl j = timeout_duration j + 30000000000 \<and>
    timeout_duration j + 5000000000 + 25000000000 \<le> lock_ttl j \<and> 0 < timeout_duration j \<and>
    (lock_key j = lock_key j' \<longleftrightarrow> ID j = ID j')"
proof -
  have t: "100 \<le> TimeoutMilliseconds j" "TimeoutMilliseconds j \<le> 1800000"
    using assms by (auto simp: job_sound_def)
  then have "in_i64 (TimeoutMilliseconds j)" "in_i64 (TimeoutMilliseconds j * 1000000)"
    "in_i64 (TimeoutMilliseconds j * 1000000 + 30000000000)"
    by (auto simp: in_i64_def)
  then have "timeout_duration j = TimeoutMilliseconds j * 1000000" "lock_ttl j = timeout_duration j + 30000000000"
    by (simp_all add: timeout_duration_def lock_ttl_def i64_exact)
  with t show ?thesis by (simp add: lock_key_def)
qed

subsection \<open>Success and failure as the client sees them\<close>




end
