(* ===== verification/Exclusion.thy ===== *)
theory Exclusion
  imports Job_Theorems
begin

section \<open>One execution of a job at a time\<close>

text \<open>
  \<open>execute\<close> of \<^verbatim>\<open>internal/job/service.go\<close> runs an execution under a lease on the key of its job, in
  every replica and for both triggers. Two runs of \<open>execute\<close>, each in the world of its replica and
  with its own environment, are related by the clock they share and by what the lock library
  promises: of two grants of one key, the later one comes when the earlier callback has returned or
  its lease has run out. That the lease is long enough for the call follows from the code: the
  timeout of the call is in its context, and the lease is 30 seconds longer.
\<close>

text \<open>Without the lease nothing happens but that it was asked for.\<close>

lemma execute_needs_lease:
  assumes "execute env ctx value trigger actor v w = (r, w')"
    and "\<not> laRan (tryLock env (wTick w) (lock_key value) (lock_ttl value))"
  shows "w' = w \<or> w' = w\<lparr>wTick := Suc (wTick w)\<rparr>"
  using assms by (auto simp: execute_def ensure_def attempt_def tick_def fail_def Let_def split: if_splits)

subsection \<open>What the code relies on\<close>



subsection \<open>A call within its lease\<close>




subsection \<open>One at a time\<close>





end
