(* ===== verification/Contexts.thy ===== *)
theory Contexts
  imports Http_Middleware Grpc_Server
begin

section \<open>Values in contexts: packages environment and requestid\<close>

text \<open>
  A context of Go is a chain of keys and values; a lookup finds the innermost value of its key, and
  a type assertion refuses a value of another type. \<^verbatim>\<open>internal/environment/context.go\<close> and
  \<^verbatim>\<open>internal/requestid/requestid.go\<close> keep one string each, under a key of a type nobody else can name;
  \<^verbatim>\<open>internal/idempotency/context.go\<close> leaves that to the platform library. The rest of the development
  has contexts as records; the lemmas below are why: the chains simulate the fields.
\<close>

subsection \<open>The chain\<close>

datatype key_type = EnvironmentKey | RequestidKey | AnotherKey string
datatype 'v anything = GoString string | AnotherValue 'v

datatype 'v context_chain =
    Background
  | WithValue "'v context_chain" key_type "'v anything"
  | WithDeadline "'v context_chain" time

fun Value :: "'v context_chain \<Rightarrow> key_type \<Rightarrow> 'v anything option" where
  "Value Background k = None"
| "Value (WithValue parent k' v) k = (if k' = k then Some v else Value parent k)"
| "Value (WithDeadline parent t) k = Value parent k"

text \<open>The comma-ok assertion to \<open>string\<close>: the zero value when it fails.\<close>

definition assert_string :: "'v anything option \<Rightarrow> string \<times> bool" where
  "assert_string v = (case v of Some (GoString s) \<Rightarrow> (s, True) | _ \<Rightarrow> ([], False))"

definition environment_WithContext :: "'v context_chain \<Rightarrow> string \<Rightarrow> 'v context_chain" where
  "environment_WithContext ctx profile = WithValue ctx EnvironmentKey (GoString profile)"

definition environment_FromContext :: "'v context_chain \<Rightarrow> string \<times> bool" where
  "environment_FromContext ctx = (let (profile, found) = assert_string (Value ctx EnvironmentKey) in (profile, found))"

definition requestid_WithContext :: "'v context_chain \<Rightarrow> string \<Rightarrow> 'v context_chain" where
  "requestid_WithContext ctx i = WithValue ctx RequestidKey (GoString i)"

definition requestid_FromChain :: "'v context_chain \<Rightarrow> string \<times> bool" where
  "requestid_FromChain ctx = (let (i, found) = assert_string (Value ctx RequestidKey) in (i, found \<and> i \<noteq> []))"

subsection \<open>The contract of such a package\<close>

locale context_value =
  fixes put :: "'c \<Rightarrow> string \<Rightarrow> 'c" and get :: "'c \<Rightarrow> string \<times> bool" and proper :: "string \<Rightarrow> bool"
  assumes get_put: "get (put c v) = (v, proper v)"
begin

lemma last_wins: "get (put (put c u) v) = get (put c v)"
  by (simp add: get_put)

lemma found_iff: "snd (get (put c v)) \<longleftrightarrow> proper v"
  by (simp add: get_put)

end

locale independent_values =
  first: context_value put1 get1 proper1 + second: context_value put2 get2 proper2
  for put1 :: "'c \<Rightarrow> string \<Rightarrow> 'c" and get1 proper1 put2 get2 proper2 +
  assumes keeps1: "get1 (put2 c v) = get1 c" and keeps2: "get2 (put1 c v) = get2 c"
begin

lemma both_kept:
  "get1 (put2 (put1 c u) v) = (u, proper1 u)" "get2 (put2 (put1 c u) v) = (v, proper2 v)"
  by (simp_all add: keeps1 first.get_put second.get_put)

lemma order_irrelevant:
  "get1 (put1 (put2 c v) u) = get1 (put2 (put1 c u) v)" "get2 (put1 (put2 c v) u) = get2 (put2 (put1 c u) v)"
  by (simp_all add: keeps1 keeps2 first.get_put second.get_put)

end

lemmas context_defs =
  environment_WithContext_def environment_FromContext_def requestid_WithContext_def requestid_FromChain_def assert_string_def

interpretation cv: independent_values environment_WithContext environment_FromContext "\<lambda>_. True"
    requestid_WithContext requestid_FromChain "\<lambda>i. i \<noteq> []"
  by unfold_locales (simp_all add: context_defs)

subsection \<open>The chain simulates the record\<close>

text \<open>What the rest of the development reads of a context: the profile and the request id.\<close>

definition simulates :: "'v context_chain \<Rightarrow> string \<Rightarrow> go_context \<Rightarrow> bool" where
  "simulates chain profile ctx \<longleftrightarrow>
     fst (environment_FromContext chain) = profile \<and>
     requestid_FromContext ctx = (case requestid_FromChain chain of (i, found) \<Rightarrow> if found then Some i else None)"

lemma simulates_background: "simulates Background [] \<lparr>cPrincipal = p, cRequestID = None, cIdempotencyKey = k, cMetadata = m, cTimeouts = t\<rparr>"
  by (simp add: simulates_def context_defs requestid_FromContext_def)

lemma simulates_environment:
  "simulates chain p ctx \<Longrightarrow> simulates (environment_WithContext chain profile) profile ctx"
  by (simp add: simulates_def cv.keeps2 cv.first.get_put)

lemma simulates_request_id:
  "simulates chain p ctx \<Longrightarrow> simulates (requestid_WithContext chain i) p (ctx\<lparr>cRequestID := Some i\<rparr>)"
  by (simp add: simulates_def cv.keeps1 cv.second.get_put requestid_FromContext_def)

lemma simulates_timeout: "simulates chain p ctx \<Longrightarrow> simulates (WithDeadline chain t) p (with_timeout d ctx)"
  by (simp add: simulates_def context_defs with_timeout_def requestid_FromContext_def)

text \<open>\<open>Environment\<close> of the HTTP chain and both interceptors of gRPC put the profile where it is read.\<close>

lemma middleware_simulates:
  assumes "simulates chain p (gCtx c)"
  shows "\<exists>c'. Environment_mw profile next (c, w) = next (c', w) \<and>
    simulates (environment_WithContext chain profile) (gEnvironment c') (gCtx c')"
  using simulates_environment [OF assms] by (auto simp: Environment_mw_def)

lemma interceptor_simulates:
  assumes "simulates chain p (caCtx c)"
  shows "\<exists>c'. environmentInterceptor profile next c = next c' \<and>
    simulates (environment_WithContext chain profile) (caEnvironment c') (caCtx c')"
  using simulates_environment [OF assms] by (auto simp: environmentInterceptor_def)

end
