(* ===== verification/Outbound.thy ===== *)
theory Outbound
  imports Grpc_Client Auth
begin

section \<open>The HTTP client and the registry: package outbound\<close>

text \<open>
  \<^verbatim>\<open>internal/outbound/http.go\<close> and \<^verbatim>\<open>internal/outbound/registry.go\<close>: the construction of the
  clients from the configuration, and a request with its retries behind the circuit breaker. The
  URL parser, the transport, the breaker and the conversion of large floats are the libraries'
  or the processor's and are arguments; the metrics of \<open>Do\<close> are in \<open>Clients\<close>; names that \<open>%q\<close> quotes in an error
  are attached as they are. The body of a response that is
  retried is drained and closed, which the model does not show.
\<close>

subsection \<open>Requests\<close>

record url =
  urlScheme :: string
  urlHost :: string
  urlRest :: string

record http_request =
  hrMethod :: string
  hrTarget :: string
  hrBody :: string
  hrHeader :: "string \<Rightarrow> string list"     \<comment> \<open>by canonical key\<close>

record http_response =
  hsStatusCode :: int
  hsText :: string

record http_library =
  urlParse :: "string \<Rightarrow> url option"
  resolveReference :: "url \<Rightarrow> url \<Rightarrow> string"
  newRequest :: "string \<Rightarrow> string \<Rightarrow> go_error option"
  isCanceled :: "go_error \<Rightarrow> bool"
  tlsFiles :: tls_library
  floatOutOfRange :: "int \<Rightarrow> int"           \<comment> \<open>\<open>time.Duration\<close> of a float beyond 64 bits\<close>

text \<open>An error inside the breaker: the response of a status that counts as a failure, or a plain one.\<close>

datatype call_error = StatusError http_response | PlainError go_error

type_synonym 's http_breaker_library =
  "call_error breaker_settings \<Rightarrow> ('s \<Rightarrow> (call_error + http_response) \<times> 's) \<Rightarrow> 's \<Rightarrow> (call_error + http_response) \<times> 's"

record http_client =
  hcName :: string
  hcBaseURL :: url
  hcTransport :: "string \<times> string option \<times> (string \<times> string) option"
  hcTimeout :: int
  hcConfig :: upstream
  hcBreaker :: "call_error breaker_settings option"

subsection \<open>Construction\<close>

definition httpTransport ::
  "tls_library \<Rightarrow> client_tls \<Rightarrow> go_error + string \<times> string option \<times> (string \<times> string) option" where
  "httpTransport lib cfg =
     (case
        (if tlsCAFile cfg \<noteq> [] then
           (case readFile lib (tlsCAFile cfg) of
              Inl e \<Rightarrow> Inl (Wrapped ''read outbound HTTP CA'' e)
            | Inr pem \<Rightarrow>
                if \<not> appendCerts lib pem then Inl (ErrorString ''parse outbound HTTP CA'') else Inr (Some pem))
         else Inr None)
      of
        Inl e \<Rightarrow> Inl e
      | Inr roots \<Rightarrow>
          if tlsCertFile cfg \<noteq> [] then
            (case loadKeyPair lib (tlsCertFile cfg) (tlsKeyFile cfg) of
               Some e \<Rightarrow> Inl (Wrapped ''load outbound HTTP client certificate'' e)
             | None \<Rightarrow> Inr (tlsServerName cfg, roots, Some (tlsCertFile cfg, tlsKeyFile cfg)))
          else Inr (tlsServerName cfg, roots, None))"

definition http_breaker :: "http_library \<Rightarrow> string \<Rightarrow> breaker \<Rightarrow> call_error breaker_settings" where
  "http_breaker lib name cfg =
     \<lparr>bsName = name, bsTimeout = OpenTimeout cfg,
      bsReadyToTrip = (\<lambda>failures. FailureThreshold cfg \<le> failures),
      bsIsExcluded = (\<lambda>err. case err of StatusError r \<Rightarrow> False | PlainError e \<Rightarrow> isCanceled lib e)\<rparr>"

definition NewHTTPClient :: "http_library \<Rightarrow> string \<Rightarrow> upstream \<Rightarrow> go_error + http_client" where
  "NewHTTPClient lib name cfg =
     (if caType (upAuth cfg) \<noteq> [] \<and> \<not> tlsEnabled (upTLS cfg)
      then Inl (ErrorString ''refusing to send outbound HTTP credentials without TLS'')
      else
        (let bad = Inl (ErrorString (''parse outbound HTTP base URL '' @ upAddress cfg)) in
         case urlParse lib (upAddress cfg) of
           None \<Rightarrow> bad
         | Some base \<Rightarrow>
             if urlScheme base = [] \<or> urlHost base = [] then bad
             else case httpTransport (tlsFiles lib) (upTLS cfg) of
               Inl e \<Rightarrow> Inl e
             | Inr transport \<Rightarrow>
                 Inr \<lparr>hcName = name, hcBaseURL = base, hcTransport = transport, hcTimeout = upTimeout cfg,
                      hcConfig = cfg,
                      hcBreaker = (if brEnabled (upBreaker cfg) then Some (http_breaker lib name (upBreaker cfg)) else None)\<rparr>))"

subsection \<open>Retries\<close>

definition retryableMethod :: "go_context \<Rightarrow> string \<Rightarrow> bool" where
  "retryableMethod ctx method =
     (if method = ''GET'' \<or> method = ''HEAD'' \<or> method = ''OPTIONS'' \<or> method = ''PUT'' \<or> method = ''DELETE''
      then True else cIdempotencyKey ctx \<noteq> None)"

definition retryableHTTPStatus :: "int \<Rightarrow> bool" where
  "retryableHTTPStatus status \<longleftrightarrow> status = 429 \<or> status = 502 \<or> status = 503 \<or> status = 504"

definition applyHTTPAuth :: "client_auth \<Rightarrow> http_request \<Rightarrow> http_request" where
  "applyHTTPAuth auth request =
     (if caType auth = ''bearer''
      then request\<lparr>hrHeader := (hrHeader request)(''Authorization'' := [''Bearer '' @ caToken auth])\<rparr>
      else if caType auth = ''psk''
      then request\<lparr>hrHeader := (hrHeader request)(''Authorization'' := [''PSK '' @ caToken auth])\<rparr>
      else request)"

text \<open>
  \<open>float64\<close> of an integer: rounded to 53 bits, ties to even. Doubling it is exact; converting it
  back is exact in the range of 64 bits and otherwise up to the processor.
\<close>

fun bit_len :: "nat \<Rightarrow> nat" where
  "bit_len n = (if n = 0 then 0 else Suc (bit_len (n div 2)))"

declare bit_len.simps [simp del]

definition float64_nat :: "nat \<Rightarrow> nat" where
  "float64_nat n =
     (if n < 2 ^ 53 then n
      else let k = bit_len n - 53; q = n div 2 ^ k; r = n mod 2 ^ k; half = 2 ^ (k - 1) in
        (if half < r \<or> r = half \<and> odd q then q + 1 else q) * 2 ^ k)"

definition float64_int :: "int \<Rightarrow> int" where
  "float64_int x = sgn x * int (float64_nat (nat \<bar>x\<bar>))"

definition float_delay :: "http_library \<Rightarrow> retry \<Rightarrow> int \<Rightarrow> int" where
  "float_delay lib retry number =
     (let product = float64_int (InitialBackoff retry) * 2 ^ nat (number - 1);
          delay = (if in_i64 product then product else floatOutOfRange lib product)
      in if MaxBackoff retry < delay then MaxBackoff retry else delay)"

definition waitBackoff ::
  "http_library \<Rightarrow> (go_error, 's) pause \<Rightarrow> go_context \<Rightarrow> retry \<Rightarrow> int \<Rightarrow> 's \<Rightarrow> go_error option \<times> 's" where
  "waitBackoff lib pause ctx retry number s = pause ctx (float_delay lib retry number) s"

type_synonym 's sender = "go_context \<Rightarrow> http_request \<Rightarrow> 's \<Rightarrow> (go_error + http_response) \<times> 's"

text \<open>The request of every attempt.\<close>

definition build_request :: "client_auth \<Rightarrow> string \<Rightarrow> string \<Rightarrow> string \<Rightarrow> (string \<Rightarrow> string list) \<Rightarrow> http_request" where
  "build_request auth method target body headers =
     (let h = (if body \<noteq> [] \<and> (headers ''Content-Type'' = [] \<or> hd (headers ''Content-Type'') = [])
               then headers(''Content-Type'' := [''application/json'']) else headers)
      in applyHTTPAuth auth \<lparr>hrMethod = method, hrTarget = target, hrBody = body, hrHeader = h\<rparr>)"

function http_attempts ::
  "http_library \<Rightarrow> (go_error, 's) pause \<Rightarrow> 's sender \<Rightarrow> retry \<Rightarrow> go_context \<Rightarrow> http_request \<Rightarrow> int \<Rightarrow> int \<Rightarrow> 's \<Rightarrow>
   (go_error + http_response) \<times> 's" where
  "http_attempts lib pause send retry ctx request number maxAttempts s =
     (if number \<le> maxAttempts then
        (case newRequest lib (hrMethod request) (hrTarget request) of
           Some e \<Rightarrow> (Inl (Wrapped ''create outbound HTTP request'' e), s)
         | None \<Rightarrow>
             let (result, s1) = send ctx request s;
                 next = (\<lambda>u :: unit.
                   if number < maxAttempts then
                     (case waitBackoff lib pause ctx retry number s1 of
                        (Some e, s2) \<Rightarrow> (Inl e, s2)
                      | (None, s2) \<Rightarrow> http_attempts lib pause send retry ctx request (number + 1) maxAttempts s2)
                   else http_attempts lib pause send retry ctx request (number + 1) maxAttempts s1)
             in case result of
               Inr response \<Rightarrow>
                 if \<not> retryableHTTPStatus (hsStatusCode response) \<or> number = maxAttempts
                 then (Inr response, s1) else next ()
             | Inl e \<Rightarrow>
                 if number = maxAttempts then (Inl (Wrapped ''call outbound HTTP service'' e), s1) else next ())
      else (Inl (ErrorString ''outbound HTTP attempts exhausted''), s))"
  by pat_completeness auto
termination
  by (relation "measure (\<lambda>(_, _, _, _, _, _, number, maxAttempts, _). nat (maxAttempts - number + 1))") auto

declare http_attempts.simps [simp del]

definition doWithRetry ::
  "http_library \<Rightarrow> (go_error, 's) pause \<Rightarrow> 's sender \<Rightarrow> http_client \<Rightarrow> go_context \<Rightarrow> string \<Rightarrow> string \<Rightarrow> string \<Rightarrow>
   (string \<Rightarrow> string list) \<Rightarrow> 's \<Rightarrow> (go_error + http_response) \<times> 's" where
  "doWithRetry lib pause send c ctx method requestPath body headers s =
     (let refused = (Inl (ErrorString ''outbound HTTP path must be relative''), s) in
      case urlParse lib requestPath of
        None \<Rightarrow> refused
      | Some reference \<Rightarrow>
          if urlScheme reference \<noteq> [] \<or> urlHost reference \<noteq> [] then refused
          else
            let target = resolveReference lib (hcBaseURL c) reference;
                maxAttempts = (if retryableMethod ctx method then MaxAttempts (upRetry (hcConfig c)) else 1)
            in http_attempts lib pause send (upRetry (hcConfig c)) ctx
                 (build_request (upAuth (hcConfig c)) method target body headers) 1 maxAttempts s)"

definition execute_http ::
  "'s http_breaker_library \<Rightarrow> http_library \<Rightarrow> (go_error, 's) pause \<Rightarrow> 's sender \<Rightarrow> http_client \<Rightarrow> go_context \<Rightarrow> string \<Rightarrow>
   string \<Rightarrow> string \<Rightarrow> (string \<Rightarrow> string list) \<Rightarrow> 's \<Rightarrow> (go_error + http_response) \<times> 's" where
  "execute_http breaker_execute lib pause send c ctx method requestPath body headers s =
     (let run = doWithRetry lib pause send c ctx method requestPath body headers in
      case hcBreaker c of
        None \<Rightarrow> run s
      | Some settings \<Rightarrow>
          let call = (\<lambda>s. case run s of
                (Inr response, s') \<Rightarrow>
                  if retryableHTTPStatus (hsStatusCode response) then (Inl (StatusError response), s')
                  else (Inr response, s')
              | (Inl e, s') \<Rightarrow> (Inl (PlainError e), s'))
          in case breaker_execute settings call s of
            (Inl (StatusError response), s') \<Rightarrow> (Inr response, s')
          | (Inl (PlainError e), s') \<Rightarrow> (Inl e, s')
          | (Inr response, s') \<Rightarrow> (Inr response, s'))"

subsection \<open>The registry\<close>

definition grpc_client_config :: "string \<Rightarrow> upstream \<Rightarrow> client_config" where
  "grpc_client_config name u =
     \<lparr>ccTarget = upAddress u, ccTimeout = upTimeout u,
      ccToken = (if caType (upAuth u) = ''bearer'' then caToken (upAuth u) else []),
      ccPSK = (if caType (upAuth u) = ''psk'' then caToken (upAuth u) else []),
      ccTLS = \<lparr>tcEnabled = tlsEnabled (upTLS u), tcServerName = tlsServerName (upTLS u), tcCAFile = tlsCAFile (upTLS u),
        tcCertFile = tlsCertFile (upTLS u), tcKeyFile = tlsKeyFile (upTLS u),
        tcAllowInsecureToken = tlsAllowInsecure (upTLS u)\<rparr>,
      ccName = name, ccRetry = upRetry u, ccBreaker = upBreaker u\<rparr>"

record 's registry =
  rgHTTP :: "string \<rightharpoonup> http_client"
  rgGRPC :: "string \<rightharpoonup> 's connection"

text \<open>The maps of the configuration are visited in some order; the list is one.\<close>

fun add_http :: "http_library \<Rightarrow> (string \<times> upstream) list \<Rightarrow> (string \<rightharpoonup> http_client) \<Rightarrow>
    go_error + (string \<rightharpoonup> http_client)" where
  "add_http lib [] m = Inr m"
| "add_http lib ((name, u) # us) m =
     (case NewHTTPClient lib name u of
        Inl e \<Rightarrow> Inl (Wrapped (''create outbound HTTP client '' @ name) e)
      | Inr client \<Rightarrow> add_http lib us (m(name \<mapsto> client)))"

fun add_grpc :: "(client_config \<Rightarrow> go_error + 's connection) \<Rightarrow> (string \<times> upstream) list \<Rightarrow>
    (string \<rightharpoonup> 's connection) \<Rightarrow> go_error + (string \<rightharpoonup> 's connection)" where
  "add_grpc dial [] m = Inr m"
| "add_grpc dial ((name, u) # us) m =
     (case dial (grpc_client_config name u) of
        Inl e \<Rightarrow> Inl (Wrapped (''create outbound gRPC client '' @ name) e)
      | Inr connection \<Rightarrow> add_grpc dial us (m(name \<mapsto> connection)))"

definition NewRegistry ::
  "http_library \<Rightarrow> (client_config \<Rightarrow> go_error + 's connection) \<Rightarrow> config \<Rightarrow> go_error + 's registry" where
  "NewRegistry lib dial cfg =
     (case add_http lib (cOutboundHTTP cfg) Map.empty of
        Inl e \<Rightarrow> Inl e
      | Inr http \<Rightarrow>
     (case add_grpc dial (cOutboundGRPC cfg) Map.empty of
        Inl e \<Rightarrow> Inl e
      | Inr grpc \<Rightarrow> Inr \<lparr>rgHTTP = http, rgGRPC = grpc\<rparr>))"

text \<open>\<open>close\<close> closes every connection and reports the first error.\<close>

fun close_connections :: "(string \<times> go_error option) list \<Rightarrow> go_error option \<Rightarrow> go_error option" where
  "close_connections [] closeErr = closeErr"
| "close_connections ((name, err) # cs) closeErr =
     close_connections cs
       (case err of
          Some e \<Rightarrow> if closeErr = None then Some (Wrapped (''close outbound gRPC client '' @ name) e) else closeErr
        | None \<Rightarrow> closeErr)"

subsection \<open>Runs of the HTTP retry loop\<close>

definition http_transient :: "go_error + http_response \<Rightarrow> bool" where
  "http_transient r = (case r of Inl e \<Rightarrow> True | Inr response \<Rightarrow> retryableHTTPStatus (hsStatusCode response))"

definition http_result :: "go_error + http_response \<Rightarrow> go_error + http_response" where
  "http_result r = (case r of Inl e \<Rightarrow> Inl (Wrapped ''call outbound HTTP service'' e) | Inr response \<Rightarrow> Inr response)"

lemma http_attempts_step:
  assumes "1 \<le> k" and "k \<le> limit" and "newRequest lib (hrMethod q) (hrTarget q) = None"
  shows "http_attempts lib (recorded_pause stopped) (recorded_call ask) retry ctx q k limit tr =
    (let r = ask ctx q tr; called = tr @ [Called r]; waited = called @ [Waited (float_delay lib retry k)] in
     if http_transient r \<and> k < limit
     then (case map_option Inl (stopped waited) of
             Some x \<Rightarrow> (x, waited)
           | None \<Rightarrow> http_attempts lib (recorded_pause stopped) (recorded_call ask) retry ctx q (k + 1) limit waited)
     else (http_result r, called))"
  using assms
  by (subst http_attempts.simps)
     (auto simp: recorded_call_def recorded_pause_def waitBackoff_def http_transient_def http_result_def Let_def
        split: option.splits sum.splits)

interpretation http_retry: retry_loop
  "\<lambda>k tr. http_attempts lib (recorded_pause stopped) (recorded_call ask) retry ctx q k limit tr"
  limit "float_delay lib retry" "ask ctx q" "\<lambda>tr. map_option Inl (stopped tr)" http_transient http_result
  "newRequest lib (hrMethod q) (hrTarget q) = None"
  for lib stopped ask retry ctx q limit
  by unfold_locales (rule http_attempts_step)

lemma float_delay_exact:
  assumes "0 < InitialBackoff r" and "InitialBackoff r < 2 ^ 53" and "1 \<le> k" and "k \<le> 5"
  shows "float_delay lib r k = backoff (InitialBackoff r) (MaxBackoff r) k"
proof -
  have "(2 :: int) ^ nat (k - 1) \<le> 2 ^ 4" using assms(3,4) by (intro power_increasing) auto
  then have "InitialBackoff r * 2 ^ nat (k - 1) \<le> InitialBackoff r * 2 ^ 4" using assms(1)
    by (intro mult_left_mono) auto
  moreover have "0 < InitialBackoff r * 2 ^ nat (k - 1)" using assms(1) by simp
  ultimately have "in_i64 (InitialBackoff r * 2 ^ nat (k - 1))"
    unfolding in_i64_def using assms(2) by simp
  moreover have "float64_int (InitialBackoff r) = InitialBackoff r"
    using assms(1,2) by (simp add: float64_int_def float64_nat_def nat_less_iff)
  ultimately show ?thesis by (simp add: float_delay_def backoff_def min_def Let_def)
qed

end
