(* ===== verification/Clients.thy ===== *)
theory Clients
  imports Outbound Observation
begin

section \<open>The outbound clients in use\<close>

text \<open>
  What surrounds a call of a client: \<open>Do\<close> of \<^verbatim>\<open>internal/outbound/http.go\<close> and \<open>metricsInterceptor\<close> of
  \<^verbatim>\<open>internal/grpcclient/client.go\<close>, which count it, and the lookups of \<^verbatim>\<open>internal/outbound/registry.go\<close>.
  \<open>count\<close> stands for incrementing the counter \<open>OutboundRequests\<close> at its label values and observing
  the duration; the names of the gRPC codes are the library's.
\<close>

subsection \<open>Decimal text\<close>

text \<open>\<open>strconv.Itoa\<close>.\<close>

function nat_text :: "nat \<Rightarrow> string" where
  "nat_text n = (if n < 10 then [char_of (48 + n)] else nat_text (n div 10) @ [char_of (48 + n mod 10)])"
  by pat_completeness auto
termination by (relation "measure (\<lambda>n. n)") auto

declare nat_text.simps [simp del]

definition Itoa :: "int \<Rightarrow> string" where
  "Itoa i = (if i < 0 then CHR ''-'' # nat_text (nat (- i)) else nat_text (nat i))"

subsection \<open>Counted calls\<close>

definition Do :: "bool option \<Rightarrow> (string list \<Rightarrow> 's \<Rightarrow> 's) \<Rightarrow> 's http_breaker_library \<Rightarrow> http_library \<Rightarrow>
    (go_error, 's) pause \<Rightarrow> 's sender \<Rightarrow> http_client \<Rightarrow> go_context \<Rightarrow> string \<Rightarrow> string \<Rightarrow> string \<Rightarrow>
    (string \<Rightarrow> string list) \<Rightarrow> 's \<Rightarrow> (go_error + http_response) \<times> 's" where
  "Do metrics count breaker_execute lib pause send c ctx method requestPath body headers s =
     (let (result, s) = execute_http breaker_execute lib pause send c ctx method requestPath body headers s;
          status = (case result of Inl e \<Rightarrow> ''error'' | Inr response \<Rightarrow> Itoa (hsStatusCode response));
          s = (if metrics = Some True then count [''http'', hcName c, status] s else s)
      in (result, s))"

definition client_metricsInterceptor ::
  "bool \<Rightarrow> (nat \<Rightarrow> string) \<Rightarrow> (string list \<Rightarrow> 's \<Rightarrow> 's) \<Rightarrow> string \<Rightarrow> 's interceptor" where
  "client_metricsInterceptor metricsEnabled codeName count name invoke = (\<lambda>ctx meth s.
     let (err, s) = invoke ctx meth s in
     (err, if metricsEnabled then count [''grpc'', name, codeName (status_Code err)] s else s))"

text \<open>The chain of \<open>Dial\<close> when metrics are present: they are between the metadata and the breaker.\<close>

definition counted_interceptors :: "bool option \<Rightarrow> (nat \<Rightarrow> string) \<Rightarrow> (string list \<Rightarrow> 's \<Rightarrow> 's) \<Rightarrow>
    's grpc_breaker_library \<Rightarrow> (rpc_error, 's) pause \<Rightarrow> client_config \<Rightarrow> 's interceptor list" where
  "counted_interceptors metrics codeName count run_breaker pause cfg =
     [timeoutInterceptor (ccTimeout cfg), metadataInterceptor (ccToken cfg) (ccPSK cfg)] @
     (case metrics of None \<Rightarrow> [] | Some active \<Rightarrow> [client_metricsInterceptor active codeName count (ccName cfg)]) @
     (if brEnabled (ccBreaker cfg) then [breakerInterceptor run_breaker (ccName cfg) (ccBreaker cfg)] else []) @
     (if 1 < MaxAttempts (ccRetry cfg) then [retryInterceptor pause (ccRetry cfg)] else [])"

subsection \<open>Counting changes nothing else and happens once\<close>

lemma Do_result:
  "fst (Do metrics count b lib pause send c ctx method path body headers s) =
   fst (execute_http b lib pause send c ctx method path body headers s)"
  by (simp add: Do_def Let_def split: prod.split)

lemma Do_counts:
  assumes "execute_http b lib pause send c ctx method path body headers s = (result, s')"
  obtains status where
    "snd (Do metrics count b lib pause send c ctx method path body headers s) =
       (if metrics = Some True then count [''http'', hcName c, status] s' else s')"
    and "takes OutboundRequests [''http'', hcName c, status]"
  using assms by (simp add: Do_def Let_def labels_taken)

text \<open>
  However often a gRPC call is retried, it is counted once, with the code the caller gets; without
  metrics, or with metrics that are off, the chain is the one without the interceptor.
\<close>

lemma counted_once:
  assumes "chained (client_interceptors run_breaker pause cfg) invoke ctx meth s = (err, s')"
  shows "chained (counted_interceptors (Some True) codeName count run_breaker pause cfg) invoke ctx meth s =
    (err, count [''grpc'', ccName cfg, codeName (status_Code err)] s')"
  using assms
  by (auto simp: chained_def counted_interceptors_def client_interceptors_def client_metricsInterceptor_def
      timeoutInterceptor_def metadataInterceptor_def Let_def split: prod.splits if_splits)

lemma uncounted:
  "metrics \<noteq> Some True \<Longrightarrow>
   chained (counted_interceptors metrics codeName count run_breaker pause cfg) invoke =
   chained (client_interceptors run_breaker pause cfg) invoke"
  by (cases metrics)
     (auto simp: chained_def counted_interceptors_def client_interceptors_def client_metricsInterceptor_def
      timeoutInterceptor_def metadataInterceptor_def Let_def split: prod.splits)

subsection \<open>Lookups\<close>

definition Registry_HTTP :: "'s registry \<Rightarrow> string \<Rightarrow> http_client option" where
  "Registry_HTTP r name = rgHTTP r name"

definition Registry_GRPC :: "'s registry \<Rightarrow> string \<Rightarrow> 's connection option" where
  "Registry_GRPC r name = rgGRPC r name"

lemma img_fst: "(a, b) \<in> set xs \<Longrightarrow> a \<in> fst ` set xs"
  by force

lemma add_http_lookup:
  "add_http lib us m = Inr m' \<Longrightarrow> distinct (map fst us) \<Longrightarrow>
   m' name = (case map_of us name of None \<Rightarrow> m name | Some u \<Rightarrow> (case NewHTTPClient lib name u of Inl e \<Rightarrow> None | Inr c \<Rightarrow> Some c))"
  by (induction lib us m rule: add_http.induct)
     (auto split: sum.splits option.split simp: map_of_eq_None_iff [THEN iffD2] dest!: map_of_SomeD
        dest: img_fst)

lemma add_grpc_lookup:
  "add_grpc dial us m = Inr m' \<Longrightarrow> distinct (map fst us) \<Longrightarrow>
   m' name = (case map_of us name of None \<Rightarrow> m name
     | Some u \<Rightarrow> (case dial (grpc_client_config name u) of Inl e \<Rightarrow> None | Inr c \<Rightarrow> Some c))"
  by (induction dial us m rule: add_grpc.induct)
     (auto split: sum.splits option.split simp: map_of_eq_None_iff [THEN iffD2] dest!: map_of_SomeD
        dest: img_fst)

lemma add_http_built:
  "add_http lib us m = Inr m' \<Longrightarrow> u \<in> set us \<Longrightarrow> \<exists>c. NewHTTPClient lib (fst u) (snd u) = Inr c"
  by (induction lib us m rule: add_http.induct) (auto split: sum.splits)

lemma add_grpc_built:
  "add_grpc dial us m = Inr m' \<Longrightarrow> u \<in> set us \<Longrightarrow> \<exists>c. dial (grpc_client_config (fst u) (snd u)) = Inr c"
  by (induction dial us m rule: add_grpc.induct) (auto split: sum.splits)

text \<open>A registry that was made knows exactly the configured names, and under a name the client of its configuration.\<close>

lemma registry_knows_configured:
  assumes made: "NewRegistry lib dial cfg = Inr r"
    and "distinct (map fst (cOutboundHTTP cfg))" and "distinct (map fst (cOutboundGRPC cfg))"
  shows "Registry_HTTP r name = Some c \<longleftrightarrow>
      (\<exists>u. map_of (cOutboundHTTP cfg) name = Some u \<and> NewHTTPClient lib name u = Inr c)"
    and "Registry_GRPC r name = Some k \<longleftrightarrow>
      (\<exists>u. map_of (cOutboundGRPC cfg) name = Some u \<and> dial (grpc_client_config name u) = Inr k)"
    and "Registry_HTTP r name = None \<longleftrightarrow> name \<notin> set (map fst (cOutboundHTTP cfg))"
    and "Registry_GRPC r name = None \<longleftrightarrow> name \<notin> set (map fst (cOutboundGRPC cfg))"
proof -
  from made obtain http grpc where h: "add_http lib (cOutboundHTTP cfg) Map.empty = Inr http"
    and g: "add_grpc dial (cOutboundGRPC cfg) Map.empty = Inr grpc" and r: "r = \<lparr>rgHTTP = http, rgGRPC = grpc\<rparr>"
    by (auto simp: NewRegistry_def split: sum.splits)
  note hl = add_http_lookup [OF h assms(2), of name] and gl = add_grpc_lookup [OF g assms(3), of name]
  show "Registry_HTTP r name = Some c \<longleftrightarrow>
      (\<exists>u. map_of (cOutboundHTTP cfg) name = Some u \<and> NewHTTPClient lib name u = Inr c)"
    by (simp add: Registry_HTTP_def r hl split: option.split sum.split)
  show "Registry_GRPC r name = Some k \<longleftrightarrow>
      (\<exists>u. map_of (cOutboundGRPC cfg) name = Some u \<and> dial (grpc_client_config name u) = Inr k)"
    by (simp add: Registry_GRPC_def r gl split: option.split sum.split)
  show "Registry_HTTP r name = None \<longleftrightarrow> name \<notin> set (map fst (cOutboundHTTP cfg))"
    using add_http_built [OF h, of "(name, the (map_of (cOutboundHTTP cfg) name))"] map_of_eq_None_iff [of "cOutboundHTTP cfg" name]
    by (cases "map_of (cOutboundHTTP cfg) name") (auto simp: Registry_HTTP_def r hl map_of_SomeD)
  show "Registry_GRPC r name = None \<longleftrightarrow> name \<notin> set (map fst (cOutboundGRPC cfg))"
    using add_grpc_built [OF g, of "(name, the (map_of (cOutboundGRPC cfg) name))"] map_of_eq_None_iff [of "cOutboundGRPC cfg" name]
    by (cases "map_of (cOutboundGRPC cfg) name") (auto simp: Registry_GRPC_def r gl map_of_SomeD)
qed

end
