(* ===== verification/Outbound_Theorems.thy ===== *)
theory Outbound_Theorems
  imports Outbound Config_Theorems
begin

section \<open>What the outbound clients guarantee\<close>

text \<open>
  For the clients of an accepted configuration: the retries of a gRPC call (C39) and of an HTTP
  request (C40). Both rest on the lemmas of the locale \<open>retry_loop\<close>.
\<close>

text \<open>Delays that are computed without overflow are the doubled ones.\<close>

lemma orderly_delay:
  assumes "orderly k limit delay again finish stop r" and "\<And>j. k \<le> j \<Longrightarrow> j < limit \<Longrightarrow> delay j = delay' j"
  shows "orderly k limit delay' again finish stop r"
proof -
  define n where "n = int (length (answers (snd r)))"
  have same: "map delay [k..m] = map delay' [k..m]" if "m < limit" for m
    using assms(2) that by (intro map_cong) auto
  have "k + n - 1 \<le> limit" using assms(1) by (simp add: orderly_def n_def Let_def)
  then have short: "map delay [k..k + n - 2] = map delay' [k..k + n - 2]" by (intro same) simp
  then have "delays (snd r) = map delay [k..k + n - 2] \<longleftrightarrow> delays (snd r) = map delay' [k..k + n - 2]"
    by (simp only: short)
  moreover have "delays (snd r) = map delay [k..k + n - 1] \<longleftrightarrow> delays (snd r) = map delay' [k..k + n - 1]"
    if "k + n - 1 < limit"
    by (simp only: same [OF that])
  ultimately show ?thesis using assms(1) unfolding orderly_def Let_def n_def [symmetric] by satx
qed

lemma orderly_delays:
  assumes "orderly 1 limit delay again finish stop r"
    and "\<And>j. 1 \<le> j \<Longrightarrow> lo < delay j \<and> delay j \<le> hi"
  shows "\<forall>d \<in> set (delays (snd r)). lo < d \<and> d \<le> hi"
  using assms unfolding orderly_def Let_def by auto

lemma orderly_answers:
  "orderly 1 limit delay again finish stop r \<Longrightarrow> int (length (answers (snd r))) \<le> limit"
  unfolding orderly_def Let_def by simp

lemma single_orderly:
  "orderly 1 1 delay again finish stop (finish a, [Called a])"
  by (simp add: orderly_def)

lemma policy_of:
  assumes "Validate cfg = Inr ()" and "(name, u) \<in> set (cOutboundHTTP cfg) \<union> set (cOutboundGRPC cfg)"
  shows "1 \<le> MaxAttempts (upRetry u)" "MaxAttempts (upRetry u) \<le> 5" "0 < InitialBackoff (upRetry u)"
    "InitialBackoff (upRetry u) \<le> MaxBackoff (upRetry u)"
  using accepted_upstream [OF assms] by (simp_all add: upstream_ok_def retry_ok_def)

text \<open>
  C39. Retries over gRPC are bounded and orderly: with a client of an accepted configuration
  whose first backoff is below 2 to the 59 nanoseconds, a call of a method that may be repeated
  is made at least once and at most \<open>max_attempts\<close> times, five at most; it is repeated only after
  \<open>Unavailable\<close> or \<open>ResourceExhausted\<close>; the waits double from the first backoff and stay positive
  and below the longest; the result is the last answer, which is final unless all attempts are
  used, or the error of the context that ended a wait. Any other method is called once, without
  a wait.
\<close>

theorem grpc_retries_are_orderly:
  fixes stopped :: "rpc_error option event list \<Rightarrow> rpc_error option"
  assumes "Validate cfg = Inr ()" and "(name, u) \<in> set (cOutboundGRPC cfg)"
    and "InitialBackoff (upRetry u) < 2 ^ 59"
    and "r = retryInterceptor (recorded_pause stopped) (upRetry u) (recorded_call ask) ctx method []"
  shows "orderly 1 (if retryGRPCMethod ctx method (Methods (upRetry u)) then MaxAttempts (upRetry u) else 1)
      (backoff (InitialBackoff (upRetry u)) (MaxBackoff (upRetry u))) transient (\<lambda>a. a)
      (\<lambda>x. \<exists>t e. stopped t = Some e \<and> x = Some e) r \<and>
    length (answers (snd r)) \<le> 5 \<and> (\<forall>d \<in> set (delays (snd r)). 0 < d \<and> d \<le> MaxBackoff (upRetry u))"
proof -
  let ?p = "upRetry u" and ?limit = "if retryGRPCMethod ctx method (Methods (upRetry u)) then MaxAttempts (upRetry u) else 1"
  let ?backoff = "backoff (InitialBackoff ?p) (MaxBackoff ?p)"
  note p = policy_of [OF assms(1), of name u]
  have p: "1 \<le> MaxAttempts ?p" "MaxAttempts ?p \<le> 5" "0 < InitialBackoff ?p" "InitialBackoff ?p \<le> MaxBackoff ?p"
    using p assms(2) by auto
  have run: "orderly 1 ?limit ?backoff transient (\<lambda>a. a) (\<lambda>x. \<exists>t e. stopped t = Some e \<and> x = Some e) r"
  proof (cases "retryGRPCMethod ctx method (Methods ?p)")
    case True
    have "orderly 1 (MaxAttempts ?p) (shifted_delay ?p) transient (\<lambda>a. a) (\<lambda>x. \<exists>t. map_option Some (stopped t) = Some x) r"
      using grpc_retry.orderly_run [OF TrueI p(1)] True assms(4) by (simp add: retryInterceptor_def)
    then have "orderly 1 (MaxAttempts ?p) ?backoff transient (\<lambda>a. a) (\<lambda>x. \<exists>t. map_option Some (stopped t) = Some x) r"
      by (rule orderly_delay) (use p assms(3) in \<open>auto intro: shifted_delay_exact\<close>)
    moreover have "(\<lambda>x. \<exists>t. map_option Some (stopped t) = Some x) = (\<lambda>x. \<exists>t e. stopped t = Some e \<and> x = Some e)"
      by (rule ext) auto
    ultimately show ?thesis using True by simp
  next
    case False
    with assms(4) show ?thesis
      using single_orderly [where finish = "\<lambda>a. a"] by (simp add: retryInterceptor_def recorded_call_def Let_def)
  qed
  moreover have "length (answers (snd r)) \<le> 5" using orderly_answers [OF run] p(2) by (auto split: if_splits)
  moreover have "\<forall>d \<in> set (delays (snd r)). 0 < d \<and> d \<le> MaxBackoff ?p"
    by (rule orderly_delays [OF run]) (use backoff_bounds p in auto)
  ultimately show ?thesis by blast
qed

lemma sample_policy: "InitialBackoff (upRetry sample_client) < 2 ^ 53" "MaxAttempts (upRetry sample_client) = 3"
  "InitialBackoff (upRetry sample_client) = 100000000" "MaxBackoff (upRetry sample_client) = 1000000000"
  by (simp_all add: sample_client_def sample_retry_def seconds_def)

definition keyed_context :: go_context where
  "keyed_context = \<lparr>cPrincipal = None, cRequestID = None, cIdempotencyKey = Some ''k'', cMetadata = [], cTimeouts = []\<rparr>"

definition down :: "rpc_error option" where
  "down = Some \<lparr>reCode = 14, reMessage = ''down''\<rparr>"

definition down_run :: "rpc_error option \<times> rpc_error option event list" where
  "down_run = retryInterceptor (recorded_pause (\<lambda>tr. None)) (upRetry sample_client)
     (recorded_call (\<lambda>ctx method tr. down)) keyed_context ''/a.B/C'' []"

lemma down_again: "retryGRPCMethod keyed_context ''/a.B/C'' (Methods (upRetry sample_client))"
  by (simp add: retryGRPCMethod_def keyed_context_def)

lemma down_run_trace: "delays (snd down_run) = [100000000, 200000000] \<and> answers (snd down_run) = [down, down, down]"
  using down_again
  by (simp add: down_run_def retryInterceptor_def retry_attempts.simps recorded_call_def recorded_pause_def down_def
      waitRetry_def shifted_delay_def status_Code_def codes_defs sample_policy i64_def Let_def)

theorem grpc_retries_are_orderly_witness:
  "orderly 1 3 (backoff (InitialBackoff sample_retry) (MaxBackoff sample_retry)) transient (\<lambda>a. a) (\<lambda>x. False) down_run \<and>
   delays (snd down_run) = [100000000, 200000000] \<and> answers (snd down_run) = [down, down, down]"
proof -
  have member: "(''authorization'', sample_client) \<in> set (cOutboundGRPC sample_production)"
    by (simp add: sample_fields)
  have small: "InitialBackoff (upRetry sample_client) < 2 ^ 59" using sample_policy(1) by simp
  have policy: "upRetry sample_client = sample_retry" by (simp add: sample_client_def)
  from grpc_retries_are_orderly [OF sample_production_accepted member small down_run_def] down_run_trace
    down_again sample_policy(2) policy
  show ?thesis by simp
qed








text \<open>
  \<open>validateClientPolicy\<close> accepts credentials without TLS when \<open>allow_insecure\<close> is set, outside
  production; the gRPC client then sends them, and the HTTP client refuses to be made, so that the
  registry, and with it the service, does not start.
\<close>

lemma insecure_http_credentials_stop_the_registry:
  assumes "caType (upAuth u) \<noteq> []" and "\<not> tlsEnabled (upTLS u)" and "(name, u) # us = cOutboundHTTP cfg"
  shows "NewRegistry lib dial cfg = Inl (Wrapped (''create outbound HTTP client '' @ name)
     (ErrorString ''refusing to send outbound HTTP credentials without TLS''))"
  using assms(1,2) by (simp add: NewRegistry_def assms(3) [symmetric] NewHTTPClient_def)

end
