(* ===== verification/Migration.thy ===== *)
theory Migration
  imports Config_Validate Apperror
begin

section \<open>Schema migrations: package migration\<close>

text \<open>
  \<^verbatim>\<open>internal/migration/migration.go\<close>: the options that are put into the database URL, the
  creation of the schema in a transaction of its own, and the run of the migrator. The URL
  parser, the database driver and the migrator are libraries and arguments here; statements and
  calls leave a trace, from which the libraries answer. Errors joined by \<open>errors.Join\<close> are a list,
  empty for \<open>nil\<close>.
\<close>

subsection \<open>Options in the URL\<close>

record 'u url_library =
  ulParse :: "string \<Rightarrow> go_error + 'u"
  ulSetPath :: "string \<Rightarrow> 'u \<Rightarrow> 'u"
  ulSetQuery :: "string \<Rightarrow> string \<Rightarrow> 'u \<Rightarrow> 'u"
  ulDelQuery :: "string \<Rightarrow> 'u \<Rightarrow> 'u"
  ulText :: "'u \<Rightarrow> string"
  ulEscape :: "string \<Rightarrow> string"          \<comment> \<open>\<open>url.QueryEscape\<close>\<close>

text \<open>\<open>strings.IndexByte\<close> and \<open>strings.LastIndex\<close> of one byte.\<close>

definition index_byte :: "char \<Rightarrow> string \<Rightarrow> nat option" where
  "index_byte c s = (if c \<in> set s then Some (length (takeWhile (\<lambda>d. d \<noteq> c) s)) else None)"

definition last_index :: "char \<Rightarrow> string \<Rightarrow> nat option" where
  "last_index c s = (if c \<in> set s then Some (length s - 1 - length (takeWhile (\<lambda>d. d \<noteq> c) (rev s))) else None)"

definition mysql_scheme :: string where
  "mysql_scheme = ''mysql://''"

definition mysql_database :: "string \<Rightarrow> string \<Rightarrow> go_error + string" where
  "mysql_database databaseURL databaseName =
     (let pathEnd = (case index_byte CHR ''?'' databaseURL of Some i \<Rightarrow> i | None \<Rightarrow> length databaseURL) in
      case last_index slash (take pathEnd databaseURL) of
        None \<Rightarrow> Inl (ErrorString ''mysql migration URL is missing database path'')
      | Some i \<Rightarrow> Inr (take (i + 1) databaseURL @ databaseName @ drop pathEnd databaseURL))"

definition withMigrationOptions ::
  "'u url_library \<Rightarrow> string \<Rightarrow> string \<Rightarrow> string \<Rightarrow> string \<Rightarrow> go_error + string" where
  "withMigrationOptions lib databaseURL databaseName table schema =
     (if databaseName = [] \<and> table = [] \<and> schema = [] then Inr databaseURL
      else if has_prefix databaseURL mysql_scheme then
        (case (if databaseName \<noteq> [] then mysql_database databaseURL databaseName else Inr databaseURL) of
           Inl e \<Rightarrow> Inl e
         | Inr databaseURL \<Rightarrow>
             if table = [] then Inr databaseURL
             else
               (let separator = (if CHR ''?'' \<in> set databaseURL then ''&'' else ''?'') in
                Inr (databaseURL @ separator @ ''x-migrations-table='' @ ulEscape lib table)))
      else case ulParse lib databaseURL of
        Inl e \<Rightarrow> Inl (Wrapped ''parse migration database URL'' e)
      | Inr parsed \<Rightarrow>
          let parsed = (if databaseName \<noteq> [] then ulSetPath lib (slash # databaseName) parsed else parsed);
              parsed = (if table \<noteq> [] then ulSetQuery lib ''x-migrations-table'' table parsed else parsed);
              parsed = (if schema \<noteq> [] then ulSetQuery lib ''search_path'' schema parsed else parsed)
          in Inr (ulText lib parsed))"

subsection \<open>Creating the schema\<close>

datatype migration_event =
    OpenDatabase string
  | BeginTx
  | ExecSQL string "string list"       \<comment> \<open>the text and its arguments\<close>
  | CommitTx
  | RollbackTx
  | CloseDatabase
  | NewMigrator string string
  | StepsRun int
  | DownRun
  | UpRun
  | CloseMigrator

type_synonym trace = "migration_event list"

text \<open>What a call returns, from the calls before it and itself.\<close>

type_synonym outside = "trace \<Rightarrow> go_error option"

definition perform :: "outside \<Rightarrow> migration_event \<Rightarrow> trace \<Rightarrow> go_error option \<times> trace" where
  "perform out e tr = (out (tr @ [e]), tr @ [e])"

text \<open>The body after \<open>Begin\<close>, then the deferred rollback of a failure.\<close>

definition schema_steps :: "outside \<Rightarrow> string \<Rightarrow> trace \<Rightarrow> go_error option \<times> trace" where
  "schema_steps out schema tr =
     (case perform out (ExecSQL ''SELECT pg_advisory_xact_lock(hashtext($1))'' [''scheduler-service:schema:'' @ schema]) tr of
        (Some e, tr) \<Rightarrow> (Some (Wrapped ''lock schema creation'' e), tr)
      | (None, tr) \<Rightarrow>
     (case perform out (ExecSQL (''CREATE SCHEMA IF NOT EXISTS '' @ [CHR 0x22] @ schema @ [CHR 0x22]) []) tr of
        (Some e, tr) \<Rightarrow> (Some (Wrapped ''execute schema creation'' e), tr)
      | (None, tr) \<Rightarrow>
     (case perform out CommitTx tr of
        (Some e, tr) \<Rightarrow> (Some (Wrapped ''commit schema creation'' e), tr)
      | (None, tr) \<Rightarrow> (None, tr))))"

definition createSchema :: "outside \<Rightarrow> string \<Rightarrow> trace \<Rightarrow> go_error option \<times> trace" where
  "createSchema out schema tr =
     (case perform out BeginTx tr of
        (Some e, tr) \<Rightarrow> (Some (Wrapped ''begin schema creation'' e), tr)
      | (None, tr) \<Rightarrow>
          (case schema_steps out schema tr of
             (Some e, tr) \<Rightarrow> (Some e, snd (perform out RollbackTx tr))
           | (None, tr) \<Rightarrow> (None, tr)))"

definition ensureSchema :: "'u url_library \<Rightarrow> outside \<Rightarrow> migration_config \<Rightarrow> string \<Rightarrow> trace \<Rightarrow> go_error option \<times> trace" where
  "ensureSchema lib out cfg databaseURL tr =
     (if \<not> migCreateSchema cfg \<or> migSchema cfg = [] \<or> has_prefix (migDatabaseURL cfg) mysql_scheme then (None, tr)
      else if \<not> validMigrationTable (migSchema cfg) then (Some (ErrorString ''invalid migration schema''), tr)
      else case ulParse lib databaseURL of
        Inl e \<Rightarrow> (Some (Wrapped ''parse database URL for schema creation'' e), tr)
      | Inr parsed \<Rightarrow>
     (case perform out (OpenDatabase (ulText lib (ulDelQuery lib ''x-migrations-table'' parsed))) tr of
        (Some e, tr) \<Rightarrow> (Some (Wrapped ''open database to create schema'' e), tr)
      | (None, tr) \<Rightarrow>
     (case createSchema out (migSchema cfg) tr of
        (Some e, tr) \<Rightarrow> (Some (Wrapped (''create migration schema '' @ migSchema cfg) e), snd (perform out CloseDatabase tr))
      | (None, tr) \<Rightarrow> (None, snd (perform out CloseDatabase tr)))))"

subsection \<open>Run\<close>

record 'u migration_library =
  mlURL :: "'u url_library"
  mlSource :: "string \<Rightarrow> go_error + string"                       \<comment> \<open>the file URL of the path\<close>
  mlOut :: outside
  mlNoChange :: "go_error \<Rightarrow> bool"                                 \<comment> \<open>\<open>errors.Is\<close> of \<open>migrate.ErrNoChange\<close>\<close>
  mlClose :: "trace \<Rightarrow> go_error option \<times> go_error option"         \<comment> \<open>source, database\<close>

definition close_migrator :: "'u migration_library \<Rightarrow> go_error list \<times> trace \<Rightarrow> go_error list \<times> trace" where
  "close_migrator lib = (\<lambda>(runErr, tr).
     let tr = tr @ [CloseMigrator]; (sourceErr, databaseErr) = mlClose lib tr in
     (runErr @ (case sourceErr of None \<Rightarrow> [] | Some e \<Rightarrow> [Wrapped ''close migration source'' e]) @
        (case databaseErr of None \<Rightarrow> [] | Some e \<Rightarrow> [Wrapped ''close migration database'' e]), tr))"

definition direction_event :: "string \<Rightarrow> int \<Rightarrow> migration_event" where
  "direction_event direction steps =
     (if steps \<noteq> 0 then StepsRun steps else if direction = ''down'' then DownRun else UpRun)"

definition Run :: "'u migration_library \<Rightarrow> migration_config \<Rightarrow> string \<Rightarrow> int \<Rightarrow> trace \<Rightarrow> go_error list \<times> trace" where
  "Run lib cfg direction steps tr =
     (if migDatabaseURL cfg = [] then ([ErrorString ''migration.database_url is required''], tr)
      else case mlSource lib (migPath cfg) of
        Inl e \<Rightarrow> ([Wrapped ''resolve migration path'' e], tr)
      | Inr source \<Rightarrow>
     (case withMigrationOptions (mlURL lib) (migDatabaseURL cfg) (migDatabaseName cfg) (migTable cfg) (migSchema cfg) of
        Inl e \<Rightarrow> ([e], tr)
      | Inr databaseURL \<Rightarrow>
     (case ensureSchema (mlURL lib) (mlOut lib) cfg databaseURL tr of
        (Some e, tr) \<Rightarrow> ([e], tr)
      | (None, tr) \<Rightarrow>
     (case perform (mlOut lib) (NewMigrator source databaseURL) tr of
        (Some e, tr) \<Rightarrow> ([Wrapped ''create migrator'' e], tr)
      | (None, tr) \<Rightarrow>
          close_migrator lib
            (case perform (mlOut lib) (direction_event direction steps) tr of
               (Some e, tr) \<Rightarrow> (if mlNoChange lib e then [] else [Wrapped ''run migration'' e], tr)
             | (None, tr) \<Rightarrow> ([], tr))))))"

subsection \<open>The URL of MySQL\<close>

lemma last_index_append:
  assumes "c \<notin> set t"
  shows "last_index c (s @ c # t) = Some (length s)"
proof -
  have "takeWhile (\<lambda>d. d \<noteq> c) (rev t @ c # rev s) = rev t"
    using assms by (subst takeWhile_append2) auto
  then show ?thesis by (simp add: last_index_def)
qed

lemma index_byte_append:
  assumes "c \<notin> set s"
  shows "index_byte c (s @ c # t) = Some (length s)"
proof -
  have "takeWhile (\<lambda>d. d \<noteq> c) (s @ c # t) = s" using assms by (subst takeWhile_append2) auto
  then show ?thesis by (simp add: index_byte_def)
qed

text \<open>On a URL with a path the database is replaced, and nothing else.\<close>

lemma mysql_database_path:
  assumes "CHR ''?'' \<notin> set (host @ db)" and "slash \<notin> set db" and "rest = [] \<or> hd rest = CHR ''?''"
  shows "mysql_database (mysql_scheme @ host @ slash # db @ rest) name = Inr (mysql_scheme @ host @ slash # name @ rest)"
proof -
  define url where "url = mysql_scheme @ host @ slash # db @ rest"
  let ?stop = "length (mysql_scheme @ host @ slash # db)"
  have "CHR ''?'' \<notin> set (mysql_scheme @ host @ slash # db)" using assms(1) by (simp add: mysql_scheme_def)
  then have "(case index_byte CHR ''?'' url of Some i \<Rightarrow> i | None \<Rightarrow> length url) = ?stop"
    using assms(3) index_byte_append [of "CHR ''?''" "mysql_scheme @ host @ slash # db" "tl rest"]
    by (cases rest) (auto simp: url_def index_byte_def)
  moreover have "take ?stop url = (mysql_scheme @ host) @ slash # db" by (simp add: url_def)
  moreover have "last_index slash ((mysql_scheme @ host) @ slash # db) = Some (length (mysql_scheme @ host))"
    by (rule last_index_append [OF assms(2)])
  ultimately have "mysql_database url name =
      Inr (take (length (mysql_scheme @ host) + 1) url @ name @ drop ?stop url)"
    by (simp only: mysql_database_def Let_def option.case)
  moreover have "take (length (mysql_scheme @ host) + 1) url = mysql_scheme @ host @ [slash]" "drop ?stop url = rest"
    by (simp_all add: url_def)
  ultimately show ?thesis by (simp add: url_def)
qed

text \<open>
  On a URL without a path the slashes of the scheme are taken for it: the host is replaced by the
  name of the database, and the error for a missing path never occurs.
\<close>

lemma mysql_database_no_path:
  assumes "CHR ''?'' \<notin> set host" and "slash \<notin> set host"
  shows "mysql_database (mysql_scheme @ host) name = Inr (mysql_scheme @ name)"
proof -
  have none: "index_byte CHR ''?'' (mysql_scheme @ host) = None"
    using assms(1) by (simp add: index_byte_def mysql_scheme_def)
  have "mysql_scheme @ host = ''mysql:/'' @ slash # host" by (simp add: mysql_scheme_def)
  then have "last_index slash (mysql_scheme @ host) = Some 7"
    using last_index_append [OF assms(2), of "''mysql:/''"] by (simp add: mysql_scheme_def)
  then show ?thesis using none by (simp add: mysql_database_def mysql_scheme_def)
qed

subsection \<open>A run of the migrator\<close>

definition lock_statement :: "string \<Rightarrow> migration_event" where
  "lock_statement schema =
     ExecSQL ''SELECT pg_advisory_xact_lock(hashtext($1))'' [''scheduler-service:schema:'' @ schema]"

definition create_statement :: "string \<Rightarrow> migration_event" where
  "create_statement schema = ExecSQL (''CREATE SCHEMA IF NOT EXISTS '' @ [CHR 0x22] @ schema @ [CHR 0x22]) []"

text \<open>Everything the creation of the schema does, by its outcome.\<close>

definition schema_events :: "string \<Rightarrow> migration_event set" where
  "schema_events schema = {BeginTx, lock_statement schema, create_statement schema, CommitTx, RollbackTx, CloseDatabase}"

lemma createSchema_trace:
  "createSchema out schema tr = (r, tr') \<Longrightarrow> \<exists>evs. tr' = tr @ evs \<and> set evs \<subseteq> schema_events schema \<and>
     (r = None \<longrightarrow> evs = [BeginTx, lock_statement schema, create_statement schema, CommitTx])"
  by (auto simp: createSchema_def schema_steps_def perform_def schema_events_def lock_statement_def
      create_statement_def split: option.splits)

lemma ensureSchema_trace:
  assumes "ensureSchema lib out cfg url tr = (r, tr')"
  shows "\<exists>evs. tr' = tr @ evs \<and>
     (evs \<noteq> [] \<longrightarrow> validMigrationTable (migSchema cfg) \<and>
        (\<exists>u. set evs \<subseteq> insert (OpenDatabase u) (schema_events (migSchema cfg)))) \<and>
     (r = None \<longrightarrow> RollbackTx \<notin> set evs \<and> (evs \<noteq> [] \<longrightarrow> CommitTx \<in> set evs))"
proof (cases "\<exists>parsed. ulParse lib url = Inr parsed \<and> migCreateSchema cfg \<and> migSchema cfg \<noteq> [] \<and>
    \<not> has_prefix (migDatabaseURL cfg) mysql_scheme \<and> validMigrationTable (migSchema cfg)")
  case False
  with assms show ?thesis by (auto simp: ensureSchema_def split: if_splits sum.splits)
next
  case True
  then obtain parsed where parsed: "ulParse lib url = Inr parsed" and on: "migCreateSchema cfg" "migSchema cfg \<noteq> []"
    "\<not> has_prefix (migDatabaseURL cfg) mysql_scheme" and valid: "validMigrationTable (migSchema cfg)" by blast
  define opened where "opened = OpenDatabase (ulText lib (ulDelQuery lib ''x-migrations-table'' parsed))"
  obtain r2 tr2 where create: "createSchema out (migSchema cfg) (tr @ [opened]) = (r2, tr2)" by fastforce
  obtain evs where evs: "tr2 = (tr @ [opened]) @ evs" "set evs \<subseteq> schema_events (migSchema cfg)"
    "r2 = None \<longrightarrow> evs = [BeginTx, lock_statement (migSchema cfg), create_statement (migSchema cfg), CommitTx]"
    using createSchema_trace [OF create] by blast
  have r: "(r, tr') = (case out (tr @ [opened]) of
       Some e \<Rightarrow> (Some (Wrapped ''open database to create schema'' e), tr @ [opened])
     | None \<Rightarrow> (map_option (Wrapped (''create migration schema '' @ migSchema cfg)) r2, tr2 @ [CloseDatabase]))"
    using assms on valid parsed create
    by (auto simp: ensureSchema_def perform_def opened_def split: option.splits)
  have close: "CloseDatabase \<in> schema_events (migSchema cfg)" by (simp add: schema_events_def)
  show ?thesis
  proof (cases "out (tr @ [opened])")
    case (Some e)
    with r valid show ?thesis by (intro exI [of _ "[opened]"]) (auto simp: opened_def)
  next
    case None
    with r evs valid close show ?thesis
      by (intro exI [of _ "opened # evs @ [CloseDatabase]"])
         (auto simp: opened_def lock_statement_def create_statement_def)
  qed
qed

lemma schema_events_other:
  "NewMigrator s u \<notin> schema_events schema" "direction_event d n \<notin> schema_events schema"
  "OpenDatabase u \<noteq> direction_event d n"
  "ExecSQL q args \<in> schema_events schema \<Longrightarrow> ExecSQL q args \<in> {lock_statement schema, create_statement schema}"
  by (auto simp: schema_events_def direction_event_def lock_statement_def create_statement_def)

lemma Run_cases:
  assumes "Run lib cfg direction steps [] = (errs, tr)"
  obtains (early) "tr = []" "errs \<noteq> []"
    | (schema) url e where "ensureSchema (mlURL lib) (mlOut lib) cfg url [] = (Some e, tr)" "errs = [e]"
    | (refused) url source t where "ensureSchema (mlURL lib) (mlOut lib) cfg url [] = (None, t)"
        "tr = t @ [NewMigrator source url]" "errs \<noteq> []"
    | (started) url source t where "ensureSchema (mlURL lib) (mlOut lib) cfg url [] = (None, t)"
        "tr = (t @ [NewMigrator source url, direction_event direction steps]) @ [CloseMigrator]"
        "errs = [] \<longrightarrow> mlClose lib tr = (None, None) \<and>
          (case mlOut lib (t @ [NewMigrator source url, direction_event direction steps]) of
             None \<Rightarrow> True | Some e \<Rightarrow> mlNoChange lib e)"
proof (cases "migDatabaseURL cfg = [] \<or> isl (mlSource lib (migPath cfg)) \<or>
    isl (withMigrationOptions (mlURL lib) (migDatabaseURL cfg) (migDatabaseName cfg) (migTable cfg) (migSchema cfg))")
  case True
  with assms early show ?thesis by (auto simp: Run_def split: if_splits sum.splits)
next
  case False
  then obtain source url where u: "mlSource lib (migPath cfg) = Inr source" "migDatabaseURL cfg \<noteq> []"
    "withMigrationOptions (mlURL lib) (migDatabaseURL cfg) (migDatabaseName cfg) (migTable cfg) (migSchema cfg) = Inr url"
    by (auto simp: isl_def) (metis sum.exhaust)
  obtain r t where e: "ensureSchema (mlURL lib) (mlOut lib) cfg url [] = (r, t)" by fastforce
  let ?open = "t @ [NewMigrator source url]" and ?run = "t @ [NewMigrator source url, direction_event direction steps]"
  have run: "(errs, tr) = (case r of Some e \<Rightarrow> ([e], t) | None \<Rightarrow>
      (case mlOut lib ?open of
         Some e \<Rightarrow> ([Wrapped ''create migrator'' e], ?open)
       | None \<Rightarrow> close_migrator lib (case mlOut lib ?run of
           Some e \<Rightarrow> (if mlNoChange lib e then [] else [Wrapped ''run migration'' e], ?run) | None \<Rightarrow> ([], ?run))))"
    using assms u e by (auto simp: Run_def perform_def split: option.splits)
  show ?thesis
  proof (cases r)
    case (Some x)
    with run e schema show ?thesis by auto
  next
    case r: None
    show ?thesis
    proof (cases "mlOut lib ?open")
      case (Some x)
      with run r refused [OF e [unfolded r]] show ?thesis by auto
    next
      case None
      define errs0 where "errs0 = (case mlOut lib ?run of None \<Rightarrow> []
          | Some e \<Rightarrow> if mlNoChange lib e then [] else [Wrapped ''run migration'' e])"
      have "(case mlOut lib ?run of Some e \<Rightarrow> (if mlNoChange lib e then [] else [Wrapped ''run migration'' e], ?run)
          | None \<Rightarrow> ([], ?run)) = (errs0, ?run)"
        by (simp add: errs0_def split: option.split)
      with run r None have closed: "(errs, tr) = close_migrator lib (errs0, ?run)" by simp
      then have "tr = ?run @ [CloseMigrator]"
        by (simp add: close_migrator_def Let_def split: prod.splits)
      moreover have "errs0 = [] \<and> mlClose lib tr = (None, None)" if "errs = []"
        using closed that by (auto simp: close_migrator_def Let_def split: prod.splits option.splits)
      moreover have "case mlOut lib ?run of None \<Rightarrow> True | Some e \<Rightarrow> mlNoChange lib e" if "errs0 = []"
        using that by (auto simp: errs0_def split: option.splits if_splits)
      ultimately show ?thesis using started [OF e [unfolded r], of source] by blast
    qed
  qed
qed

lemma ensured:
  assumes "ensureSchema lib out cfg url [] = (r, t)"
  shows "direction_event d n \<notin> set t" "ExecSQL q args \<in> set t \<Longrightarrow> validMigrationTable (migSchema cfg) \<and>
      ExecSQL q args \<in> {lock_statement (migSchema cfg), create_statement (migSchema cfg)}"
    "r = None \<Longrightarrow> RollbackTx \<notin> set t \<and> (BeginTx \<in> set t \<longrightarrow> CommitTx \<in> set t)"
proof -
  obtain evs where appended: "t = [] @ evs" and evs: "evs \<noteq> [] \<longrightarrow> validMigrationTable (migSchema cfg) \<and>
      (\<exists>u. set evs \<subseteq> insert (OpenDatabase u) (schema_events (migSchema cfg)))"
    and ok: "r = None \<longrightarrow> RollbackTx \<notin> set evs \<and> (evs \<noteq> [] \<longrightarrow> CommitTx \<in> set evs)"
    using ensureSchema_trace [OF assms] by (elim exE conjE, intro that)
  have t: "t = evs" using appended by simp
  have member: "\<exists>u. x \<in> insert (OpenDatabase u) (schema_events (migSchema cfg))" if "x \<in> set evs" for x
  proof -
    from that have "evs \<noteq> []" by auto
    with evs obtain u where "set evs \<subseteq> insert (OpenDatabase u) (schema_events (migSchema cfg))" by blast
    with that show ?thesis by blast
  qed
  show "direction_event d n \<notin> set t"
  proof
    assume "direction_event d n \<in> set t"
    then obtain u where "direction_event d n \<in> insert (OpenDatabase u) (schema_events (migSchema cfg))"
      using member t by blast
    then show False using schema_events_other(2) [of d n] schema_events_other(3) [of u d n] by auto
  qed
  show "validMigrationTable (migSchema cfg) \<and>
      ExecSQL q args \<in> {lock_statement (migSchema cfg), create_statement (migSchema cfg)}" if "ExecSQL q args \<in> set t"
  proof
    from that have "evs \<noteq> []" using t by auto
    then show "validMigrationTable (migSchema cfg)" using evs by blast
    from that have "ExecSQL q args \<in> schema_events (migSchema cfg)" using member [of "ExecSQL q args"] t by auto
    then show "ExecSQL q args \<in> {lock_statement (migSchema cfg), create_statement (migSchema cfg)}"
      by (rule schema_events_other(4))
  qed
  show "RollbackTx \<notin> set t \<and> (BeginTx \<in> set t \<longrightarrow> CommitTx \<in> set t)" if "r = None"
  proof -
    have "BeginTx \<in> set t \<longrightarrow> evs \<noteq> []" using t by auto
    then show ?thesis using ok that t by blast
  qed
qed

text \<open>
  C16. A migration run keeps its order and its promises: SQL is only executed to create the schema,
  with a name that passed the pattern, so that no quote can enter the statement; if anything of
  that was rolled back the run fails and no migration starts; a migration that was started is
  always closed, and it starts only after the schema, if it was to be created, was committed; and
  a run without error did start the migration of the direction asked for, which succeeded or had
  nothing to do, and closed both ends without error.
\<close>

theorem migration_runs_in_order:
  assumes "Run lib cfg direction steps [] = (errs, tr)"
  shows "(\<forall>q args. ExecSQL q args \<in> set tr \<longrightarrow> validMigrationTable (migSchema cfg) \<and>
        ExecSQL q args \<in> {lock_statement (migSchema cfg), create_statement (migSchema cfg)}) \<and>
     (RollbackTx \<in> set tr \<longrightarrow> errs \<noteq> [] \<and> direction_event direction steps \<notin> set tr) \<and>
     (direction_event direction steps \<in> set tr \<longrightarrow> last tr = CloseMigrator \<and> (BeginTx \<in> set tr \<longrightarrow> CommitTx \<in> set tr)) \<and>
     (errs = [] \<longrightarrow> direction_event direction steps \<in> set tr \<and> mlClose lib tr = (None, None) \<and>
        (case mlOut lib (butlast tr) of None \<Rightarrow> True | Some e \<Rightarrow> mlNoChange lib e))"
proof -
  have dir: "direction_event direction steps \<notin> {RollbackTx, BeginTx, CommitTx, CloseMigrator}"
    "ExecSQL q args \<noteq> direction_event direction steps" "direction_event direction steps \<noteq> NewMigrator s u" for q args s u
    by (auto simp: direction_event_def)
  show ?thesis using assms
  proof (cases rule: Run_cases)
    case early
    then show ?thesis by simp
  next
    case (schema url e)
    with ensured [OF schema(1)] show ?thesis by auto
  next
    case (refused url source t)
    with ensured [OF refused(1)] dir show ?thesis by auto
  next
    case (started url source t)
    note t = ensured [OF started(1)]
    have "last tr = CloseMigrator" "butlast tr = t @ [NewMigrator source url, direction_event direction steps]"
      by (simp_all add: started(2) butlast_append)
    moreover have "RollbackTx \<notin> set tr" "BeginTx \<in> set tr \<longrightarrow> CommitTx \<in> set tr" "direction_event direction steps \<in> set tr"
      "\<And>q args. ExecSQL q args \<in> set tr \<Longrightarrow> ExecSQL q args \<in> set t"
      using t(3) [OF refl] dir by (auto simp: started(2))
    ultimately show ?thesis using t(2) started(3) by auto
  qed
qed

text \<open>A run that creates the schema, with libraries that never fail.\<close>

definition sample_migration_library :: "string migration_library" where
  "sample_migration_library =
     \<lparr>mlURL = \<lparr>ulParse = Inr, ulSetPath = (\<lambda>p u. u), ulSetQuery = (\<lambda>k v u. u @ k @ v), ulDelQuery = (\<lambda>k u. u),
        ulText = (\<lambda>u. u), ulEscape = (\<lambda>s. s)\<rparr>,
      mlSource = (\<lambda>p. Inr (''file:///'' @ p)), mlOut = (\<lambda>tr. None), mlNoChange = (\<lambda>e. False),
      mlClose = (\<lambda>tr. (None, None))\<rparr>"

definition sample_migration :: migration_config where
  "sample_migration =
     \<lparr>migAutoUp = True, migCreateSchema = True, migPath = ''migrations'', migDatabaseURL = ''postgres://db/x'',
      migTable = [], migSchema = ''scheduler'', migDatabaseName = []\<rparr>"

lemma sample_migration_run:
  "\<exists>open_event new_event. Run sample_migration_library sample_migration ''up'' 0 [] =
     ([], [open_event, BeginTx, lock_statement ''scheduler'', create_statement ''scheduler'', CommitTx, CloseDatabase,
       new_event, UpRun, CloseMigrator])"
proof -
  have "validMigrationTable ''scheduler''" "\<not> has_prefix ''postgres://db/x'' mysql_scheme" by code_simp+
  then show ?thesis
    by (simp add: Run_def sample_migration_library_def sample_migration_def withMigrationOptions_def ensureSchema_def
        createSchema_def schema_steps_def perform_def lock_statement_def create_statement_def close_migrator_def
        direction_event_def Let_def)
qed

theorem migration_runs_in_order_witness:
  "fst (Run sample_migration_library sample_migration ''up'' 0 []) = [] \<and>
   UpRun \<in> set (snd (Run sample_migration_library sample_migration ''up'' 0 [])) \<and>
   last (snd (Run sample_migration_library sample_migration ''up'' 0 [])) = CloseMigrator"
proof -
  obtain a b where run: "Run sample_migration_library sample_migration ''up'' 0 [] =
     ([], [a, BeginTx, lock_statement ''scheduler'', create_statement ''scheduler'', CommitTx, CloseDatabase,
       b, UpRun, CloseMigrator])"
    using sample_migration_run by blast
  have "direction_event ''up'' 0 = UpRun" by (simp add: direction_event_def)
  with migration_runs_in_order [OF run] run show ?thesis by simp
qed

end
