(* ===== verification/Runtime.thy ===== *)
theory Runtime
  imports Job_Theorems
begin

section \<open>The cron runtime: package job, runtime.go\<close>

text \<open>
  \<open>Runtime.reload\<close>, \<open>reloadLogged\<close> and the loop body of \<open>watch\<close>. The cron library is outside the
  repository: the model records the calls made to it, and its answer to \<open>AddFunc\<close> (an entry id or
  the parser's error) is a parameter, indexed by the number of calls made so far. \<open>active\<close> is what
  its documentation says is then scheduled: every function added and not removed.
\<close>

datatype runner_call =
    AddFunc nat string job    \<comment> \<open>the id it returned, the specification, the job of the closure\<close>
  | Remove nat

type_synonym adder = "nat \<Rightarrow> string \<Rightarrow> go_error + nat"

record runtime =
  rtEntries :: "(string \<times> nat) list"    \<comment> \<open>job id to entry id\<close>
  rtCalls :: "runner_call list"
  rtAdds :: nat

definition cron_spec :: "job \<Rightarrow> string" where
  "cron_spec value = ''CRON_TZ='' @ Timezone value @ '' '' @ CronExpression value"

fun schedule_all :: "adder \<Rightarrow> job list \<Rightarrow> runtime \<Rightarrow> (go_error + unit) \<times> runtime" where
  "schedule_all add [] rt = (Inr (), rt)"
| "schedule_all add (value # values) rt =
     (case add (rtAdds rt) (cron_spec value) of
        Inl e \<Rightarrow> (Inl e, rt\<lparr>rtAdds := Suc (rtAdds rt)\<rparr>)
      | Inr i \<Rightarrow> schedule_all add values
          (rt\<lparr>rtAdds := Suc (rtAdds rt), rtCalls := rtCalls rt @ [AddFunc i (cron_spec value) value],
              rtEntries := (ID value, i) # filter (\<lambda>e. fst e \<noteq> ID value) (rtEntries rt)\<rparr>))"

definition remove_all :: "runtime \<Rightarrow> runtime" where
  "remove_all rt = rt\<lparr>rtCalls := rtCalls rt @ map (\<lambda>e. Remove (snd e)) (rtEntries rt), rtEntries := []\<rparr>"

definition reload :: "env \<Rightarrow> adder \<Rightarrow> go_context \<Rightarrow> runtime \<Rightarrow> world \<Rightarrow> (go_error + unit) \<times> runtime \<times> world" where
  "reload env add ctx rt w =
     (case ListEnabled env ctx w of
        (Inl e, w') \<Rightarrow> (Inl e, rt, w')
      | (Inr values, w') \<Rightarrow> (case schedule_all add values (remove_all rt) of (r, rt') \<Rightarrow> (r, rt', w')))"

text \<open>One turn of \<open>watch\<close>, by the case \<open>select\<close> took; \<open>None\<close>: it returned.\<close>

datatype watch_event = Done | Changed | Ticked

definition watch_turn :: "env \<Rightarrow> adder \<Rightarrow> go_context \<Rightarrow> watch_event \<Rightarrow> runtime \<Rightarrow> world \<Rightarrow> (runtime \<times> world) option" where
  "watch_turn env add ctx ev rt w =
     (case ev of
        Done \<Rightarrow> None
      | Changed \<Rightarrow> Some (snd (reload env add ctx rt (w\<lparr>wChanged := False\<rparr>)))
      | Ticked \<Rightarrow> Some (snd (reload env add ctx rt w)))"

subsection \<open>What is scheduled\<close>

fun run_call :: "(nat \<times> job) list \<Rightarrow> runner_call \<Rightarrow> (nat \<times> job) list" where
  "run_call es (AddFunc i spec j) = es @ [(i, j)]"
| "run_call es (Remove i) = filter (\<lambda>e. fst e \<noteq> i) es"

definition active :: "runtime \<Rightarrow> (nat \<times> job) list" where
  "active rt = foldl run_call [] (rtCalls rt)"

text \<open>Every entry of the library is in the map of the runtime, so that a reload can remove it.\<close>

definition in_step :: "runtime \<Rightarrow> bool" where
  "in_step rt \<longleftrightarrow> fst ` set (active rt) \<subseteq> snd ` set (rtEntries rt)"

lemma foldl_remove: "foldl run_call es (map Remove is) = filter (\<lambda>e. fst e \<notin> set is) es"
  by (induction "is" arbitrary: es) (auto simp: filter_filter conj_commute intro: filter_cong)

lemma active_remove_all: "in_step rt \<Longrightarrow> active (remove_all rt) = []"
proof -
  assume step: "in_step rt"
  have "active (remove_all rt) = filter (\<lambda>e. fst e \<notin> set (map snd (rtEntries rt))) (active rt)"
    using foldl_remove [of "active rt" "map snd (rtEntries rt)"]
    by (simp add: active_def remove_all_def comp_def)
  then show ?thesis using step by (fastforce simp: in_step_def filter_empty_conv)
qed

lemma schedule_all_active:
  assumes "schedule_all add values rt = (r, rt')"
  shows "\<exists>ids k. k \<le> length values \<and> length ids = k \<and> active rt' = active rt @ zip ids (take k values) \<and>
    (r = Inr () \<longleftrightarrow> k = length values) \<and>
    (\<forall>e. r = Inl e \<longrightarrow> k < length values \<and> add (rtAdds rt + k) (cron_spec (values ! k)) = Inl e)"
  using assms
proof (induction "values" arbitrary: rt)
  case (Cons j js)
  show ?case
  proof (cases "add (rtAdds rt) (cron_spec j)")
    case (Inl e)
    with Cons.prems show ?thesis by (intro exI [of _ "[]"] exI [of _ 0]) (auto simp: active_def)
  next
    case (Inr i)
    let ?rt = "rt\<lparr>rtAdds := Suc (rtAdds rt), rtCalls := rtCalls rt @ [AddFunc i (cron_spec j) j],
              rtEntries := (ID j, i) # filter (\<lambda>e. fst e \<noteq> ID j) (rtEntries rt)\<rparr>"
    from Inr Cons.prems have "schedule_all add js ?rt = (r, rt')" by simp
    from Cons.IH [OF this] obtain ids k where
      "k \<le> length js" "length ids = k" "active rt' = active ?rt @ zip ids (take k js)"
      "r = Inr () \<longleftrightarrow> k = length js"
      "\<forall>e. r = Inl e \<longrightarrow> k < length js \<and> add (Suc (rtAdds rt) + k) (cron_spec (js ! k)) = Inl e"
      by auto
    moreover have "active ?rt = active rt @ [(i, j)]" by (simp add: active_def)
    ultimately show ?thesis by (intro exI [of _ "i # ids"] exI [of _ "Suc k"]) auto
  qed
qed (auto intro: exI [of _ "[]"])

lemma schedule_all_in_step:
  "schedule_all add values rt = (r, rt') \<Longrightarrow> in_step rt \<Longrightarrow> distinct (map ID values) \<Longrightarrow>
     \<forall>j \<in> set values. ID j \<notin> fst ` set (rtEntries rt) \<Longrightarrow> in_step rt'"
proof (induction "values" arbitrary: rt)
  case (Cons j js)
  show ?case
  proof (cases "add (rtAdds rt) (cron_spec j)")
    case (Inl e)
    with Cons.prems(1) have "rt' = rt\<lparr>rtAdds := Suc (rtAdds rt)\<rparr>" by simp
    with Cons.prems(2) show ?thesis by (simp add: in_step_def active_def)
  next
    case (Inr i)
    let ?rt = "rt\<lparr>rtAdds := Suc (rtAdds rt), rtCalls := rtCalls rt @ [AddFunc i (cron_spec j) j],
              rtEntries := (ID j, i) # filter (\<lambda>e. fst e \<noteq> ID j) (rtEntries rt)\<rparr>"
    have keep: "filter (\<lambda>e. fst e \<noteq> ID j) (rtEntries rt) = rtEntries rt"
      using Cons.prems(4) by (force simp: filter_id_conv)
    have "active ?rt = active rt @ [(i, j)]" by (simp add: active_def)
    then have "in_step ?rt" using Cons.prems(2) by (auto simp: in_step_def keep)
    moreover have "schedule_all add js ?rt = (r, rt')" using Inr Cons.prems(1) by simp
    moreover have "\<forall>k \<in> set js. ID k \<notin> fst ` set (rtEntries ?rt)"
    proof
      fix k assume "k \<in> set js"
      then have "ID k \<in> ID ` set js" by (rule imageI)
      with Cons.prems(3) have "ID k \<noteq> ID j" by (metis distinct.simps(2) list.simps(9) list.set_map)
      with \<open>k \<in> set js\<close> Cons.prems(4) show "ID k \<notin> fst ` set (rtEntries ?rt)" by (simp add: keep)
    qed
    ultimately show ?thesis using Cons.IH Cons.prems(3) by auto
  qed
qed simp

subsection \<open>What a reload leaves\<close>

lemma ListEnabled_Inr:
  "ListEnabled env ctx w = (Inr js, w') \<Longrightarrow>
     set js = {j \<in> set (jobs (wDb w')). listed_enabled j} \<and> wDb w' = interfere env (wTick w) (wDb w) \<and>
     (distinct (map ID (jobs (wDb w'))) \<longrightarrow> distinct (map ID js)) \<and> wChanged w' = wChanged w"
  by (auto simp: ListEnabled_def query_Inr intro: distinct_map_filter)

lemma reload_outcome:
  assumes "in_step rt" and "reload env add ctx rt w = (r, rt', w')" and "integrity (wDb w)" and "env_lifecycle env"
  shows "in_step rt' \<and> (dbError env (wTick w) ctx = None \<longrightarrow>
    (\<exists>js ids k. set js = {j \<in> set (jobs (wDb w')). listed_enabled j} \<and> distinct (map ID js) \<and>
       k \<le> length js \<and> length ids = k \<and> active rt' = zip ids (take k js) \<and> (r = Inr () \<longleftrightarrow> k = length js) \<and>
       (\<forall>e. r = Inl e \<longrightarrow> k < length js \<and> (\<exists>n. add n (cron_spec (js ! k)) = Inl e))))"
proof (cases "ListEnabled env ctx w")
  case (Pair q w1)
  show ?thesis
  proof (cases q)
    case (Inl e)
    with Pair assms(1,2) show ?thesis
      by (auto simp: reload_def ListEnabled_def query_def prog_simps split: option.splits)
  next
    case (Inr js)
    with Pair assms(2) have sched: "schedule_all add js (remove_all rt) = (r, rt')" and w1: "w1 = w'"
      by (auto simp: reload_def split: prod.splits)
    have listed: "set js = {j \<in> set (jobs (wDb w')). listed_enabled j}"
      and ids: "distinct (map ID js)"
      using ListEnabled_Inr [of env ctx w js w1] Pair Inr w1 assms(3,4)
      by (auto simp: env_lifecycle_def lifecycle_def integrity_def)
    have empty: "active (remove_all rt) = []" using assms(1) by (rule active_remove_all)
    then have "in_step (remove_all rt)" by (simp add: in_step_def)
    from sched this ids have "in_step rt'"
      by (rule schedule_all_in_step) (simp add: remove_all_def)
    moreover from schedule_all_active [OF sched] obtain es k where
      "k \<le> length js" "length es = k" "active rt' = zip es (take k js)" "r = Inr () \<longleftrightarrow> k = length js"
      "\<forall>e. r = Inl e \<longrightarrow> k < length js \<and> add (rtAdds (remove_all rt) + k) (cron_spec (js ! k)) = Inl e"
      unfolding empty append_Nil by blast
    then have "\<exists>es k. k \<le> length js \<and> length es = k \<and> active rt' = zip es (take k js) \<and> (r = Inr () \<longleftrightarrow> k = length js) \<and>
       (\<forall>e. r = Inl e \<longrightarrow> k < length js \<and> (\<exists>n. add n (cron_spec (js ! k)) = Inl e))" by blast
    ultimately show ?thesis using listed ids by blast
  qed
qed

subsection \<open>Properties\<close>

lemma reload_schedules_exactly_enabled:
  assumes "in_step rt" and "integrity (wDb w)" and "env_lifecycle env"
    and "reload env add ctx rt w = (Inr (), rt', w')"
  shows "in_step rt' \<and> set (map snd (active rt')) = {j \<in> set (jobs (wDb w')). listed_enabled j} \<and>
    distinct (map (ID \<circ> snd) (active rt'))"
proof -
  have noerr: "dbError env (wTick w) ctx = None"
    using assms(4) by (auto simp: reload_def ListEnabled_def query_def prog_simps split: option.splits)
  from reload_outcome [OF assms(1,4,2,3)] noerr obtain js es k where step: "in_step rt'"
    and js: "set js = {j \<in> set (jobs (wDb w')). listed_enabled j}" "distinct (map ID js)"
    and k: "length es = k" "active rt' = zip es (take k js)" "k = length js"
    by auto
  then have snd: "map snd (active rt') = js" by simp
  then have "map (ID \<circ> snd) (active rt') = map ID js" by (simp only: map_map [symmetric])
  with step js snd show ?thesis by simp
qed

lemma reload_failed_query:
  assumes "reload env add ctx rt w = (r, rt', w')" and "dbError env (wTick w) ctx \<noteq> None"
  shows "rt' = rt \<and> r \<noteq> Inr ()"
  using assms by (auto simp: reload_def ListEnabled_def query_def prog_simps split: option.splits)

text \<open>
  C26. A reload, whatever fails in it, leaves the runtime and the cron library in step, so that the
  next reload can remove every entry, with no job scheduled twice and nothing scheduled that was
  not before and is not enabled in the table. One that succeeds leaves exactly the live enabled
  jobs scheduled, with the definitions the table holds at that moment.
\<close>

theorem reload_schedules_exactly_enabled_jobs:
  assumes "in_step rt" and "distinct (map (ID \<circ> snd) (active rt))" and "integrity (wDb w)" and "env_lifecycle env"
    and "reload env add ctx rt w = (r, rt', w')"
  shows "in_step rt' \<and> distinct (map (ID \<circ> snd) (active rt')) \<and>
    (\<forall>j \<in> set (map snd (active rt')). j \<in> set (map snd (active rt)) \<or> j \<in> set (jobs (wDb w')) \<and> listed_enabled j) \<and>
    (r = Inr () \<longrightarrow> set (map snd (active rt')) = {j \<in> set (jobs (wDb w')). listed_enabled j})"
proof (cases "dbError env (wTick w) ctx")
  case None
  with reload_outcome [OF assms(1,5,3,4)] obtain js es k where step: "in_step rt'"
    and js: "set js = {j \<in> set (jobs (wDb w')). listed_enabled j}" "distinct (map ID js)"
    and k: "length es = k" "k \<le> length js" "active rt' = zip es (take k js)" "r = Inr () \<longleftrightarrow> k = length js"
    by auto
  have snd: "map snd (active rt') = take k js" using k(1-3) by simp
  then have "map (ID \<circ> snd) (active rt') = take k (map ID js)" by (simp only: map_map [symmetric] take_map)
  then have "distinct (map (ID \<circ> snd) (active rt'))" using js(2) by simp
  moreover have "set (map snd (active rt')) \<subseteq> set js" unfolding snd by (rule set_take_subset)
  ultimately show ?thesis using step js(1) k(4) snd by auto
next
  case (Some e)
  with reload_failed_query [OF assms(5)] assms(1,2) show ?thesis by simp
qed

definition idle_runtime :: runtime where
  "idle_runtime = \<lparr>rtEntries = [], rtCalls = [], rtAdds = 0\<rparr>"

lemma idle_in_step: "in_step idle_runtime"
  by (simp add: in_step_def active_def idle_runtime_def)

lemma idle_once: "distinct (map (ID \<circ> snd) (active idle_runtime))"
  by (simp add: active_def idle_runtime_def)

lemma sample_reload:
  "reload sample_env (\<lambda>n s. Inr n) sample_context idle_runtime (sample_world [sample_job] []) =
     (Inr (), \<lparr>rtEntries = [(''j1'', 0)], rtCalls = [AddFunc 0 (cron_spec sample_job) sample_job], rtAdds = 1\<rparr>,
      (sample_world [sample_job] [])\<lparr>wTick := 1\<rparr>)"
  by (simp add: reload_def ListEnabled_def query_def prog_simps sample_world_def idle_runtime_def remove_all_def
      listed_enabled_def live_def sample_job_def)

theorem reload_schedules_exactly_enabled_jobs_witness:
  "\<exists>rt' w'. reload sample_env (\<lambda>n s. Inr n) sample_context idle_runtime (sample_world [sample_job] []) = (Inr (), rt', w') \<and>
     set (map snd (active rt')) = {j \<in> set (jobs (wDb w')). listed_enabled j}"
  using reload_schedules_exactly_enabled_jobs [OF idle_in_step idle_once sample_integrity sample_lifecycle sample_reload]
    sample_reload by blast

text \<open>A specification that is refused ends the loop there.\<close>

lemma schedule_all_stops:
  assumes "k < length js" and "\<forall>i < k. \<exists>n. add (rtAdds rt + i) (cron_spec (js ! i)) = Inr n"
    and "add (rtAdds rt + k) (cron_spec (js ! k)) = Inl e"
  shows "\<exists>rt' ids. schedule_all add js rt = (Inl e, rt') \<and> length ids = k \<and> active rt' = active rt @ zip ids (take k js)"
  using assms
proof (induction js arbitrary: rt k)
  case (Cons j js)
  show ?case
  proof (cases k)
    case 0
    with Cons.prems show ?thesis by (intro exI [of _ "rt\<lparr>rtAdds := Suc (rtAdds rt)\<rparr>"] exI [of _ "[]"]) (simp add: active_def)
  next
    case (Suc m)
    with Cons.prems(2) obtain n where n: "add (rtAdds rt) (cron_spec j) = Inr n" by fastforce
    let ?rt = "rt\<lparr>rtAdds := Suc (rtAdds rt), rtCalls := rtCalls rt @ [AddFunc n (cron_spec j) j],
              rtEntries := (ID j, n) # filter (\<lambda>e. fst e \<noteq> ID j) (rtEntries rt)\<rparr>"
    have "\<forall>i < m. \<exists>n. add (rtAdds ?rt + i) (cron_spec (js ! i)) = Inr n"
      using Cons.prems(2) Suc by fastforce
    with Cons.IH [of m ?rt] Cons.prems(1,3) Suc obtain rt' ids where
      "schedule_all add js ?rt = (Inl e, rt')" "length ids = m" "active rt' = active ?rt @ zip ids (take m js)"
      by auto
    moreover have "active ?rt = active rt @ [(n, j)]" by (simp add: active_def)
    ultimately show ?thesis
      using n Suc by (intro exI [of _ rt'] exI [of _ "n # ids"]) simp
  qed
qed simp

text \<open>
  C27. One job whose specification the cron library refuses stops the reload: if the listing of
  the enabled jobs is \<open>js\<close> and the library accepts the first \<open>k\<close> of them and refuses the next one,
  the reload fails with that error, and exactly the first \<open>k\<close> jobs are scheduled after it. The jobs that
  come later in the listing, whatever their tenant, are no longer scheduled although they are
  enabled.
\<close>

theorem refused_job_unschedules_the_rest:
  assumes "in_step rt" and "integrity (wDb w)" and "env_lifecycle env"
    and "ListEnabled env ctx w = (Inr js, w')" and "k < length js"
    and "\<forall>i < k. \<exists>n. add (rtAdds rt + i) (cron_spec (js ! i)) = Inr n"
    and "add (rtAdds rt + k) (cron_spec (js ! k)) = Inl e"
  shows "\<exists>rt'. reload env add ctx rt w = (Inl e, rt', w') \<and> map snd (active rt') = take k js \<and>
    set js = {j \<in> set (jobs (wDb w')). listed_enabled j} \<and>
    set (drop k js) \<inter> set (map snd (active rt')) = {} \<and> js ! k \<in> set (drop k js)"
proof -
  have same: "rtAdds (remove_all rt) = rtAdds rt" by (simp add: remove_all_def)
  from schedule_all_stops [of k js add "remove_all rt" e] assms(5-7) active_remove_all [OF assms(1)]
  obtain rt' ids where sched: "schedule_all add js (remove_all rt) = (Inl e, rt')" and "length ids = k"
    and "active rt' = zip ids (take k js)"
    by (auto simp: same)
  then have act: "map snd (active rt') = take k js" using assms(5) by simp
  have listed: "set js = {j \<in> set (jobs (wDb w')). listed_enabled j}" "distinct (map ID js)"
    using ListEnabled_Inr [OF assms(4)] assms(2,3) by (auto simp: env_lifecycle_def lifecycle_def integrity_def)
  from listed(2) have "distinct js" by (simp add: distinct_map)
  then have "set (drop k js) \<inter> set (take k js) = {}"
    by (metis Int_commute set_take_disj_set_drop_if_distinct order_refl)
  moreover have "js ! k \<in> set (drop k js)" using assms(5) by (metis Cons_nth_drop_Suc list.set_intros(1))
  moreover have "reload env add ctx rt w = (Inl e, rt', w')" using assms(4) sched by (simp add: reload_def)
  ultimately show ?thesis using act listed(1) by (intro exI [of _ rt']) simp
qed

text \<open>Three enabled jobs, the second refused: the first is scheduled, the third no longer.\<close>

definition three_jobs :: "job list" where
  "three_jobs = [sample_job, sample_job\<lparr>ID := ''j22'', CronExpression := ''@hourly @''\<rparr>, sample_job\<lparr>ID := ''j333''\<rparr>]"

definition picky_adder :: adder where
  "picky_adder n s = (if s = cron_spec sample_job then Inr n else Inl (ErrorString ''unrecognized descriptor''))"

lemma three_jobs_listed:
  "ListEnabled sample_env sample_context (sample_world three_jobs []) = (Inr three_jobs, (sample_world three_jobs [])\<lparr>wTick := 1\<rparr>)"
  by (simp add: ListEnabled_def query_def prog_simps sample_world_def three_jobs_def listed_enabled_def live_def sample_job_def)

lemma three_jobs_integrity: "integrity (wDb (sample_world three_jobs []))"
  by (simp add: integrity_def sample_world_def three_jobs_def job_sound_def sample_job_def)

theorem refused_job_unschedules_the_rest_witness:
  "\<exists>rt' w'. reload sample_env picky_adder sample_context idle_runtime (sample_world three_jobs []) =
       (Inl (ErrorString ''unrecognized descriptor''), rt', w') \<and>
     map snd (active rt') = [sample_job] \<and> three_jobs ! 2 \<in> set (jobs (wDb w'))"
proof -
  have add: "\<forall>i < 1. \<exists>n. picky_adder (rtAdds idle_runtime + i) (cron_spec (three_jobs ! i)) = Inr n"
    "picky_adder (rtAdds idle_runtime + 1) (cron_spec (three_jobs ! 1)) = Inl (ErrorString ''unrecognized descriptor'')"
    "1 < length three_jobs"
    by (simp_all add: picky_adder_def three_jobs_def cron_spec_def sample_job_def)
  from refused_job_unschedules_the_rest [OF idle_in_step three_jobs_integrity sample_lifecycle three_jobs_listed add(3,1,2)]
  show ?thesis by (auto simp: three_jobs_def sample_world_def)
qed

end
