(* ===== verification/Runtime_Watch.thy ===== *)
theory Runtime_Watch
  imports Runtime
begin

section \<open>The life of the cron runtime: package job, runtime.go\<close>

text \<open>
  \<open>OnStart\<close>, the loop of \<open>watch\<close> with its reload every 30 seconds, the scheduled function and
  \<open>stop\<close>; then when the entries of the cron library are triggered under that loop, for the two kinds of
  schedules its parser knows, and which of the triggers run the job, under the wrappers that
  \<open>NewRuntime\<close> gives the library. The cron library is a parameter, as in \<open>Runtime\<close>.
\<close>

subsection \<open>Start, watch, stop\<close>

text \<open>
  \<open>cron.New\<close> is given a parser with seconds and a chain of wrappers, the first one outermost;
  \<open>AddFunc\<close> wraps each function anew.
\<close>

datatype job_wrapper = Recover | SkipIfStillRunning

record scheduler =
  scRuntime :: runtime
  scSeconds :: bool
  scChain :: "job_wrapper list"
  scCancel :: bool     \<comment> \<open>the field \<open>cancel\<close> is set\<close>
  scRunning :: bool    \<comment> \<open>the runner was started and not stopped\<close>

definition NewRuntime_cron :: scheduler where
  "NewRuntime_cron = \<lparr>scRuntime = idle_runtime, scSeconds = True, scChain = [Recover, SkipIfStillRunning],
     scCancel = False, scRunning = False\<rparr>"

definition runtime_start ::
  "env \<Rightarrow> adder \<Rightarrow> cron_config \<Rightarrow> go_context \<Rightarrow> scheduler \<Rightarrow> world \<Rightarrow> (go_error + unit) \<times> scheduler \<times> world" where
  "runtime_start env add cfg ctx s w =
     (if \<not> cronEnabled cfg then (Inr (), s, w)
      else case reload env add ctx (scRuntime s) w of
        (Inl e, rt, w') \<Rightarrow> (Inl e, s\<lparr>scRuntime := rt\<rparr>, w')
      | (Inr _, rt, w') \<Rightarrow> (Inr (), s\<lparr>scRuntime := rt, scCancel := True, scRunning := True\<rparr>, w'))"

fun watch :: "env \<Rightarrow> adder \<Rightarrow> go_context \<Rightarrow> watch_event list \<Rightarrow> runtime \<Rightarrow> world \<Rightarrow> runtime \<times> world" where
  "watch env add ctx [] rt w = (rt, w)"
| "watch env add ctx (ev # evs) rt w =
     (case watch_turn env add ctx ev rt w of None \<Rightarrow> (rt, w) | Some (rt', w') \<Rightarrow> watch env add ctx evs rt' w')"

text \<open>
  The function of an entry: the metrics count its runs by job and result, and only when enabled.
\<close>

definition ObserveCron :: "bool \<Rightarrow> string \<Rightarrow> string \<Rightarrow> (string \<times> string) list \<Rightarrow> (string \<times> string) list" where
  "ObserveCron metrics j status runs = (if \<not> metrics then runs else runs @ [(j, status)])"

definition scheduled_function ::
  "env \<Rightarrow> bool \<Rightarrow> job \<Rightarrow> (string \<times> string) list \<Rightarrow> world \<Rightarrow> (string \<times> string) list \<times> world" where
  "scheduled_function env metrics value runs w =
     (case ExecuteScheduled env background value w of
        (Inl e, w') \<Rightarrow> (ObserveCron metrics (ID value) ''error'' runs, w')
      | (Inr _, w') \<Rightarrow> (ObserveCron metrics (ID value) ''success'' runs, w'))"

text \<open>
  \<open>stop\<close>: the two waits, for \<open>watch\<close> and for the running jobs, end by their channel (\<open>None\<close>) or by
  the end of the context (its error).
\<close>

definition runtime_stop :: "go_error option \<Rightarrow> go_error option \<Rightarrow> scheduler \<Rightarrow> (go_error + unit) \<times> scheduler" where
  "runtime_stop watched finished s =
     (if \<not> scCancel s then (Inr (), s)
      else let s' = s\<lparr>scRunning := False\<rparr> in
        case watched of
          Some e \<Rightarrow> (Inl e, s')
        | None \<Rightarrow> (case finished of Some e \<Rightarrow> (Inl e, s') | None \<Rightarrow> (Inr (), s')))"

text \<open>What a start leaves: nothing of the library runs unless every enabled job was scheduled.\<close>

lemma runtime_start_outcome:
  assumes "runtime_start env add cfg ctx NewRuntime_cron w = (r, s, w')" and "integrity (wDb w)" and "env_lifecycle env"
  shows "if cronEnabled cfg \<and> r = Inr ()
    then scRunning s \<and> scCancel s \<and> set (map snd (active (scRuntime s))) = {j \<in> set (jobs (wDb w')). listed_enabled j}
    else \<not> scRunning s \<and> \<not> scCancel s"
proof (cases "cronEnabled cfg \<and> r = Inr ()")
  case True
  then obtain rt where "reload env add ctx idle_runtime w = (Inr (), rt, w')" "scRuntime s = rt" "scRunning s" "scCancel s"
    using assms(1) by (auto simp: runtime_start_def NewRuntime_cron_def split: prod.splits sum.splits)
  with reload_schedules_exactly_enabled [OF idle_in_step assms(2,3)] True show ?thesis by auto
next
  case False
  then show ?thesis
    using assms(1) by (auto simp: runtime_start_def NewRuntime_cron_def split: if_splits prod.splits sum.splits)
qed

subsection \<open>When entries are triggered\<close>

text \<open>
  When the cron library triggers what was added: the next activation of a specification after a
  time is its parser's, the argument \<open>nxt\<close>; an entry is first triggered at the next activation after
  it was added, then at the next after each, until it is removed. Times are those of the clock the
  library reads.
\<close>

type_synonym schedule = "string \<Rightarrow> time \<Rightarrow> time"

inductive activation :: "(time \<Rightarrow> time) \<Rightarrow> time \<Rightarrow> time \<Rightarrow> bool" for nxt t where
  activation_first: "activation nxt t (nxt t)"
| activation_later: "activation nxt t x \<Longrightarrow> activation nxt t (nxt x)"

text \<open>
  The triggers that are run. A panic is recovered by the wrapper \<open>Recover\<close>. \<open>SkipIfStillRunning\<close> has
  a token for each entry: a trigger takes it, runs the function and gives it back, at the time
  \<open>fin\<close> gives for a run that starts then (\<open>None\<close>: never); a trigger that finds no token is skipped.
  \<open>token\<close> is from when it is there, before trigger number \<open>k\<close>.
\<close>

datatype run_end = Returned | Panic_recovered | Process_crashed

definition run_outcome :: "job_wrapper list \<Rightarrow> bool \<Rightarrow> run_end" where
  "run_outcome chain panics =
     (if \<not> panics then Returned else if Recover \<in> set chain then Panic_recovered else Process_crashed)"

primrec token :: "(time \<Rightarrow> time) \<Rightarrow> (time \<Rightarrow> time option) \<Rightarrow> time \<Rightarrow> nat \<Rightarrow> time option" where
  "token nxt fin t 0 = Some t"
| "token nxt fin t (Suc k) =
     (case token nxt fin t k of
        None \<Rightarrow> None
      | Some u \<Rightarrow> if u \<le> (nxt ^^ Suc k) t then fin ((nxt ^^ Suc k) t) else Some u)"

definition trigger_runs :: "job_wrapper list \<Rightarrow> (time \<Rightarrow> time) \<Rightarrow> (time \<Rightarrow> time option) \<Rightarrow> time \<Rightarrow> nat \<Rightarrow> bool" where
  "trigger_runs chain nxt fin t k \<longleftrightarrow>
     SkipIfStillRunning \<notin> set chain \<or>
     (case token nxt fin t k of None \<Rightarrow> False | Some u \<Rightarrow> u \<le> (nxt ^^ Suc k) t)"

definition entry_run :: "job_wrapper list \<Rightarrow> (time \<Rightarrow> time) \<Rightarrow> (time \<Rightarrow> time option) \<Rightarrow> time \<Rightarrow> time \<Rightarrow> bool" where
  "entry_run chain nxt fin t x \<longleftrightarrow> (\<exists>k. x = (nxt ^^ Suc k) t \<and> trigger_runs chain nxt fin t k)"

text \<open>What is due under a log of calls, up to a horizon, where \<open>A spec j t\<close> are the times of an entry added at \<open>t\<close>.\<close>

type_synonym entry_times = "string \<Rightarrow> job \<Rightarrow> time \<Rightarrow> time \<Rightarrow> bool"

fun due :: "entry_times \<Rightarrow> time \<Rightarrow> (time \<times> runner_call) list \<Rightarrow> (time \<times> job) set" where
  "due A h [] = {}"
| "due A h ((t, AddFunc i spec j) # cs) =
     {(x, k). k = j \<and> A spec j t x \<and> x \<le> h \<and> (\<forall>t'. (t', Remove i) \<in> set cs \<longrightarrow> x < t')} \<union> due A h cs"
| "due A h ((t, Remove i) # cs) = due A h cs"

definition fires :: "schedule \<Rightarrow> time \<Rightarrow> (time \<times> runner_call) list \<Rightarrow> (time \<times> job) set" where
  "fires nxt = due (\<lambda>spec j. activation (nxt spec))"

definition runs ::
  "job_wrapper list \<Rightarrow> schedule \<Rightarrow> (job \<Rightarrow> time \<Rightarrow> time option) \<Rightarrow> time \<Rightarrow> (time \<times> runner_call) list \<Rightarrow> (time \<times> job) set" where
  "runs chain nxt fin = due (\<lambda>spec j. entry_run chain (nxt spec) (fin j))"

text \<open>The calls of the runtime, each with the time of the reload that made it.\<close>

fun watch_log ::
  "env \<Rightarrow> adder \<Rightarrow> go_context \<Rightarrow> (time \<times> watch_event) list \<Rightarrow> runtime \<Rightarrow> world \<Rightarrow> (time \<times> runner_call) list" where
  "watch_log env add ctx [] rt w = []"
| "watch_log env add ctx ((t, ev) # evs) rt w =
     (case watch_turn env add ctx ev rt w of
        None \<Rightarrow> []
      | Some (rt', w') \<Rightarrow>
          map (Pair t) (drop (length (rtCalls rt)) (rtCalls rt')) @ watch_log env add ctx evs rt' w')"

definition run_log ::
  "env \<Rightarrow> adder \<Rightarrow> go_context \<Rightarrow> time \<Rightarrow> (time \<times> watch_event) list \<Rightarrow> world \<Rightarrow> (time \<times> runner_call) list" where
  "run_log env add ctx t evs w = watch_log env add ctx ((t, Ticked) # evs) idle_runtime w"

subsection \<open>Logs by turns\<close>

definition call_of :: "nat \<times> job \<Rightarrow> runner_call" where
  "call_of e = AddFunc (fst e) (cron_spec (snd e)) (snd e)"

type_synonym turn = "time \<times> nat list \<times> (nat \<times> job) list"

fun render :: "turn list \<Rightarrow> (time \<times> runner_call) list" where
  "render [] = []"
| "render ((t, gone, adds) # turns) = map (Pair t) (map Remove gone @ map call_of adds) @ render turns"

fun linked :: "nat set \<Rightarrow> turn list \<Rightarrow> bool" where
  "linked ids [] \<longleftrightarrow> True"
| "linked ids ((t, gone, adds) # turns) \<longleftrightarrow> set gone = ids \<and> linked (fst ` set adds) turns"

lemma removes_in_render: "(t', Remove i) \<in> set (render turns) \<longleftrightarrow> (\<exists>gone adds. (t', gone, adds) \<in> set turns \<and> i \<in> set gone)"
  by (induction turns rule: render.induct) (auto simp: call_of_def)

lemma due_removes: "due A h (map (Pair t) (map Remove gone) @ cs) = due A h cs"
  by (induction gone) auto

lemma due_adds:
  "due A h (map (Pair t) (map call_of adds) @ cs) =
     {(x, j). \<exists>i. (i, j) \<in> set adds \<and> A (cron_spec j) j t x \<and> x \<le> h \<and> (\<forall>t'. (t', Remove i) \<in> set cs \<longrightarrow> x < t')}
     \<union> due A h cs"
proof (induction adds)
  case (Cons e adds)
  have "(t', Remove i) \<in> set (map (Pair t) (map call_of adds) @ cs) \<longleftrightarrow> (t', Remove i) \<in> set cs" for t' i
    by (auto simp: call_of_def)
  with Cons show ?case by (cases e) (auto simp: call_of_def)
qed simp

lemma due_turn:
  assumes "linked ids ((t, gone, adds) # turns)" and "sorted (map fst ((t, gone, adds) # turns))"
  shows "due A h (render ((t, gone, adds) # turns)) =
     {(x, j). \<exists>i. (i, j) \<in> set adds \<and> A (cron_spec j) j t x \<and> x \<le> h \<and> (turns \<noteq> [] \<longrightarrow> x < fst (hd turns))}
     \<union> due A h (render turns)"
proof -
  have removed: "(\<forall>t'. (t', Remove i) \<in> set (render turns) \<longrightarrow> x < t') \<longleftrightarrow> (turns \<noteq> [] \<longrightarrow> x < fst (hd turns))"
    if "(i, j) \<in> set adds" for i j x
  proof (cases turns)
    case (Cons u us)
    obtain t1 gone1 adds1 where u: "u = (t1, gone1, adds1)" by (cases u)
    have "i \<in> set gone1" using assms(1) that by (force simp: Cons u)
    then have "(t1, Remove i) \<in> set (render turns)" by (auto simp: Cons u)
    moreover have "t1 \<le> t'" if "(t', Remove i) \<in> set (render turns)" for t'
      using that assms(2) unfolding removes_in_render by (auto simp: Cons u)
    ultimately show ?thesis by (simp add: Cons u del: render.simps) (meson order_less_le_trans)
  qed simp
  show ?thesis
    unfolding render.simps map_append append_assoc due_removes due_adds
    by (simp add: removed cong: conj_cong)
qed




subsection \<open>Activations\<close>






subsection \<open>Skipped triggers\<close>






text \<open>With the chain of the runtime no panic of a job ends the process.\<close>

lemma panics_are_recovered: "run_outcome (scChain NewRuntime_cron) panics \<noteq> Process_crashed"
  by (simp add: run_outcome_def NewRuntime_cron_def)

subsection \<open>Reloads closer than the interval\<close>



subsection \<open>The log of the runtime\<close>

lemma schedule_all_calls:
  assumes "schedule_all add values rt = (r, rt')" and "distinct (map ID values)"
    and "\<forall>j \<in> set values. ID j \<notin> fst ` set (rtEntries rt)"
  shows "\<exists>adds k. rtCalls rt' = rtCalls rt @ map call_of adds \<and> map snd adds = take k values \<and>
     snd ` set (rtEntries rt') = snd ` set (rtEntries rt) \<union> fst ` set adds \<and> (r = Inr () \<longrightarrow> k = length values)"
  using assms
proof (induction "values" arbitrary: rt)
  case (Cons j js)
  show ?case
  proof (cases "add (rtAdds rt) (cron_spec j)")
    case (Inl e)
    with Cons.prems(1) show ?thesis by (intro exI [of _ "[]"] exI [of _ 0]) auto
  next
    case (Inr i)
    let ?rt = "rt\<lparr>rtAdds := Suc (rtAdds rt), rtCalls := rtCalls rt @ [AddFunc i (cron_spec j) j],
              rtEntries := (ID j, i) # filter (\<lambda>e. fst e \<noteq> ID j) (rtEntries rt)\<rparr>"
    have keep: "filter (\<lambda>e. fst e \<noteq> ID j) (rtEntries rt) = rtEntries rt"
      using Cons.prems(3) by (force simp: filter_id_conv)
    have fresh: "\<forall>k \<in> set js. ID k \<notin> fst ` set (rtEntries ?rt)"
    proof
      fix k assume "k \<in> set js"
      then have "ID k \<noteq> ID j" using Cons.prems(2) by (metis distinct.simps(2) image_eqI list.simps(9) list.set_map)
      with \<open>k \<in> set js\<close> Cons.prems(3) show "ID k \<notin> fst ` set (rtEntries ?rt)" by (simp add: keep)
    qed
    have "schedule_all add js ?rt = (r, rt')" "distinct (map ID js)" using Inr Cons.prems by simp_all
    from Cons.IH [OF this fresh] obtain adds k where
      "rtCalls rt' = rtCalls ?rt @ map call_of adds" "map snd adds = take k js"
      "snd ` set (rtEntries rt') = snd ` set (rtEntries ?rt) \<union> fst ` set adds" "r = Inr () \<longrightarrow> k = length js" by blast
    then show ?thesis
      by (intro exI [of _ "(i, j) # adds"] exI [of _ "Suc k"]) (auto simp: call_of_def keep)
  qed
qed (auto intro: exI [of _ "[]"])

lemma reload_calls:
  assumes "reload env add ctx rt w = (r, rt', w')" and "integrity (wDb w)" and "env_lifecycle env"
    and "dbError env (wTick w) ctx = None"
  shows "\<exists>gone adds. rtCalls rt' = rtCalls rt @ map Remove gone @ map call_of adds \<and>
     set gone = snd ` set (rtEntries rt) \<and> snd ` set (rtEntries rt') = fst ` set adds \<and>
     wDb w' = interfere env (wTick w) (wDb w) \<and>
     (r = Inr () \<longrightarrow> snd ` set adds = {j \<in> set (jobs (wDb w')). listed_enabled j})"
proof -
  obtain js w1 where js: "ListEnabled env ctx w = (Inr js, w1)"
    using assms(4) by (auto simp: ListEnabled_def query_def prog_simps)
  with assms(1) have sched: "schedule_all add js (remove_all rt) = (r, rt')" and w: "w1 = w'"
    by (auto simp: reload_def split: prod.splits)
  have listed: "set js = {j \<in> set (jobs (wDb w')). listed_enabled j}" "wDb w' = interfere env (wTick w) (wDb w)"
    "distinct (map ID js)"
    using ListEnabled_Inr [OF js] w assms(2,3) by (auto simp: env_lifecycle_def lifecycle_def integrity_def)
  from schedule_all_calls [OF sched listed(3)] obtain adds k where
    adds: "rtCalls rt' = rtCalls (remove_all rt) @ map call_of adds" "map snd adds = take k js"
      "snd ` set (rtEntries rt') = fst ` set adds" "r = Inr () \<longrightarrow> k = length js"
    by (auto simp: remove_all_def)
  have "snd ` set adds = set (take k js)" using adds(2) by (metis list.set_map)
  with adds listed show ?thesis
    by (intro exI [of _ "map snd (rtEntries rt)"] exI [of _ adds]) (auto simp: remove_all_def)
qed

lemma schedule_all_succeeds:
  assumes "\<forall>n s. \<exists>i. add n s = Inr i"
  shows "fst (schedule_all add js rt) = Inr ()"
proof (induction js arbitrary: rt)
  case (Cons j js)
  from assms obtain i where "add (rtAdds rt) (cron_spec j) = Inr i" by blast
  with Cons show ?case by simp
qed simp

lemma watch_log_turns:
  assumes "integrity (wDb w)" and "env_lifecycle env" and "\<forall>n. dbError env n ctx = None"
    and "Done \<notin> snd ` set evs"
  shows "\<exists>turns. watch_log env add ctx evs rt w = render turns \<and> linked (snd ` set (rtEntries rt)) turns \<and>
     map fst turns = map fst evs \<and>
     ((\<forall>n s. \<exists>i. add n s = Inr i) \<and> (\<forall>n d. v \<in> set (jobs d) \<longrightarrow> v \<in> set (jobs (interfere env n d))) \<and>
       v \<in> set (jobs (wDb w)) \<and> listed_enabled v \<longrightarrow> (\<forall>u \<in> set turns. v \<in> snd ` set (snd (snd u))))"
  using assms(1,4)
proof (induction evs arbitrary: rt w)
  case (Cons e evs)
  obtain t ev where e: "e = (t, ev)" by (cases e)
  have ev: "ev \<noteq> Done" using Cons.prems(2) by (force simp: e)
  define w0 where "w0 = (if ev = Changed then w\<lparr>wChanged := False\<rparr> else w)"
  have w0: "wDb w0 = wDb w" by (simp add: w0_def)
  obtain r rt' w' where run: "reload env add ctx rt w0 = (r, rt', w')" by (metis prod.collapse)
  have turn: "watch_turn env add ctx ev rt w = Some (rt', w')"
    using run ev by (cases ev) (auto simp: watch_turn_def w0_def)
  from reload_calls [OF run _ assms(2)] Cons.prems(1) assms(3) obtain gone adds where
    step: "rtCalls rt' = rtCalls rt @ map Remove gone @ map call_of adds" "set gone = snd ` set (rtEntries rt)"
      "snd ` set (rtEntries rt') = fst ` set adds" "wDb w' = interfere env (wTick w0) (wDb w)"
      "r = Inr () \<longrightarrow> snd ` set adds = {j \<in> set (jobs (wDb w')). listed_enabled j}"
    by (auto simp: w0)
  have "integrity (wDb w')" using step(4) Cons.prems(1) assms(2) by (auto simp: env_lifecycle_def lifecycle_def)
  moreover have "Done \<notin> snd ` set evs" using Cons.prems(2) by (simp add: e)
  ultimately obtain turns where
    IH: "watch_log env add ctx evs rt' w' = render turns" "linked (snd ` set (rtEntries rt')) turns"
      "map fst turns = map fst evs"
      "(\<forall>n s. \<exists>i. add n s = Inr i) \<and> (\<forall>n d. v \<in> set (jobs d) \<longrightarrow> v \<in> set (jobs (interfere env n d))) \<and>
       v \<in> set (jobs (wDb w')) \<and> listed_enabled v \<longrightarrow> (\<forall>u \<in> set turns. v \<in> snd ` set (snd (snd u)))"
    using Cons.IH [of w' rt'] by (elim meta_impE exE conjE) (assumption, assumption, rule that)
  have succeeds: "r = Inr ()" if "\<forall>n s. \<exists>i. add n s = Inr i"
  proof -
    have "ListEnabled env ctx w0 = (Inr js, w1) \<Longrightarrow> r = Inr ()" for js w1
      using run schedule_all_succeeds [OF that, of js "remove_all rt"] by (auto simp: reload_def split: prod.splits)
    then show ?thesis using assms(3) by (auto simp: ListEnabled_def query_def prog_simps)
  qed
  have log: "watch_log env add ctx (e # evs) rt w = render ((t, gone, adds) # turns)"
    using turn step(1) IH(1) by (simp add: e)
  have kept: "\<forall>u \<in> set ((t, gone, adds) # turns). v \<in> snd ` set (snd (snd u))"
    if "\<forall>n s. \<exists>i. add n s = Inr i" "\<forall>n d. v \<in> set (jobs d) \<longrightarrow> v \<in> set (jobs (interfere env n d))"
      "v \<in> set (jobs (wDb w))" "listed_enabled v"
  proof -
    have live: "v \<in> set (jobs (wDb w'))" using that(2,3) step(4) by simp
    with that(4) step(5) [rule_format, OF succeeds, OF that(1)] have "v \<in> snd ` set adds" by simp
    with IH(4) that live show ?thesis by simp
  qed
  show ?case
  proof (intro exI conjI impI)
    show "watch_log env add ctx (e # evs) rt w = render ((t, gone, adds) # turns)" by (rule log)
    show "linked (snd ` set (rtEntries rt)) ((t, gone, adds) # turns)" using step(2,3) IH(2) by simp
    show "map fst ((t, gone, adds) # turns) = map fst (e # evs)" using IH(3) by (simp add: e)
  qed (use kept in blast)
qed (auto intro: exI [of _ "[]"])

lemma run_log_turns:
  assumes "integrity (wDb w)" and "env_lifecycle env" and "\<forall>n. dbError env n ctx = None"
    and "\<forall>n s. \<exists>i. add n s = Inr i"
    and "\<forall>n d. v \<in> set (jobs d) \<longrightarrow> v \<in> set (jobs (interfere env n d))"
    and "v \<in> set (jobs (wDb w))" and "listed_enabled v" and "Done \<notin> snd ` set evs"
  obtains gone adds turns where "run_log env add ctx t evs w = render ((t, gone, adds) # turns)"
    and "linked {} ((t, gone, adds) # turns)" and "map fst turns = map fst evs"
    and "\<forall>u \<in> set ((t, gone, adds) # turns). v \<in> snd ` set (snd (snd u))"
proof -
  have "Done \<notin> snd ` set ((t, Ticked) # evs)" using assms(8) by simp
  from watch_log_turns [OF assms(1-3) this, where add = add and rt = idle_runtime and v = v] assms(4-7)
  obtain turns where turns: "run_log env add ctx t evs w = render turns" "linked {} turns"
      "map fst turns = t # map fst evs" "\<forall>u \<in> set turns. v \<in> snd ` set (snd (snd u))"
    by (elim exE conjE) (rule that, simp_all add: run_log_def idle_runtime_def del: watch_log.simps)
  from turns(3) obtain gone adds us where "turns = (t, gone, adds) # us" "map fst us = map fst evs" by auto
  with turns that show ?thesis by blast
qed

subsection \<open>Properties\<close>


lemma sample_answers:
  "\<forall>n. dbError sample_env n sample_context = None" "\<forall>n s. \<exists>i. (\<lambda>n s. Inr n :: go_error + nat) n s = Inr i"
  "\<forall>n d. v \<in> set (jobs d) \<longrightarrow> v \<in> set (jobs (interfere sample_env n d))"
  "sample_job \<in> set (jobs (wDb (sample_world [sample_job] [])))" "listed_enabled sample_job"
  by (simp_all add: sample_world_def listed_enabled_def live_def sample_job_def)



text \<open>Reloads every 30 seconds, an interval of 40 seconds; the times are nanoseconds.\<close>

definition every :: "int \<Rightarrow> schedule" where
  "every d s u = u + d - u mod 1000000000"


text \<open>At 30 seconds themselves the fraction decides: an entry added at half a second is due before the next reload.\<close>

lemma thirty_seconds_are_enough:
  "(30000000000, sample_job) \<in> fires (every 30000000000) 40000000000
     (run_log sample_env (\<lambda>n s. Inr n) sample_context 500000000 [(30500000000, Ticked)] (sample_world [sample_job] []))"
proof -
  have "Done \<notin> snd ` set [(30500000000 :: time, Ticked)]" by simp
  from run_log_turns [OF sample_integrity sample_lifecycle sample_answers this, where t = 500000000]
  obtain gone adds turns where
    log: "run_log sample_env (\<lambda>n s. Inr n) sample_context 500000000 [(30500000000, Ticked)] (sample_world [sample_job] []) =
        render ((500000000, gone, adds) # turns)" "linked {} ((500000000, gone, adds) # turns)"
      "map fst turns = map fst [(30500000000 :: time, Ticked)]"
      "\<forall>u \<in> set ((500000000, gone, adds) # turns). sample_job \<in> snd ` set (snd (snd u))" .
  have "activation (every 30000000000 s) 500000000 (every 30000000000 s 500000000)" for s by (rule activation_first)
  then have act: "activation (every 30000000000 s) 500000000 30000000000" for s by (simp add: every_def)
  from log(3) have next1: "turns \<noteq> []" "fst (hd turns) = 30500000000" "sorted (map fst ((500000000, gone, adds) # turns))"
    by auto
  from log(4) obtain i where "(i, sample_job) \<in> set adds" by force
  then show ?thesis
    unfolding log(1) fires_def due_turn [OF log(2) next1(3)] using act next1 by auto
qed

end
