(* ===== verification/Startup.thy ===== *)
theory Startup
  imports Adapters Config_Theorems Outbound Migration Runtime_Watch Grpc_Server
begin

section \<open>Wiring: packages app and authorization, job/invoker.go\<close>

text \<open>
  \<^verbatim>\<open>internal/app/app.go\<close> and \<^verbatim>\<open>application.go\<close>, \<^verbatim>\<open>internal/authorization/provider.go\<close>,
  \<^verbatim>\<open>internal/job/invoker.go\<close> and the constructors of the servers: what each provider builds from the
  configuration and from the values before it, and when it refuses. The fx library builds every
  value once, after the values it needs; \<open>assemble\<close> is one order that respects this. Which of several errors
  fx reports first depends on its own order, so nothing is said about it. \<open>on_start\<close> is the start of
  the cron runtime with the database it was given.
\<close>

record 'u platform =
  pfLog :: log_library
  pfExporter :: "string \<Rightarrow> go_error option"
  pfMigration :: "'u migration_library"
  pfDatabase :: database_library
  pfPing :: "redis_options \<Rightarrow> go_error option"
  pfInstrument :: "redis_options \<Rightarrow> go_error option"
  pfBus :: bus_library
  pfRecorder :: "bool \<Rightarrow> string \<Rightarrow> int \<Rightarrow> bus_options option \<Rightarrow> go_error option"
  pfHTTP :: http_library
  pfTLS :: tls_library
  pfNewClient :: "string \<Rightarrow> go_error option"
  pfDynamic :: "go_error option"                     \<comment> \<open>\<open>dynamicgrpc.New\<close>\<close>
  pfJWKS :: "string \<Rightarrow> string \<Rightarrow> string \<Rightarrow> go_error + (string \<Rightarrow> go_error + principal)"
  pfProxies :: "string list \<Rightarrow> go_error option"

subsection \<open>Providers\<close>

definition newLogger :: "log_library \<Rightarrow> config \<Rightarrow> go_error + logger" where
  "newLogger lib cfg =
     (case New_logger lib (cLog cfg) of
        Inl e \<Rightarrow> Inl e
      | Inr l \<Rightarrow> Inr (l\<lparr>lgAttributes := [(''service'', appName (cApp cfg)), (''environment'', activeProfile (cRuntime cfg))]\<rparr>))"

text \<open>The errors \<open>migration.Run\<close> joins become one.\<close>

definition joined :: "go_error list \<Rightarrow> go_error" where
  "joined errs = (case errs of [e] \<Rightarrow> e | _ \<Rightarrow> ErrorString (concat (map (\<lambda>e. error_text e @ [CHR 0x0A]) errs)))"

definition runStartupMigration :: "'u migration_library \<Rightarrow> config \<Rightarrow> trace \<Rightarrow> (go_error + unit) \<times> trace" where
  "runStartupMigration lib cfg tr =
     (if \<not> migAutoUp (cMigration cfg) then (Inr (), tr)
      else case Run lib (cMigration cfg) ''up'' 0 tr of
        (errs, tr') \<Rightarrow> (if errs \<noteq> [] then Inl (Wrapped ''startup database migration'' (joined errs)) else Inr (), tr'))"

definition newDatabase :: "database_library \<Rightarrow> config \<Rightarrow> go_error + pool option" where
  "newDatabase lib cfg =
     (if \<not> dbcEnabled (cDatabase cfg) then Inr None
      else and_then (Open_database lib (cDatabase cfg)) (\<lambda>db. Inr (Some db)))"

definition newRedis :: "(redis_options \<Rightarrow> go_error option) \<Rightarrow> (redis_options \<Rightarrow> go_error option) \<Rightarrow> config \<Rightarrow> tracing \<Rightarrow>
    go_error + redis_options option" where
  "newRedis ping instrument cfg trace =
     (if \<not> redisEnabled (cRedis cfg) then Inr None
      else and_then (Open_redis ping (cRedis cfg)) (\<lambda>client.
        case (if trEnabled trace then instrument client else None) of
          Some e \<Rightarrow> Inl (Wrapped ''instrument redis tracing'' e)
        | None \<Rightarrow> Inr (Some client)))"

definition newLocker :: "redis_options option \<Rightarrow> redis_options option" where
  "newLocker client = client"

definition newOperationRecorder ::
  "(bool \<Rightarrow> string \<Rightarrow> int \<Rightarrow> bus_options option \<Rightarrow> go_error option) \<Rightarrow> config \<Rightarrow> bus_options option \<Rightarrow> go_error + unit" where
  "newOperationRecorder recorder cfg bus =
     (let l = cOperationLog cfg in
      case recorder (olEnabled l) (olSubject l) (olMaxPayloadBytes l) bus of Some e \<Rightarrow> Inl e | None \<Rightarrow> Inr ())"

datatype 's verifier = DisabledVerifier | GRPCVerifier "'s connection" int

definition newApplicationVerifier :: "config \<Rightarrow> 's registry option \<Rightarrow> go_error + 's verifier" where
  "newApplicationVerifier cfg registry =
     (if \<not> dbcEnabled (cDatabase cfg) then Inr DisabledVerifier
      else case registry of
        None \<Rightarrow> Inl (ErrorString ''scheduler service requires outbound registry'')
      | Some r \<Rightarrow>
          (case rgGRPC r ''application'' of
             None \<Rightarrow> Inl (ErrorString ''scheduler service requires outbound.grpc.application'')
           | Some connection \<Rightarrow> Inr (GRPCVerifier connection 2000000000)))"

text \<open>The grants of a verifier: the disabled one says yes, the other asks the platform library.\<close>

definition verify_application :: "('s connection \<Rightarrow> int \<Rightarrow> string \<Rightarrow> string \<Rightarrow> grant) \<Rightarrow> 's verifier \<Rightarrow> string \<Rightarrow> string \<Rightarrow> grant" where
  "verify_application ask v tenant application =
     (case v of DisabledVerifier \<Rightarrow> Granted | GRPCVerifier connection timeout \<Rightarrow> ask connection timeout tenant application)"

definition New_authorizer :: "'s registry \<Rightarrow> 's connection option \<times> int" where
  "New_authorizer registry =
     (case rgGRPC registry ''authorization'' of
        None \<Rightarrow> (None, 2000000000)
      | Some connection \<Rightarrow> (Some connection, 2000000000))"

definition NewDynamicInvoker :: "go_error option \<Rightarrow> 's registry option \<Rightarrow> go_error + 's registry" where
  "NewDynamicInvoker dynamic registry =
     (case registry of
        None \<Rightarrow> Inl (ErrorString ''outbound registry is required'')
      | Some r \<Rightarrow> (case dynamic of Some e \<Rightarrow> Inl e | None \<Rightarrow> Inr r))"

text \<open>The service of job/service.go, by what it depends on.\<close>

record 's dependencies =
  dpDatabase :: "pool option"
  dpInvoker :: "'s registry"
  dpLocker :: "redis_options option"
  dpApplications :: "'s verifier"

definition NewRuntimeService ::
  "pool option \<Rightarrow> 's registry \<Rightarrow> redis_options option \<Rightarrow> 's verifier option \<Rightarrow> unit option \<Rightarrow> go_error + 's dependencies" where
  "NewRuntimeService db invoker locker applications operations =
     (case (applications, operations) of
        (Some v, Some _) \<Rightarrow> Inr \<lparr>dpDatabase = db, dpInvoker = invoker, dpLocker = locker, dpApplications = v\<rparr>
      | _ \<Rightarrow> Inl (ErrorString ''application verifier and operation recorder are required''))"

definition grpc_credentials :: "tls_library \<Rightarrow> config \<Rightarrow> go_error + ((string \<times> string) \<times> string option) option" where
  "grpc_credentials lib cfg =
     (if gtlsEnabled (grpcTLS (cGRPC cfg)) then and_then (serverCredentials lib (grpcTLS (cGRPC cfg))) (\<lambda>creds. Inr (Some creds))
      else Inr None)"

definition trusted_proxies :: "(string list \<Rightarrow> go_error option) \<Rightarrow> config \<Rightarrow> go_error + unit" where
  "trusted_proxies proxies cfg =
     (case proxies (httpTrustedProxies (cHTTP cfg)) of
        Some e \<Rightarrow> Inl (Wrapped ''configure trusted proxies'' e)
      | None \<Rightarrow> Inr ())"

subsection \<open>The application\<close>

record 's app =
  apLogger :: logger
  apTracing :: tracing
  apDatabase :: "pool option"
  apRedis :: "redis_options option"
  apBus :: "bus_options option"
  apRegistry :: "'s registry"
  apService :: "'s dependencies"
  apCleaner :: cleaner
  apAuth :: jwt_service
  apAuthorizer :: "'s connection option \<times> int"
  apCredentials :: "((string \<times> string) \<times> string option) option"

definition assemble ::
  "'u platform \<Rightarrow> 's grpc_breaker_library \<Rightarrow> (rpc_error, 's) pause \<Rightarrow> config \<Rightarrow> go_error + 's app" where
  "assemble lib trip pause cfg =
     and_then (newLogger (pfLog lib) cfg) (\<lambda>logger.
     and_then (fst (runStartupMigration (pfMigration lib) cfg [])) (\<lambda>_.
     and_then (newDatabase (pfDatabase lib) cfg) (\<lambda>db.
     and_then (NewTracing (pfExporter lib) cfg) (\<lambda>trace.
     and_then (newRedis (pfPing lib) (pfInstrument lib) cfg trace) (\<lambda>redis.
     and_then (New_bus (pfBus lib) cfg) (\<lambda>bus.
     and_then (NewRegistry (pfHTTP lib) (Dial (pfTLS lib) trip pause (pfNewClient lib)) cfg) (\<lambda>registry.
     and_then (NewDynamicInvoker (pfDynamic lib) (Some registry)) (\<lambda>invoker.
     and_then (newApplicationVerifier cfg (Some registry)) (\<lambda>verifier.
     and_then (newOperationRecorder (pfRecorder lib) cfg bus) (\<lambda>operations.
     and_then (NewRuntimeService db invoker (newLocker redis) (Some verifier) (Some operations)) (\<lambda>service.
     and_then (NewExecutionCleaner True (cCron cfg) (dbcEnabled (cDatabase cfg))) (\<lambda>cleaner.
     and_then (NewRuntime_auth (pfJWKS lib) cfg) (\<lambda>auth.
     and_then (grpc_credentials (pfTLS lib) cfg) (\<lambda>credentials.
     and_then (trusted_proxies (pfProxies lib) cfg) (\<lambda>_.
       Inr \<lparr>apLogger = logger, apTracing = trace, apDatabase = db, apRedis = redis, apBus = bus,
            apRegistry = registry, apService = service, apCleaner = cleaner, apAuth = auth,
            apAuthorizer = New_authorizer registry, apCredentials = credentials\<rparr>)))))))))))))))"

text \<open>
  The start hook of the cron runtime. Its repository keeps the database it was given; without one,
  \<open>ListEnabled\<close> calls a method of a nil \<^verbatim>\<open>sqlx.DB\<close>, which is a run-time panic.
\<close>

datatype start = Started scheduler world | StartFailed go_error | NilDatabase

definition on_start :: "env \<Rightarrow> adder \<Rightarrow> go_context \<Rightarrow> config \<Rightarrow> 's app \<Rightarrow> world \<Rightarrow> start" where
  "on_start env add ctx cfg app w =
     (if cronEnabled (cCron cfg) \<and> dpDatabase (apService app) = None then NilDatabase
      else case runtime_start env add (cCron cfg) ctx NewRuntime_cron w of
        (Inl e, s, w') \<Rightarrow> StartFailed e
      | (Inr _, s, w') \<Rightarrow> Started s w')"

subsection \<open>The commands\<close>

text \<open>\<^verbatim>\<open>cmd/api\<close> and \<^verbatim>\<open>cmd/migrate\<close>: the exit code when a command ends before it serves.\<close>

datatype 'a command = Exit int | Proceed 'a

definition api_main :: "bool \<Rightarrow> ('e + config) \<Rightarrow> config command" where
  "api_main showVersion loaded =
     (if showVersion then Exit 0
      else case loaded of Inl e \<Rightarrow> Exit 1 | Inr cfg \<Rightarrow> Proceed cfg)"

definition migrate_main :: "'u migration_library \<Rightarrow> string \<Rightarrow> int \<Rightarrow> ('e + config) \<Rightarrow> trace \<Rightarrow> int \<times> trace" where
  "migrate_main lib direction steps loaded tr =
     (if direction \<noteq> ''up'' \<and> direction \<noteq> ''down'' then (2, tr)
      else case loaded of
        Inl e \<Rightarrow> (1, tr)
      | Inr cfg \<Rightarrow>
          (case Run lib (cMigration cfg) direction steps tr of
             (errs, tr') \<Rightarrow> (if errs \<noteq> [] then 1 else 0, tr')))"

subsection \<open>An accepted configuration\<close>

text \<open>
  What is asked of everything outside: it answers, with a recorder for what a configuration may
  ask of it and with an absolute URL for the base of every HTTP client.
\<close>

definition tls_answers :: "tls_library \<Rightarrow> bool" where
  "tls_answers t \<longleftrightarrow> (\<forall>f. \<exists>pem. readFile t f = Inr pem) \<and> (\<forall>pem. appendCerts t pem) \<and> (\<forall>c k. loadKeyPair t c k = None)"

definition database_answers :: "database_library \<Rightarrow> bool" where
  "database_answers d \<longleftrightarrow> (\<forall>dsn. \<exists>c. pgxParse d dsn = Inr c) \<and> (\<forall>dsn. \<exists>c. mysqlParse d dsn = Inr c) \<and>
     (\<forall>z. zoneError d z = None) \<and> (\<forall>n dsn. sqlxOpen d n dsn = None) \<and> (\<forall>p t. pingPool d p t = None)"

definition platform_answers :: "'u platform \<Rightarrow> config \<Rightarrow> bool" where
  "platform_answers lib cfg \<longleftrightarrow>
     (\<forall>f. makeDirectoryOf (pfLog lib) f = None) \<and> (\<forall>l. \<exists>n. levelOf (pfLog lib) l = Inr n) \<and>
     (\<forall>u. pfExporter lib u = None) \<and> (migAutoUp (cMigration cfg) \<longrightarrow> fst (Run (pfMigration lib) (cMigration cfg) ''up'' 0 []) = []) \<and>
     database_answers (pfDatabase lib) \<and> (\<forall>o1. pfPing lib o1 = None) \<and> (\<forall>o1. pfInstrument lib o1 = None) \<and>
     (\<forall>o1. busNew (pfBus lib) o1 = None) \<and>
     (\<forall>e s n bus. (e \<longrightarrow> bus \<noteq> None \<and> trim_space s \<noteq> [] \<and> 256 \<le> n \<and> n \<le> 1048576) \<longrightarrow> pfRecorder lib e s n bus = None) \<and>
     tls_answers (pfTLS lib) \<and> tls_answers (tlsFiles (pfHTTP lib)) \<and>
     (\<forall>e \<in> set (cOutboundHTTP cfg). \<exists>b. urlParse (pfHTTP lib) (upAddress (snd e)) = Some b \<and> urlScheme b \<noteq> [] \<and> urlHost b \<noteq> []) \<and>
     (\<forall>t. pfNewClient lib t = None) \<and> pfDynamic lib = None \<and> (\<forall>u i a. \<exists>v. pfJWKS lib u i a = Inr v) \<and>
     (\<forall>ps. pfProxies lib ps = None)"

lemma and_then_value: "and_then (Inr x) f = f x"
  by (simp add: and_then_def)

lemma platform_answersD:
  assumes "platform_answers lib cfg"
  shows "makeDirectoryOf (pfLog lib) f = None" and "\<exists>n. levelOf (pfLog lib) l = Inr n" and "pfExporter lib u = None"
    and "migAutoUp (cMigration cfg) \<Longrightarrow> fst (Run (pfMigration lib) (cMigration cfg) ''up'' 0 []) = []" and "database_answers (pfDatabase lib)"
    and "pfPing lib o1 = None" and "pfInstrument lib o1 = None" and "busNew (pfBus lib) b1 = None"
    and "\<lbrakk>en \<Longrightarrow> bus \<noteq> None \<and> trim_space s \<noteq> [] \<and> 256 \<le> m \<and> m \<le> 1048576\<rbrakk> \<Longrightarrow> pfRecorder lib en s m bus = None"
    and "tls_answers (pfTLS lib)" and "tls_answers (tlsFiles (pfHTTP lib))"
    and "e \<in> set (cOutboundHTTP cfg) \<Longrightarrow> \<exists>b. urlParse (pfHTTP lib) (upAddress (snd e)) = Some b \<and> urlScheme b \<noteq> [] \<and> urlHost b \<noteq> []"
    and "pfNewClient lib t = None" and "pfDynamic lib = None" and "\<exists>v. pfJWKS lib u i a = Inr v" and "pfProxies lib ps = None"
  using assms unfolding platform_answers_def by simp_all

lemma default_cron_enabled: "bool_of defaults ''cron.enabled''"
  by code_simp

lemma Open_database_accepted:
  assumes "database_answers d" and "isDBType (dbcType cfg)"
  shows "\<exists>db. Open_database d cfg = Inr db"
proof -
  obtain c where "pgxParse d (dbcDSN cfg) = Inr c" using assms(1) unfolding database_answers_def by blast
  moreover obtain m where "mysqlParse d (dbcDSN cfg) = Inr m" using assms(1) unfolding database_answers_def by blast
  ultimately show ?thesis using assms
    by (auto simp: database_answers_def Open_database_def and_then_def connect_def open_source_def driverName_def
        isDBType_def Let_def)
qed

lemma transportCredentials_accepted:
  assumes "tls_answers t" and "tcEnabled c \<longrightarrow> (tcCertFile c = []) = (tcKeyFile c = [])"
  shows "\<exists>x. transportCredentials t c = Inr x"
proof -
  obtain pem where "readFile t (tcCAFile c) = Inr pem" using assms(1) unfolding tls_answers_def by blast
  then show ?thesis using assms by (auto simp: transportCredentials_def tls_answers_def)
qed

lemma Dial_accepted:
  assumes "tls_answers t" and "\<forall>a. newClient a = None" and "upstream_ok strict u"
  shows "\<exists>connection. Dial t trip pause newClient (grpc_client_config name u) = Inr connection"
proof -
  have "\<exists>x. transportCredentials t (ccTLS (grpc_client_config name u)) = Inr x"
    using assms(3) by (intro transportCredentials_accepted assms(1)) (auto simp: grpc_client_config_def upstream_ok_def credentials_ok_def)
  then show ?thesis using assms(2,3)
    by (auto simp: Dial_def grpc_client_config_def upstream_ok_def credentials_ok_def)
qed

lemma NewHTTPClient_accepted:
  assumes "tls_answers (tlsFiles lib)" and "urlParse lib (upAddress u) = Some b" "urlScheme b \<noteq> []" "urlHost b \<noteq> []"
    and "caType (upAuth u) \<noteq> [] \<longrightarrow> tlsEnabled (upTLS u)"
  shows "\<exists>client. NewHTTPClient lib name u = Inr client"
proof -
  have "\<exists>x. httpTransport (tlsFiles lib) (upTLS u) = Inr x"
  proof -
    obtain pem where "readFile (tlsFiles lib) (tlsCAFile (upTLS u)) = Inr pem"
      using assms(1) unfolding tls_answers_def by blast
    then show ?thesis using assms(1) by (auto simp: httpTransport_def tls_answers_def)
  qed
  then show ?thesis using assms(2-5) by (auto simp: NewHTTPClient_def)
qed

lemma add_http_accepted:
  assumes "\<forall>e \<in> set us. \<exists>client. NewHTTPClient lib (fst e) (snd e) = Inr client"
  shows "\<exists>m'. add_http lib us m = Inr m'"
  using assms by (induction us arbitrary: m) (fastforce)+

lemma add_grpc_accepted:
  assumes "\<forall>e \<in> set us. \<exists>connection. dial (grpc_client_config (fst e) (snd e)) = Inr connection"
  shows "\<exists>m'. add_grpc dial us m = Inr m' \<and> dom m' = dom m \<union> fst ` set us"
  using assms
proof (induction us arbitrary: m)
  case (Cons e us)
  obtain name u connection where e: "e = (name, u)" "dial (grpc_client_config name u) = Inr connection"
    using Cons.prems by (cases e) auto
  from Cons obtain m' where "add_grpc dial us (m(name \<mapsto> connection)) = Inr m'" "dom m' = dom (m(name \<mapsto> connection)) \<union> fst ` set us"
    by (metis list.set_intros(2))
  with e show ?case by auto
qed simp

text \<open>A client whose credentials would be sent without TLS, which \<open>NewHTTPClient\<close> refuses.\<close>

definition insecure :: "string \<times> upstream \<Rightarrow> bool" where
  "insecure e \<longleftrightarrow> caType (upAuth (snd e)) \<noteq> [] \<and> \<not> tlsEnabled (upTLS (snd e))"



lemma accepted_clients:
  assumes "platform_answers lib cfg" and "e \<in> set (cOutboundHTTP cfg)" and "\<not> insecure e"
  shows "\<exists>client. NewHTTPClient (pfHTTP lib) (fst e) (snd e) = Inr client"
proof -
  from platform_answersD(12) [OF assms(1,2)] obtain b
    where "urlParse (pfHTTP lib) (upAddress (snd e)) = Some b" "urlScheme b \<noteq> []" "urlHost b \<noteq> []" by blast
  from NewHTTPClient_accepted [OF platform_answersD(11) [OF assms(1)] this, of "fst e"] assms(3) show ?thesis
    by (auto simp: insecure_def)
qed

lemma serverCredentials_answered:
  assumes "tls_answers t"
  shows "\<exists>creds. serverCredentials t c = Inr creds"
proof -
  obtain pem where "readFile t (gtlsClientCAFile c) = Inr pem" using assms unfolding tls_answers_def by blast
  then show ?thesis using assms by (auto simp: serverCredentials_def tls_answers_def)
qed

lemma NewRegistry_accepted:
  assumes "Validate cfg = Inr ()" and "platform_answers lib cfg"
    and "\<forall>e \<in> set (cOutboundHTTP cfg). \<not> insecure e"
  shows "\<exists>r. NewRegistry (pfHTTP lib) (Dial (pfTLS lib) trip pause (pfNewClient lib)) cfg = Inr r \<and>
    dom (rgGRPC r) = fst ` set (cOutboundGRPC cfg)"
proof -
  have "\<forall>e \<in> set (cOutboundHTTP cfg). \<exists>client. NewHTTPClient (pfHTTP lib) (fst e) (snd e) = Inr client"
    using accepted_clients [OF assms(2)] assms(3) by blast
  from add_http_accepted [OF this] obtain m where m: "add_http (pfHTTP lib) (cOutboundHTTP cfg) Map.empty = Inr m" by blast
  have "\<forall>e \<in> set (cOutboundGRPC cfg). \<exists>c. Dial (pfTLS lib) trip pause (pfNewClient lib) (grpc_client_config (fst e) (snd e)) = Inr c"
  proof
    fix e assume "e \<in> set (cOutboundGRPC cfg)"
    then have "upstream_ok (production cfg) (snd e)" by (intro accepted_upstream [OF assms(1)]) simp
    then show "\<exists>c. Dial (pfTLS lib) trip pause (pfNewClient lib) (grpc_client_config (fst e) (snd e)) = Inr c"
      using Dial_accepted [OF platform_answersD(10) [OF assms(2)]] platform_answersD(13) [OF assms(2)] by blast
  qed
  from add_grpc_accepted [OF this, of Map.empty] obtain m' where
    "add_grpc (Dial (pfTLS lib) trip pause (pfNewClient lib)) (cOutboundGRPC cfg) Map.empty = Inr m'"
    "dom m' = fst ` set (cOutboundGRPC cfg)" by auto
  with m show ?thesis by (auto simp: NewRegistry_def)
qed

text \<open>The checks of \<open>Validate\<close> the providers rely on.\<close>

lemma accepted_for_wiring:
  assumes "Validate cfg = Inr ()"
  shows "dbcEnabled (cDatabase cfg) \<longrightarrow> isDBType (dbcType (cDatabase cfg)) \<and> ''application'' \<in> fst ` set (cOutboundGRPC cfg)"
    and "cAuthorizationEnabled cfg \<longrightarrow> ''authorization'' \<in> fst ` set (cOutboundGRPC cfg)"
    and "rlEnabled (cRateLimit cfg) \<longrightarrow> redisEnabled (cRedis cfg)"
    and "olEnabled (cOperationLog cfg) \<longrightarrow> busEnabled (cEventBus cfg) \<and> trim_space (olSubject (cOperationLog cfg)) \<noteq> [] \<and>
       256 \<le> olMaxPayloadBytes (cOperationLog cfg) \<and> olMaxPayloadBytes (cOperationLog cfg) \<le> 1048576"
proof -
  have parts: "checks (check_servers cfg) = Inr ()" "checks (check_limits cfg) = Inr ()"
    "checks (check_access cfg) = Inr ()" "checks (check_events cfg) = Inr ()"
    using assms by (simp_all only: Validate_Inr)
  have names: "has_client n cfg \<longleftrightarrow> n \<in> fst ` set (cOutboundGRPC cfg)" for n
    by (simp add: has_client_def map_of_eq_None_iff)
  show "dbcEnabled (cDatabase cfg) \<longrightarrow> isDBType (dbcType (cDatabase cfg)) \<and> ''application'' \<in> fst ` set (cOutboundGRPC cfg)"
    using parts(1) unfolding check_servers_def Let_def names [symmetric] by (simp only: checks_Cons reject_if_Inr) satx
  show "cAuthorizationEnabled cfg \<longrightarrow> ''authorization'' \<in> fst ` set (cOutboundGRPC cfg)"
    using parts(3) unfolding check_access_def Let_def names [symmetric]
    by (simp only: checks_append checks_Cons reject_if_Inr) satx
  show "rlEnabled (cRateLimit cfg) \<longrightarrow> redisEnabled (cRedis cfg)"
    using parts(2) unfolding check_limits_def Let_def by (simp only: checks_append checks_Cons reject_if_Inr) satx
  show "olEnabled (cOperationLog cfg) \<longrightarrow> busEnabled (cEventBus cfg) \<and> trim_space (olSubject (cOperationLog cfg)) \<noteq> [] \<and>
       256 \<le> olMaxPayloadBytes (cOperationLog cfg) \<and> olMaxPayloadBytes (cOperationLog cfg) \<le> 1048576"
    using parts(4) unfolding check_events_def Let_def
    by (simp only: checks_append checks_Cons reject_if_Inr not_less [symmetric]) satx
qed

text \<open>The providers before the registry answer, each with the part the configuration asks for.\<close>

lemma first_providers:
  assumes "Validate cfg = Inr ()" and "platform_answers lib cfg"
  obtains l db tr redis bus where "newLogger (pfLog lib) cfg = Inr l"
    and "fst (runStartupMigration (pfMigration lib) cfg []) = Inr ()"
    and "newDatabase (pfDatabase lib) cfg = Inr db" and "db \<noteq> None \<longleftrightarrow> dbcEnabled (cDatabase cfg)"
    and "NewTracing (pfExporter lib) cfg = Inr tr"
    and "newRedis (pfPing lib) (pfInstrument lib) cfg tr = Inr redis" and "redis \<noteq> None \<longleftrightarrow> redisEnabled (cRedis cfg)"
    and "New_bus (pfBus lib) cfg = Inr bus" and "bus \<noteq> None \<longleftrightarrow> busEnabled (cEventBus cfg)"
proof -
  note checks = accepted_for_wiring [OF assms(1)]
  note outside = platform_answersD [OF assms(2)]
  obtain l where l: "newLogger (pfLog lib) cfg = Inr l"
    using outside(1) [of "logFile (cLog cfg)"] outside(2) [of "to_lower (logLevel (cLog cfg))"]
    by (auto simp: newLogger_def New_logger_def)
  have mig: "fst (runStartupMigration (pfMigration lib) cfg []) = Inr ()"
    using outside(4) by (auto simp: runStartupMigration_def split: prod.splits)
  have "\<exists>db. newDatabase (pfDatabase lib) cfg = Inr db \<and> (db \<noteq> None \<longleftrightarrow> dbcEnabled (cDatabase cfg))"
    using checks(1) Open_database_accepted [OF outside(5), of "cDatabase cfg"]
    by (cases "dbcEnabled (cDatabase cfg)") (auto simp: newDatabase_def and_then_def)
  then obtain db where db: "newDatabase (pfDatabase lib) cfg = Inr db" "db \<noteq> None \<longleftrightarrow> dbcEnabled (cDatabase cfg)" by blast
  have "\<exists>tr. NewTracing (pfExporter lib) cfg = Inr tr" by (simp add: NewTracing_def Let_def outside(3))
  then obtain tr where tr: "NewTracing (pfExporter lib) cfg = Inr tr" by blast
  have "\<exists>redis. newRedis (pfPing lib) (pfInstrument lib) cfg tr = Inr redis \<and> (redis \<noteq> None \<longleftrightarrow> redisEnabled (cRedis cfg))"
    by (simp add: newRedis_def Open_redis_def and_then_def Let_def outside(6,7))
  then obtain redis where redis: "newRedis (pfPing lib) (pfInstrument lib) cfg tr = Inr redis" "redis \<noteq> None \<longleftrightarrow> redisEnabled (cRedis cfg)"
    by blast
  have "\<exists>bus. New_bus (pfBus lib) cfg = Inr bus \<and> (bus \<noteq> None \<longleftrightarrow> busEnabled (cEventBus cfg))"
    by (simp add: New_bus_def Let_def outside(8))
  then obtain bus where bus: "New_bus (pfBus lib) cfg = Inr bus" "bus \<noteq> None \<longleftrightarrow> busEnabled (cEventBus cfg)" by blast
  show ?thesis by (rule that [OF l mig db tr redis bus])
qed


lemma assemble_accepted:
  assumes "Validate cfg = Inr ()" and "platform_answers lib cfg"
    and "\<forall>e \<in> set (cOutboundHTTP cfg). \<not> insecure e"
  shows "\<exists>app. assemble lib trip pause cfg = Inr app \<and>
    (apDatabase app \<noteq> None \<longleftrightarrow> dbcEnabled (cDatabase cfg)) \<and> dpDatabase (apService app) = apDatabase app \<and>
    (apRedis app \<noteq> None \<longleftrightarrow> redisEnabled (cRedis cfg)) \<and> dpLocker (apService app) = apRedis app \<and>
    (dpApplications (apService app) = DisabledVerifier \<longleftrightarrow> \<not> dbcEnabled (cDatabase cfg)) \<and>
    (rlEnabled (cRateLimit cfg) \<longrightarrow> apRedis app \<noteq> None) \<and>
    (olEnabled (cOperationLog cfg) \<longrightarrow> apBus app \<noteq> None) \<and>
    (cAuthorizationEnabled cfg \<longrightarrow> fst (apAuthorizer app) \<noteq> None) \<and>
    clEnabled (apCleaner app) = dbcEnabled (cDatabase cfg)"
proof -
  note checks = accepted_for_wiring [OF assms(1)]
  note outside = platform_answersD [OF assms(2)]
  obtain l db tr redis bus where l: "newLogger (pfLog lib) cfg = Inr l"
    and mig: "fst (runStartupMigration (pfMigration lib) cfg []) = Inr ()"
    and db: "newDatabase (pfDatabase lib) cfg = Inr db" "db \<noteq> None \<longleftrightarrow> dbcEnabled (cDatabase cfg)"
    and tr: "NewTracing (pfExporter lib) cfg = Inr tr"
    and redis: "newRedis (pfPing lib) (pfInstrument lib) cfg tr = Inr redis" "redis \<noteq> None \<longleftrightarrow> redisEnabled (cRedis cfg)"
    and bus: "New_bus (pfBus lib) cfg = Inr bus" "bus \<noteq> None \<longleftrightarrow> busEnabled (cEventBus cfg)"
    by (rule first_providers [OF assms(1,2)])
  obtain r where r: "NewRegistry (pfHTTP lib) (Dial (pfTLS lib) trip pause (pfNewClient lib)) cfg = Inr r"
      "dom (rgGRPC r) = fst ` set (cOutboundGRPC cfg)"
    using NewRegistry_accepted [OF assms] by blast
  have inv: "NewDynamicInvoker (pfDynamic lib) (Some r) = Inr r" by (simp add: NewDynamicInvoker_def outside(14))
  have "\<exists>v. newApplicationVerifier cfg (Some r) = Inr v \<and> (v = DisabledVerifier \<longleftrightarrow> \<not> dbcEnabled (cDatabase cfg))"
    using checks(1) r(2) by (cases "rgGRPC r ''application''") (auto simp: newApplicationVerifier_def)
  then obtain v where v: "newApplicationVerifier cfg (Some r) = Inr v" "v = DisabledVerifier \<longleftrightarrow> \<not> dbcEnabled (cDatabase cfg)"
    by blast
  have rec: "newOperationRecorder (pfRecorder lib) cfg bus = Inr ()"
    unfolding newOperationRecorder_def Let_def using checks(4) bus(2) by (subst outside(9)) simp_all
  obtain c where c: "NewExecutionCleaner True (cCron cfg) (dbcEnabled (cDatabase cfg)) = Inr c" "clEnabled c = dbcEnabled (cDatabase cfg)"
    by (simp add: NewExecutionCleaner_def Let_def)
  obtain jwks where "pfJWKS lib (authJWKSURL (cAuth cfg)) (authIssuer (cAuth cfg)) (authAudience (cAuth cfg)) = Inr jwks"
    using outside(15) by blast
  then have "\<exists>a. NewRuntime_auth (pfJWKS lib) cfg = Inr a" by (simp add: NewRuntime_auth_def Let_def)
  then obtain a where a: "NewRuntime_auth (pfJWKS lib) cfg = Inr a" by blast
  obtain creds0 where "serverCredentials (pfTLS lib) (grpcTLS (cGRPC cfg)) = Inr creds0"
    using serverCredentials_answered [OF outside(10)] by blast
  then have "\<exists>creds. grpc_credentials (pfTLS lib) cfg = Inr creds" by (simp add: grpc_credentials_def and_then_def)
  then obtain creds where creds: "grpc_credentials (pfTLS lib) cfg = Inr creds" by blast
  have proxies: "trusted_proxies (pfProxies lib) cfg = Inr ()" by (simp add: trusted_proxies_def outside(16))
  have auth: "cAuthorizationEnabled cfg \<longrightarrow> fst (New_authorizer r) \<noteq> None"
    using checks(2) r(2) by (auto simp: New_authorizer_def split: option.splits)
  have run: "assemble lib trip pause cfg = Inr
     \<lparr>apLogger = l, apTracing = tr, apDatabase = db, apRedis = redis, apBus = bus, apRegistry = r,
      apService = \<lparr>dpDatabase = db, dpInvoker = r, dpLocker = redis, dpApplications = v\<rparr>,
      apCleaner = c, apAuth = a, apAuthorizer = New_authorizer r, apCredentials = creds\<rparr>"
    by (simp add: assemble_def and_then_value NewRuntimeService_def newLocker_def
        l mig db(1) tr redis(1) bus(1) r(1) inv v(1) rec c(1) a creds proxies)
  show ?thesis unfolding run using db(2) redis(2) bus(2) v(2) c(2) auth checks(3,4) by simp
qed

subsection \<open>Properties\<close>


text \<open>An outside that answers.\<close>

definition sample_bus_library :: bus_library where
  "sample_bus_library = \<lparr>busNew = (\<lambda>o1. None), busPublish = (\<lambda>b s e. None), busClose = (\<lambda>b. None)\<rparr>"

definition sample_database_library :: database_library where
  "sample_database_library =
     \<lparr>pgxParse = (\<lambda>dsn. Inr \<lparr>pgxDatabase = [], pgxRuntimeParams = Map.empty, pgxRest = dsn\<rparr>),
      mysqlParse = (\<lambda>dsn. Inr \<lparr>myDBName = [], myParseTime = False, myLocation = [], myRest = dsn\<rparr>),
      formatDSN = myRest, zoneError = (\<lambda>z. None), sqlxOpen = (\<lambda>n dsn. None), pingPool = (\<lambda>p t. None)\<rparr>"

definition sample_tls_library :: tls_library where
  "sample_tls_library = \<lparr>readFile = Inr, appendCerts = (\<lambda>pem. True), loadKeyPair = (\<lambda>c k. None)\<rparr>"

definition sample_http_library :: http_library where
  "sample_http_library =
     \<lparr>urlParse = (\<lambda>t. Some \<lparr>urlScheme = ''https'', urlHost = ''host'', urlRest = t\<rparr>), resolveReference = (\<lambda>b r. []),
      newRequest = (\<lambda>m t. None), isCanceled = (\<lambda>e. False), tlsFiles = sample_tls_library, floatOutOfRange = (\<lambda>x. 0)\<rparr>"

text \<open>The source of migrations: its URL is a text, as in \<open>sample_migration_library\<close>.\<close>

definition sample_platform :: "string platform" where
  "sample_platform =
     \<lparr>pfLog = \<lparr>makeDirectoryOf = (\<lambda>f. None), levelOf = (\<lambda>l. Inr 0)\<rparr>, pfExporter = (\<lambda>u. None),
      pfMigration = sample_migration_library, pfDatabase = sample_database_library, pfPing = (\<lambda>o1. None),
      pfInstrument = (\<lambda>o1. None), pfBus = sample_bus_library,
      pfRecorder = (\<lambda>e s n bus. if e \<and> bus = None then Some (ErrorString ''publisher is required'') else None),
      pfHTTP = sample_http_library, pfTLS = sample_tls_library, pfNewClient = (\<lambda>t. None), pfDynamic = None,
      pfJWKS = (\<lambda>u i a. Inr (\<lambda>raw. Inl (ErrorString ''invalid token''))), pfProxies = (\<lambda>ps. None)\<rparr>"

lemma sample_platform_answers:
  assumes "\<not> migAutoUp (cMigration cfg)"
  shows "platform_answers sample_platform cfg"
  unfolding platform_answers_def database_answers_def tls_answers_def
  using assms by (simp add: sample_platform_def sample_bus_library_def sample_database_library_def sample_tls_library_def
      sample_http_library_def del: not_None_eq)




text \<open>
  C30. The defaults, which the development profile keeps, are accepted (and refused for production,
  where the gRPC server would run without TLS), and the application is wired from them without a
  database. But they enable the scheduler, whose start hook then lists the jobs of the database
  it does not have: it calls a method of a nil \<^verbatim>\<open>sqlx.DB\<close> instead of starting.
\<close>

theorem defaults_start_without_database:
  assumes "durations_read pd" and "platform_answers lib (default_config pd)"
  shows "Validate (default_config pd) = Inr () \<and>
    Validate (as_production (default_config pd)) = Inl (Refused ''grpc tls must be enabled in production'') \<and>
    (\<exists>app. assemble lib trip pause (default_config pd) = Inr app \<and> apDatabase app = None \<and>
       on_start env add ctx (default_config pd) app w = NilDatabase)"
proof -
  have cfg: "\<not> dbcEnabled (cDatabase (default_config pd))" "cronEnabled (cCron (default_config pd))"
    "cOutboundHTTP (default_config pd) = []"
    by (simp_all add: default_fields default_values decode_database_def decode_cron_def default_cron_enabled)
  obtain app where "assemble lib trip pause (default_config pd) = Inr app" "apDatabase app = None"
      "dpDatabase (apService app) = apDatabase app"
    using assemble_accepted [OF default_config_accepted [OF assms(1)] assms(2), where trip = trip and pause = pause] cfg
    by auto
  then show ?thesis
    using default_config_accepted [OF assms(1)] default_config_refused [of pd] cfg(2) by (auto simp: on_start_def)
qed

theorem defaults_start_without_database_witness:
  "\<exists>app. assemble sample_platform (\<lambda>b call. call) (\<lambda>ctx d s. (None, s)) (default_config sample_pd) = Inr app \<and>
     on_start sample_env (\<lambda>n s. Inr n) sample_context (default_config sample_pd) app (sample_world [] []) = NilDatabase"
proof -
  have "\<not> migAutoUp (cMigration (default_config sample_pd))"
    by (simp add: default_fields default_values decode_migration_def)
  from defaults_start_without_database [OF sample_pd_reads sample_platform_answers [OF this]] show ?thesis by blast
qed

end
