(* ===== verification/Scheduling.thy ===== *)
theory Scheduling
  imports Runtime_Watch
begin

section \<open>From a change of a job to its schedule\<close>

text \<open>
  How the job service and the cron runtime work together on one replica: a mutation that succeeds
  leaves a token in the channel \<open>changed\<close>, the next turn of \<open>watch\<close> takes it and reloads, and the cron
  library then has the definition the mutation committed.
\<close>
















end
