(* ===== verification/Spec2Isabelle.thy ===== *)
theory Spec2Isabelle
  imports Documentation_Theorems Server_Theorems Exclusion Contexts Clients Outbound_Theorems Startup Scheduling
begin

text \<open>
  Verification of the scheduler service (the Go repository under \<^verbatim>\<open>src/\<close>).

  The service keeps scheduled jobs of tenants' applications in a SQL database, triggers them by
  cron expressions or on request, and executes a job by a dynamic gRPC call to a configured
  upstream; every execution is recorded. Its parts: \<^verbatim>\<open>internal/job\<close> (the model, the SQL
  repository, the service, the cleaner of old executions and the cron runtime), reached over
  \<^verbatim>\<open>internal/transport/http\<close> and \<^verbatim>\<open>internal/transport/grpc\<close>, with the supporting packages
  \<^verbatim>\<open>apperror\<close>, \<^verbatim>\<open>auth\<close>, \<^verbatim>\<open>config\<close>, \<^verbatim>\<open>database\<close>, \<^verbatim>\<open>grpcclient\<close>, \<^verbatim>\<open>outbound\<close> and others.

  How the parts interact. A request comes in over HTTP or gRPC, passes the chain of its transport
  (request id, limits, authentication, authorization, idempotency), and runs one operation of the
  job service, which reads and writes the tables in transactions and tells the cron runtime about
  changes. The runtime schedules the enabled jobs with the cron library, which calls
  \<open>ExecuteScheduled\<close>; the cleaner deletes old executions in the background. All of it is built from
  one configuration, which is loaded, validated and wired at start.

  Theories, in the order of their imports.

  Foundations:
  \<^item> \<open>Prelude\<close>: error-state programs and their laws (locale \<open>guarantee\<close>), 64-bit integers, sorting.
  \<^item> \<open>Go_Text\<close>: strings as bytes: \<open>TrimSpace\<close>, \<open>ToLower\<close>, prefixes, UTF-8, \<open>truncate\<close>.
  \<^item> \<open>Apperror\<close>: errors, their codes, \<open>translate\<close>, and their HTTP and gRPC form.
  \<^item> \<open>World\<close>: contexts, the state of the service, and the environment, which holds everything
    that is not code of the repository (clock, UUIDs, database engine, other replicas, lock,
    application verifier, dynamic invoker, operation recorder).

  The job service, \<^verbatim>\<open>internal/job\<close> and \<^verbatim>\<open>internal/database\<close>:
  \<^item> \<open>Job_Model\<close>: the records of \<^verbatim>\<open>job/model.go\<close>.
  \<^item> \<open>Database\<close>: tables, constraints, the audit trigger, \<open>Transactor.Within\<close>.
  \<^item> \<open>Repository\<close>, \<open>Validation\<close>, \<open>Service\<close>: \<^verbatim>\<open>job/repository.go\<close> and \<^verbatim>\<open>job/service.go\<close>.
  \<^item> \<open>History\<close>: integrity and row histories, kept by every operation (locale
    \<open>repository_guarantee\<close>, interpreted on \<open>lifecycle\<close>).
  \<^item> \<open>Cleanup\<close>: \<^verbatim>\<open>job/cleanup.go\<close>, the retention loop and its goroutine. \<open>clean\<close> takes fuel
    because the loop of the code has no bound; \<open>clean_terminates\<close> shows that one round more than
    the backlog divided by the batch size is enough.
  \<^item> \<open>Sample\<close>: a concrete environment and big-step evaluation in it, for the witnesses.
  \<^item> \<open>Outcomes\<close>: what a successful operation did, who was entitled to it, which calls it made.
  \<^item> \<open>Reachability\<close>: the service as a step relation.
  \<^item> \<open>Job_Theorems\<close>: the properties of the job service and of the cleaner.
  \<^item> \<open>Exclusion\<close>: the executions of all replicas as steps of one system over the lease store, whose
    contract is a hypothesis; no two executions of a job are under way together.
  \<^item> \<open>Runtime\<close>, \<open>Runtime_Watch\<close>: \<^verbatim>\<open>job/runtime.go\<close>; what a reload leaves scheduled, and when the
    scheduled functions run under the reloads, for calendar and for interval schedules. An
    infinite run is cut at a horizon, and the events of \<open>watch\<close> are a list.
  \<^item> \<open>Scheduling\<close>: from a change of a job by the service to its schedule in the runtime.

  Configuration, \<^verbatim>\<open>internal/config\<close>:
  \<^item> \<open>Config_Model\<close> (the structs), \<open>Config_Validate\<close> (every check of \<open>Validate\<close> in its order),
    \<open>Config_Load\<close> (defaults, profiles, \<open>LoadWithProfile\<close>), \<open>Config_Decode\<close> (the decoding by tags)
    and \<open>Config_Theorems\<close>.
  \<^item> \<open>Path_Match\<close>: \<open>path.Match\<close> of the standard library, which the route patterns use, with
    termination by the length of the pattern.

  Transports, \<^verbatim>\<open>internal/auth\<close>, \<^verbatim>\<open>ratelimit\<close>, \<^verbatim>\<open>health\<close> and \<^verbatim>\<open>transport\<close>:
  \<^item> \<open>Auth\<close>: tokens, the pre-shared key, request ids.
  \<^item> \<open>Http_Middleware\<close>, \<open>Http_Access\<close>: the middleware and its chain, the rate limiter;
    \<open>Http_Gate\<close> shows of each that it either answers by itself or runs the rest once.
  \<^item> \<open>Health\<close>, \<open>Http_Handlers\<close>, \<open>Grpc_Server\<close>: the operations of both transports and the interceptors.
  \<^item> \<open>Servers\<close>: routes, metrics, recovery from panics, starting and stopping.
  \<^item> \<open>Http_Server\<close>, \<open>Grpc_Chain\<close>: the whole chains of both servers for operations that may panic. A
    panic is a component of the state of the part of the chain it unwinds; without one the chains are
    those of \<open>Http_Access\<close> and \<open>Grpc_Server\<close>. \<open>Server_Theorems\<close> shows what a panic leaves behind.
  \<^item> \<open>Json\<close>, \<open>Http_Wire\<close>: JSON documents as \<open>encoding/json\<close> stores them in structs and writes them, the
    structs of the requests and responses, and the operation of every route.
  \<^item> \<open>Documentation\<close>: the Swagger document of \<^verbatim>\<open>docs/docs.go\<close> and what conforms to it;
    \<open>Documentation_Theorems\<close> shows that the service and the document agree.
  \<^item> \<open>Contexts\<close>: the values of \<^verbatim>\<open>environment\<close> and \<^verbatim>\<open>requestid\<close> in a chain of contexts (locales
    \<open>context_value\<close>, \<open>independent_values\<close>), which simulates the record used elsewhere.
  \<^item> \<open>Transport_Theorems\<close>: the gate, the agreement of the two transports, repeated requests, tokens.

  Outbound calls, \<^verbatim>\<open>internal/grpcclient\<close> and \<^verbatim>\<open>internal/outbound\<close>:
  \<^item> \<open>Retry\<close>: a loop of repeated calls as a locale (\<open>retry_loop\<close>), with the form of all its runs.
  \<^item> \<open>Grpc_Client\<close>, \<open>Outbound\<close>: the clients, the registry, and the interpretations of the locale on
    the two retry loops; \<open>Outbound_Theorems\<close> has their bounds. \<open>Clients\<close>: the counting of calls and the
    lookups of the registry.

  Start, \<^verbatim>\<open>internal/migration\<close>, \<^verbatim>\<open>app\<close> and the adapters:
  \<^item> \<open>Migration\<close>: the schema and the migrations; \<open>Adapters\<close>: database, Redis, event bus, logger,
    tracing; \<open>Startup\<close>: the providers, the application they make of a configuration, and the commands.

  \<^item> \<open>Observation\<close>: the collectors of the metrics with their labels, build information, the options of
    the idempotency manager.

  Not modelled. The text of JSON, times and durations is the standard library's: a reader that gives
  a document, and functions for the texts. Of the documentation, the layout and the template engine
  are left out, and the summaries and the schemas are taken as data. The durations that histograms observe and
  the values of gauges do not change a result; spans and trace identifiers are left out of the log
  lines. \<^verbatim>\<open>idempotency/context.go\<close> delegates to the platform library: its key is a field of the
  contexts. The dependency injection library decides in which order providers report errors and
  hooks run; no property depends on that order. What is left besides are constructors that only
  store their arguments, accessors of one field and the declarations of the modules.
\<close>

end
